(* ===== verification/Prelude.thy ===== *)
theory Prelude
  imports Main "HOL-Library.AList" "HOL-Library.Multiset"
begin

text \<open>
  What the component theories share: Go maps as association lists with distinct keys, the
  range loop over a map, write-through-pointer updates, sums over the values of a map, the
  outcome of a Go call (value, error or panic), and one locale for systems with an invariant.

  A Go map visits its entries in an order the runtime chooses anew for each loop.  The
  model makes that choice an argument: \<open>go_range ord m\<close> visits first the keys
  named in \<open>ord\<close> (those that are in the map), then the rest.  Every permutation of the
  entries is obtained from some \<open>ord\<close> (lemma \<open>go_range_any_order\<close>), so a theorem
  for every \<open>ord\<close> is a theorem for every choice of the runtime.
\<close>

named_theorems map_rules \<open>lookup, keys, length and sums of updated Go maps\<close>

section \<open>Outcome of a Go call\<close>

datatype ('e, 'a) outcome = Ok 'a | Err 'e | Panic

definition is_err :: "('e, 'a) outcome \<Rightarrow> bool" where
  "is_err r \<longleftrightarrow> (case r of Err _ \<Rightarrow> True | _ \<Rightarrow> False)"

lemma is_err_simps [simp]: "is_err (Err e)" "\<not> is_err (Ok a)" "\<not> is_err Panic"
  by (simp_all add: is_err_def)

text \<open>
  Sequencing after a call that returns an outcome and a new state: \<open>on_result\<close> continues with
  the value or with the error, a panic always ends the function; \<open>check\<close> is Go's
  \<open>if err != nil { return err }\<close>.
\<close>

fun on_result ::
  "('e, 'a) outcome \<times> 's \<Rightarrow> ('a \<Rightarrow> 's \<Rightarrow> ('f, 'b) outcome \<times> 's) \<Rightarrow> ('e \<Rightarrow> 's \<Rightarrow> ('f, 'b) outcome \<times> 's)
   \<Rightarrow> ('f, 'b) outcome \<times> 's" where
  "on_result (Ok a, s) f g = f a s"
| "on_result (Err e, s) f g = g e s"
| "on_result (Panic, s) f g = (Panic, s)"

definition check ::
  "('e, 'a) outcome \<times> 's \<Rightarrow> ('a \<Rightarrow> 's \<Rightarrow> ('e, 'b) outcome \<times> 's) \<Rightarrow> ('e, 'b) outcome \<times> 's" where
  "check r f = on_result r f (\<lambda>e s. (Err e, s))"

lemma check_simps [simp]:
  "check (Ok a, s) f = f a s"
  "check (Err e, s) f = (Err e, s)"
  "check (Panic, s) f = (Panic, s)"
  by (simp_all add: check_def)

lemma on_result_cong [fundef_cong]:
  assumes "r = r'" and "\<And>a s. r' = (Ok a, s) \<Longrightarrow> f a s = f' a s" and "\<And>e s. r' = (Err e, s) \<Longrightarrow> g e s = g' e s"
  shows "on_result r f g = on_result r' f' g'"
  using assms by (cases r'; cases "fst r'") auto

lemma check_cong [fundef_cong]:
  assumes "r = r'" and "\<And>a s. r' = (Ok a, s) \<Longrightarrow> f a s = f' a s"
  shows "check r f = check r' f'"
  using assms by (cases r'; cases "fst r'") auto

lemma check_Ok_elim:
  assumes "check r f = (Ok b, s')"
  obtains a s where "r = (Ok a, s)" "f a s = (Ok b, s')"
  using assms by (cases r; cases "fst r") auto

lemma check_unit_elim:
  assumes "check r f = (Ok b, s')"
  obtains s where "r = (Ok (), s)" "f () s = (Ok b, s')"
  using assms by (cases r; cases "fst r") auto

text \<open>
  Going on whatever error the call returned, and reading through a pointer: on nil it is a panic.
\<close>

definition ignoring :: "('e, 'a) outcome \<times> 's \<Rightarrow> ('s \<Rightarrow> ('f, 'b) outcome \<times> 's) \<Rightarrow> ('f, 'b) outcome \<times> 's" where
  "ignoring r f = on_result r (\<lambda>_ s. f s) (\<lambda>_ s. f s)"

definition deref :: "'a option \<Rightarrow> ('a \<Rightarrow> 's \<Rightarrow> ('e, 'b) outcome \<times> 's) \<Rightarrow> 's \<Rightarrow> ('e, 'b) outcome \<times> 's" where
  "deref p f s = (case p of None \<Rightarrow> (Panic, s) | Some x \<Rightarrow> f x s)"

lemma ignoring_simps [simp]:
  "ignoring (Ok a, s) f = f s" "ignoring (Err e, s) f = f s" "ignoring (Panic, s) f = (Panic, s)"
  by (simp_all add: ignoring_def)

lemma deref_simps [simp]: "deref None f s = (Panic, s)" "deref (Some x) f s = f x s"
  by (simp_all add: deref_def)

lemma deref_Ok_elim:
  assumes "deref p f s = (Ok b, s')"
  obtains x where "p = Some x" "f x s = (Ok b, s')"
  using assms by (cases p) auto

lemma deref_cong [fundef_cong]:
  assumes "p = p'" and "s = s'" and "\<And>x. p' = Some x \<Longrightarrow> f x s' = f' x s'"
  shows "deref p f s = deref p' f' s'"
  using assms by (cases p') auto

text \<open>
  A call that leaves an observation \<open>v\<close> of the state alone, and the rules that follow the way a
  call is put together.
\<close>

definition keeps :: "('s \<Rightarrow> 'v) \<Rightarrow> ('s \<Rightarrow> 'r \<times> 's) \<Rightarrow> bool" where
  "keeps v op \<longleftrightarrow> (\<forall>s. v (snd (op s)) = v s)"

named_theorems keeps_intros \<open>calls that leave an observation of the state alone\<close>

lemma keepsD: "keeps v op \<Longrightarrow> op s = (r, s') \<Longrightarrow> v s' = v s"
  by (metis keeps_def snd_conv)

lemma keeps_return [keeps_intros]: "keeps v (\<lambda>s. (r, s))"
  by (simp add: keeps_def)

lemma keeps_on_result [keeps_intros]:
  "keeps v op \<Longrightarrow> (\<And>a. keeps v (f a)) \<Longrightarrow> (\<And>e. keeps v (g e)) \<Longrightarrow> keeps v (\<lambda>s. on_result (op s) f g)"
proof (unfold keeps_def, intro allI)
  fix s assume k: "\<forall>s. v (snd (op s)) = v s" "\<And>a. \<forall>s. v (snd (f a s)) = v s" "\<And>e. \<forall>s. v (snd (g e s)) = v s"
  obtain r s1 where "op s = (r, s1)" by fastforce
  with k show "v (snd (on_result (op s) f g)) = v s" by (cases r) (metis on_result.simps snd_conv)+
qed

lemma keeps_check [keeps_intros]: "keeps v op \<Longrightarrow> (\<And>a. keeps v (f a)) \<Longrightarrow> keeps v (\<lambda>s. check (op s) f)"
  unfolding check_def by (intro keeps_intros)

lemma keeps_ignoring [keeps_intros]: "keeps v op \<Longrightarrow> keeps v f \<Longrightarrow> keeps v (\<lambda>s. ignoring (op s) f)"
  unfolding ignoring_def by (intro keeps_intros)

lemma keeps_deref [keeps_intros]: "(\<And>x. keeps v (f x)) \<Longrightarrow> keeps v (deref p f)"
  by (cases p) (auto simp: keeps_def)

text \<open>A call that ends in a state of \<open>I\<close>, by the way it is put together.\<close>

definition ends :: "('s \<Rightarrow> bool) \<Rightarrow> 'r \<times> 's \<Rightarrow> bool" where
  "ends I r \<longleftrightarrow> I (snd r)"

named_theorems ends_intros \<open>calls that end in a state of an invariant\<close>

lemma ends_pair [simp]: "ends I (r, s) \<longleftrightarrow> I s"
  by (simp add: ends_def)

lemma ends_on_result [ends_intros]:
  "ends I r \<Longrightarrow> (\<And>x s. I s \<Longrightarrow> ends I (f x s)) \<Longrightarrow> (\<And>e s. I s \<Longrightarrow> ends I (g e s)) \<Longrightarrow> ends I (on_result r f g)"
  by (cases r; cases "fst r") auto

lemma ends_check [ends_intros]:
  "ends I r \<Longrightarrow> (\<And>x s. I s \<Longrightarrow> ends I (f x s)) \<Longrightarrow> ends I (check r f)"
  by (cases r; cases "fst r") auto

lemma ends_cases [ends_intros]:
  "(p = None \<Longrightarrow> ends I r) \<Longrightarrow> (\<And>x. p = Some x \<Longrightarrow> ends I (f x)) \<Longrightarrow> ends I (case p of None \<Rightarrow> r | Some x \<Rightarrow> f x)"
  "(b \<Longrightarrow> ends I r) \<Longrightarrow> (\<not> b \<Longrightarrow> ends I r') \<Longrightarrow> ends I (if b then r else r')"
  by (cases p; simp) (cases b; simp)

section \<open>Go maps\<close>

type_synonym ('k, 'v) gomap = "('k \<times> 'v) list"

abbreviation gm_keys :: "('k, 'v) gomap \<Rightarrow> 'k list" where
  "gm_keys m \<equiv> List.map fst m"

abbreviation gm_wf :: "('k, 'v) gomap \<Rightarrow> bool" where
  "gm_wf m \<equiv> distinct (gm_keys m)"

abbreviation gm_put :: "'k \<Rightarrow> 'v \<Rightarrow> ('k, 'v) gomap \<Rightarrow> ('k, 'v) gomap" where
  "gm_put \<equiv> AList.update"

abbreviation gm_del :: "'k \<Rightarrow> ('k, 'v) gomap \<Rightarrow> ('k, 'v) gomap" where
  "gm_del \<equiv> AList.delete"

text \<open>An assignment through the pointer a map holds for key \<open>k\<close>.\<close>

definition gm_adjust :: "'k \<Rightarrow> ('v \<Rightarrow> 'v) \<Rightarrow> ('k, 'v) gomap \<Rightarrow> ('k, 'v) gomap" where
  "gm_adjust k f m = List.map (\<lambda>(k', v). (k', if k' = k then f v else v)) m"

lemma gm_get_iff [map_rules]: "gm_wf m \<Longrightarrow> map_of m k = Some v \<longleftrightarrow> (k, v) \<in> set m"
  by simp

lemma gm_wf_unique: "gm_wf m \<Longrightarrow> map_of m k = Some v \<Longrightarrow> (k, w) \<in> set m \<Longrightarrow> w = v"
  by (metis map_of_is_SomeI option.inject)

lemma gm_keys_adjust [simp]: "gm_keys (gm_adjust k f m) = gm_keys m"
  by (induction m) (auto simp: gm_adjust_def)

lemma length_gm_adjust [simp]: "length (gm_adjust k f m) = length m"
  by (simp add: gm_adjust_def)

lemma gm_get_adjust [simp]:
  "map_of (gm_adjust k f m) k' = (if k' = k then map_option f (map_of m k') else map_of m k')"
  by (induction m) (auto simp: gm_adjust_def)

lemma gm_get_put [simp]: "map_of (gm_put k v m) = (map_of m)(k \<mapsto> v)"
  by (rule update_conv')

lemma gm_get_del [simp]: "map_of (gm_del k m) = (map_of m)(k := None)"
  by (rule delete_conv')

lemma gm_wf_put [simp, intro]: "gm_wf m \<Longrightarrow> gm_wf (gm_put k v m)"
  by (rule distinct_update)

lemma gm_wf_del [simp, intro]: "gm_wf m \<Longrightarrow> gm_wf (gm_del k m)"
  by (rule distinct_delete)

lemma gm_put_fresh: "map_of m k = None \<Longrightarrow> gm_put k v m = m @ [(k, v)]"
  by (induction m) (auto split: if_splits)

lemma set_gm_del: "set (gm_del k m) = {e \<in> set m. fst e \<noteq> k}"
  by (auto simp: AList.delete_eq)

lemma set_gm_adjust:
  "set (gm_adjust k f m) = (\<lambda>(k', v). (k', if k' = k then f v else v)) ` set m"
  by (simp add: gm_adjust_def)

lemma gm_adjust_cong:
  "(\<And>v. map_of m k = Some v \<Longrightarrow> f v = g v) \<Longrightarrow> gm_wf m \<Longrightarrow> gm_adjust k f m = gm_adjust k g m"
  by (auto simp: gm_adjust_def)

lemma gm_adjust_absent [simp]: "k \<notin> fst ` set m \<Longrightarrow> gm_adjust k f m = m"
  by (induction m) (auto simp: gm_adjust_def)

lemma gm_get_None_iff: "map_of m k = None \<longleftrightarrow> k \<notin> fst ` set m"
  by (rule map_of_eq_None_iff)

text \<open>A loop that copies a map under new keys.\<close>

lemma fold_put_get:
  "distinct (List.map (f \<circ> fst) es) \<Longrightarrow>
   map_of (fold (\<lambda>e. gm_put (f (fst e)) (snd e)) es m) = map_of m ++ map_of (List.map (\<lambda>e. (f (fst e), snd e)) es)"
proof (induction es arbitrary: m)
  case (Cons e es)
  then have "f (fst e) \<notin> dom (map_of (List.map (\<lambda>e. (f (fst e), snd e)) es))"
    by (auto simp: map_of_eq_None_iff [symmetric] domIff, force simp: map_of_eq_None_iff)
  with Cons show ?case by (auto simp: map_add_def fun_eq_iff domIff split: option.splits)
qed simp

section \<open>Sums over the values of a map\<close>

definition msum :: "('v \<Rightarrow> int) \<Rightarrow> ('k, 'v) gomap \<Rightarrow> int" where
  "msum f m = sum_list (List.map (f \<circ> snd) m)"

lemma msum_simps [simp]:
  "msum f [] = 0"
  "msum f (e # m) = f (snd e) + msum f m"
  "msum f (m @ m') = msum f m + msum f m'"
  by (auto simp: msum_def)

lemma msum_adjust [map_rules]:
  "gm_wf m \<Longrightarrow> map_of m k = Some v \<Longrightarrow> msum f (gm_adjust k g m) = msum f m - f v + f (g v)"
proof (induction m)
  case Nil
  then show ?case by simp
next
  case (Cons e m)
  then show ?case
    using gm_adjust_absent [of k m g]
    by (cases e) (auto simp: gm_adjust_def split: if_splits)
qed

lemma msum_del [map_rules]:
  "gm_wf m \<Longrightarrow> map_of m k = Some v \<Longrightarrow> msum f (gm_del k m) = msum f m - f v"
  by (induction m) (auto split: if_splits)

lemma length_gm_del [map_rules]:
  "gm_wf m \<Longrightarrow> map_of m k = Some v \<Longrightarrow> int (length (gm_del k m)) = int (length m) - 1"
  by (induction m) (auto split: if_splits)

lemma msum_nonneg: "(\<And>e. e \<in> set m \<Longrightarrow> 0 \<le> f (snd e)) \<Longrightarrow> 0 \<le> msum f m"
  by (induction m) fastforce+

lemma msum_mono:
  "(\<And>e. e \<in> set m \<Longrightarrow> f (snd e) \<le> g (snd e)) \<Longrightarrow> msum f m \<le> msum g m"
  by (induction m) (fastforce intro: add_mono)+

lemma msum_diff: "msum (\<lambda>v. f v - g v) m = msum f m - msum g m"
  by (induction m) auto

lemma msum_pos_iff:
  assumes "\<And>e. e \<in> set m \<Longrightarrow> 0 \<le> f (snd e)"
  shows "0 < msum f m \<longleftrightarrow> (\<exists>e \<in> set m. 0 < f (snd e))"
  using assms
proof (induction m)
  case Nil
  then show ?case by simp
next
  case (Cons e m)
  then have "0 \<le> msum f m" "0 \<le> f (snd e)"
    using msum_nonneg [of m f] by auto
  moreover from Cons have "0 < msum f m \<longleftrightarrow> (\<exists>e \<in> set m. 0 < f (snd e))"
    by auto
  ultimately show ?case by auto
qed

lemma msum_member_le:
  "(\<And>e. e \<in> set m \<Longrightarrow> 0 \<le> f (snd e)) \<Longrightarrow> (k, v) \<in> set m \<Longrightarrow> f v \<le> msum f m"
proof (induction m)
  case Nil
  then show ?case by simp
next
  case (Cons e m)
  then have "0 \<le> msum f m" "0 \<le> f (snd e)"
    using msum_nonneg [of m f] by auto
  with Cons show ?case by force
qed

section \<open>The range loop\<close>

definition go_range :: "'k list \<Rightarrow> ('k, 'v) gomap \<Rightarrow> ('k \<times> 'v) list" where
  "go_range ord m =
     List.map_filter (\<lambda>k. map_option (Pair k) (map_of m k)) (remdups ord)
     @ filter (\<lambda>e. fst e \<notin> set ord) m"

lemma set_go_range [simp]: "gm_wf m \<Longrightarrow> set (go_range ord m) = set m"
  by (auto simp: go_range_def List.map_filter_def split: option.splits
      intro: rev_image_eqI)

lemma gm_wf_go_range [simp]: "gm_wf m \<Longrightarrow> gm_wf (go_range ord m)"
proof -
  assume m: "gm_wf m"
  have "gm_keys (List.map_filter (\<lambda>k. map_option (Pair k) (map_of m k)) ks)
      = filter (\<lambda>k. k \<in> fst ` set m) ks" for ks
  proof (induction ks)
    case Nil
    then show ?case by (simp add: List.map_filter_def)
  next
    case (Cons k ks)
    then show ?case
      by (cases "map_of m k")
        (auto simp: List.map_filter_def map_of_eq_None_iff dest: map_of_SomeD intro: rev_image_eqI)
  qed
  with m show ?thesis
    by (auto simp: go_range_def distinct_map_filter)
qed

lemma map_of_go_range [simp]: "gm_wf m \<Longrightarrow> map_of (go_range ord m) = map_of m"
  by (simp add: map_of_inject_set)

lemma mset_go_range: "gm_wf m \<Longrightarrow> mset (go_range ord m) = mset m"
  using gm_wf_go_range [of m ord] set_go_range [of m ord]
  by (metis distinct_map set_eq_iff_mset_eq_distinct)

lemma go_range_any_order:
  assumes m: "gm_wf m" and perm: "mset es = mset m"
  shows "go_range (gm_keys es) m = es"
proof -
  have set: "set es = set m" using perm by (metis set_mset_mset)
  have es: "gm_wf es"
    using m perm by (metis mset_map mset_eq_imp_distinct_iff)
  have "List.map_filter (\<lambda>k. map_option (Pair k) (map_of m k)) (gm_keys es') = es'"
    if "set es' \<subseteq> set m" for es'
    using that m by (induction es') (auto simp: List.map_filter_def)
  moreover have "filter (\<lambda>e. fst e \<notin> set (gm_keys es)) m = []"
    using set by (auto simp: filter_empty_conv)
  ultimately show ?thesis
    using es set by (simp add: go_range_def distinct_remdups_id)
qed

section \<open>Systems with an invariant\<close>

text \<open>
  A component is a state and operations on it.  \<open>run\<close> performs a sequence of operations,
  \<open>legal_run\<close> says that each is legal in the state it meets.  The locale is the contract
  of a component with an invariant: what holds after every legal sequence is proved once.
\<close>

fun run :: "('s \<Rightarrow> 'op \<Rightarrow> 's) \<Rightarrow> 's \<Rightarrow> 'op list \<Rightarrow> 's" where
  "run step s [] = s"
| "run step s (x # xs) = run step (step s x) xs"

fun legal_run :: "('s \<Rightarrow> 'op \<Rightarrow> 's) \<Rightarrow> ('s \<Rightarrow> 'op \<Rightarrow> bool) \<Rightarrow> 's \<Rightarrow> 'op list \<Rightarrow> bool" where
  "legal_run step legal s [] = True"
| "legal_run step legal s (x # xs) = (legal s x \<and> legal_run step legal (step s x) xs)"

lemma run_append: "run step s (xs @ ys) = run step (run step s xs) ys"
  by (induction xs arbitrary: s) auto

lemma legal_run_append:
  "legal_run step legal s (xs @ ys)
   \<longleftrightarrow> legal_run step legal s xs \<and> legal_run step legal (run step s xs) ys"
  by (induction xs arbitrary: s) auto

locale invariant_system =
  fixes start :: 's
    and step :: "'s \<Rightarrow> 'op \<Rightarrow> 's"
    and legal :: "'s \<Rightarrow> 'op \<Rightarrow> bool"
    and inv :: "'s \<Rightarrow> bool"
  assumes start_inv: "inv start"
    and step_inv: "inv s \<Longrightarrow> legal s x \<Longrightarrow> inv (step s x)"
begin

lemma run_inv: "inv s \<Longrightarrow> legal_run step legal s xs \<Longrightarrow> inv (run step s xs)"
  by (induction xs arbitrary: s) (auto intro: step_inv)

lemma reachable_inv: "legal_run step legal start xs \<Longrightarrow> inv (run step start xs)"
  by (rule run_inv [OF start_inv])

lemma prefix_inv: "legal_run step legal start (xs @ ys) \<Longrightarrow> inv (run step start xs)"
  by (rule reachable_inv) (simp add: legal_run_append)

end

end
