(* ===== verification/Errors.thy ===== *)
theory Errors
  imports Prelude
begin

text \<open>
  Error values (\<^verbatim>\<open>pkg/errors/errors.go\<close>, \<^verbatim>\<open>pkg/types/types.go\<close>) and the Go error values the rest of
  the program builds: messages of \<open>errors.New\<close> and \<open>fmt.Errorf\<close>, package-level error
  variables that are compared by identity, \<open>syscall.Errno\<close> values, and errors wrapped with
  a message by \<open>github.com/pkg/errors\<close>.
\<close>

datatype errno = ENOENT | ESRCH | EEXIST | ENETUNREACH | OtherErrno int

text \<open>The resource types of \<^verbatim>\<open>types.ResourceType\<close>, a string type with five constants.\<close>

definition ResourceTypeInstance :: string where "ResourceTypeInstance = ''instance''"
definition ResourceTypeVxnet :: string where "ResourceTypeVxnet = ''vxnet''"
definition ResourceTypeNic :: string where "ResourceTypeNic = ''nic''"
definition ResourceTypeTag :: string where "ResourceTypeTag = ''tag''"
definition ResourceTypeVPC :: string where "ResourceTypeVPC = ''vpc''"

lemmas resource_type_defs =
  ResourceTypeInstance_def ResourceTypeVxnet_def ResourceTypeNic_def ResourceTypeTag_def ResourceTypeVPC_def

text \<open>The two constants of \<^verbatim>\<open>errors.ErrorType\<close>.\<close>

definition ResourceNotFound :: string where "ResourceNotFound = ''ResourceNotFound''"
definition ServerError :: string where "ServerError = ''CommonServerError''"

text \<open>\<^verbatim>\<open>type Error struct\<close> of \<^verbatim>\<open>pkg/errors/errors.go\<close>.\<close>

record api_error =
  err_Type :: string
  err_Message :: string
  err_ResourceType :: string
  err_Action :: string
  err_ResouceName :: string

datatype go_error =
    ErrorString string
  | ErrorVar string
  | ErrnoValue errno
  | ApiError api_error
  | Wrapped string go_error

type_synonym 'a go_result = "(go_error, 'a) outcome"

text \<open>A call that acts on the world outside.\<close>

type_synonym ('w, 'a) world_call = "'w \<Rightarrow> 'a go_result \<times> 'w"

definition api_error_string :: "api_error \<Rightarrow> string" where
  "api_error_string e =
     ''['' @ err_Type e @ ''] happened when ['' @ err_Action e @ ''] type: ['' @ err_ResourceType e
     @ ''] name: ['' @ err_ResouceName e @ ''], msg: ['' @ err_Message e @ '']''"

text \<open>
  \<open>err.Error()\<close>.  The text of a \<open>syscall.Errno\<close> is the operating system's and stays a
  parameter.
\<close>

fun error_string :: "(errno \<Rightarrow> string) \<Rightarrow> go_error \<Rightarrow> string" where
  "error_string strerror (ErrorString s) = s"
| "error_string strerror (ErrorVar s) = s"
| "error_string strerror (ErrnoValue n) = strerror n"
| "error_string strerror (ApiError e) = api_error_string e"
| "error_string strerror (Wrapped msg e) = msg @ '': '' @ error_string strerror e"

text \<open>
  The variadic \<open>message ...string\<close> is a list; only its first element is used.  The
  parameter \<open>name\<close> is not stored, as in the source.
\<close>

definition NewResourceNotFoundError :: "string \<Rightarrow> string \<Rightarrow> string list \<Rightarrow> go_error" where
  "NewResourceNotFoundError resource name message =
     (let e = \<lparr> err_Type = ResourceNotFound, err_Message = '''', err_ResourceType = resource,
                err_Action = ''GetResource'', err_ResouceName = '''' \<rparr>
      in ApiError (case message of [] \<Rightarrow> e | m # _ \<Rightarrow> e\<lparr>err_Message := m\<rparr>))"

definition IsResourceNotFound :: "go_error \<Rightarrow> bool" where
  "IsResourceNotFound e = (case e of ApiError er \<Rightarrow> err_Type er = ResourceNotFound | _ \<Rightarrow> False)"

definition NewCommonServerError :: "string \<Rightarrow> string \<Rightarrow> string \<Rightarrow> string \<Rightarrow> go_error" where
  "NewCommonServerError resource name action message =
     ApiError \<lparr> err_Type = ServerError, err_Message = message, err_ResourceType = resource,
                err_Action = action, err_ResouceName = '''' \<rparr>"

definition IsCommonServerError :: "go_error \<Rightarrow> bool" where
  "IsCommonServerError e = (case e of ApiError er \<Rightarrow> err_Type er = ServerError | _ \<Rightarrow> False)"

text \<open>
  \<open>errors.Wrap(err, msg)\<close> and \<open>errors.Wrapf\<close> of \<open>github.com/pkg/errors\<close> on an \<open>error\<close>
  value that may be nil: \<open>None\<close> is the nil error, and wrapping it gives nil.
\<close>

definition errors_Wrap :: "go_error option \<Rightarrow> string \<Rightarrow> go_error option" where
  "errors_Wrap err msg = map_option (Wrapped msg) err"

lemma errors_Wrap_nil [simp]: "errors_Wrap None msg = None"
  by (simp add: errors_Wrap_def)

text \<open>The errno tests: an assertion to \<open>syscall.Errno\<close> fails on every other error value.\<close>

fun is_errno :: "errno \<Rightarrow> go_error \<Rightarrow> bool" where
  "is_errno n (ErrnoValue m) = (m = n)"
| "is_errno n _ = False"

lemma is_errno_wrapped [simp]: "\<not> is_errno n (Wrapped msg e)"
  by simp

lemma IsResourceNotFound_New [simp]:
  "IsResourceNotFound (NewResourceNotFoundError r n ms)"
  by (auto simp: IsResourceNotFound_def NewResourceNotFoundError_def Let_def split: list.splits)

lemma NewCommonServerError_kind [simp]:
  "IsCommonServerError (NewCommonServerError r n a m)"
  "\<not> IsResourceNotFound (NewCommonServerError r n a m)"
  by (auto simp: IsCommonServerError_def IsResourceNotFound_def NewCommonServerError_def
      ResourceNotFound_def ServerError_def)

lemma error_kinds_disjoint: "\<not> (IsResourceNotFound e \<and> IsCommonServerError e)"
  by (auto simp: IsCommonServerError_def IsResourceNotFound_def ResourceNotFound_def ServerError_def
      split: go_error.splits)

end
