(* ===== verification/Iptables.thy ===== *)
theory Iptables
  imports Errors
begin

text \<open>
  \<^verbatim>\<open>pkg/networkutils/iptables\<close>: the interface to the packet filter, the rules the program
  wants, and the filter in memory that stands for the kernel's.  Assigning to a chain of a
  table that does not exist is a panic (an assignment to a nil map).

  The contract \<open>iptables_chains\<close> says what each call does to the rules of a chain.
\<close>

type_synonym rulespec = "string list"

record ipt_rule =
  ipt_Name :: string
  ipt_ShouldExist :: bool
  ipt_Table :: string
  ipt_Chain :: string
  ipt_Rule :: rulespec

definition ipt_rule_string :: "ipt_rule \<Rightarrow> string" where
  "ipt_rule_string r = ipt_Table r @ ''/'' @ ipt_Chain r @ '' rule '' @ ipt_Name r"

record 'n iptables =
  ipt_Exists :: "string \<Rightarrow> string \<Rightarrow> rulespec \<Rightarrow> ('n, bool) world_call"
  ipt_Insert :: "string \<Rightarrow> string \<Rightarrow> int \<Rightarrow> rulespec \<Rightarrow> ('n, unit) world_call"
  ipt_Append :: "string \<Rightarrow> string \<Rightarrow> rulespec \<Rightarrow> ('n, unit) world_call"
  ipt_Delete :: "string \<Rightarrow> string \<Rightarrow> rulespec \<Rightarrow> ('n, unit) world_call"
  ipt_List :: "string \<Rightarrow> string \<Rightarrow> ('n, string list) world_call"
  ipt_NewChain :: "string \<Rightarrow> string \<Rightarrow> ('n, unit) world_call"
  ipt_ClearChain :: "string \<Rightarrow> string \<Rightarrow> ('n, unit) world_call"
  ipt_DeleteChain :: "string \<Rightarrow> string \<Rightarrow> ('n, unit) world_call"
  ipt_ListChains :: "string \<Rightarrow> ('n, string list) world_call"
  ipt_HasRandomFully :: "'n \<Rightarrow> bool"

section \<open>The filter in memory\<close>

record fake_iptables =
  fi_EnableRandomFully :: bool
  fi_Data :: "(string, (string, ipt_rule list) gomap) gomap"

fun ruleEqual_loop :: "string list \<Rightarrow> string list \<Rightarrow> bool" where
  "ruleEqual_loop (a # as) (b # bs) = (if a \<noteq> b then False else ruleEqual_loop as bs)"
| "ruleEqual_loop _ _ = True"

definition ruleEqual :: "ipt_rule \<Rightarrow> rulespec \<Rightarrow> bool" where
  "ruleEqual r spec = (if length (ipt_Rule r) = length spec then ruleEqual_loop (ipt_Rule r) spec else False)"

definition NewFakeIPTables :: fake_iptables where
  "NewFakeIPTables = \<lparr> fi_EnableRandomFully = True,
     fi_Data = gm_put ''mangle'' [] (gm_put ''filter'' [] (gm_put ''nat'' [] [])) \<rparr>"

text \<open>Reading a chain: a table or chain that is not there reads as nil.\<close>

definition fi_chain :: "fake_iptables \<Rightarrow> string \<Rightarrow> string \<Rightarrow> ipt_rule list option" where
  "fi_chain f t c = Option.bind (map_of (fi_Data f) t) (\<lambda>cs. map_of cs c)"

definition fi_rules :: "fake_iptables \<Rightarrow> string \<Rightarrow> string \<Rightarrow> ipt_rule list" where
  "fi_rules f t c = (case fi_chain f t c of Some rs \<Rightarrow> rs | None \<Rightarrow> [])"

text \<open>\<open>f.Data[table][chain] = rules\<close>\<close>

definition fi_assign :: "string \<Rightarrow> string \<Rightarrow> ipt_rule list \<Rightarrow> (fake_iptables, unit) world_call" where
  "fi_assign t c rs f =
     (case map_of (fi_Data f) t of
        None \<Rightarrow> (Panic, f)
      | Some cs \<Rightarrow> (Ok (), f\<lparr> fi_Data := gm_put t (gm_put c rs cs) (fi_Data f) \<rparr>))"

definition fi_Exists :: "string \<Rightarrow> string \<Rightarrow> rulespec \<Rightarrow> (fake_iptables, bool) world_call" where
  "fi_Exists t c spec f = (Ok (list_ex (\<lambda>r. ruleEqual r spec) (fi_rules f t c)), f)"

definition bare_rule :: "string \<Rightarrow> string \<Rightarrow> rulespec \<Rightarrow> ipt_rule" where
  "bare_rule t c spec = \<lparr> ipt_Name = '''', ipt_ShouldExist = False, ipt_Table = t, ipt_Chain = c, ipt_Rule = spec \<rparr>"

text \<open>The position is ignored: the rule comes first.\<close>

definition fi_Insert :: "string \<Rightarrow> string \<Rightarrow> int \<Rightarrow> rulespec \<Rightarrow> (fake_iptables, unit) world_call" where
  "fi_Insert t c pos spec f = fi_assign t c (bare_rule t c spec # fi_rules f t c) f"

definition fi_Append :: "string \<Rightarrow> string \<Rightarrow> rulespec \<Rightarrow> (fake_iptables, unit) world_call" where
  "fi_Append t c spec f = fi_assign t c (fi_rules f t c @ [bare_rule t c spec]) f"

text \<open>The first equal rule is cut out; \<open>None\<close>: there is none, and nothing is assigned.\<close>

fun cut_rule :: "rulespec \<Rightarrow> ipt_rule list \<Rightarrow> ipt_rule list option" where
  "cut_rule spec [] = None"
| "cut_rule spec (r # rs) = (if ruleEqual r spec then Some rs else map_option (Cons r) (cut_rule spec rs))"

definition fi_Delete :: "string \<Rightarrow> string \<Rightarrow> rulespec \<Rightarrow> (fake_iptables, unit) world_call" where
  "fi_Delete t c spec f =
     (case cut_rule spec (fi_rules f t c) of None \<Rightarrow> (Ok (), f) | Some rs \<Rightarrow> fi_assign t c rs f)"

definition fi_List :: "string \<Rightarrow> string \<Rightarrow> (fake_iptables, string list) world_call" where
  "fi_List t c f = (Ok (List.map ipt_rule_string (fi_rules f t c)), f)"

definition fi_NewChain :: "string \<Rightarrow> string \<Rightarrow> (fake_iptables, unit) world_call" where
  "fi_NewChain t c f = (if fi_chain f t c = None then fi_assign t c [] f else (Ok (), f))"

definition fi_ClearChain :: "string \<Rightarrow> string \<Rightarrow> (fake_iptables, unit) world_call" where
  "fi_ClearChain t c f = fi_assign t c [] f"

definition fi_DeleteChain :: "string \<Rightarrow> string \<Rightarrow> (fake_iptables, unit) world_call" where
  "fi_DeleteChain t c f = (Ok (), f\<lparr> fi_Data := gm_adjust t (gm_del c) (fi_Data f) \<rparr>)"

definition fi_ListChains :: "string list \<Rightarrow> string \<Rightarrow> (fake_iptables, string list) world_call" where
  "fi_ListChains ord t f = (Ok (case map_of (fi_Data f) t of Some cs \<Rightarrow> gm_keys (go_range ord cs) | None \<Rightarrow> []), f)"

definition fake_ipt :: "string list \<Rightarrow> fake_iptables iptables" where
  "fake_ipt ord = \<lparr> ipt_Exists = fi_Exists, ipt_Insert = fi_Insert, ipt_Append = fi_Append, ipt_Delete = fi_Delete,
     ipt_List = fi_List, ipt_NewChain = fi_NewChain, ipt_ClearChain = fi_ClearChain, ipt_DeleteChain = fi_DeleteChain,
     ipt_ListChains = fi_ListChains ord, ipt_HasRandomFully = fi_EnableRandomFully \<rparr>"

section \<open>What each call does to the chains\<close>

text \<open>\<open>chain n t c\<close>: the rules of chain \<open>c\<close> of table \<open>t\<close>, none for a chain that is not there.\<close>

definition set_chain :: "string \<Rightarrow> string \<Rightarrow> rulespec list \<Rightarrow> (string \<Rightarrow> string \<Rightarrow> rulespec list) \<Rightarrow> string \<Rightarrow> string \<Rightarrow> rulespec list" where
  "set_chain t c rs m = m(t := (m t)(c := rs))"

lemma set_chain_get: "set_chain t c rs m t' c' = (if t' = t \<and> c' = c then rs else m t' c')"
  by (simp add: set_chain_def)

lemma set_chain_same [simp]: "set_chain t c (m t c) m = m"
  by (simp add: set_chain_def)

locale iptables_chains =
  fixes ipt :: "'n iptables" and chain :: "'n \<Rightarrow> string \<Rightarrow> string \<Rightarrow> rulespec list"
  assumes exists: "ipt_Exists ipt t c spec n = (Ok b, n') \<Longrightarrow> chain n' = chain n \<and> b = (spec \<in> set (chain n t c))"
    and append: "ipt_Append ipt t c spec n = (Ok (), n') \<Longrightarrow> chain n' = set_chain t c (chain n t c @ [spec]) (chain n)"
    and delete: "ipt_Delete ipt t c spec n = (Ok (), n') \<Longrightarrow> chain n' = set_chain t c (remove1 spec (chain n t c)) (chain n)"
    and new_chain: "ipt_NewChain ipt t c n = (Ok (), n') \<Longrightarrow> chain n' = chain n"
    and new_chain_err: "ipt_NewChain ipt t c n = (Err e, n') \<Longrightarrow> chain n' = chain n"
    and clear_chain: "ipt_ClearChain ipt t c n = (Ok (), n') \<Longrightarrow> chain n' = set_chain t c [] (chain n)"


lemma ruleEqual_loop_eq: "length as = length bs \<Longrightarrow> ruleEqual_loop as bs \<longleftrightarrow> as = bs"
  by (induction as bs rule: list_induct2) auto

lemma ruleEqual_iff: "ruleEqual r spec \<longleftrightarrow> ipt_Rule r = spec"
  by (auto simp: ruleEqual_def ruleEqual_loop_eq)

lemma cut_rule_remove1:
  "remove1 spec (List.map ipt_Rule rs) = List.map ipt_Rule (case cut_rule spec rs of None \<Rightarrow> rs | Some rs' \<Rightarrow> rs')"
  by (induction rs) (simp_all add: ruleEqual_iff split: option.split)

definition fi_specs :: "fake_iptables \<Rightarrow> string \<Rightarrow> string \<Rightarrow> rulespec list" where
  "fi_specs f t c = List.map ipt_Rule (fi_rules f t c)"

lemma fi_assign_specs: "fi_assign t c rs f = (Ok (), f') \<Longrightarrow> fi_specs f' = set_chain t c (List.map ipt_Rule rs) (fi_specs f)"
  by (auto simp: fi_assign_def fi_specs_def fi_rules_def fi_chain_def set_chain_def fun_eq_iff split: option.splits)

interpretation fi: iptables_chains "fake_ipt ord" fi_specs
proof (unfold_locales, goal_cases)
  case (1 t c spec n b n')
  then show ?case
    by (auto simp: fake_ipt_def fi_Exists_def fi_specs_def ruleEqual_iff list_ex_iff)
next
  case (2 t c spec n n')
  then have "fi_assign t c (fi_rules n t c @ [bare_rule t c spec]) n = (Ok (), n')"
    by (simp add: fake_ipt_def fi_Append_def)
  from fi_assign_specs [OF this] show ?case by (simp add: fi_specs_def [of n] bare_rule_def)
next
  case (3 t c spec n n')
  then have "fi_Delete t c spec n = (Ok (), n')" by (simp add: fake_ipt_def)
  then show ?case
    using fi_assign_specs cut_rule_remove1 [of spec "fi_rules n t c"]
    by (auto simp: fi_Delete_def fi_specs_def [symmetric] split: option.splits)
next
  case (4 t c n n')
  then have "fi_NewChain t c n = (Ok (), n')" by (simp add: fake_ipt_def)
  then show ?case
  proof (cases "fi_chain n t c")
    case None
    then have "fi_specs n t c = []" by (simp add: fi_specs_def fi_rules_def)
    with None fi_assign_specs [of t c "[]" n n'] \<open>fi_NewChain t c n = (Ok (), n')\<close> show ?thesis
      using set_chain_same [of t c "fi_specs n"] by (simp add: fi_NewChain_def)
  next
    case (Some rs)
    with \<open>fi_NewChain t c n = (Ok (), n')\<close> show ?thesis by (simp add: fi_NewChain_def)
  qed
next
  case (5 t c n e n')
  then show ?case by (auto simp: fake_ipt_def fi_NewChain_def fi_assign_def split: if_splits option.splits)
next
  case (6 t c n n')
  then have "fi_assign t c [] n = (Ok (), n')" by (simp add: fake_ipt_def fi_ClearChain_def)
  from fi_assign_specs [OF this] show ?case by simp
qed

end
