(* ===== verification/GoNet.thy ===== *)
theory GoNet
  imports GoLib
begin

text \<open>
  What the program uses of Go's package \<open>net\<close> (as of Go 1.12, the version the module
  names): addresses and masks as byte slices, their text forms and the parsers
  \<open>ParseIP\<close> and \<open>ParseCIDR\<close>.  A nil slice and an empty one behave alike here, so an address
  is its list of bytes.  The main results are the round trips of text and value for IPv4
  addresses and networks.
\<close>

unbundle bit_operations_syntax

type_synonym byte = "8 word"

section \<open>Addresses\<close>

definition v4_prefix :: "byte list" where
  "v4_prefix = replicate 10 0 @ [0xff, 0xff]"

definition IPv4 :: "byte \<Rightarrow> byte \<Rightarrow> byte \<Rightarrow> byte \<Rightarrow> byte list" where
  "IPv4 a b c d = v4_prefix @ [a, b, c, d]"

definition To4 :: "byte list \<Rightarrow> byte list option" where
  "To4 ip =
     (if length ip = 4 then Some ip
      else if length ip = 16 \<and> take 12 ip = v4_prefix then Some (drop 12 ip)
      else None)"

definition byte_text :: "byte \<Rightarrow> string" where
  "byte_text b = dec_nat (unat b)"

fun join_with :: "string \<Rightarrow> string list \<Rightarrow> string" where
  "join_with sep [] = []"
| "join_with sep [s] = s"
| "join_with sep (s # ss) = s @ sep @ join_with sep ss"

definition hex_digit :: "nat \<Rightarrow> char" where
  "hex_digit d = char_of (if d < 10 then 48 + d else 87 + d)"

fun hex_nat :: "nat \<Rightarrow> string" where
  "hex_nat n = (if n < 16 then [hex_digit n] else hex_nat (n div 16) @ [hex_digit (n mod 16)])"

declare hex_nat.simps [simp del]

definition hex_bytes :: "byte list \<Rightarrow> string" where
  "hex_bytes bs = concat (List.map (\<lambda>b. [hex_digit (unat b div 16), hex_digit (unat b mod 16)]) bs)"

text \<open>The 16-bit groups of an IPv6 address and its first longest run of zero groups.\<close>

fun groups :: "byte list \<Rightarrow> nat list" where
  "groups (a # b # bs) = (256 * unat a + unat b) # groups bs"
| "groups _ = []"

fun best_run :: "nat \<Rightarrow> nat list \<Rightarrow> nat \<times> nat \<Rightarrow> nat \<times> nat" where
  "best_run i [] b = b"
| "best_run i (w # ws) (e0, n) =
     (let r = length (takeWhile (\<lambda>w. w = 0) (w # ws))
      in best_run (Suc i) ws (if n < r then (i, r) else (e0, n)))"

definition ipv6_text :: "byte list \<Rightarrow> string" where
  "ipv6_text ip =
     (let ws = groups ip;
          (e0, n) = best_run 0 ws (0, 0);
          txt = (\<lambda>us. join_with '':'' (List.map hex_nat us))
      in if n < 2 then txt ws else txt (take e0 ws) @ ''::'' @ txt (drop (e0 + n) ws))"

text \<open>\<open>IP.String\<close>\<close>

definition ip_string :: "byte list \<Rightarrow> string" where
  "ip_string ip =
     (if ip = [] then ''<nil>''
      else case To4 ip of
        Some p4 \<Rightarrow> join_with ''.'' (List.map byte_text p4)
      | None \<Rightarrow> if length ip \<noteq> 16 then CHR ''?'' # hex_bytes ip else ipv6_text ip)"

section \<open>Parsing addresses\<close>

definition dtoi :: "string \<Rightarrow> (nat \<times> string) option" where
  "dtoi s =
     (let ds = takeWhile is_digit s
      in if ds = [] \<or> 0xFFFFFF \<le> dec_value ds then None else Some (dec_value ds, dropWhile is_digit s))"

text \<open>The same, comparing integers: binary numbers, where a \<open>nat\<close> would be counted up to the bound.\<close>

lemma dtoi_code [code]:
  "dtoi s = (let ds = takeWhile is_digit s
     in if ds = [] \<or> (0xFFFFFF :: int) \<le> int (dec_value ds) then None else Some (dec_value ds, dropWhile is_digit s))"
  by (simp add: dtoi_def Let_def)

fun ipv4_loop :: "nat \<Rightarrow> bool \<Rightarrow> string \<Rightarrow> byte list option" where
  "ipv4_loop 0 first s = (if s = [] then Some [] else None)"
| "ipv4_loop (Suc k) first s =
     (case (if first then Some s else case s of [] \<Rightarrow> None | c # s' \<Rightarrow> if c = CHR ''.'' then Some s' else None) of
        None \<Rightarrow> None
      | Some s1 \<Rightarrow>
          (case dtoi s1 of
             None \<Rightarrow> None
           | Some (n, rest) \<Rightarrow>
               if 0xFF < n then None else map_option (Cons (of_nat n)) (ipv4_loop k False rest)))"

definition parseIPv4 :: "string \<Rightarrow> byte list option" where
  "parseIPv4 s = map_option (\<lambda>p. v4_prefix @ p) (ipv4_loop 4 True s)"

definition hex_value :: "char \<Rightarrow> nat option" where
  "hex_value c =
     (let n = of_char c :: nat
      in if 48 \<le> n \<and> n \<le> 57 then Some (n - 48)
         else if 97 \<le> n \<and> n \<le> 102 then Some (n - 87)
         else if 65 \<le> n \<and> n \<le> 70 then Some (n - 55)
         else None)"

definition xtoi :: "string \<Rightarrow> (nat \<times> string) option" where
  "xtoi s =
     (let ds = takeWhile (\<lambda>c. hex_value c \<noteq> None) s;
          n = foldl (\<lambda>n c. 16 * n + the (hex_value c)) 0 ds
      in if ds = [] \<or> 0xFFFFFF \<le> n then None else Some (n, drop (length ds) s))"

text \<open>At most eight groups; the result is the bytes, the place of the ellipsis and what is left.\<close>

fun ipv6_loop :: "nat \<Rightarrow> byte list \<Rightarrow> nat option \<Rightarrow> string \<Rightarrow> (byte list \<times> nat option \<times> string) option" where
  "ipv6_loop 0 acc ell s = Some (acc, ell, s)"
| "ipv6_loop (Suc k) acc ell s =
     (case xtoi s of
        None \<Rightarrow> None
      | Some (n, rest) \<Rightarrow>
          if 0xFFFF < n then None
          else if rest \<noteq> [] \<and> hd rest = CHR ''.'' then
            (if ell = None \<and> length acc \<noteq> 12 \<or> 16 < length acc + 4 then None
             else map_option (\<lambda>ip4. (acc @ drop 12 ip4, ell, [])) (parseIPv4 s))
          else
            (let acc' = acc @ [of_nat (n div 256), of_nat n]
             in if rest = [] then Some (acc', ell, [])
                else if hd rest \<noteq> CHR '':'' \<or> tl rest = [] then None
                else if hd (tl rest) = CHR '':'' then
                  (if ell \<noteq> None then None
                   else if tl (tl rest) = [] then Some (acc', Some (length acc'), [])
                   else ipv6_loop k acc' (Some (length acc')) (tl (tl rest)))
                else ipv6_loop k acc' ell (tl rest)))"

definition parseIPv6 :: "string \<Rightarrow> byte list option" where
  "parseIPv6 s =
     (let lead = (take 2 s = ''::'');
          s1 = (if lead then drop 2 s else s)
      in if lead \<and> s1 = [] then Some (replicate 16 0)
         else case ipv6_loop 8 [] (if lead then Some 0 else None) s1 of
           None \<Rightarrow> None
         | Some (ip, ell, rest) \<Rightarrow>
             if rest \<noteq> [] then None
             else (case ell of
                 None \<Rightarrow> if length ip < 16 then None else Some ip
               | Some e \<Rightarrow>
                   if length ip < 16 then Some (take e ip @ replicate (16 - length ip) 0 @ drop e ip) else None))"

fun ParseIP_scan :: "string \<Rightarrow> string \<Rightarrow> byte list option" where
  "ParseIP_scan s [] = None"
| "ParseIP_scan s (c # cs) =
     (if c = CHR ''.'' then parseIPv4 s else if c = CHR '':'' then parseIPv6 s else ParseIP_scan s cs)"

text \<open>\<open>net.ParseIP\<close>; nil, the result for a text that is no address, is the empty list.\<close>

definition ParseIP :: "string \<Rightarrow> byte list" where
  "ParseIP s = (case ParseIP_scan s s of None \<Rightarrow> [] | Some ip \<Rightarrow> ip)"

section \<open>Networks\<close>

record ip_net =
  net_IP :: "byte list"
  net_Mask :: "byte list"

text \<open>\<open>net.CIDRMask\<close>: the first \<open>ones\<close> of the bits are set.\<close>

fun cidr_bytes :: "nat \<Rightarrow> nat \<Rightarrow> byte list" where
  "cidr_bytes ones 0 = []"
| "cidr_bytes ones (Suc l) =
     (if 8 \<le> ones then 0xff # cidr_bytes (ones - 8) l
      else NOT (drop_bit ones 0xff) # cidr_bytes 0 l)"

definition CIDRMask :: "nat \<Rightarrow> nat \<Rightarrow> byte list" where
  "CIDRMask ones bits = cidr_bytes ones (bits div 8)"

definition ip_mask :: "byte list \<Rightarrow> byte list \<Rightarrow> byte list" where
  "ip_mask ip m =
     (let m1 = (if length m = 16 \<and> length ip = 4 \<and> list_all (\<lambda>b. b = 0xff) (take 12 m) then drop 12 m else m);
          ip1 = (if length m1 = 4 \<and> length ip = 16 \<and> take 12 ip = v4_prefix then drop 12 ip else ip)
      in if length ip1 \<noteq> length m1 then [] else map2 (AND) ip1 m1)"

text \<open>Leading ones of a byte, and whether only zeros follow.\<close>

fun leading_ones :: "nat \<Rightarrow> byte \<Rightarrow> nat \<times> byte" where
  "leading_ones 0 v = (0, v)"
| "leading_ones (Suc k) v =
     (if v AND 0x80 \<noteq> 0 then (let (n, w) = leading_ones k (push_bit 1 v) in (Suc n, w)) else (0, v))"

fun simpleMaskLength :: "byte list \<Rightarrow> nat option" where
  "simpleMaskLength [] = Some 0"
| "simpleMaskLength (v # vs) =
     (if v = 0xff then map_option ((+) 8) (simpleMaskLength vs)
      else (let (n, w) = leading_ones 8 v
            in if w \<noteq> 0 \<or> list_ex (\<lambda>b. b \<noteq> 0) vs then None else Some n))"

definition networkNumberAndMask :: "ip_net \<Rightarrow> (byte list \<times> byte list) option" where
  "networkNumberAndMask n =
     (let ip = (case To4 (net_IP n) of Some p \<Rightarrow> p | None \<Rightarrow> net_IP n); m = net_Mask n
      in if length ip \<noteq> 4 \<and> length ip \<noteq> 16 then None
         else if length m = 4 then (if length ip \<noteq> 4 then None else Some (ip, m))
         else if length m = 16 then Some (ip, if length ip = 4 then drop 12 m else m)
         else None)"

text \<open>\<open>IPNet.String\<close>\<close>

definition ipnet_string :: "ip_net \<Rightarrow> string" where
  "ipnet_string n =
     (case networkNumberAndMask n of
        None \<Rightarrow> ''<nil>''
      | Some (nn, m) \<Rightarrow>
          (case simpleMaskLength m of
             None \<Rightarrow> ip_string nn @ ''/'' @ hex_bytes m
           | Some l \<Rightarrow> ip_string nn @ ''/'' @ dec_nat l))"

text \<open>\<open>net.ParseCIDR\<close>; the message is that of \<open>net.ParseError\<close>.\<close>

definition ParseCIDR :: "string \<Rightarrow> (byte list \<times> ip_net) option" where
  "ParseCIDR s =
     (let addr = takeWhile (\<lambda>c. c \<noteq> CHR ''/'') s; rest = dropWhile (\<lambda>c. c \<noteq> CHR ''/'') s
      in if rest = [] then None
         else
           (let v4 = parseIPv4 addr;
                ip = (case v4 of None \<Rightarrow> parseIPv6 addr | Some p \<Rightarrow> Some p);
                iplen = (if v4 = None then 16 else 4)
            in case (ip, dtoi (tl rest)) of
                 (Some p, Some (n, [])) \<Rightarrow>
                   if 8 * iplen < n then None
                   else (let m = CIDRMask n (8 * iplen) in Some (p, \<lparr> net_IP = ip_mask p m, net_Mask = m \<rparr>))
               | _ \<Rightarrow> None))"

section \<open>Round trips\<close>

lemma takeWhile_digits: "(\<And>c. c \<in> set ds \<Longrightarrow> P c) \<Longrightarrow> s = [] \<or> \<not> P (hd s) \<Longrightarrow> takeWhile P (ds @ s) = ds"
  by (cases s) (auto simp: takeWhile_append)

lemma dropWhile_digits: "(\<And>c. c \<in> set ds \<Longrightarrow> P c) \<Longrightarrow> s = [] \<or> \<not> P (hd s) \<Longrightarrow> dropWhile P (ds @ s) = s"
  by (cases s) (auto simp: dropWhile_append)

lemma dtoi_dec_nat:
  assumes "n < 0xFFFFFF" and "s = [] \<or> \<not> is_digit (hd s)"
  shows "dtoi (dec_nat n @ s) = Some (n, s)"
proof -
  have "takeWhile is_digit (dec_nat n @ s) = dec_nat n" "dropWhile is_digit (dec_nat n @ s) = s"
    using assms(2) by (auto intro: takeWhile_digits dropWhile_digits dec_nat_digits)
  with assms(1) show ?thesis unfolding dtoi_def Let_def by simp
qed

lemma dtoi_dec_nat_end: "n < 0xFFFFFF \<Longrightarrow> dtoi (dec_nat n) = Some (n, [])"
  using dtoi_dec_nat [of n "[]"] by simp

lemma byte_text_small: "unat (b :: byte) < 0xFFFFFF" "\<not> 0xFF < unat (b :: byte)"
proof -
  have "unat b < 2 ^ LENGTH(8)" by (rule unsigned_less)
  then show "unat b < 0xFFFFFF" "\<not> 0xFF < unat b" by simp_all
qed

lemma digit_dot [simp]: "\<not> is_digit CHR ''.''" "\<not> is_digit CHR ''/''"
  by (simp_all add: is_digit_def)

lemma four_def: "(4 :: nat) = Suc (Suc (Suc (Suc 0)))"
  by simp

lemma dotted_quad:
  "join_with ''.'' (List.map byte_text [a, b, c, d]) =
   byte_text a @ CHR ''.'' # byte_text b @ CHR ''.'' # byte_text c @ CHR ''.'' # byte_text d"
  by simp

lemma parseIPv4_dotted:
  "parseIPv4 (byte_text a @ CHR ''.'' # byte_text b @ CHR ''.'' # byte_text c @ CHR ''.'' # byte_text d)
   = Some (IPv4 a b c d)"
proof -
  have step: "ipv4_loop (Suc k) False (CHR ''.'' # byte_text b @ s) = map_option (Cons b) (ipv4_loop k False s)"
    "ipv4_loop (Suc k) True (byte_text b @ s) = map_option (Cons b) (ipv4_loop k False s)"
    if "s = [] \<or> hd s = CHR ''.''" for k b s
    using that byte_text_small [of b] by (auto simp: dtoi_dec_nat dtoi_dec_nat_end byte_text_def)
  show ?thesis
    using step(1) [of "[]" 0 d]
    by (simp add: parseIPv4_def IPv4_def four_def step del: ipv4_loop.simps(2))
qed

lemma length_4_cases: "length xs = 4 \<Longrightarrow> \<exists>a b c d. xs = [a, b, c, d]"
  by (auto simp: four_def length_Suc_conv)

lemma ip_string_v4: "ip_string [a, b, c, d] = join_with ''.'' (List.map byte_text [a, b, c, d])"
  by (simp add: ip_string_def To4_def)

lemma v4_prefix_length [simp]: "length v4_prefix = 12"
  by (simp add: v4_prefix_def)

lemma To4_IPv4 [simp]: "To4 (IPv4 a b c d) = Some [a, b, c, d]"
  by (simp add: To4_def IPv4_def)

lemma ip_string_IPv4: "ip_string (IPv4 a b c d) = ip_string [a, b, c, d]"
  by (simp add: ip_string_def) (simp add: IPv4_def To4_def)

lemma ParseIP_scan_dot:
  "list_all is_digit ds \<Longrightarrow> ParseIP_scan s (ds @ CHR ''.'' # t) = parseIPv4 s"
proof (induction ds)
  case (Cons c ds)
  then have "c \<noteq> CHR ''.''" "c \<noteq> CHR '':''" by (auto simp: is_digit_def)
  with Cons show ?case by simp
qed simp

lemma ParseIP_ip_string: "ParseIP (ip_string [a, b, c, d]) = IPv4 a b c d"
  unfolding ParseIP_def ip_string_v4 dotted_quad
proof -
  let ?t = "byte_text a @ CHR ''.'' # byte_text b @ CHR ''.'' # byte_text c @ CHR ''.'' # byte_text d"
  have "ParseIP_scan ?t ?t = parseIPv4 ?t"
    by (rule ParseIP_scan_dot) (simp add: byte_text_def list_all_iff dec_nat_digits)
  then show "(case ParseIP_scan ?t ?t of None \<Rightarrow> [] | Some ip \<Rightarrow> ip) = IPv4 a b c d"
    by (simp only: parseIPv4_dotted option.case)
qed

text \<open>Every text that \<open>parseIPv4\<close> accepts is an address of the 16-byte form.\<close>

lemma ipv4_loop_length: "ipv4_loop k first s = Some p \<Longrightarrow> length p = k"
proof (induction k arbitrary: first s p)
  case 0
  then show ?case by (simp split: if_split_asm)
next
  case (Suc k)
  obtain s1 where "(case dtoi s1 of None \<Rightarrow> None | Some (n, rest) \<Rightarrow>
      if 0xFF < n then None else map_option (Cons (of_nat n)) (ipv4_loop k False rest)) = Some p"
    using Suc.prems by (simp only: ipv4_loop.simps split: option.split_asm) simp
  then obtain n rest q where "ipv4_loop k False rest = Some q" "p = of_nat n # q"
    by (auto split: option.split_asm prod.split_asm if_split_asm)
  with Suc.IH show ?case by simp
qed

lemma parseIPv4_Some: "parseIPv4 s = Some p \<Longrightarrow> \<exists>a b c d. p = IPv4 a b c d"
proof -
  assume "parseIPv4 s = Some p"
  then obtain q where q: "ipv4_loop 4 True s = Some q" "p = v4_prefix @ q"
    unfolding parseIPv4_def by blast
  with length_4_cases [OF ipv4_loop_length [OF q(1)]] show ?thesis by (auto simp: IPv4_def)
qed

lemma CIDRMask_32: "n \<le> 32 \<Longrightarrow> simpleMaskLength (CIDRMask n 32) = Some n \<and> length (CIDRMask n 32) = 4"
proof -
  have "list_all (\<lambda>n. simpleMaskLength (CIDRMask n 32) = Some n \<and> length (CIDRMask n 32) = 4) [0..<33]"
    by code_simp
  then show "n \<le> 32 \<Longrightarrow> ?thesis" by (simp only: list_all_iff set_upt atLeastLessThan_iff) auto
qed

lemma networkNumberAndMask_v4:
  "length m = 4 \<Longrightarrow> networkNumberAndMask \<lparr> net_IP = [a, b, c, d], net_Mask = m \<rparr> = Some ([a, b, c, d], m)"
  by (simp add: networkNumberAndMask_def To4_def Let_def)

lemma ipnet_string_v4:
  "n \<le> 32 \<Longrightarrow> ipnet_string \<lparr> net_IP = [a, b, c, d], net_Mask = CIDRMask n 32 \<rparr> = ip_string [a, b, c, d] @ CHR ''/'' # dec_nat n"
  using CIDRMask_32 [of n] by (simp add: ipnet_string_def networkNumberAndMask_v4)

lemma dotted_no_slash: "c \<in> set (ip_string [a, b, c', d]) \<Longrightarrow> c \<noteq> CHR ''/''"
  unfolding ip_string_v4 dotted_quad byte_text_def by (auto dest: dec_nat_digits)

lemma ParseCIDR_ipnet_string:
  assumes "n \<le> 32"
  shows "ParseCIDR (ip_string [a, b, c, d] @ CHR ''/'' # dec_nat n) =
    Some (IPv4 a b c d, \<lparr> net_IP = map2 (AND) [a, b, c, d] (CIDRMask n 32), net_Mask = CIDRMask n 32 \<rparr>)"
proof -
  let ?s = "ip_string [a, b, c, d] @ CHR ''/'' # dec_nat n"
  have "takeWhile (\<lambda>c. c \<noteq> CHR ''/'') ?s = ip_string [a, b, c, d]"
    "dropWhile (\<lambda>c. c \<noteq> CHR ''/'') ?s = CHR ''/'' # dec_nat n"
    by (auto intro!: takeWhile_digits dropWhile_digits dest: dotted_no_slash)
  moreover have "parseIPv4 (ip_string [a, b, c, d]) = Some (IPv4 a b c d)"
    by (simp only: ip_string_v4 dotted_quad parseIPv4_dotted)
  moreover have "ip_mask (IPv4 a b c d) (CIDRMask n 32) = map2 (AND) [a, b, c, d] (CIDRMask n 32)"
    using CIDRMask_32 [OF assms] by (simp add: ip_mask_def IPv4_def Let_def)
  moreover have "dtoi (dec_nat n) = Some (n, [])"
    using assms by (intro dtoi_dec_nat_end) simp
  ultimately show ?thesis
    using assms by (simp add: ParseCIDR_def Let_def)
qed

end
