(* ===== verification/Types.thy ===== *)
theory Types
  imports GoNet Errors
begin

text \<open>
  \<^verbatim>\<open>pkg/types\<close>: NICs, vxnets, instances, the VPC and tags, and the memory behind a
  \<open>net.IPNet\<close>.

  A network is a struct of two byte slices, and copying the struct shares the slices.  Some code
  writes single bytes of such slices, so the arrays live in a memory (\<open>mem\<close>: array number to
  bytes) and a network is a pair of references into it.  All slices here begin at offset 0 of
  their array.  The structs themselves are never written through a second pointer, so they are
  values; a nil pointer is \<open>None\<close>.
\<close>

section \<open>Byte arrays\<close>

type_synonym mem = "byte list list"

record net_ref =
  ref_IP :: nat
  ref_Mask :: nat

definition mem_bytes :: "mem \<Rightarrow> nat \<Rightarrow> byte list" where
  "mem_bytes m i = (if i < length m then m ! i else [])"

definition net_at :: "mem \<Rightarrow> net_ref \<Rightarrow> ip_net" where
  "net_at m r = \<lparr> net_IP = mem_bytes m (ref_IP r), net_Mask = mem_bytes m (ref_Mask r) \<rparr>"

text \<open>An assignment to one element; \<open>None\<close> is the panic for an index out of range.\<close>

definition store_byte :: "mem \<Rightarrow> nat \<Rightarrow> nat \<Rightarrow> byte \<Rightarrow> mem option" where
  "store_byte m i k b = (if k < length (mem_bytes m i) then Some (m[i := (mem_bytes m i)[k := b]]) else None)"

text \<open>A fresh network, as the parsers return it.\<close>

definition alloc_net :: "ip_net \<Rightarrow> mem \<Rightarrow> net_ref \<times> mem" where
  "alloc_net n m = (\<lparr> ref_IP = length m, ref_Mask = Suc (length m) \<rparr>, m @ [net_IP n, net_Mask n])"

text \<open>\<open>n.String()\<close> on a pointer to a network; on nil it is a panic.\<close>

definition net_text :: "mem \<Rightarrow> net_ref option \<Rightarrow> string option" where
  "net_text m r = map_option (\<lambda>r. ipnet_string (net_at m r)) r"

lemma mem_bytes_update: "i < length m \<Longrightarrow> mem_bytes (m[i := bs]) j = (if j = i then bs else mem_bytes m j)"
  by (simp add: mem_bytes_def)

lemma store_byte_Some:
  assumes "k < length (mem_bytes m i)"
  obtains m' where "store_byte m i k b = Some m'" "\<And>j. mem_bytes m' j = (if j = i then (mem_bytes m i)[k := b] else mem_bytes m j)"
    "length m' = length m"
proof -
  have "i < length m" using assms by (auto simp: mem_bytes_def split: if_splits)
  with assms that [of "m[i := (mem_bytes m i)[k := b]]"] show ?thesis
    by (simp add: store_byte_def mem_bytes_update)
qed

lemma alloc_net_at: "alloc_net n m = (r, m') \<Longrightarrow> net_at m' r = n"
  by (auto simp: alloc_net_def net_at_def mem_bytes_def nth_append)

section \<open>Data\<close>

record vxnet =
  vx_ID :: string
  vx_GateWay :: string
  vx_Network :: "net_ref option"
  vx_RouterID :: string
  vx_Name :: string

record host_nic =
  hn_ID :: string
  hn_VxNet :: "vxnet option"
  hn_HardwareAddr :: string
  hn_Address :: string
  hn_DeviceNumber :: int
  hn_IsPrimary :: bool

record host_instance =
  hi_ID :: string
  hi_RouterID :: string
  hi_ClusterID :: string

record vpc =
  vpc_Network :: "net_ref option"
  vpc_ID :: string
  vpc_VxNets :: "vxnet list"

record tagged_resource =
  tr_ResourceType :: string
  tr_ResourceID :: string

record tag =
  tag_Label :: string
  tag_ID :: string
  tag_TaggedResources :: "tagged_resource option list"

text \<open>What is read of a network link.\<close>

record link =
  link_Name :: string
  link_Index :: int
  link_HardwareAddr :: "byte list"
  link_MTU :: int
  link_TxQLen :: int
  link_Flags :: "64 word"
  link_OperState :: "8 word"
  link_NetNsID :: int
  link_Peer :: "string option"

text \<open>\<open>HardwareAddr.String()\<close>\<close>

definition mac_string :: "byte list \<Rightarrow> string" where
  "mac_string a = join_with '':'' (List.map (\<lambda>b. hex_bytes [b]) a)"

text \<open>\<open>LinkByMacAddr\<close> on the result of \<open>netlink.LinkList()\<close>.\<close>

fun link_by_mac_loop :: "string \<Rightarrow> link list \<Rightarrow> link go_result" where
  "link_by_mac_loop macAddr [] = Err (ErrorString (''Can not find link by address: '' @ macAddr))"
| "link_by_mac_loop macAddr (l # ls) = (if mac_string (link_HardwareAddr l) = macAddr then Ok l else link_by_mac_loop macAddr ls)"

definition LinkByMacAddr :: "string \<Rightarrow> link list go_result \<times> 's \<Rightarrow> link go_result \<times> 's" where
  "LinkByMacAddr macAddr linkList = check linkList (\<lambda>links s. (link_by_mac_loop macAddr links, s))"

lemma link_by_mac_loop_cases:
  "link_by_mac_loop mac ls = (case List.find (\<lambda>l. mac_string (link_HardwareAddr l) = mac) ls of
     Some l \<Rightarrow> Ok l | None \<Rightarrow> Err (ErrorString (''Can not find link by address: '' @ mac)))"
  by (induction ls) auto

end
