(* ===== verification/NetLink.thy ===== *)
theory NetLink
  imports Types
begin

text \<open>
  \<^verbatim>\<open>pkg/netlinkwrapper\<close>: the node's links, addresses, routes and policy rules as the program
  sees them.  \<open>netlink\<close> is the interface \<^verbatim>\<open>NetLink\<close>, a record of functions on the state \<open>'n\<close> of
  the network; the methods of the wrapper only hand on to the library, so the interface is
  where the model stops.  The locale \<open>netlink_tables\<close> states what the program relies on: how
  the rule and route tables change, and that a failed call changes nothing.
\<close>

section \<open>Rules, routes, addresses\<close>

text \<open>Of the library's structs, the fields the program sets or reads.\<close>

record rule =
  rule_Priority :: int
  rule_Table :: int
  rule_Mark :: int
  rule_Mask :: int
  rule_Src :: "ip_net option"
  rule_Dst :: "ip_net option"

definition NewRule :: rule where
  "NewRule = \<lparr> rule_Priority = -1, rule_Table = 0, rule_Mark = -1, rule_Mask = -1, rule_Src = None, rule_Dst = None \<rparr>"

definition RT_TABLE_MAIN :: int where "RT_TABLE_MAIN = 254"
definition SCOPE_UNIVERSE :: int where "SCOPE_UNIVERSE = 0"
definition SCOPE_LINK :: int where "SCOPE_LINK = 253"
definition NUD_PERMANENT :: int where "NUD_PERMANENT = 128"
definition FlagUp :: "64 word" where "FlagUp = 1"

record route =
  route_LinkIndex :: int
  route_Scope :: int
  route_Dst :: "ip_net option"
  route_Src :: "byte list"
  route_Gw :: "byte list"
  route_Table :: int

definition empty_route :: route where
  "empty_route = \<lparr> route_LinkIndex = 0, route_Scope = SCOPE_UNIVERSE, route_Dst = None, route_Src = [], route_Gw = [], route_Table = 0 \<rparr>"

record neigh =
  neigh_LinkIndex :: int
  neigh_State :: int
  neigh_IP :: "byte list"
  neigh_HardwareAddr :: "byte list"

record nl_addr =
  addr_IPNet :: ip_net
  addr_Label :: string

text \<open>Links as the program makes them: the library's defaults are zero values, but for \<open>TxQLen\<close>.\<close>

definition NewLink :: "string \<Rightarrow> link" where
  "NewLink name = \<lparr> link_Name = name, link_Index = 0, link_HardwareAddr = [], link_MTU = 0, link_TxQLen = -1,
     link_Flags = 0, link_OperState = 0, link_NetNsID = 0, link_Peer = None \<rparr>"

section \<open>The interface\<close>

record 'n netlink =
  nl_LinkByName :: "string \<Rightarrow> ('n, link) world_call"
  nl_LinkSetNsFd :: "link \<Rightarrow> int \<Rightarrow> ('n, unit) world_call"
  nl_AddrAdd :: "link \<Rightarrow> nl_addr \<Rightarrow> ('n, unit) world_call"
  nl_AddrDel :: "link \<Rightarrow> nl_addr \<Rightarrow> ('n, unit) world_call"
  nl_AddrList :: "link \<Rightarrow> ('n, nl_addr list) world_call"
  nl_LinkAdd :: "link \<Rightarrow> ('n, unit) world_call"
  nl_LinkSetUp :: "link \<Rightarrow> ('n, unit) world_call"
  nl_LinkList :: "('n, link list) world_call"
  nl_LinkSetDown :: "link \<Rightarrow> ('n, unit) world_call"
  nl_RouteList :: "link \<Rightarrow> ('n, route list) world_call"
  nl_RouteAdd :: "route \<Rightarrow> ('n, unit) world_call"
  nl_RouteReplace :: "route \<Rightarrow> ('n, unit) world_call"
  nl_RouteDel :: "route \<Rightarrow> ('n, unit) world_call"
  nl_NeighAdd :: "neigh \<Rightarrow> ('n, unit) world_call"
  nl_LinkDel :: "link \<Rightarrow> ('n, unit) world_call"
  nl_RuleAdd :: "rule \<Rightarrow> ('n, unit) world_call"
  nl_RuleDel :: "rule \<Rightarrow> ('n, unit) world_call"
  nl_RuleList :: "('n, rule list) world_call"
  nl_LinkSetMTU :: "link \<Rightarrow> int \<Rightarrow> ('n, unit) world_call"

definition IsNotExistsError :: "go_error \<Rightarrow> bool" where "IsNotExistsError err = is_errno ESRCH err"
definition IsRouteExistsError :: "go_error \<Rightarrow> bool" where "IsRouteExistsError err = is_errno EEXIST err"
definition IsNetworkUnreachableError :: "go_error \<Rightarrow> bool" where "IsNetworkUnreachableError err = is_errno ENETUNREACH err"

section \<open>What the program relies on\<close>

text \<open>A rule is found by its source and destination, a route by its source and destination.\<close>

definition rule_key :: "rule \<Rightarrow> string" where
  "rule_key r = (case rule_Src r of Some n \<Rightarrow> ipnet_string n | None \<Rightarrow> ''no-src'') @ ''+''
     @ (case rule_Dst r of Some n \<Rightarrow> ipnet_string n | None \<Rightarrow> ''no-dst'')"

definition route_key :: "route \<Rightarrow> string" where
  "route_key r = ip_string (route_Src r) @ (case route_Dst r of Some n \<Rightarrow> ''+'' @ ipnet_string n | None \<Rightarrow> ''+default'')"

text \<open>Outcome of a change to a table: done, or failed with the table as it was.\<close>

definition changes :: "unit go_result \<Rightarrow> 't \<Rightarrow> 't \<Rightarrow> 't \<Rightarrow> bool" where
  "changes x t t' done_t \<longleftrightarrow> (x = Ok () \<and> t' = done_t) \<or> (is_err x \<and> t' = t)"

lemma changes_cases:
  assumes "changes x t t' d"
  obtains (Done) "x = Ok ()" "t' = d" | (failed) e where "x = Err e" "t' = t"
  using assms by (cases x) (auto simp: changes_def is_err_def)

locale netlink_tables =
  fixes api :: "'n netlink" and inv :: "'n \<Rightarrow> bool"
    and rules :: "'n \<Rightarrow> string \<Rightarrow> rule option" and routes :: "'n \<Rightarrow> string \<Rightarrow> route option"
  assumes rule_add: "inv n \<Longrightarrow> nl_RuleAdd api r n = (x, n') \<Longrightarrow>
      inv n' \<and> routes n' = routes n \<and> changes x (rules n) (rules n') ((rules n)(rule_key r \<mapsto> r))"
    and rule_del: "inv n \<Longrightarrow> nl_RuleDel api r n = (x, n') \<Longrightarrow>
      inv n' \<and> routes n' = routes n \<and> changes x (rules n) (rules n') ((rules n)(rule_key r := None))"
    and rule_exists: "inv n \<Longrightarrow> nl_RuleAdd api r n = (Err (ErrnoValue EEXIST), n') \<Longrightarrow> rules n (rule_key r) = Some r"
    and rule_absent: "inv n \<Longrightarrow> nl_RuleDel api r n = (Err (ErrnoValue ENOENT), n') \<Longrightarrow> rules n (rule_key r) = None"
    and rule_list: "inv n \<Longrightarrow> nl_RuleList api n = (Ok rs, n') \<Longrightarrow>
      inv n' \<and> routes n' = routes n \<and> rules n' = rules n \<and> set rs = ran (rules n)"
    and rule_list_err: "inv n \<Longrightarrow> nl_RuleList api n = (rx, n') \<Longrightarrow> rx \<noteq> Panic \<and> (is_err rx \<longrightarrow> rules n' = rules n \<and> routes n' = routes n)"
    and rule_keys: "inv n \<Longrightarrow> rules n k = Some r \<Longrightarrow> k = rule_key r"
    and route_replace: "inv n \<Longrightarrow> nl_RouteReplace api rt n = (x, n') \<Longrightarrow>
      inv n' \<and> rules n' = rules n \<and> changes x (routes n) (routes n') ((routes n)(route_key rt \<mapsto> rt))"
    and route_add: "inv n \<Longrightarrow> nl_RouteAdd api rt n = (x, n') \<Longrightarrow>
      inv n' \<and> rules n' = rules n \<and> changes x (routes n) (routes n') ((routes n)(route_key rt \<mapsto> rt))"
    and route_del: "inv n \<Longrightarrow> nl_RouteDel api rt n = (x, n') \<Longrightarrow>
      inv n' \<and> rules n' = rules n \<and> changes x (routes n) (routes n') ((routes n)(route_key rt := None))"
    and links: "inv n \<Longrightarrow> nl_LinkByName api s n = (lx, n') \<Longrightarrow> inv n' \<and> rules n' = rules n \<and> routes n' = routes n \<and> lx \<noteq> Panic"
    and link_ops: "inv n \<Longrightarrow> nl_LinkSetUp api l n = (x, n') \<or> nl_LinkDel api l n = (x, n') \<Longrightarrow>
      inv n' \<and> rules n' = rules n \<and> routes n' = routes n"
begin

lemma rule_add_Ok:
  assumes "inv n" and "nl_RuleAdd api r n = (Ok (), n')"
  shows "inv n'" "routes n' = routes n" "rules n' = (rules n)(rule_key r \<mapsto> r)"
  using rule_add [OF assms] by (auto simp: changes_def is_err_def)

text \<open>Adding a rule and accepting that it is there already.\<close>

lemma rule_there:
  assumes "inv n" and "nl_RuleAdd api r n = (x, n')" and "x = Ok () \<or> x = Err (ErrnoValue EEXIST)"
  shows "inv n'" "routes n' = routes n" "rules n' = (rules n)(rule_key r \<mapsto> r)"
  using rule_add [OF assms(1,2)] rule_exists [OF assms(1), of r n'] assms(2,3)
  by (auto simp: changes_def is_err_def fun_upd_idem)

text \<open>Deleting a rule and accepting that it is not there.\<close>

lemma rule_gone:
  assumes "inv n" and "nl_RuleDel api r n = (x, n')" and "x = Ok () \<or> x = Err (ErrnoValue ENOENT)"
  shows "inv n'" "routes n' = routes n" "rules n' = (rules n)(rule_key r := None)"
  using rule_del [OF assms(1,2)] rule_absent [OF assms(1), of r n'] assms(2,3)
  by (auto simp: changes_def is_err_def fun_upd_idem)

lemma rule_listed: "inv n \<Longrightarrow> nl_RuleList api n = (Ok rs, n') \<Longrightarrow> r \<in> set rs \<longleftrightarrow> rules n (rule_key r) = Some r"
  using rule_list [of n rs n'] rule_keys [of n] by (auto simp: ran_def)

end

end
