(* ===== verification/FakeNetlink.thy ===== *)
theory FakeNetlink
  imports NetLink
begin

text \<open>
  \<^verbatim>\<open>pkg/netlinkwrapper/fake\<close>: the network in memory that stands for the kernel's.  Its maps
  are read in an order the runtime chooses (\<open>fake_order\<close>, one order for each map).  A method on
  a link that is not in the map is a panic: it is called on a nil interface.

  The fake provides the interface \<open>netlink_tables\<close>.
\<close>

record fake_netlink =
  fake_Links :: "(string, link) gomap"
  fake_LinkAddr :: "(string, (string, nl_addr) gomap) gomap"
  fake_Routes :: "(string, route) gomap"
  fake_Rules :: "(string, rule) gomap"

record fake_order =
  order_links :: "string list"
  order_addrs :: "string list"
  order_routes :: "string list"
  order_rules :: "string list"

section \<open>Links\<close>

definition fake_LinkByName :: "string \<Rightarrow> (fake_netlink, link) world_call" where
  "fake_LinkByName name f =
     (case map_of (fake_Links f) name of
        Some l \<Rightarrow> (Ok l, f)
      | None \<Rightarrow> (Err (ErrorString (''Netlink '' @ name @ '' not found'')), f))"

text \<open>An assignment to an attribute of \<open>f.Links[link.Attrs().Name]\<close>.\<close>

definition fake_set_link :: "(link \<Rightarrow> link) \<Rightarrow> link \<Rightarrow> (fake_netlink, unit) world_call" where
  "fake_set_link g l f =
     (case map_of (fake_Links f) (link_Name l) of
        Some l0 \<Rightarrow> (Ok (), f\<lparr> fake_Links := gm_adjust (link_Name l) g (fake_Links f) \<rparr>)
      | None \<Rightarrow> (Panic, f))"

definition fake_LinkSetNsFd :: "link \<Rightarrow> int \<Rightarrow> (fake_netlink, unit) world_call" where
  "fake_LinkSetNsFd l fd = fake_set_link (\<lambda>l0. l0\<lparr> link_NetNsID := fd \<rparr>) l"

definition fake_LinkSetUp :: "link \<Rightarrow> (fake_netlink, unit) world_call" where
  "fake_LinkSetUp l = fake_set_link (\<lambda>l0. l0\<lparr> link_Flags := link_Flags l0 OR FlagUp \<rparr>) l"

definition fake_LinkSetDown :: "link \<Rightarrow> (fake_netlink, unit) world_call" where
  "fake_LinkSetDown l = fake_set_link (\<lambda>l0. l0\<lparr> link_Flags := link_Flags l0 AND NOT FlagUp \<rparr>) l"

definition fake_LinkSetMTU :: "link \<Rightarrow> int \<Rightarrow> (fake_netlink, unit) world_call" where
  "fake_LinkSetMTU l mtu = fake_set_link (\<lambda>l0. l0\<lparr> link_MTU := mtu \<rparr>) l"

text \<open>Adding a veth adds its peer as well.\<close>

definition fake_LinkAdd :: "link \<Rightarrow> (fake_netlink, unit) world_call" where
  "fake_LinkAdd l f =
     (let links = gm_put (link_Name l) l (fake_Links f)
      in (Ok (), f\<lparr> fake_Links :=
           (case link_Peer l of
              None \<Rightarrow> links
            | Some peer \<Rightarrow> gm_put peer ((NewLink peer)\<lparr> link_Peer := Some (link_Name l) \<rparr>) links) \<rparr>))"

definition fake_LinkList :: "fake_order \<Rightarrow> (fake_netlink, link list) world_call" where
  "fake_LinkList ord f = (Ok (List.map snd (go_range (order_links ord) (fake_Links f))), f)"

definition fake_LinkDel :: "link \<Rightarrow> (fake_netlink, unit) world_call" where
  "fake_LinkDel l f = (Ok (), f\<lparr> fake_Links := gm_del (link_Name l) (fake_Links f) \<rparr>)"

section \<open>Addresses\<close>

definition is_space :: "char \<Rightarrow> bool" where
  "is_space c \<longleftrightarrow> of_char c \<in> set [9, 10, 11, 12, 13, 32 :: nat]"

definition trim_space :: "string \<Rightarrow> string" where
  "trim_space s = rev (dropWhile is_space (rev (dropWhile is_space s)))"

text \<open>The library's \<open>Addr.String\<close>.\<close>

definition addr_string :: "nl_addr \<Rightarrow> string" where
  "addr_string a = trim_space (ipnet_string (addr_IPNet a) @ '' '' @ addr_Label a)"

definition fake_AddrAdd :: "link \<Rightarrow> nl_addr \<Rightarrow> (fake_netlink, unit) world_call" where
  "fake_AddrAdd l a f =
     (let addrs = (case map_of (fake_LinkAddr f) (link_Name l) of Some m \<Rightarrow> m | None \<Rightarrow> [])
      in (Ok (), f\<lparr> fake_LinkAddr := gm_put (link_Name l) (gm_put (addr_string a) a addrs) (fake_LinkAddr f) \<rparr>))"

definition fake_AddrDel :: "link \<Rightarrow> nl_addr \<Rightarrow> (fake_netlink, unit) world_call" where
  "fake_AddrDel l a f = (Ok (), f\<lparr> fake_LinkAddr := gm_adjust (link_Name l) (gm_del (addr_string a)) (fake_LinkAddr f) \<rparr>)"

definition fake_AddrList :: "fake_order \<Rightarrow> link \<Rightarrow> (fake_netlink, nl_addr list) world_call" where
  "fake_AddrList ord l f =
     (Ok (case map_of (fake_LinkAddr f) (link_Name l) of
            Some m \<Rightarrow> List.map snd (go_range (order_addrs ord) m) | None \<Rightarrow> []), f)"

section \<open>Routes\<close>

definition keyForRoute :: "route \<Rightarrow> string" where
  "keyForRoute r =
     (case route_Dst r of
        Some dst \<Rightarrow> ip_string (route_Src r) @ ''+'' @ ipnet_string dst
      | None \<Rightarrow> ip_string (route_Src r) @ ''+default'')"

definition fake_RouteList :: "fake_order \<Rightarrow> link \<Rightarrow> (fake_netlink, route list) world_call" where
  "fake_RouteList ord l f = (Ok (List.map snd (go_range (order_routes ord) (fake_Routes f))), f)"

definition fake_RouteAdd :: "route \<Rightarrow> (fake_netlink, unit) world_call" where
  "fake_RouteAdd r f = (Ok (), f\<lparr> fake_Routes := gm_put (keyForRoute r) r (fake_Routes f) \<rparr>)"

definition fake_AddDefaultRoute :: "byte list \<Rightarrow> link \<Rightarrow> (fake_netlink, unit) world_call" where
  "fake_AddDefaultRoute gw dev = fake_RouteAdd (empty_route\<lparr> route_Gw := gw, route_LinkIndex := link_Index dev \<rparr>)"

definition fake_RouteReplace :: "route \<Rightarrow> (fake_netlink, unit) world_call" where
  "fake_RouteReplace r f = (Ok (), f\<lparr> fake_Routes := gm_put (keyForRoute r) r (fake_Routes f) \<rparr>)"

definition fake_RouteDel :: "route \<Rightarrow> (fake_netlink, unit) world_call" where
  "fake_RouteDel r f = (Ok (), f\<lparr> fake_Routes := gm_del (keyForRoute r) (fake_Routes f) \<rparr>)"

definition fake_NeighAdd :: "neigh \<Rightarrow> (fake_netlink, unit) world_call" where
  "fake_NeighAdd n f = (Ok (), f)"

section \<open>Rules\<close>

definition KeyForRule :: "rule \<Rightarrow> string" where
  "KeyForRule r =
     (let left = (case rule_Src r of Some n \<Rightarrow> ipnet_string n | None \<Rightarrow> ''no-src'');
          right = (case rule_Dst r of Some n \<Rightarrow> ipnet_string n | None \<Rightarrow> ''no-dst'')
      in left @ ''+'' @ right)"

definition fake_RuleAdd :: "rule \<Rightarrow> (fake_netlink, unit) world_call" where
  "fake_RuleAdd r f = (Ok (), f\<lparr> fake_Rules := gm_put (KeyForRule r) r (fake_Rules f) \<rparr>)"

definition fake_RuleDel :: "rule \<Rightarrow> (fake_netlink, unit) world_call" where
  "fake_RuleDel r f =
     (let key = KeyForRule r
      in (Ok (), if map_of (fake_Rules f) key \<noteq> None then f\<lparr> fake_Rules := gm_del key (fake_Rules f) \<rparr> else f))"

definition fake_RuleList :: "fake_order \<Rightarrow> (fake_netlink, rule list) world_call" where
  "fake_RuleList ord f = (Ok (List.map snd (go_range (order_rules ord) (fake_Rules f))), f)"

section \<open>Finding the primary interface, a fresh fake\<close>

text \<open>The raw bytes of the hardware address are compared with the text of the MAC address.\<close>

fun fake_primary_loop :: "string \<Rightarrow> (string \<times> link) list \<Rightarrow> string go_result" where
  "fake_primary_loop mac [] = Err (ErrorString ''PrimaryInterfaceName not found'')"
| "fake_primary_loop mac ((k, l) # ls) =
     (if List.map (\<lambda>b. char_of (unat b)) (link_HardwareAddr l) = mac then Ok (link_Name l) else fake_primary_loop mac ls)"

definition fake_FindPrimaryInterfaceName :: "fake_order \<Rightarrow> string \<Rightarrow> (fake_netlink, string) world_call" where
  "fake_FindPrimaryInterfaceName ord mac f = (fake_primary_loop mac (go_range (order_links ord) (fake_Links f)), f)"

definition NewFakeNetlink :: fake_netlink where
  "NewFakeNetlink = snd (fake_LinkAdd (NewLink ''lo'')
     \<lparr> fake_Links = [], fake_LinkAddr = [], fake_Routes = [], fake_Rules = [] \<rparr>)"

section \<open>The fake as a provider\<close>

definition fake_api :: "fake_order \<Rightarrow> fake_netlink netlink" where
  "fake_api ord = \<lparr> nl_LinkByName = fake_LinkByName, nl_LinkSetNsFd = fake_LinkSetNsFd, nl_AddrAdd = fake_AddrAdd,
     nl_AddrDel = fake_AddrDel, nl_AddrList = fake_AddrList ord, nl_LinkAdd = fake_LinkAdd, nl_LinkSetUp = fake_LinkSetUp,
     nl_LinkList = fake_LinkList ord, nl_LinkSetDown = fake_LinkSetDown, nl_RouteList = fake_RouteList ord,
     nl_RouteAdd = fake_RouteAdd, nl_RouteReplace = fake_RouteReplace, nl_RouteDel = fake_RouteDel, nl_NeighAdd = fake_NeighAdd,
     nl_LinkDel = fake_LinkDel, nl_RuleAdd = fake_RuleAdd, nl_RuleDel = fake_RuleDel, nl_RuleList = fake_RuleList ord,
     nl_LinkSetMTU = fake_LinkSetMTU \<rparr>"

lemmas fake_link_defs = fake_LinkByName_def fake_set_link_def fake_LinkSetUp_def fake_LinkSetNsFd_def fake_LinkSetMTU_def
  fake_LinkAdd_def fake_LinkDel_def fake_LinkList_def
lemmas fake_table_defs = fake_RouteAdd_def fake_RouteReplace_def fake_RouteDel_def fake_RuleAdd_def fake_RuleDel_def fake_RuleList_def

text \<open>Every rule stands under its own key.\<close>

definition fake_ok :: "fake_netlink \<Rightarrow> bool" where
  "fake_ok f \<longleftrightarrow> gm_wf (fake_Rules f) \<and> list_all (\<lambda>(k, r). k = rule_key r) (fake_Rules f)"

abbreviation fake_rules :: "fake_netlink \<Rightarrow> string \<Rightarrow> rule option" where
  "fake_rules f \<equiv> map_of (fake_Rules f)"

abbreviation fake_routes :: "fake_netlink \<Rightarrow> string \<Rightarrow> route option" where
  "fake_routes f \<equiv> map_of (fake_Routes f)"

lemma KeyForRule_rule_key: "KeyForRule r = rule_key r"
  by (simp add: KeyForRule_def rule_key_def Let_def)

lemma keyForRoute_route_key: "keyForRoute r = route_key r"
  by (simp add: keyForRoute_def route_key_def split: option.split)

lemma list_all_gm_del: "list_all P m \<Longrightarrow> list_all P (gm_del k m)"
  by (auto simp: list_all_iff set_gm_del)

lemma list_all_gm_put: "list_all P m \<Longrightarrow> P (k, v) \<Longrightarrow> list_all P (gm_put k v m)"
  by (induction m) auto

lemma fake_RuleAdd_ok: "fake_ok f \<Longrightarrow> fake_ok (snd (fake_RuleAdd r f))"
  by (simp add: fake_ok_def fake_RuleAdd_def KeyForRule_rule_key list_all_gm_put)

lemma fake_RuleDel_ok: "fake_ok f \<Longrightarrow> fake_ok (snd (fake_RuleDel r f))"
  by (simp add: fake_ok_def fake_RuleDel_def Let_def list_all_gm_del)

lemma fake_frame:
  "fake_Rules (snd (fake_set_link g l f)) = fake_Rules f" "fake_Routes (snd (fake_set_link g l f)) = fake_Routes f"
  by (simp_all add: fake_set_link_def split: option.split)

interpretation fake: netlink_tables "fake_api ord" fake_ok fake_rules fake_routes
proof (unfold_locales, goal_cases)
  case (1 n r x n')
  then show ?case using fake_RuleAdd_ok [of n r]
    by (auto simp: fake_api_def fake_RuleAdd_def KeyForRule_rule_key changes_def)
next
  case (2 n r x n')
  then show ?case using fake_RuleDel_ok [of n r]
    by (auto simp: fake_api_def fake_RuleDel_def Let_def KeyForRule_rule_key changes_def fun_upd_idem)
next
  case (5 n rs n')
  then show ?case by (auto simp: fake_api_def fake_RuleList_def fake_ok_def ran_distinct) (force simp: image_iff)
next
  case (7 n k r)
  then show ?case by (auto simp: fake_ok_def list_all_iff dest: map_of_SomeD)
qed (auto simp: fake_api_def fake_table_defs keyForRoute_route_key changes_def fake_ok_def is_err_def Let_def
    fake_LinkByName_def fake_LinkSetUp_def fake_LinkDel_def fake_set_link_def split: option.splits)

lemma NewFakeNetlink_ok: "fake_ok NewFakeNetlink"
  by (simp add: NewFakeNetlink_def fake_ok_def fake_LinkAdd_def NewLink_def Let_def)

text \<open>The loops in insertion order.\<close>

abbreviation no_order :: fake_order where
  "no_order \<equiv> \<lparr> order_links = [], order_addrs = [], order_routes = [], order_rules = [] \<rparr>"

end
