(* ===== verification/NetAddr.thy ===== *)
theory NetAddr
  imports GoNet Errors
begin

text \<open>
  The address arithmetic of \<^verbatim>\<open>pkg/networkutils/networkutil.go\<close>: the gateway address of a subnet
  and the address of the VPN tunnel.
\<close>

section \<open>Big-endian integers\<close>

text \<open>\<open>binary.BigEndian.Uint32\<close> and \<open>PutUint32\<close> on four bytes.\<close>

fun be_value :: "byte list \<Rightarrow> nat" where
  "be_value [] = 0"
| "be_value (b # bs) = unat b * 256 ^ length bs + be_value bs"

definition be_uint32 :: "byte list \<Rightarrow> 32 word" where
  "be_uint32 bs = of_nat (be_value bs)"

definition put_be_uint32 :: "32 word \<Rightarrow> byte list" where
  "put_be_uint32 v =
     [of_nat (unat v div 2 ^ 24), of_nat (unat v div 2 ^ 16), of_nat (unat v div 2 ^ 8), of_nat (unat v)]"

text \<open>Both as the code generator needs them, on integers: a \<open>nat\<close> would be counted.\<close>

fun be_value_int :: "byte list \<Rightarrow> int" where
  "be_value_int [] = 0"
| "be_value_int (b # bs) = uint b * 256 ^ length bs + be_value_int bs"

lemma be_value_int: "int (be_value bs) = be_value_int bs"
  by (induction bs) simp_all

lemma be_uint32_code [code]: "be_uint32 bs = word_of_int (be_value_int bs)"
  by (simp add: be_uint32_def be_value_int [symmetric])

lemma put_be_uint32_code [code]:
  "put_be_uint32 v = [word_of_int (uint v div 2 ^ 24), word_of_int (uint v div 2 ^ 16), word_of_int (uint v div 2 ^ 8), word_of_int (uint v)]"
proof -
  have "(of_nat (unat v div k) :: byte) = word_of_int (uint v div int k)" for k
  proof -
    have "int (unat v div k) = uint v div int k" by (simp add: zdiv_int)
    moreover have "(of_nat (unat v div k) :: byte) = word_of_int (int (unat v div k))" by simp
    ultimately show ?thesis by (simp only:)
  qed
  from this [of "2 ^ 24"] this [of "2 ^ 16"] this [of "2 ^ 8"] this [of 1] show ?thesis by (simp add: put_be_uint32_def)
qed

lemma be_value_bound: "be_value bs < 256 ^ length bs"
proof (induction bs)
  case (Cons b bs)
  have "unat b < 2 ^ LENGTH(8)" by (rule unsigned_less)
  then have "unat b \<le> 255" by simp
  then have "unat b * 256 ^ length bs \<le> 255 * 256 ^ length bs" by (rule mult_right_mono) simp
  with Cons.IH have "unat b * 256 ^ length bs + be_value bs < 255 * 256 ^ length bs + 256 ^ length bs" by linarith
  then show ?case by simp
qed simp

lemma unat_of_nat_word: "unat (of_nat n :: 'a::len word) = n mod 2 ^ LENGTH('a)"
  by (simp add: unsigned_of_nat take_bit_eq_mod)

lemma unat_be_uint32: "length bs = 4 \<Longrightarrow> unat (be_uint32 bs) = be_value bs"
  using be_value_bound [of bs] by (simp add: be_uint32_def unat_of_nat_word)

lemma be_value_put: "be_value (put_be_uint32 v) = unat v"
proof -
  have "unat v < 2 ^ LENGTH(32)" by (rule unsigned_less)
  then have v: "unat v < 4294967296" by simp
  have "n div 16777216 mod 256 * 16777216 + (n div 65536 mod 256 * 65536 + (n div 256 mod 256 * 256 + n mod 256)) = n"
    if "n < 4294967296" for n :: nat
  proof -
    define a b c where "a = n div 256" and "b = a div 256" and "c = b div 256"
    have "n div 65536 = b" "n div 16777216 = c" by (simp_all add: a_def b_def c_def div_mult2_eq [symmetric])
    moreover have "c mod 256 = c" using that by (simp add: a_def b_def c_def div_mult2_eq [symmetric] less_mult_imp_div_less)
    moreover have "n = a * 256 + n mod 256" "a = b * 256 + a mod 256" "b = c * 256 + b mod 256"
      by (simp_all add: a_def b_def c_def)
    moreover have "c * 16777216 + (r2 * 65536 + (r1 * 256 + r0)) = n"
      if "n = a * 256 + r0" "a = b * 256 + r1" "b = c * 256 + r2" for r0 r1 r2 using that by simp
    ultimately show ?thesis unfolding a_def [symmetric] by metis
  qed
  moreover have "be_value [of_nat a, of_nat b, of_nat c, of_nat d] =
      a mod 256 * 16777216 + (b mod 256 * 65536 + (c mod 256 * 256 + d mod 256))" for a b c d :: nat
    by (simp add: unat_of_nat_word)
  moreover have "put_be_uint32 v = [of_nat (unat v div 16777216), of_nat (unat v div 65536), of_nat (unat v div 256), of_nat (unat v)]"
    by (simp add: put_be_uint32_def)
  ultimately show ?thesis using v by (simp only:)
qed

lemma length_put [simp]: "length (put_be_uint32 v) = 4"
  by (simp add: put_be_uint32_def)

section \<open>The two functions\<close>

definition quoted :: "string \<Rightarrow> string" where
  "quoted s = [char_of (34 :: nat)] @ s @ [char_of (34 :: nat)]"

definition incrementIPv4Addr :: "byte list \<Rightarrow> byte list go_result" where
  "incrementIPv4Addr ip =
     (case To4 ip of
        None \<Rightarrow> Err (ErrorString (quoted (ip_string ip) @ '' is not a valid IPv4 Address''))
      | Some ip4 \<Rightarrow>
          (let intIP = be_uint32 ip4
           in if intIP = 4294967295 then Err (ErrorString (quoted (ip_string ip) @ '' will be overflowed''))
              else Ok (put_be_uint32 (intIP + 1))))"

text \<open>\<open>None\<close> is the panic: a text that is no IPv4 address gives a nil slice, which is indexed.\<close>

definition GetVPNNet :: "string \<Rightarrow> string option" where
  "GetVPNNet ip =
     (case To4 (ParseIP ip) of
        None \<Rightarrow> None
      | Some i \<Rightarrow> Some (ipnet_string \<lparr> net_IP = i[2 := 255, 3 := 254], net_Mask = [255, 255, 255, 255] \<rparr>))"

lemma To4_length: "To4 ip = Some p \<Longrightarrow> length p = 4"
  by (auto simp: To4_def split: if_splits)

lemma host_net_text:
  "ipnet_string \<lparr> net_IP = [a, b, c, d], net_Mask = [255, 255, 255, 255] \<rparr> = ip_string [a, b, c, d] @ ''/32''"
proof -
  have "CIDRMask 32 32 = [255, 255, 255, 255]" by code_simp
  moreover have "dec_nat 32 = ''32''" by code_simp
  ultimately show ?thesis using ipnet_string_v4 [of 32 a b c d] by simp
qed

lemma GetVPNNet_dotted: "GetVPNNet (ip_string [a, b, c, d]) = Some (ip_string [a, b, 255, 254] @ ''/32'')"
  by (simp add: GetVPNNet_def ParseIP_ip_string host_net_text)

section \<open>Properties\<close>

text \<open>C40: the gateway of a subnet is the address after its number: for every IPv4 address, in
  4-byte or 16-byte form, the result is the 4-byte address whose value is one more, with no
  wrap-around; the last address and anything that is not IPv4 are errors.\<close>

theorem incrementIPv4Addr_spec:
  "case incrementIPv4Addr ip of
     Ok gw \<Rightarrow> length gw = 4 \<and> (\<exists>p. To4 ip = Some p \<and> be_value gw = be_value p + 1 \<and> be_value gw < 2 ^ 32)
   | Err e \<Rightarrow> To4 ip = None \<or> (\<exists>p. To4 ip = Some p \<and> be_value p = 2 ^ 32 - 1)
   | Panic \<Rightarrow> False"
proof (cases "To4 ip")
  case (Some p)
  note l = To4_length [OF Some]
  have v: "unat (be_uint32 p) = be_value p" by (rule unat_be_uint32 [OF l])
  have bound: "be_value p < 4294967296" using be_value_bound [of p] l by simp
  have eq: "be_uint32 p = 4294967295 \<longleftrightarrow> be_value p = 4294967295"
    using v by (simp add: word_unat_eq_iff)
  have succ: "unat (be_uint32 p + 1) = be_value p + 1" if "be_value p \<noteq> 4294967295"
    using that bound v unat_add_lem [of "be_uint32 p" 1] by simp
  show ?thesis
    using Some l eq succ bound by (auto simp: incrementIPv4Addr_def Let_def be_value_put)
qed (simp add: incrementIPv4Addr_def)

text \<open>The VPN address of a pod is its own address with the last two bytes 255 and 254, as a
  single-host network; any text that is not an IPv4 address makes the function panic.\<close>

theorem GetVPNNet_spec:
  "GetVPNNet (ip_string [a, b, c, d]) = Some (ip_string [a, b, 255, 254] @ ''/32'')
   \<and> (GetVPNNet s = None \<longleftrightarrow> To4 (ParseIP s) = None)"
  using GetVPNNet_dotted by (simp add: GetVPNNet_def split: option.split)

end
