(* ===== verification/IpRules.thy ===== *)
theory IpRules
  imports FakeNetlink NetAddr
begin

text \<open>
  \<^verbatim>\<open>pkg/networkutils/networkutil.go\<close>: the policy rules of the node by source address.  The
  daemon updates the rules of the pods that survive a restart, the plugin deletes those of a
  pod that goes.  The contract of the tables (\<open>netlink_tables\<close>) is used in one block; the
  theorems are stated for every network that keeps it.
\<close>

definition fromPodRulePriority :: int where "fromPodRulePriority = 1536"

section \<open>Tests\<close>

text \<open>\<open>net.IP.Equal\<close>\<close>

definition ip_equal :: "byte list \<Rightarrow> byte list \<Rightarrow> bool" where
  "ip_equal a b \<longleftrightarrow>
     (if length a = length b then a = b
      else if length a = 4 \<and> length b = 16 then take 12 b = v4_prefix \<and> drop 12 b = a
      else if length a = 16 \<and> length b = 4 then take 12 a = v4_prefix \<and> drop 12 a = b
      else False)"

definition containsNoSuchRule :: "go_error \<Rightarrow> bool" where "containsNoSuchRule err = is_errno ENOENT err"
definition ContainsNoSuchRule :: "go_error \<Rightarrow> bool" where "ContainsNoSuchRule err = is_errno ENOENT err"
definition IsRuleExistsError :: "go_error \<Rightarrow> bool" where "IsRuleExistsError err = is_errno EEXIST err"

section \<open>Operations\<close>

definition GetRuleList :: "'n netlink \<Rightarrow> ('n, rule list) world_call" where
  "GetRuleList api = nl_RuleList api"

definition from_src :: "ip_net \<Rightarrow> rule \<Rightarrow> bool" where
  "from_src src r = (case rule_Src r of None \<Rightarrow> False | Some n \<Rightarrow> ip_equal (net_IP n) (net_IP src))"

fun src_rules_loop :: "ip_net \<Rightarrow> rule list \<Rightarrow> rule list \<Rightarrow> rule list" where
  "src_rules_loop src [] srcRuleList = srcRuleList"
| "src_rules_loop src (r # rs) srcRuleList =
     src_rules_loop src rs (if from_src src r then srcRuleList @ [r] else srcRuleList)"

definition GetRuleListBySrc :: "rule list \<Rightarrow> ip_net \<Rightarrow> rule list go_result" where
  "GetRuleListBySrc ruleList src = Ok (src_rules_loop src ruleList [])"

text \<open>The loop that deletes rules; one that is not there is passed over.\<close>

fun remove_rules :: "'n netlink \<Rightarrow> string \<Rightarrow> rule list \<Rightarrow> ('n, unit) world_call" where
  "remove_rules api msg [] n = (Ok (), n)"
| "remove_rules api msg (r # rs) n =
     on_result (nl_RuleDel api r n)
       (\<lambda>_ n1. remove_rules api msg rs n1)
       (\<lambda>err n1. if containsNoSuchRule err then remove_rules api msg rs n1 else (Err (Wrapped msg err), n1))"

definition DeleteRuleListBySrc :: "'n netlink \<Rightarrow> ip_net \<Rightarrow> ('n, unit) world_call" where
  "DeleteRuleListBySrc api src n =
     check (GetRuleList api n) (\<lambda>ruleList n1.
     check (GetRuleListBySrc ruleList src, n1) (\<lambda>srcRuleList n2.
       remove_rules api ''DeleteRuleListBySrc: failed to delete old rule'' srcRuleList n2))"

text \<open>A pod's rule; an unreadable network leaves the destination open.\<close>

definition pod_rule :: "ip_net \<Rightarrow> int \<Rightarrow> string \<Rightarrow> rule" where
  "pod_rule src table cidr = NewRule\<lparr> rule_Dst := map_option snd (ParseCIDR cidr), rule_Src := Some src,
     rule_Table := table, rule_Priority := fromPodRulePriority \<rparr>"

definition open_pod_rule :: "ip_net \<Rightarrow> int \<Rightarrow> rule" where
  "open_pod_rule src table = NewRule\<lparr> rule_Src := Some src, rule_Table := table, rule_Priority := fromPodRulePriority \<rparr>"

text \<open>The library's \<open>Rule.String\<close>, in the messages.\<close>

definition rule_text :: "rule \<Rightarrow> string" where
  "rule_text r = ''ip rule '' @ dec_int (rule_Priority r) @ '': from ''
     @ (case rule_Src r of Some n \<Rightarrow> ipnet_string n | None \<Rightarrow> ''<nil>'') @ '' table '' @ dec_int (rule_Table r)"

text \<open>The loop that rebuilds a pod's rules; a rule that exists is passed over.\<close>

fun rebuild_loop :: "'n netlink \<Rightarrow> ip_net \<Rightarrow> int \<Rightarrow> string list \<Rightarrow> ('n, unit) world_call" where
  "rebuild_loop api src table [] n = (Ok (), n)"
| "rebuild_loop api src table (cidr # cidrs) n =
     (let podRule = pod_rule src table cidr
      in on_result (nl_RuleAdd api podRule n)
           (\<lambda>_ n1. rebuild_loop api src table cidrs n1)
           (\<lambda>err n1. if IsRuleExistsError err then rebuild_loop api src table cidrs n1
              else (Err (Wrapped (''setupNS: failed to add pod rule ['' @ rule_text podRule @ '']'') err), n1)))"

text \<open>The loop that puts the rules back after the old ones are gone.\<close>

fun readd_loop :: "'n netlink \<Rightarrow> ip_net \<Rightarrow> int \<Rightarrow> string list \<Rightarrow> ('n, unit) world_call" where
  "readd_loop api src table [] n = (Ok (), n)"
| "readd_loop api src table (cidr # cidrs) n =
     on_result (nl_RuleAdd api (pod_rule src table cidr) n)
       (\<lambda>_ n1. readd_loop api src table cidrs n1)
       (\<lambda>err n1. (Err (Wrapped (''UpdateRuleListBySrc: failed to add pod rule for CIDR '' @ cidr) err), n1))"

text \<open>The table of the last rule deleted is kept, not the table the caller gives.\<close>

definition srcRuleTable :: "rule list \<Rightarrow> int" where
  "srcRuleTable srcRuleList = (if srcRuleList = [] then 0 else rule_Table (last srcRuleList))"

definition UpdateRuleListBySrc ::
  "'n netlink \<Rightarrow> rule list \<Rightarrow> ip_net \<Rightarrow> string list \<Rightarrow> bool \<Rightarrow> int \<Rightarrow> ('n, unit) world_call" where
  "UpdateRuleListBySrc api ruleList src toCIDRs toFlag table n =
     check (GetRuleListBySrc ruleList src, n) (\<lambda>srcRuleList n1.
     check (remove_rules api ''UpdateRuleListBySrc: failed to delete old rule'' srcRuleList n1) (\<lambda>_ n2.
       if srcRuleList = [] then rebuild_loop api src table toCIDRs n2
       else if toFlag then readd_loop api src (srcRuleTable srcRuleList) toCIDRs n2
       else on_result (nl_RuleAdd api (open_pod_rule src (srcRuleTable srcRuleList)) n2)
              (\<lambda>_ n3. (Ok (), n3))
              (\<lambda>err n3. (Err (Wrapped ''UpdateRuleListBySrc: failed to add pod rule'' err), n3))))"

section \<open>Effect on the table of rules\<close>

definition without_src :: "ip_net \<Rightarrow> (string \<Rightarrow> rule option) \<Rightarrow> string \<Rightarrow> rule option" where
  "without_src src m = (\<lambda>k. case m k of None \<Rightarrow> None | Some r \<Rightarrow> if from_src src r then None else Some r)"

definition with_rules :: "rule list \<Rightarrow> (string \<Rightarrow> rule option) \<Rightarrow> string \<Rightarrow> rule option" where
  "with_rules rs m = fold (\<lambda>r m. m(rule_key r \<mapsto> r)) rs m"

lemma with_rules_simps [simp]: "with_rules [] m = m" "with_rules (r # rs) m = with_rules rs (m(rule_key r \<mapsto> r))"
  by (simp_all add: with_rules_def)

lemma with_rules_other: "k \<notin> rule_key ` set rs \<Longrightarrow> with_rules rs m k = m k"
  by (induction rs arbitrary: m) auto

lemma with_rules_range: "with_rules rs m k = Some r \<Longrightarrow> r \<in> set rs \<or> (k \<notin> rule_key ` set rs \<and> m k = Some r)"
  by (induction rs arbitrary: m) (fastforce split: if_splits)+

lemma src_rules_loop_filter: "src_rules_loop src rs acc = acc @ filter (from_src src) rs"
  by (induction rs arbitrary: acc) auto

lemma GetRuleListBySrc_filter: "GetRuleListBySrc rs src = Ok (filter (from_src src) rs)"
  by (simp add: GetRuleListBySrc_def src_rules_loop_filter)

lemma is_errno_iff: "is_errno e err \<longleftrightarrow> err = ErrnoValue e"
  by (cases err) auto

lemmas rule_errno_defs = containsNoSuchRule_def ContainsNoSuchRule_def IsRuleExistsError_def is_errno_iff

context netlink_tables
begin

lemma remove_rules_Ok:
  assumes "inv n" and "remove_rules api msg rs n = (Ok (), n')"
  shows "inv n' \<and> routes n' = routes n \<and> rules n' = (\<lambda>k. if k \<in> rule_key ` set rs then None else rules n k)"
  using assms
proof (induction rs arbitrary: n)
  case Nil
  then show ?case by simp
next
  case (Cons r rs)
  obtain x n1 where d: "nl_RuleDel api r n = (x, n1)" by (cases "nl_RuleDel api r n")
  have "(x = Ok () \<or> x = Err (ErrnoValue ENOENT)) \<and> remove_rules api msg rs n1 = (Ok (), n')"
    using Cons.prems(2) d by (cases x) (auto simp: rule_errno_defs split: if_splits)
  then have x: "x = Ok () \<or> x = Err (ErrnoValue ENOENT)" and rest: "remove_rules api msg rs n1 = (Ok (), n')"
    by simp_all
  from rule_gone [OF Cons.prems(1) d x] Cons.IH [OF _ rest] show ?case by (auto simp: fun_eq_iff)
qed

lemma rebuild_loop_Ok:
  assumes "inv n" and "rebuild_loop api src table cidrs n = (Ok (), n')"
  shows "inv n' \<and> routes n' = routes n \<and> rules n' = with_rules (List.map (pod_rule src table) cidrs) (rules n)"
  using assms
proof (induction cidrs arbitrary: n)
  case Nil
  then show ?case by simp
next
  case (Cons c cs)
  obtain x n1 where a: "nl_RuleAdd api (pod_rule src table c) n = (x, n1)" by (cases "nl_RuleAdd api (pod_rule src table c) n")
  have "(x = Ok () \<or> x = Err (ErrnoValue EEXIST)) \<and> rebuild_loop api src table cs n1 = (Ok (), n')"
    using Cons.prems(2) a by (cases x) (auto simp: rule_errno_defs Let_def split: if_splits)
  then have x: "x = Ok () \<or> x = Err (ErrnoValue EEXIST)" and rest: "rebuild_loop api src table cs n1 = (Ok (), n')"
    by simp_all
  from rule_there [OF Cons.prems(1) a x] Cons.IH [OF _ rest] show ?case by (simp add: fun_upd_def)
qed

lemma readd_loop_Ok:
  assumes "inv n" and "readd_loop api src table cidrs n = (Ok (), n')"
  shows "inv n' \<and> routes n' = routes n \<and> rules n' = with_rules (List.map (pod_rule src table) cidrs) (rules n)"
  using assms
proof (induction cidrs arbitrary: n)
  case Nil
  then show ?case by simp
next
  case (Cons c cs)
  obtain x n1 where a: "nl_RuleAdd api (pod_rule src table c) n = (x, n1)" by (cases "nl_RuleAdd api (pod_rule src table c) n")
  with Cons.prems(2) have "x = Ok ()" and rest: "readd_loop api src table cs n1 = (Ok (), n')"
    by (cases x; simp)+
  with a rule_add_Ok [OF Cons.prems(1), of "pod_rule src table c" n1] Cons.IH [OF _ rest] show ?case by (simp add: fun_upd_def)
qed

text \<open>Removing the listed rules of a source leaves the others.\<close>

lemma listed_keys:
  assumes "inv n" and "set rs = ran (rules n)"
  shows "(\<lambda>k. if k \<in> rule_key ` set (filter (from_src src) rs) then None else rules n k) = without_src src (rules n)"
proof
  fix k
  show "(if k \<in> rule_key ` set (filter (from_src src) rs) then None else rules n k) = without_src src (rules n) k"
    using rule_keys [OF assms(1), of k] rule_keys [OF assms(1)] assms(2)
    by (auto simp: without_src_def ran_def split: option.splits)
qed

lemma delete_by_src:
  assumes "inv n" and "DeleteRuleListBySrc api src n = (Ok (), n')"
  shows "inv n' \<and> routes n' = routes n \<and> rules n' = without_src src (rules n)"
proof -
  from assms(2) obtain rs n1 where l: "nl_RuleList api n = (Ok rs, n1)"
    and r: "remove_rules api ''DeleteRuleListBySrc: failed to delete old rule'' (filter (from_src src) rs) n1 = (Ok (), n')"
    by (auto simp: DeleteRuleListBySrc_def GetRuleList_def GetRuleListBySrc_filter elim!: check_Ok_elim)
  from rule_list [OF assms(1) l] have "inv n1" and "set rs = ran (rules n1)" and eq: "rules n1 = rules n" "routes n1 = routes n"
    by auto
  from remove_rules_Ok [OF \<open>inv n1\<close> r] listed_keys [OF this(1,2), of src] eq show ?thesis by simp
qed

lemma update_by_src:
  assumes "inv n" and "set rs = ran (rules n)" and "UpdateRuleListBySrc api rs src cidrs toFlag table n = (Ok (), n')"
  shows "inv n' \<and> routes n' = routes n \<and> rules n' = with_rules
     (let old = filter (from_src src) rs
      in if old = [] then List.map (pod_rule src table) cidrs
         else if toFlag then List.map (pod_rule src (rule_Table (last old))) cidrs
         else [open_pod_rule src (rule_Table (last old))])
     (without_src src (rules n))"
proof -
  let ?old = "filter (from_src src) rs"
  from assms(3) obtain n1 where r: "remove_rules api ''UpdateRuleListBySrc: failed to delete old rule'' ?old n = (Ok (), n1)"
    by (auto simp: UpdateRuleListBySrc_def GetRuleListBySrc_filter elim!: check_Ok_elim)
  with remove_rules_Ok [OF assms(1) r] listed_keys [OF assms(1,2), of src]
  have n1: "inv n1" "routes n1 = routes n" "rules n1 = without_src src (rules n)" by auto
  show ?thesis
  proof (cases "?old = []")
    case True
    with assms(3) r have "rebuild_loop api src table cidrs n1 = (Ok (), n')"
      by (simp only: UpdateRuleListBySrc_def GetRuleListBySrc_filter check_simps if_True refl)
    from rebuild_loop_Ok [OF n1(1) this] n1 True show ?thesis by (simp only: Let_def if_True refl)
  next
    case old: False
  show ?thesis
  proof (cases toFlag)
    case True
    with old assms(3) r have "readd_loop api src (rule_Table (last ?old)) cidrs n1 = (Ok (), n')"
      by (simp only: UpdateRuleListBySrc_def GetRuleListBySrc_filter srcRuleTable_def check_simps if_True if_False)
    from readd_loop_Ok [OF n1(1) this] n1 old True show ?thesis by (simp only: Let_def if_True if_False refl)
  next
    case False
    have r': "UpdateRuleListBySrc api rs src cidrs toFlag table n =
        on_result (nl_RuleAdd api (open_pod_rule src (rule_Table (last ?old))) n1)
              (\<lambda>_ n3. (Ok (), n3))
              (\<lambda>err n3. (Err (Wrapped ''UpdateRuleListBySrc: failed to add pod rule'' err), n3))"
      using old False r by (simp only: UpdateRuleListBySrc_def GetRuleListBySrc_filter srcRuleTable_def check_simps if_False)
    obtain x n2 where a: "nl_RuleAdd api (open_pod_rule src (rule_Table (last ?old))) n1 = (x, n2)"
      by (cases "nl_RuleAdd api (open_pod_rule src (rule_Table (last ?old))) n1")
    with assms(3) r' have x: "x = Ok ()" "n2 = n'" by (cases x; simp)+
    with a rule_add_Ok [OF n1(1), of "open_pod_rule src (rule_Table (last ?old))" n2] n1 old False show ?thesis
      by (simp only: Let_def if_False with_rules_simps simp_thms)
  qed
  qed
qed

end

section \<open>Properties\<close>


text \<open>Deleting the rules of a source deletes all of them and nothing else.\<close>

theorem delete_rules_exact:
  assumes "netlink_tables api ok rules routes" and "ok n" and "DeleteRuleListBySrc api src n = (Ok (), n')"
  shows "ok n' \<and> routes n' = routes n \<and> rules n' = without_src src (rules n)
    \<and> (\<forall>k r. rules n' k = Some r \<longrightarrow> \<not> from_src src r)"
  using netlink_tables.delete_by_src [OF assms] by (auto simp: without_src_def split: option.splits if_splits)

section \<open>Witnesses\<close>

text \<open>A node with a rule of the pod in table 3 and a rule of another pod.\<close>

definition sample_src :: ip_net where
  "sample_src = \<lparr> net_IP = [10, 0, 0, 3], net_Mask = [255, 255, 255, 255] \<rparr>"

definition sample_node_rules :: "rule list" where
  "sample_node_rules = [open_pod_rule sample_src 3, open_pod_rule (sample_src\<lparr> net_IP := [10, 0, 0, 4] \<rparr>) 4]"

definition sample_fake :: fake_netlink where
  "sample_fake = NewFakeNetlink\<lparr> fake_Rules := List.map (\<lambda>r. (rule_key r, r)) sample_node_rules \<rparr>"

lemma sample_fake_facts:
  "fake_ok sample_fake" "ran (fake_rules sample_fake) = set sample_node_rules"
  "filter (from_src sample_src) sample_node_rules = [open_pod_rule sample_src 3]"
proof -
  have d: "distinct (List.map rule_key sample_node_rules)" by code_simp
  then show "fake_ok sample_fake"
    by (auto simp: fake_ok_def sample_fake_def comp_def list_all_iff)
  show "ran (fake_rules sample_fake) = set sample_node_rules"
    using d by (auto simp: sample_fake_def ran_distinct comp_def image_image)
  show "filter (from_src sample_src) sample_node_rules = [open_pod_rule sample_src 3]" by code_simp
qed

lemma fake_rules_Ok:
  "nl_RuleDel (fake_api ord) r f = (Ok (), snd (nl_RuleDel (fake_api ord) r f))"
  "nl_RuleAdd (fake_api ord) r f = (Ok (), snd (nl_RuleAdd (fake_api ord) r f))"
  by (simp_all add: fake_api_def fake_RuleDel_def fake_RuleAdd_def Let_def)

lemma fake_loops_Ok:
  "\<exists>f'. remove_rules (fake_api ord) msg rs f = (Ok (), f')" "\<exists>f'. readd_loop (fake_api ord) src table cs f = (Ok (), f')"
proof -
  show "\<exists>f'. remove_rules (fake_api ord) msg rs f = (Ok (), f')"
    by (induction rs arbitrary: f) (simp_all, subst fake_rules_Ok, simp)
  show "\<exists>f'. readd_loop (fake_api ord) src table cs f = (Ok (), f')"
    by (induction cs arbitrary: f) (simp_all, subst fake_rules_Ok, simp)
qed


lemma delete_rules_exact_witness:
  "\<exists>f'. DeleteRuleListBySrc (fake_api no_order) sample_src sample_fake = (Ok (), f')
    \<and> fake_rules f' = without_src sample_src (fake_rules sample_fake)"
proof -
  obtain f' where u: "DeleteRuleListBySrc (fake_api no_order) sample_src sample_fake = (Ok (), f')"
    using fake_loops_Ok(1)
    by (simp add: DeleteRuleListBySrc_def GetRuleList_def GetRuleListBySrc_filter) (simp add: fake_api_def fake_RuleList_def, metis)
  from delete_rules_exact [OF fake.netlink_tables_axioms sample_fake_facts(1) u] u show ?thesis by simp
qed

end
