(* ===== verification/HostNetwork.thy ===== *)
theory HostNetwork
  imports Iptables IpRules
begin

text \<open>
  \<^verbatim>\<open>pkg/networkutils/networkutil.go\<close>: the settings read from the environment and the set-up of
  the node's network: the reverse path filter and the rule for marked traffic, the chain of
  rules that exempts the VPC's subnets from SNAT, and the marks for node ports.

  \<open>'n\<close> is the state of the network; \<open>netlink\<close> and \<open>iptables\<close> act on it.
\<close>

section \<open>Settings\<close>

text \<open>\<open>strconv.ParseBool\<close> and \<open>strconv.ParseInt(s, 0, 64)\<close> of Go 1.12; \<open>None\<close> is an error.\<close>

definition ParseBool :: "string \<Rightarrow> bool option" where
  "ParseBool s =
     (if s \<in> set [''1'', ''t'', ''T'', ''TRUE'', ''true'', ''True''] then Some True
      else if s \<in> set [''0'', ''f'', ''F'', ''FALSE'', ''false'', ''False''] then Some False
      else None)"

definition parse_digits :: "nat \<Rightarrow> string \<Rightarrow> nat option" where
  "parse_digits base ds =
     (if list_all (\<lambda>c. case hex_value c of None \<Rightarrow> False | Some v \<Rightarrow> v < base) ds
      then Some (foldl (\<lambda>n c. base * n + the (hex_value c)) 0 ds) else None)"

definition parse_uint :: "string \<Rightarrow> nat option" where
  "parse_uint s =
     (if s = [] then None
      else if hd s = CHR ''0'' then
        (if 1 < length s \<and> (s ! 1 = CHR ''x'' \<or> s ! 1 = CHR ''X'')
         then (if length s < 3 then None else parse_digits 16 (drop 2 s))
         else parse_digits 8 (tl s))
      else parse_digits 10 s)"

definition ParseInt :: "string \<Rightarrow> int option" where
  "ParseInt s =
     (let neg = (s \<noteq> [] \<and> hd s = CHR ''-'');
          s1 = (if s \<noteq> [] \<and> (hd s = CHR ''+'' \<or> hd s = CHR ''-'') then tl s else s)
      in case parse_uint s1 of
           None \<Rightarrow> None
         | Some un \<Rightarrow>
             if neg then (if 2 ^ 63 < un then None else Some (- int un))
             else (if 2 ^ 63 \<le> un then None else Some (int un)))"

definition getBoolEnvVar :: "(string \<Rightarrow> string) \<Rightarrow> string \<Rightarrow> bool \<Rightarrow> bool" where
  "getBoolEnvVar getenv name defaultValue =
     (if getenv name \<noteq> '''' then
        (case ParseBool (getenv name) of None \<Rightarrow> defaultValue | Some parsedValue \<Rightarrow> parsedValue)
      else defaultValue)"

definition useExternalSNAT :: "(string \<Rightarrow> string) \<Rightarrow> bool" where
  "useExternalSNAT getenv = getBoolEnvVar getenv ''QINGCLOUD_VPC_K8S_CNI_EXTERNALSNAT'' False"

definition nodePortSupportEnabled :: "(string \<Rightarrow> string) \<Rightarrow> bool" where
  "nodePortSupportEnabled getenv = getBoolEnvVar getenv ''QINGCLOUD_VPC_CNI_NODE_PORT_SUPPORT'' True"

definition vpnSupportEnabled :: "(string \<Rightarrow> string) \<Rightarrow> bool" where
  "vpnSupportEnabled getenv = getBoolEnvVar getenv ''QINGCLOUD_VPC_CNI_VPN_SUPPORT'' True"

datatype snat_type = sequentialSNAT | randomHashSNAT | randomPRNGSNAT

definition typeOfSNAT :: "(string \<Rightarrow> string) \<Rightarrow> snat_type" where
  "typeOfSNAT getenv =
     (let strValue = getenv ''QINGCLOUD_VPC_K8S_CNI_RANDOMIZESNAT''
      in if strValue = '''' then randomHashSNAT
         else if strValue = ''prng'' then randomPRNGSNAT
         else if strValue = ''none'' then sequentialSNAT
         else if strValue = ''hashrandom'' then randomHashSNAT
         else randomHashSNAT)"

definition defaultConnmark :: "32 word" where "defaultConnmark = 0x80"

definition getConnmark :: "(string \<Rightarrow> string) \<Rightarrow> 32 word" where
  "getConnmark getenv =
     (let connmark = getenv ''QINGCLOUD_VPC_K8S_CNI_CONNMARK''
      in if connmark \<noteq> '''' then
           (case ParseInt connmark of
              None \<Rightarrow> defaultConnmark
            | Some mark \<Rightarrow> if 2 ^ 32 - 1 < mark \<or> mark \<le> 0 then defaultConnmark else word_of_int mark)
         else defaultConnmark)"

section \<open>The object\<close>

record 'n linux_network =
  ln_useExternalSNAT :: bool
  ln_typeOfSNAT :: snat_type
  ln_nodePortSupportEnabled :: bool
  ln_mainNICMark :: "32 word"
  ln_netLink :: "'n netlink"
  ln_newIptables :: "('n, 'n iptables) world_call"
  ln_findPrimaryInterfaceName :: "string \<Rightarrow> ('n, string) world_call"
  ln_setProcSys :: "string \<Rightarrow> string \<Rightarrow> ('n, unit) world_call"

text \<open>\<open>New\<close> and \<open>NewFakeNetworkAPI\<close>; the libraries behind the calls are arguments.\<close>

definition NewFakeNetworkAPI ::
  "(string \<Rightarrow> string) \<Rightarrow> 'n netlink \<Rightarrow> 'n iptables \<Rightarrow> (string \<Rightarrow> ('n, string) world_call)
   \<Rightarrow> (string \<Rightarrow> string \<Rightarrow> ('n, unit) world_call) \<Rightarrow> 'n linux_network" where
  "NewFakeNetworkAPI getenv nl ipt findPrimaryName setProcSys = \<lparr>
     ln_useExternalSNAT = useExternalSNAT getenv, ln_typeOfSNAT = typeOfSNAT getenv,
     ln_nodePortSupportEnabled = nodePortSupportEnabled getenv, ln_mainNICMark = getConnmark getenv,
     ln_netLink = nl, ln_newIptables = (\<lambda>n. (Ok ipt, n)), ln_findPrimaryInterfaceName = findPrimaryName,
     ln_setProcSys = setProcSys \<rparr>"

definition UseExternalSNAT :: "(string \<Rightarrow> string) \<Rightarrow> bool" where
  "UseExternalSNAT getenv = useExternalSNAT getenv"

text \<open>\<open>findPrimaryInterfaceName\<close>, given the interfaces of the node (\<open>net.Interfaces\<close>) as links.\<close>

fun primary_loop :: "string \<Rightarrow> link list \<Rightarrow> string go_result" where
  "primary_loop primaryMAC [] = Err (ErrorString ''no primary interface found'')"
| "primary_loop primaryMAC (intf # intfs) =
     (if primaryMAC = mac_string (link_HardwareAddr intf) then Ok (link_Name intf) else primary_loop primaryMAC intfs)"

definition findPrimaryInterfaceName :: "('n, link list) world_call \<Rightarrow> string \<Rightarrow> ('n, string) world_call" where
  "findPrimaryInterfaceName interfaces primaryMAC n =
     on_result (interfaces n)
       (\<lambda>intfs n1. (primary_loop primaryMAC intfs, n1))
       (\<lambda>err n1. (Err (Wrapped ''findPrimaryInterfaceName: failed to find interfaces'' err), n1))"

section \<open>The rules of the packet filter\<close>

definition snat_chain :: "nat \<Rightarrow> string" where
  "snat_chain i = ''QINGCLOUD-SNAT-CHAIN-'' @ dec_nat i"

definition hex_mark :: "32 word \<Rightarrow> string" where
  "hex_mark m = ''0x'' @ hex_nat (unat m)"

definition jump_rule :: "'n linux_network \<Rightarrow> nat \<Rightarrow> string \<Rightarrow> ipt_rule" where
  "jump_rule net i cidr = \<lparr> ipt_Name = ''['' @ dec_nat i @ ''] QINGCLOUD-SNAT-CHAIN'', ipt_ShouldExist = (\<not> ln_useExternalSNAT net),
     ipt_Table = ''nat'', ipt_Chain = snat_chain i,
     ipt_Rule = [''!'', ''-d'', cidr, ''-m'', ''comment'', ''--comment'', ''QINGCLOUD SNAT CHAN'', ''-j'', snat_chain (Suc i)] \<rparr>"

definition first_rule :: "'n linux_network \<Rightarrow> ipt_rule" where
  "first_rule net = \<lparr> ipt_Name = ''first SNAT rules for non-VPC outbound traffic'', ipt_ShouldExist = (\<not> ln_useExternalSNAT net),
     ipt_Table = ''nat'', ipt_Chain = ''POSTROUTING'',
     ipt_Rule = [''-m'', ''comment'', ''--comment'', ''QINGCLOUD SNAT CHAIN'', ''-j'', ''QINGCLOUD-SNAT-CHAIN-0''] \<rparr>"

definition snat_spec :: "'n linux_network \<Rightarrow> bool \<Rightarrow> byte list \<Rightarrow> rulespec" where
  "snat_spec net hasRandomFully primaryAddr =
     [''-m'', ''comment'', ''--comment'', ''QINGCLOUD, SNAT'', ''-m'', ''addrtype'', ''!'', ''--dst-type'', ''LOCAL'',
      ''-j'', ''SNAT'', ''--to-source'', ip_string primaryAddr]
     @ (if ln_typeOfSNAT net = randomHashSNAT then [''--random''] else [])
     @ (if ln_typeOfSNAT net = randomPRNGSNAT then (if hasRandomFully then [''--random-fully''] else [''--random'']) else [])"

definition last_rule :: "'n linux_network \<Rightarrow> bool \<Rightarrow> nat \<Rightarrow> byte list \<Rightarrow> ipt_rule" where
  "last_rule net hasRandomFully i primaryAddr = \<lparr> ipt_Name = ''last SNAT rule for non-VPC outbound traffic'',
     ipt_ShouldExist = (\<not> ln_useExternalSNAT net), ipt_Table = ''nat'', ipt_Chain = snat_chain i,
     ipt_Rule = snat_spec net hasRandomFully primaryAddr \<rparr>"

definition forward_rule :: "string \<Rightarrow> ipt_rule" where
  "forward_rule dir = \<lparr> ipt_Name = ''accept traffic to/from nics in chain Forward'', ipt_ShouldExist = True,
     ipt_Table = ''filter'', ipt_Chain = ''FORWARD'', ipt_Rule = [dir, ''nic+'', ''-j'', ''ACCEPT''] \<rparr>"

definition connmark_rules :: "'n linux_network \<Rightarrow> string \<Rightarrow> ipt_rule list" where
  "connmark_rules net primaryIntf =
     [\<lparr> ipt_Name = ''connmark for primary NIC'', ipt_ShouldExist = ln_nodePortSupportEnabled net, ipt_Table = ''mangle'',
        ipt_Chain = ''PREROUTING'',
        ipt_Rule = [''-m'', ''comment'', ''--comment'', ''QINGCLOUD, primary NIC'', ''-i'', primaryIntf,
          ''-m'', ''addrtype'', ''--dst-type'', ''LOCAL'', ''--limit-iface-in'', ''-j'', ''CONNMARK'', ''--set-mark'',
          hex_mark (ln_mainNICMark net) @ ''/'' @ hex_mark (ln_mainNICMark net)] \<rparr>,
      \<lparr> ipt_Name = ''connmark restore for primary NIC'', ipt_ShouldExist = ln_nodePortSupportEnabled net, ipt_Table = ''mangle'',
        ipt_Chain = ''PREROUTING'',
        ipt_Rule = [''-m'', ''comment'', ''--comment'', ''QINGCLOUD, primary NIC'', ''-i'', ''nic+'', ''-j'', ''CONNMARK'',
          ''--restore-mark'', ''--mask'', hex_mark (ln_mainNICMark net)] \<rparr>]"

fun jump_rules :: "'n linux_network \<Rightarrow> nat \<Rightarrow> string list \<Rightarrow> ipt_rule list" where
  "jump_rules net i [] = []"
| "jump_rules net i (cidr # cidrs) = jump_rule net i cidr # jump_rules net (Suc i) cidrs"

definition iptable_rules :: "'n linux_network \<Rightarrow> bool \<Rightarrow> string \<Rightarrow> string list \<Rightarrow> byte list \<Rightarrow> ipt_rule list" where
  "iptable_rules net hasRandomFully primaryIntf vpcCIDRs primaryAddr =
     first_rule net # jump_rules net 0 vpcCIDRs
     @ [forward_rule ''-i'', forward_rule ''-o'', last_rule net hasRandomFully (length vpcCIDRs) primaryAddr]
     @ connmark_rules net primaryIntf"

section \<open>SetupHostNetwork\<close>

fun contains_text :: "string \<Rightarrow> string \<Rightarrow> bool" where
  "contains_text sub s = (take (length sub) s = sub \<or> (case s of [] \<Rightarrow> False | c # s' \<Rightarrow> contains_text sub s'))"

declare contains_text.simps [simp del]

definition containChainExistErr :: "(errno \<Rightarrow> string) \<Rightarrow> go_error \<Rightarrow> bool" where
  "containChainExistErr strerror err = contains_text ''Chain already exists'' (error_string strerror err)"

text \<open>The loop that makes the chains with indices \<open>is\<close>, or clears those that exist.\<close>

fun make_chains :: "'n iptables \<Rightarrow> (errno \<Rightarrow> string) \<Rightarrow> nat list \<Rightarrow> ('n, unit) world_call" where
  "make_chains ipt strerror [] n = (Ok (), n)"
| "make_chains ipt strerror (i # is) n =
     on_result (ipt_NewChain ipt ''nat'' (snat_chain i) n)
       (\<lambda>_ n1. make_chains ipt strerror is n1)
       (\<lambda>err n1. if containChainExistErr strerror err
          then check (ipt_ClearChain ipt ''nat'' (snat_chain i) n1) (\<lambda>_ n2. make_chains ipt strerror is n2)
          else (Err (Wrapped ''host network setup: failed to add chain'' err), n1))"

text \<open>The loop that adds what is missing and deletes what should not be there.\<close>

fun ensure_rules :: "'n iptables \<Rightarrow> ipt_rule list \<Rightarrow> ('n, unit) world_call" where
  "ensure_rules ipt [] n = (Ok (), n)"
| "ensure_rules ipt (r # rs) n =
     on_result (ipt_Exists ipt (ipt_Table r) (ipt_Chain r) (ipt_Rule r) n)
       (\<lambda>exists n1.
          if \<not> exists \<and> ipt_ShouldExist r then
            on_result (ipt_Append ipt (ipt_Table r) (ipt_Chain r) (ipt_Rule r) n1)
              (\<lambda>_ n2. ensure_rules ipt rs n2)
              (\<lambda>err n2. (Err (Wrapped (''host network setup: failed to add '' @ ipt_rule_string r) err), n2))
          else if exists \<and> \<not> ipt_ShouldExist r then
            on_result (ipt_Delete ipt (ipt_Table r) (ipt_Chain r) (ipt_Rule r) n1)
              (\<lambda>_ n2. ensure_rules ipt rs n2)
              (\<lambda>err n2. (Err (Wrapped (''host network setup: failed to delete '' @ ipt_rule_string r) err), n2))
          else ensure_rules ipt rs n1)
       (\<lambda>err n1. (Err (Wrapped (''host network setup: failed to check existence of '' @ ipt_rule_string r) err), n1))"

text \<open>The second half of \<open>SetupHostNetwork\<close>, on the packet filter.\<close>

definition setup_filter ::
  "'n linux_network \<Rightarrow> (errno \<Rightarrow> string) \<Rightarrow> string \<Rightarrow> string list \<Rightarrow> byte list \<Rightarrow> ('n, unit) world_call" where
  "setup_filter net strerror primaryIntf vpcCIDRs primaryAddr n =
     on_result (ln_newIptables net n)
       (\<lambda>ipt n1. check (make_chains ipt strerror [0..<Suc (length vpcCIDRs)] n1) (\<lambda>_ n2.
          ensure_rules ipt (iptable_rules net (ipt_HasRandomFully ipt n2) primaryIntf vpcCIDRs primaryAddr) n2))
       (\<lambda>err n1. (Err (Wrapped ''host network setup: failed to create iptables'' err), n1))"

definition hostRulePriority :: int where "hostRulePriority = 1024"

definition main_nic_rule :: "'n linux_network \<Rightarrow> rule" where
  "main_nic_rule net = NewRule\<lparr> rule_Mark := uint (ln_mainNICMark net), rule_Mask := uint (ln_mainNICMark net),
     rule_Table := RT_TABLE_MAIN, rule_Priority := hostRulePriority \<rparr>"

definition loosen_rp_filter :: "'n linux_network \<Rightarrow> string \<Rightarrow> ('n, string) world_call" where
  "loosen_rp_filter net primaryMAC n =
     (if ln_nodePortSupportEnabled net then
        on_result (ln_findPrimaryInterfaceName net primaryMAC n)
          (\<lambda>primaryIntf n1.
             on_result (ln_setProcSys net (''/proc/sys/net/ipv4/conf/'' @ primaryIntf @ ''/rp_filter'') ''2'' n1)
               (\<lambda>_ n2. (Ok primaryIntf, n2))
               (\<lambda>err n2. (Err (Wrapped (''failed to configure '' @ primaryIntf @ '' RPF check'') err), n2)))
          (\<lambda>err n1. (Err (Wrapped ''failed to SetupHostNetwork'' err), n1))
      else (Ok ''eth0'', n))"

text \<open>The network of the VPC, the first argument of the source's function, is not used.\<close>

definition SetupHostNetwork ::
  "'n linux_network \<Rightarrow> (errno \<Rightarrow> string) \<Rightarrow> string list \<Rightarrow> string \<Rightarrow> byte list \<Rightarrow> ('n, unit) world_call" where
  "SetupHostNetwork net strerror vpcCIDRs primaryMAC primaryAddr n =
     check (loosen_rp_filter net primaryMAC n) (\<lambda>primaryIntf n1.
       let add_rule = (\<lambda>n2.
             if ln_nodePortSupportEnabled net then
               on_result (nl_RuleAdd (ln_netLink net) (main_nic_rule net) n2)
                 (\<lambda>_ n3. setup_filter net strerror primaryIntf vpcCIDRs primaryAddr n3)
                 (\<lambda>err n3. (Err (Wrapped ''host network setup: failed to add main NIC rule'' err), n3))
             else setup_filter net strerror primaryIntf vpcCIDRs primaryAddr n2)
       in on_result (nl_RuleDel (ln_netLink net) (main_nic_rule net) n1)
            (\<lambda>_ n2. add_rule n2)
            (\<lambda>err n2. if containsNoSuchRule err then add_rule n2
               else (Err (Wrapped ''host network setup: failed to delete old main NIC rule'' err), n2)))"

end
