(* ===== verification/HostNetworkThms.thy ===== *)
theory HostNetworkThms
  imports HostNetwork
begin

text \<open>
  What the set-up of the node's network leaves in the packet filter: the exact rules, that a
  second run changes nothing, and which traffic is translated.
\<close>

section \<open>Ensuring rules\<close>

definition ensure :: "ipt_rule \<Rightarrow> (string \<Rightarrow> string \<Rightarrow> rulespec list) \<Rightarrow> string \<Rightarrow> string \<Rightarrow> rulespec list" where
  "ensure r m =
     (let rs = m (ipt_Table r) (ipt_Chain r)
      in if ipt_Rule r \<notin> set rs \<and> ipt_ShouldExist r then set_chain (ipt_Table r) (ipt_Chain r) (rs @ [ipt_Rule r]) m
         else if ipt_Rule r \<in> set rs \<and> \<not> ipt_ShouldExist r then set_chain (ipt_Table r) (ipt_Chain r) (remove1 (ipt_Rule r) rs) m
         else m)"

definition in_place :: "(string \<Rightarrow> string \<Rightarrow> rulespec list) \<Rightarrow> ipt_rule \<Rightarrow> bool" where
  "in_place m r \<longleftrightarrow> (ipt_Rule r \<in> set (m (ipt_Table r) (ipt_Chain r))) = ipt_ShouldExist r"

definition no_repeats :: "(string \<Rightarrow> string \<Rightarrow> rulespec list) \<Rightarrow> bool" where
  "no_repeats m \<longleftrightarrow> (\<forall>t c. distinct (m t c))"

abbreviation place :: "ipt_rule \<Rightarrow> string \<times> string \<times> rulespec" where
  "place r \<equiv> (ipt_Table r, ipt_Chain r, ipt_Rule r)"

text \<open>On the chain of the rule, and elsewhere.\<close>

definition ensure_spec :: "ipt_rule \<Rightarrow> rulespec list \<Rightarrow> rulespec list" where
  "ensure_spec r rs =
     (if ipt_Rule r \<notin> set rs \<and> ipt_ShouldExist r then rs @ [ipt_Rule r]
      else if ipt_Rule r \<in> set rs \<and> \<not> ipt_ShouldExist r then remove1 (ipt_Rule r) rs
      else rs)"

lemma ensure_at: "ensure r m t c = (if ipt_Table r = t \<and> ipt_Chain r = c then ensure_spec r (m t c) else m t c)"
  by (auto simp: ensure_def ensure_spec_def Let_def set_chain_get)

lemma ensure_no_repeats: "no_repeats m \<Longrightarrow> no_repeats (ensure r m)"
  by (auto simp: no_repeats_def ensure_at ensure_spec_def)

lemma ensure_in_place: "no_repeats m \<Longrightarrow> in_place (ensure r m) r"
  by (auto simp: no_repeats_def ensure_at ensure_spec_def in_place_def)

lemma ensure_other: "place q \<noteq> place r \<Longrightarrow> in_place (ensure r m) q = in_place m q"
  by (auto simp: ensure_at ensure_spec_def in_place_def)

lemma ensure_idle: "in_place m r \<Longrightarrow> ensure r m = m"
  by (auto simp: ensure_def in_place_def Let_def)

lemma fold_ensure_no_repeats: "no_repeats m \<Longrightarrow> no_repeats (fold ensure rs m)"
  by (induction rs arbitrary: m) (simp_all add: ensure_no_repeats)

lemma fold_ensure_other: "place q \<notin> place ` set rs \<Longrightarrow> in_place (fold ensure rs m) q = in_place m q"
  by (induction rs arbitrary: m) (auto simp: ensure_other)

lemma fold_ensure_in_place:
  "no_repeats m \<Longrightarrow> distinct (List.map place rs) \<Longrightarrow> r \<in> set rs \<Longrightarrow> in_place (fold ensure rs m) r"
proof (induction rs arbitrary: m)
  case (Cons q rs)
  then show ?case
    by (cases "r = q") (auto simp: fold_ensure_other ensure_in_place ensure_no_repeats)
qed simp

lemma fold_ensure_idle: "(\<And>r. r \<in> set rs \<Longrightarrow> in_place m r) \<Longrightarrow> fold ensure rs m = m"
  by (induction rs) (simp_all add: ensure_idle)

lemma fold_ensure_chain:
  "fold ensure rs m t c = fold ensure_spec (filter (\<lambda>r. ipt_Table r = t \<and> ipt_Chain r = c) rs) (m t c)"
  by (induction rs arbitrary: m) (simp_all add: ensure_at)

section \<open>The loops\<close>

text \<open>The chains of the VPC, emptied; a chain the filter makes anew is empty already.\<close>

definition emptied :: "(string \<Rightarrow> string \<Rightarrow> rulespec list) \<Rightarrow> nat list \<Rightarrow> (string \<Rightarrow> string \<Rightarrow> rulespec list) \<Rightarrow> bool" where
  "emptied m is m' \<longleftrightarrow> (\<forall>t c. m' t c = m t c \<or> (t = ''nat'' \<and> c \<in> snat_chain ` set is \<and> m' t c = []))"

context iptables_chains
begin

lemma make_chains_Ok:
  "make_chains ipt strerror is n = (Ok (), n') \<Longrightarrow> emptied (chain n) is (chain n')"
proof (induction "is" arbitrary: n)
  case Nil
  then show ?case by (simp add: emptied_def)
next
  case (Cons i "is")
  obtain x n1 where a: "ipt_NewChain ipt ''nat'' (snat_chain i) n = (x, n1)" by (cases "ipt_NewChain ipt ''nat'' (snat_chain i) n")
  show ?case
  proof (cases x)
    case (Ok u)
    with a new_chain have "chain n1 = chain n" by fastforce
    with Cons.IH [of n1] Cons.prems a Ok show ?thesis by (auto simp: emptied_def)
  next
    case (Err e)
    with a new_chain_err have n1: "chain n1 = chain n" by fastforce
    from Cons.prems a Err obtain n2 where c: "ipt_ClearChain ipt ''nat'' (snat_chain i) n1 = (Ok (), n2)"
      and r: "make_chains ipt strerror is n2 = (Ok (), n')"
      by (auto split: if_splits elim!: check_Ok_elim)
    from clear_chain [OF c] Cons.IH [OF r] n1 show ?thesis
      by (auto simp: emptied_def set_chain_get) (metis (no_types))+
  next
    case Panic
    with Cons.prems a show ?thesis by simp
  qed
qed

lemma ensure_rules_Ok:
  "ensure_rules ipt rs n = (Ok (), n') \<Longrightarrow> chain n' = fold ensure rs (chain n)"
proof (induction rs arbitrary: n)
  case Nil
  then show ?case by simp
next
  case (Cons r rs)
  obtain x n1 where a: "ipt_Exists ipt (ipt_Table r) (ipt_Chain r) (ipt_Rule r) n = (x, n1)"
    by (cases "ipt_Exists ipt (ipt_Table r) (ipt_Chain r) (ipt_Rule r) n")
  with Cons.prems obtain b where x: "x = Ok b" by (cases x) auto
  from exists [OF a [unfolded x]] have n1: "chain n1 = chain n"
    and b: "b = (ipt_Rule r \<in> set (chain n (ipt_Table r) (ipt_Chain r)))" by auto
  have "\<exists>n2. chain n2 = ensure r (chain n) \<and> ensure_rules ipt rs n2 = (Ok (), n')"
  proof (cases "b = ipt_ShouldExist r")
    case True
    with Cons.prems a x b n1 show ?thesis by (auto simp: ensure_def Let_def)
  next
    case False
    let ?add = "ipt_Append ipt (ipt_Table r) (ipt_Chain r) (ipt_Rule r) n1"
    let ?del = "ipt_Delete ipt (ipt_Table r) (ipt_Chain r) (ipt_Rule r) n1"
    show ?thesis
    proof (cases b)
      case True
      obtain y n2 where d: "?del = (y, n2)" by (cases ?del)
      with Cons.prems a x False True have "y = Ok ()" "ensure_rules ipt rs n2 = (Ok (), n')" by (cases y; simp)+
      with delete [OF d [unfolded this(1)]] b n1 False True show ?thesis
        by (intro exI [of _ n2]) (simp add: ensure_def Let_def)
    next
      case nb: False
      obtain y n2 where d: "?add = (y, n2)" by (cases ?add)
      with Cons.prems a x False nb have "y = Ok ()" "ensure_rules ipt rs n2 = (Ok (), n')" by (cases y; simp)+
      with append [OF d [unfolded this(1)]] b n1 False nb show ?thesis
        by (intro exI [of _ n2]) (simp add: ensure_def Let_def)
    qed
  qed
  with Cons.IH show ?case by auto
qed

end

section \<open>The rules of one chain\<close>

lemma snat_chain_eq [simp]: "snat_chain i = snat_chain j \<longleftrightarrow> i = j"
  by (simp add: snat_chain_def)

lemma snat_chain_other [simp]: "snat_chain i \<noteq> ''POSTROUTING''" "snat_chain i \<noteq> ''FORWARD''" "snat_chain i \<noteq> ''PREROUTING''"
  by (simp_all add: snat_chain_def)

lemma jump_rules_chains: "List.map ipt_Chain (jump_rules net i cidrs) = List.map snat_chain [i..<i + length cidrs]"
  by (induction cidrs arbitrary: i) (simp_all add: jump_rule_def upt_conv_Cons del: upt_Suc)

lemma jump_rules_table: "r \<in> set (jump_rules net i cidrs) \<Longrightarrow>
   ipt_Table r = ''nat'' \<and> ipt_ShouldExist r = (\<not> ln_useExternalSNAT net) \<and> (\<exists>j. i \<le> j \<and> j < i + length cidrs \<and> ipt_Chain r = snat_chain j)"
  by (induction cidrs arbitrary: i) (auto simp: jump_rule_def, force+)

lemma jump_rules_not_at: "j < i \<or> i + length cidrs \<le> j \<Longrightarrow> r \<in> set (jump_rules net i cidrs) \<Longrightarrow> ipt_Chain r \<noteq> snat_chain j"
  using jump_rules_table [of r net i cidrs] by auto

lemma jump_rules_at:
  "i \<le> j \<Longrightarrow> j < i + length cidrs \<Longrightarrow> filter (\<lambda>r. ipt_Table r = ''nat'' \<and> ipt_Chain r = snat_chain j) (jump_rules net i cidrs)
    = [jump_rule net j (cidrs ! (j - i))]"
proof (induction cidrs arbitrary: i)
  case (Cons c cs)
  have none: "filter (\<lambda>r. ipt_Table r = ''nat'' \<and> ipt_Chain r = snat_chain j) (jump_rules net (Suc j) cs) = []"
    using jump_rules_not_at [of j "Suc j" cs _ net] by (auto simp: filter_empty_conv)
  show ?case
    using Cons none by (cases "i = j") (auto simp: jump_rule_def nth_Cons' )
qed simp

text \<open>Chain \<open>i\<close> of the VPC asks for one rule: the jump past subnet \<open>i\<close>, or the translation.\<close>

definition chain_rule :: "'n linux_network \<Rightarrow> bool \<Rightarrow> string list \<Rightarrow> byte list \<Rightarrow> nat \<Rightarrow> ipt_rule" where
  "chain_rule net fully cidrs addr i =
     (if i < length cidrs then jump_rule net i (cidrs ! i) else last_rule net fully i addr)"

lemmas ipt_rule_defs = first_rule_def jump_rule_def last_rule_def forward_rule_def connmark_rules_def

lemma iptable_rules_at:
  assumes "i \<le> length cidrs"
  shows "filter (\<lambda>r. ipt_Table r = ''nat'' \<and> ipt_Chain r = snat_chain i) (iptable_rules net fully intf cidrs addr)
     = [chain_rule net fully cidrs addr i]"
proof (cases "i < length cidrs")
  case True
  with jump_rules_at [of 0 i cidrs net] show ?thesis
    by (simp add: iptable_rules_def chain_rule_def first_rule_def last_rule_def forward_rule_def connmark_rules_def
        snat_chain_other [symmetric])
next
  case False
  with assms have "i = length cidrs" by simp
  moreover have "filter (\<lambda>r. ipt_Table r = ''nat'' \<and> ipt_Chain r = snat_chain (length cidrs)) (jump_rules net 0 cidrs) = []"
    using jump_rules_not_at [of "length cidrs" 0 cidrs _ net] by (auto simp: filter_empty_conv)
  ultimately show ?thesis
    by (simp add: iptable_rules_def chain_rule_def first_rule_def last_rule_def forward_rule_def connmark_rules_def
        snat_chain_other [symmetric])
qed

lemma iptable_rules_distinct: "distinct (List.map place (iptable_rules net fully intf cidrs addr))"
proof -
  have "distinct (List.map snat_chain [0..<length cidrs])" by (simp add: distinct_map inj_on_def)
  then have "distinct (List.map ipt_Chain (jump_rules net 0 cidrs))" using jump_rules_chains [of net 0 cidrs] by simp
  then have "distinct (List.map place (jump_rules net 0 cidrs))"
    by (auto simp: distinct_map inj_on_def)
  then show ?thesis
    using jump_rules_table [of _ net 0 cidrs] jump_rules_not_at [of "length cidrs" 0 cidrs _ net]
    by (fastforce simp: iptable_rules_def first_rule_def last_rule_def forward_rule_def connmark_rules_def
        snat_chain_other [symmetric])
qed

section \<open>A whole run\<close>

lemma emptied_elsewhere: "emptied m [0..<Suc k] m' \<Longrightarrow> \<not> (\<exists>i \<le> k. t = ''nat'' \<and> c = snat_chain i) \<Longrightarrow> m' t c = m t c"
  unfolding emptied_def set_upt by (metis atLeastLessThan_iff imageE less_Suc_eq_le)

lemma emptied_no_repeats: "emptied m is m' \<Longrightarrow> no_repeats m \<Longrightarrow> no_repeats m'"
  unfolding emptied_def no_repeats_def by (metis distinct.simps(1))

text \<open>A run from the state \<open>n\<close>: the chains are made, then the rules ensured.\<close>

lemma setup_filter_Ok:
  assumes "setup_filter net strerror intf cidrs addr n = (Ok (), n')"
  obtains ipt n1 n2 where "ln_newIptables net n = (Ok ipt, n1)" "make_chains ipt strerror [0..<Suc (length cidrs)] n1 = (Ok (), n2)"
    "ensure_rules ipt (iptable_rules net (ipt_HasRandomFully ipt n2) intf cidrs addr) n2 = (Ok (), n')"
proof -
  obtain x n1 where a: "ln_newIptables net n = (x, n1)" by (cases "ln_newIptables net n")
  with assms obtain ipt where "x = Ok ipt" by (cases x) (auto simp: setup_filter_def)
  with a assms that show ?thesis by (auto simp: setup_filter_def elim!: check_Ok_elim)
qed

context iptables_chains
begin

lemma setup_filter_chain:
  assumes "setup_filter net strerror intf cidrs addr n = (Ok (), n')" and "ln_newIptables net n = (Ok ipt, n0)" and "chain n0 = chain n"
  obtains fully m where "emptied (chain n) [0..<Suc (length cidrs)] m" "chain n' = fold ensure (iptable_rules net fully intf cidrs addr) m"
    "\<exists>n2. fully = ipt_HasRandomFully ipt n2"
proof -
  from assms obtain n2 where "make_chains ipt strerror [0..<Suc (length cidrs)] n0 = (Ok (), n2)"
    "ensure_rules ipt (iptable_rules net (ipt_HasRandomFully ipt n2) intf cidrs addr) n2 = (Ok (), n')"
    by (auto elim!: setup_filter_Ok)
  from make_chains_Ok [OF this(1)] ensure_rules_Ok [OF this(2)] that assms(3) show ?thesis by auto
qed

end

lemma ensured_in_place:
  assumes "no_repeats m0" and "emptied m0 is m" and "m' = fold ensure (iptable_rules net fully intf cidrs addr) m"
    and "r \<in> set (iptable_rules net fully intf cidrs addr)"
  shows "in_place m' r"
  using fold_ensure_in_place [OF emptied_no_repeats [OF assms(2,1)] iptable_rules_distinct assms(4)] assms(3) by simp

lemma ensured_chain:
  assumes "m' = fold ensure (iptable_rules net fully intf cidrs addr) m" and "i \<le> length cidrs"
  shows "m' ''nat'' (snat_chain i) = ensure_spec (chain_rule net fully cidrs addr i) (m ''nat'' (snat_chain i))"
  using assms(1) fold_ensure_chain [of "iptable_rules net fully intf cidrs addr" m "''nat''" "snat_chain i"]
    iptable_rules_at [OF assms(2), of net fully intf addr] by simp

section \<open>Traffic that is translated\<close>

text \<open>
  A reading of the rules for one packet: \<open>in_net\<close> says to which networks its destination belongs,
  \<open>local\<close> whether it is an address of the node.  A packet follows the jumps of the rules it
  matches, in the order of the chain, until a rule translates it.
\<close>

fun spec_matches :: "(string \<Rightarrow> bool) \<Rightarrow> bool \<Rightarrow> nat \<Rightarrow> rulespec \<Rightarrow> bool" where
  "spec_matches in_net local 0 ts = True"
| "spec_matches in_net local (Suc k) [] = True"
| "spec_matches in_net local (Suc k) (a # ts) =
     (if a = ''!'' \<and> ts \<noteq> [] \<and> hd ts = ''-d'' then \<not> in_net (hd (tl ts)) \<and> spec_matches in_net local k (drop 2 ts)
      else if a = ''!'' \<and> ts \<noteq> [] \<and> hd ts = ''--dst-type'' then \<not> local \<and> spec_matches in_net local k (drop 2 ts)
      else if a = ''-m'' \<or> a = ''--comment'' then spec_matches in_net local k (drop 1 ts)
      else True)"

fun spec_target :: "rulespec \<Rightarrow> string" where
  "spec_target (a # b # ts) =
     (if a = ''-j'' then b else if a = ''-d'' \<or> a = ''--comment'' then spec_target ts else spec_target (b # ts))"
| "spec_target _ = ''''"

fun translated :: "nat \<Rightarrow> (string \<Rightarrow> rulespec list) \<Rightarrow> (string \<Rightarrow> bool) \<Rightarrow> bool \<Rightarrow> rulespec list \<Rightarrow> bool" where
  "translated 0 nat_table in_net local specs = False"
| "translated (Suc k) nat_table in_net local specs =
     list_ex (\<lambda>spec. spec_matches in_net local (length spec) spec
        \<and> (spec_target spec = ''SNAT'' \<or> translated k nat_table in_net local (nat_table (spec_target spec)))) specs"

lemma snat_chain_not_SNAT: "snat_chain i \<noteq> ''SNAT''"
  by (simp add: snat_chain_def)

lemma jump_spec: "spec_target (ipt_Rule (jump_rule net i c)) = snat_chain (Suc i)"
   "spec_matches in_net local (length (ipt_Rule (jump_rule net i c))) (ipt_Rule (jump_rule net i c)) = (\<not> in_net c)"
  by (simp_all add: jump_rule_def)

lemma last_spec: "spec_target (ipt_Rule (last_rule net fully i addr)) = ''SNAT''"
   "spec_matches in_net local (length (ipt_Rule (last_rule net fully i addr))) (ipt_Rule (last_rule net fully i addr)) = (\<not> local)"
  by (simp_all add: last_rule_def snat_spec_def)

lemma translated_chain:
  assumes "\<And>j. j \<le> length cidrs \<Longrightarrow> nat_table (snat_chain j) = [ipt_Rule (chain_rule net fully cidrs addr j)]"
  shows "i \<le> length cidrs \<Longrightarrow> length cidrs - i < k \<Longrightarrow>
    translated k nat_table in_net local (nat_table (snat_chain i))
     = ((\<forall>j. i \<le> j \<and> j < length cidrs \<longrightarrow> \<not> in_net (cidrs ! j)) \<and> \<not> local)"
proof (induction k arbitrary: i)
  case (Suc k)
  show ?case
  proof (cases "i < length cidrs")
    case True
    with Suc.IH [of "Suc i"] Suc.prems
    have "translated k nat_table in_net local (nat_table (snat_chain (Suc i)))
        = ((\<forall>j. Suc i \<le> j \<and> j < length cidrs \<longrightarrow> \<not> in_net (cidrs ! j)) \<and> \<not> local)" by simp
    then have "translated (Suc k) nat_table in_net local (nat_table (snat_chain i))
        = (\<not> in_net (cidrs ! i) \<and> (\<forall>j. Suc i \<le> j \<and> j < length cidrs \<longrightarrow> \<not> in_net (cidrs ! j)) \<and> \<not> local)"
      using True by (simp add: assms jump_spec chain_rule_def snat_chain_not_SNAT)
    moreover have "(\<forall>j. i \<le> j \<and> j < length cidrs \<longrightarrow> \<not> in_net (cidrs ! j))
        \<longleftrightarrow> \<not> in_net (cidrs ! i) \<and> (\<forall>j. Suc i \<le> j \<and> j < length cidrs \<longrightarrow> \<not> in_net (cidrs ! j))"
      using True by (metis Suc_leD Suc_leI le_neq_implies_less order_refl)
    ultimately show ?thesis by blast
  next
    case False
    with Suc.prems have "i = length cidrs" by simp
    then show ?thesis by (auto simp: assms last_spec chain_rule_def)
  qed
qed simp

section \<open>The part on netlink\<close>

text \<open>The object's calls other than those of the packet filter leave the filter alone, and
  \<open>newIptables\<close> gives the filter \<open>ipt\<close>.\<close>

definition serves :: "'n linux_network \<Rightarrow> 'n iptables \<Rightarrow> ('n \<Rightarrow> string \<Rightarrow> string \<Rightarrow> rulespec list) \<Rightarrow> bool" where
  "serves net ipt chain \<longleftrightarrow>
     (\<forall>n. \<exists>n1. ln_newIptables net n = (Ok ipt, n1) \<and> chain n1 = chain n)
     \<and> (\<forall>r n. chain (snd (nl_RuleDel (ln_netLink net) r n)) = chain n)
     \<and> (\<forall>r n. chain (snd (nl_RuleAdd (ln_netLink net) r n)) = chain n)
     \<and> (\<forall>mac n. chain (snd (ln_findPrimaryInterfaceName net mac n)) = chain n)
     \<and> (\<forall>k v n. chain (snd (ln_setProcSys net k v n)) = chain n)"

text \<open>The interface the marks are set for: the primary one, or \<open>eth0\<close> without node ports.\<close>

definition marked_intf :: "'n linux_network \<Rightarrow> string \<Rightarrow> 'n \<Rightarrow> string go_result" where
  "marked_intf net mac n = (if ln_nodePortSupportEnabled net then fst (ln_findPrimaryInterfaceName net mac n) else Ok ''eth0'')"

lemma loosen_rp_filter_Ok:
  assumes "loosen_rp_filter net mac n = (Ok intf, n1)" and "serves net ipt chain"
  shows "marked_intf net mac n = Ok intf \<and> chain n1 = chain n"
proof (cases "ln_nodePortSupportEnabled net")
  case True
  obtain x n2 where f: "ln_findPrimaryInterfaceName net mac n = (x, n2)" by (cases "ln_findPrimaryInterfaceName net mac n")
  with assms(1) True obtain i where x: "x = Ok i" by (cases x) (auto simp: loosen_rp_filter_def)
  obtain y n3 where p: "ln_setProcSys net (''/proc/sys/net/ipv4/conf/'' @ i @ ''/rp_filter'') ''2'' n2 = (y, n3)"
    by (cases "ln_setProcSys net (''/proc/sys/net/ipv4/conf/'' @ i @ ''/rp_filter'') ''2'' n2")
  from assms(1) True f x p have "i = intf \<and> n3 = n1" by (cases y) (auto simp: loosen_rp_filter_def)
  with f p x True assms(2) show ?thesis unfolding serves_def marked_intf_def by (metis fst_conv snd_conv)
qed (use assms(1) in \<open>simp_all add: loosen_rp_filter_def marked_intf_def\<close>)

lemma SetupHostNetwork_Ok:
  assumes "SetupHostNetwork net strerror cidrs mac addr n = (Ok (), n')" and "serves net ipt chain"
  obtains intf n1 where "marked_intf net mac n = Ok intf" "chain n1 = chain n" "setup_filter net strerror intf cidrs addr n1 = (Ok (), n')"
proof -
  from assms(1) obtain intf n1 where l: "loosen_rp_filter net mac n = (Ok intf, n1)"
    by (auto simp: SetupHostNetwork_def elim!: check_Ok_elim)
  note c = assms(2) [unfolded serves_def]
  obtain x n2 where d: "nl_RuleDel (ln_netLink net) (main_nic_rule net) n1 = (x, n2)"
    by (cases "nl_RuleDel (ln_netLink net) (main_nic_rule net) n1")
  obtain y n3 where a: "nl_RuleAdd (ln_netLink net) (main_nic_rule net) n2 = (y, n3)"
    by (cases "nl_RuleAdd (ln_netLink net) (main_nic_rule net) n2")
  have "setup_filter net strerror intf cidrs addr (if ln_nodePortSupportEnabled net then n3 else n2) = (Ok (), n')"
    using assms(1) l d a by (cases x; cases y) (auto simp: SetupHostNetwork_def split: if_splits)
  moreover have "chain n2 = chain n1" "chain n3 = chain n2" using c d a by (metis snd_conv)+
  ultimately show ?thesis using that loosen_rp_filter_Ok [OF l assms(2)] by (cases "ln_nodePortSupportEnabled net") auto
qed

lemma SetupHostNetwork_chain:
  assumes "iptables_chains ipt chain" and "serves net ipt chain" and "SetupHostNetwork net strerror cidrs mac addr n = (Ok (), n')"
  obtains fully intf m where "marked_intf net mac n = Ok intf" "emptied (chain n) [0..<Suc (length cidrs)] m"
    "chain n' = fold ensure (iptable_rules net fully intf cidrs addr) m" "\<exists>n2. fully = ipt_HasRandomFully ipt n2"
proof -
  from SetupHostNetwork_Ok [OF assms(3,2)] obtain intf n1
    where i: "marked_intf net mac n = Ok intf" "chain n1 = chain n" "setup_filter net strerror intf cidrs addr n1 = (Ok (), n')"
    by metis
  from assms(2) obtain n0 where "ln_newIptables net n1 = (Ok ipt, n0)" "chain n0 = chain n1"
    unfolding serves_def by blast
  from iptables_chains.setup_filter_chain [OF assms(1) i(3) this] that i show ?thesis by metis
qed

section \<open>Properties\<close>

text \<open>C35: after a successful set-up every rule the node should have is in the packet filter, every
  rule it should not have is gone (with SNAT left to others, or without node ports), and no rule
  is there twice.\<close>

theorem host_rules_in_place:
  assumes "iptables_chains ipt chain" and "serves net ipt chain" and "no_repeats (chain n)"
    and "SetupHostNetwork net strerror cidrs mac addr n = (Ok (), n')"
  shows "no_repeats (chain n') \<and> (\<exists>fully intf. marked_intf net mac n = Ok intf
    \<and> (\<forall>r \<in> set (iptable_rules net fully intf cidrs addr). in_place (chain n') r))"
proof -
  from SetupHostNetwork_chain [OF assms(1,2,4)] obtain fully intf m
    where s: "marked_intf net mac n = Ok intf" "emptied (chain n) [0..<Suc (length cidrs)] m"
      "chain n' = fold ensure (iptable_rules net fully intf cidrs addr) m" by metis
  have "no_repeats (chain n')"
    unfolding s(3) by (rule fold_ensure_no_repeats [OF emptied_no_repeats [OF s(2) assms(3)]])
  with s ensured_in_place [OF assms(3) s(2,3)] show ?thesis by blast
qed

text \<open>C36: a second set-up, after a restart of the daemon, changes nothing in the packet filter,
  whether it finds the chains of the VPC as they are or clears them first.\<close>

theorem host_setup_idempotent:
  assumes "iptables_chains ipt chain" and "serves net ipt chain" and "no_repeats (chain n)"
    and "\<And>i. i \<le> length cidrs \<Longrightarrow> chain n ''nat'' (snat_chain i) = []"
    and "SetupHostNetwork net strerror cidrs mac addr n = (Ok (), n1)"
    and "SetupHostNetwork net strerror cidrs mac addr n1 = (Ok (), n2)"
    and "marked_intf net mac n1 = marked_intf net mac n"     and "ln_typeOfSNAT net = randomPRNGSNAT \<Longrightarrow> (\<exists>b. \<forall>k. ipt_HasRandomFully ipt k = b)"
  shows "chain n2 = chain n1"
proof -
  let ?is = "[0..<Suc (length cidrs)]"
  from SetupHostNetwork_chain [OF assms(1,2,5)] obtain fully intf m
    where s: "marked_intf net mac n = Ok intf" "emptied (chain n) ?is m" "chain n1 = fold ensure (iptable_rules net fully intf cidrs addr) m"
      "\<exists>k. fully = ipt_HasRandomFully ipt k" by metis
  from SetupHostNetwork_chain [OF assms(1,2,6)] obtain fully' intf' m'
    where t: "marked_intf net mac n1 = Ok intf'" "emptied (chain n1) ?is m'" "chain n2 = fold ensure (iptable_rules net fully' intf' cidrs addr) m'"
      "\<exists>k. fully' = ipt_HasRandomFully ipt k" by metis
  have "iptable_rules net fully' intf cidrs addr = iptable_rules net fully intf cidrs addr"
    using s(4) t(4) assms(8)
    by (cases "ln_typeOfSNAT net = randomPRNGSNAT") (auto simp: iptable_rules_def last_rule_def snat_spec_def)
  moreover have "intf' = intf" using s(1) t(1) assms(7) by simp
  ultimately have s': "emptied (chain n1) ?is m'" "chain n2 = fold ensure (iptable_rules net fully intf cidrs addr) m'"
    using t(2,3) by simp_all
  let ?rs = "iptable_rules net fully intf cidrs addr"
  have idle: "fold ensure ?rs (chain n1) = chain n1"
    by (rule fold_ensure_idle) (rule ensured_in_place [OF assms(3) s(2,3)])
  show ?thesis
  proof (intro ext)
    fix t c
    show "chain n2 t c = chain n1 t c"
    proof (cases "\<exists>i \<le> length cidrs. t = ''nat'' \<and> c = snat_chain i")
      case True
      then obtain i where i: "i \<le> length cidrs" "t = ''nat''" "c = snat_chain i" by blast
      have "m ''nat'' (snat_chain i) = []" using s(2) assms(4) [OF i(1)] unfolding emptied_def by metis
      moreover have "m' ''nat'' (snat_chain i) \<in> {chain n1 ''nat'' (snat_chain i), []}" using s'(1) unfolding emptied_def by blast
      ultimately show ?thesis
        using ensured_chain [OF s(3) i(1)] ensured_chain [OF s'(2) i(1)] i by (auto simp: ensure_spec_def)
    next
      case False
      then have "m' t c = chain n1 t c" using emptied_elsewhere [OF s'(1), of t c] by blast
      then show ?thesis using s'(2) idle fold_ensure_chain [of ?rs m' t c] fold_ensure_chain [of ?rs "chain n1" t c] by simp
    qed
  qed
qed


section \<open>Witnesses\<close>

text \<open>A node made of the two fakes: calls on one leave the other.\<close>

definition on_left :: "('a, 'r) world_call \<Rightarrow> ('a \<times> 'b, 'r) world_call" where
  "on_left op n = (case op (fst n) of (r, a) \<Rightarrow> (r, (a, snd n)))"

definition on_right :: "('b, 'r) world_call \<Rightarrow> ('a \<times> 'b, 'r) world_call" where
  "on_right op n = (case op (snd n) of (r, b) \<Rightarrow> (r, (fst n, b)))"

definition left_netlink :: "'a netlink \<Rightarrow> ('a \<times> 'b) netlink" where
  "left_netlink nl = \<lparr> nl_LinkByName = (\<lambda>s. on_left (nl_LinkByName nl s)), nl_LinkSetNsFd = (\<lambda>l fd. on_left (nl_LinkSetNsFd nl l fd)),
     nl_AddrAdd = (\<lambda>l a. on_left (nl_AddrAdd nl l a)), nl_AddrDel = (\<lambda>l a. on_left (nl_AddrDel nl l a)),
     nl_AddrList = (\<lambda>l. on_left (nl_AddrList nl l)), nl_LinkAdd = (\<lambda>l. on_left (nl_LinkAdd nl l)),
     nl_LinkSetUp = (\<lambda>l. on_left (nl_LinkSetUp nl l)), nl_LinkList = on_left (nl_LinkList nl),
     nl_LinkSetDown = (\<lambda>l. on_left (nl_LinkSetDown nl l)), nl_RouteList = (\<lambda>l. on_left (nl_RouteList nl l)),
     nl_RouteAdd = (\<lambda>r. on_left (nl_RouteAdd nl r)), nl_RouteReplace = (\<lambda>r. on_left (nl_RouteReplace nl r)),
     nl_RouteDel = (\<lambda>r. on_left (nl_RouteDel nl r)), nl_NeighAdd = (\<lambda>x. on_left (nl_NeighAdd nl x)),
     nl_LinkDel = (\<lambda>l. on_left (nl_LinkDel nl l)), nl_RuleAdd = (\<lambda>r. on_left (nl_RuleAdd nl r)),
     nl_RuleDel = (\<lambda>r. on_left (nl_RuleDel nl r)), nl_RuleList = on_left (nl_RuleList nl),
     nl_LinkSetMTU = (\<lambda>l m. on_left (nl_LinkSetMTU nl l m)) \<rparr>"

definition right_iptables :: "'b iptables \<Rightarrow> ('a \<times> 'b) iptables" where
  "right_iptables ipt = \<lparr> ipt_Exists = (\<lambda>t c r. on_right (ipt_Exists ipt t c r)), ipt_Insert = (\<lambda>t c i r. on_right (ipt_Insert ipt t c i r)),
     ipt_Append = (\<lambda>t c r. on_right (ipt_Append ipt t c r)), ipt_Delete = (\<lambda>t c r. on_right (ipt_Delete ipt t c r)),
     ipt_List = (\<lambda>t c. on_right (ipt_List ipt t c)), ipt_NewChain = (\<lambda>t c. on_right (ipt_NewChain ipt t c)),
     ipt_ClearChain = (\<lambda>t c. on_right (ipt_ClearChain ipt t c)), ipt_DeleteChain = (\<lambda>t c. on_right (ipt_DeleteChain ipt t c)),
     ipt_ListChains = (\<lambda>t. on_right (ipt_ListChains ipt t)), ipt_HasRandomFully = (\<lambda>n. ipt_HasRandomFully ipt (snd n)) \<rparr>"

lemma on_right_eq: "on_right op n = (r, n') \<Longrightarrow> op (snd n) = (r, snd n')"
  by (auto simp: on_right_def split: prod.splits)

interpretation fi_node: iptables_chains "right_iptables (fake_ipt ord)" "\<lambda>n. fi_specs (snd n)"
  by unfold_locales
    (auto simp: right_iptables_def dest!: on_right_eq dest: fi.exists fi.append fi.delete fi.new_chain fi.new_chain_err fi.clear_chain)

definition sample_host :: "(fake_netlink \<times> fake_iptables) linux_network" where
  "sample_host = NewFakeNetworkAPI (\<lambda>_. '''') (left_netlink (fake_api \<lparr> order_links = [], order_addrs = [], order_routes = [], order_rules = [] \<rparr>))
     (right_iptables (fake_ipt [])) (\<lambda>mac n. (Ok ''eth0'', n)) (\<lambda>k v n. (Ok (), n))"

definition sample_host_state :: "fake_netlink \<times> fake_iptables" where
  "sample_host_state = (NewFakeNetlink, NewFakeIPTables)"

abbreviation sample_setup :: "fake_netlink \<times> fake_iptables \<Rightarrow> unit go_result \<times> (fake_netlink \<times> fake_iptables)" where
  "sample_setup \<equiv> SetupHostNetwork sample_host (\<lambda>_. '''') [''10.0.0.0/24'', ''10.0.1.0/24''] ''52:54:00:00:00:01'' [10, 0, 0, 2]"

lemma on_left_snd [simp]: "snd (snd (on_left op n)) = snd n"
  by (simp add: on_left_def split: prod.split)

lemma sample_host_serves: "serves sample_host (right_iptables (fake_ipt [])) (\<lambda>n. fi_specs (snd n))"
  by (simp add: serves_def sample_host_def NewFakeNetworkAPI_def left_netlink_def)

lemma sample_host_facts:
  "no_repeats (fi_specs (snd sample_host_state))" "fi_specs (snd sample_host_state) ''nat'' (snat_chain i) = []"
  "\<not> ln_useExternalSNAT sample_host" "marked_intf sample_host mac n = Ok ''eth0''"
  by (auto simp: no_repeats_def sample_host_state_def fi_specs_def fi_rules_def fi_chain_def NewFakeIPTables_def sample_host_def
      NewFakeNetworkAPI_def useExternalSNAT_def getBoolEnvVar_def marked_intf_def nodePortSupportEnabled_def split: option.splits)

lemma sample_runs:
  obtains n1 n2 where "sample_setup sample_host_state = (Ok (), n1)" "sample_setup n1 = (Ok (), n2)"
proof -
  have "fst (sample_setup sample_host_state) = Ok ()" "fst (sample_setup (snd (sample_setup sample_host_state))) = Ok ()"
    by code_simp+
  with that show ?thesis by (metis prod.collapse)
qed

lemma host_rules_in_place_witness:
  "\<exists>n' fully. fst (sample_setup sample_host_state) = Ok () \<and> no_repeats (fi_specs (snd n'))
    \<and> (\<forall>r \<in> set (iptable_rules sample_host fully ''eth0'' [''10.0.0.0/24'', ''10.0.1.0/24''] [10, 0, 0, 2]). in_place (fi_specs (snd n')) r)"
proof -
  obtain n1 n2 where r: "sample_setup sample_host_state = (Ok (), n1)" "sample_setup n1 = (Ok (), n2)" by (rule sample_runs)
  from host_rules_in_place [OF fi_node.iptables_chains_axioms sample_host_serves sample_host_facts(1) r(1)] r(1)
  show ?thesis by (auto simp: sample_host_facts)
qed

lemma host_setup_idempotent_witness:
  "fi_specs (snd (snd (sample_setup (snd (sample_setup sample_host_state))))) = fi_specs (snd (snd (sample_setup sample_host_state)))"
proof -
  obtain n1 n2 where r: "sample_setup sample_host_state = (Ok (), n1)" "sample_setup n1 = (Ok (), n2)" by (rule sample_runs)
  have t: "ln_typeOfSNAT sample_host \<noteq> randomPRNGSNAT"
    by (simp add: sample_host_def NewFakeNetworkAPI_def typeOfSNAT_def)
  have "fi_specs (snd n2) = fi_specs (snd n1)"
    by (rule host_setup_idempotent [OF fi_node.iptables_chains_axioms sample_host_serves sample_host_facts(1) _ r])
      (simp_all add: sample_host_facts t)
  with r show ?thesis by simp
qed


end
