(* ===== verification/Retry.thy ===== *)
theory Retry
  imports Errors GoLib
begin

text \<open>
  \<^verbatim>\<open>pkg/retry/retry.go\<close>: call a function until it succeeds, at most \<open>maxRetries\<close> times, sleeping
  between the calls.  The function and the sleep act on a state: \<open>slp\<close> is what the rest of the
  system does to it while this goroutine sleeps.
\<close>

definition errMaxRetriesReached :: go_error where
  "errMaxRetriesReached = ErrorVar ''exceeded retry limit''"

text \<open>One turn of the loop with the counter at \<open>attempt\<close>.\<close>

function do_loop ::
  "int \<Rightarrow> int \<Rightarrow> ('s \<Rightarrow> 's) \<Rightarrow> ('s \<Rightarrow> unit go_result \<times> 's) \<Rightarrow> 's \<Rightarrow> unit go_result \<times> 's" where
  "do_loop attempt maxRetries slp fn s =
     on_result (fn s)
       (\<lambda>_ s1. (Ok (), s1))
       (\<lambda>e s1. let attempt = attempt + 1
               in if maxRetries < attempt then (Err errMaxRetriesReached, s1)
                  else do_loop attempt maxRetries slp fn (slp s1))"
  by pat_completeness auto
termination by (relation "measure (\<lambda>(attempt, maxRetries, _). nat (maxRetries - attempt))") auto

declare do_loop.simps [simp del]

definition Do ::
  "int \<Rightarrow> (duration \<Rightarrow> 's \<Rightarrow> 's) \<Rightarrow> duration \<Rightarrow> ('s \<Rightarrow> unit go_result \<times> 's) \<Rightarrow> 's \<Rightarrow> unit go_result \<times> 's" where
  "Do maxRetries sleep interval fn s = do_loop 1 maxRetries (sleep interval) fn s"

definition IsMaxRetries :: "go_error \<Rightarrow> bool" where
  "IsMaxRetries err \<longleftrightarrow> err = errMaxRetriesReached"

text \<open>What the function and the sleep preserve holds after the retries.\<close>

lemma Do_invariant:
  assumes "P s" and "\<And>s. P s \<Longrightarrow> P (snd (fn s))" and "\<And>s. P s \<Longrightarrow> P (sleep iv s)"
  shows "P (snd (Do maxRetries sleep iv fn s))"
proof -
  have "P (snd (do_loop attempt maxRetries (sleep iv) fn s))" if "P s" for attempt s
    using that
  proof (induction "nat (maxRetries - attempt)" arbitrary: attempt s rule: less_induct)
    case less
    obtain r s1 where r: "fn s = (r, s1)" by fastforce
    with assms(2) [OF less.prems] have "P s1" by simp
    with less.hyps [of "attempt + 1" "sleep iv s1"] r assms(3) show ?case
      by (subst do_loop.simps, cases r) auto
  qed
  with assms(1) show ?thesis by (simp add: Do_def)
qed

text \<open>A success is that of a call in a state the earlier calls and the sleep have left.\<close>

lemma Do_Ok_from:
  assumes "P s" and "\<And>s. P s \<Longrightarrow> P (snd (fn s))" and "\<And>s. P s \<Longrightarrow> P (sleep iv s)"
    and "Do maxRetries sleep iv fn s = (Ok (), s')"
  obtains t where "P t" "fn t = (Ok (), s')"
proof -
  have "\<exists>t. P t \<and> fn t = (Ok (), s')" if "P s" "do_loop attempt maxRetries (sleep iv) fn s = (Ok (), s')" for attempt s
    using that
  proof (induction "nat (maxRetries - attempt)" arbitrary: attempt s rule: less_induct)
    case less
    obtain r s1 where r: "fn s = (r, s1)" by fastforce
    with assms(2) [OF less.prems(1)] have "P s1" by simp
    with less.hyps [of "attempt + 1" "sleep iv s1"] less.prems r assms(3) show ?case
      by (subst (asm) (2) do_loop.simps, cases r) (auto split: if_splits)
  qed
  with assms(1,4) that show thesis unfolding Do_def by blast
qed

lemma Do_first: "fn s = (Ok (), s') \<Longrightarrow> Do maxRetries sleep iv fn s = (Ok (), s')"
  unfolding Do_def by (subst do_loop.simps) simp

lemma Do_no_panic:
  assumes "\<And>s. fst (fn s) \<noteq> Panic"
  shows "fst (Do maxRetries sleep iv fn s) \<noteq> Panic"
proof -
  have "fst (do_loop attempt maxRetries (sleep iv) fn s) \<noteq> Panic" for attempt s
  proof (induction "nat (maxRetries - attempt)" arbitrary: attempt s rule: less_induct)
    case less
    obtain r s1 where "fn s = (r, s1)" by fastforce
    with less [of "attempt + 1" "sleep iv s1"] assms [of s] show ?case
      by (subst do_loop.simps, cases r) auto
  qed
  then show ?thesis by (simp add: Do_def)
qed

lemma keeps_Do [keeps_intros]:
  "keeps v fn \<Longrightarrow> (\<And>s. v (sleep iv s) = v s) \<Longrightarrow> keeps v (Do maxRetries sleep iv fn)"
  unfolding keeps_def by (intro allI, rule Do_invariant [where P = "\<lambda>s'. v s' = v s" for s]) auto

section \<open>The calls it makes\<close>

text \<open>\<open>calls n\<close>: the state after \<open>n\<close> failed calls and the sleep after each.\<close>

fun calls :: "('s \<Rightarrow> 's) \<Rightarrow> ('s \<Rightarrow> unit go_result \<times> 's) \<Rightarrow> nat \<Rightarrow> 's \<Rightarrow> 's" where
  "calls slp fn 0 s = s"
| "calls slp fn (Suc n) s = calls slp fn n (slp (snd (fn s)))"


text \<open>The call that is not an error ends the loop; without one the last error is replaced.\<close>

lemma do_loop_stops:
  assumes "attempt + int n \<le> max maxRetries attempt"
    and "\<And>i. i < n \<Longrightarrow> is_err (fst (fn (calls slp fn i s)))"
    and "\<not> is_err (fst (fn (calls slp fn n s)))"
  shows "do_loop attempt maxRetries slp fn s = fn (calls slp fn n s)"
  using assms
proof (induction n arbitrary: attempt s)
  case 0
  then show ?case
    by (subst do_loop.simps; cases "fn s"; cases "fst (fn s)") auto
next
  case (Suc n)
  obtain e s1 where e: "fn s = (Err e, s1)"
    using Suc.prems(2) [of 0] by (cases "fn s"; cases "fst (fn s)") auto
  have "do_loop attempt maxRetries slp fn s = do_loop (attempt + 1) maxRetries slp fn (slp s1)"
    by (subst do_loop.simps) (use e Suc.prems(1) in auto)
  also have "\<dots> = fn (calls slp fn n (slp s1))"
    using Suc.prems(1) Suc.prems(2) [of "Suc _"] Suc.prems(3) e by (intro Suc.IH) auto
  finally show ?case using e by simp
qed

lemma do_loop_exhausts:
  assumes "attempt + int n = max maxRetries attempt"
    and "\<And>i. i \<le> n \<Longrightarrow> is_err (fst (fn (calls slp fn i s)))"
  shows "do_loop attempt maxRetries slp fn s = (Err errMaxRetriesReached, snd (fn (calls slp fn n s)))"
  using assms
proof (induction n arbitrary: attempt s)
  case 0
  obtain e s1 where e: "fn s = (Err e, s1)"
    using 0(2) [of 0] by (cases "fn s"; cases "fst (fn s)") auto
  with 0(1) show ?case by (subst do_loop.simps) auto
next
  case (Suc n)
  obtain e s1 where e: "fn s = (Err e, s1)"
    using Suc.prems(2) [of 0] by (cases "fn s"; cases "fst (fn s)") auto
  have "do_loop attempt maxRetries slp fn s = do_loop (attempt + 1) maxRetries slp fn (slp s1)"
    by (subst do_loop.simps) (use e Suc.prems(1) in auto)
  also have "\<dots> = (Err errMaxRetriesReached, snd (fn (calls slp fn n (slp s1))))"
    using Suc.prems(1) Suc.prems(2) [of "Suc _"] e by (intro Suc.IH) auto
  finally show ?case using e by simp
qed

section \<open>Properties\<close>

text \<open>C22: the retry helper returns after at most \<open>maxRetries\<close> calls (one call when the bound is
  not positive): it ends at the first call that succeeds or panics, with that call's result
  and state, and when every call up to the bound fails it gives the retry-limit error in the
  state of the last call, without sleeping once more.\<close>

theorem retry_do_spec:
  "(\<exists>n < nat (max 1 maxRetries).
      (\<forall>i < n. is_err (fst (fn (calls (sleep iv) fn i s)))) \<and> \<not> is_err (fst (fn (calls (sleep iv) fn n s)))
      \<and> Do maxRetries sleep iv fn s = fn (calls (sleep iv) fn n s))
   \<or> (\<forall>i < nat (max 1 maxRetries). is_err (fst (fn (calls (sleep iv) fn i s))))
      \<and> Do maxRetries sleep iv fn s
        = (Err errMaxRetriesReached, snd (fn (calls (sleep iv) fn (nat (max 1 maxRetries) - 1) s)))"
proof (cases "\<exists>n < nat (max 1 maxRetries). \<not> is_err (fst (fn (calls (sleep iv) fn n s)))")
  case True
  define n where "n = (LEAST n. n < nat (max 1 maxRetries) \<and> \<not> is_err (fst (fn (calls (sleep iv) fn n s))))"
  from LeastI_ex [OF True [unfolded Bex_def]] have n: "n < nat (max 1 maxRetries)" "\<not> is_err (fst (fn (calls (sleep iv) fn n s)))"
    by (simp_all add: n_def)
  have before: "is_err (fst (fn (calls (sleep iv) fn i s)))" if "i < n" for i
    using not_less_Least [OF that [unfolded n_def]] less_trans [OF that n(1)] by blast
  have "Do maxRetries sleep iv fn s = fn (calls (sleep iv) fn n s)"
    unfolding Do_def using n(1) before n(2) by (intro do_loop_stops) auto
  with n before show ?thesis by blast
next
  case False
  then have all: "is_err (fst (fn (calls (sleep iv) fn i s)))" if "i < nat (max 1 maxRetries)" for i
    using that by blast
  have "Do maxRetries sleep iv fn s
      = (Err errMaxRetriesReached, snd (fn (calls (sleep iv) fn (nat (max 1 maxRetries) - 1) s)))"
    unfolding Do_def by (rule do_loop_exhausts) (auto intro: all)
  with all show ?thesis by blast
qed

text \<open>A function that fails until its state, advanced by the sleep, reaches three.\<close>

definition sample_fn :: "nat \<Rightarrow> unit go_result \<times> nat" where
  "sample_fn n = (if n < 3 then (Err (ErrorString ''not yet''), n) else (Ok (), n))"

lemma retry_do_spec_witness:
  "Do 5 (\<lambda>_. Suc) second sample_fn 0 = (Ok (), 3)
   \<and> Do 2 (\<lambda>_. Suc) second sample_fn 0 = (Err errMaxRetriesReached, 1)"
proof
  have c: "calls Suc sample_fn k s = s + k" for k s
    by (induction k arbitrary: s) (auto simp: sample_fn_def)
  have e: "is_err (fst (sample_fn n)) \<longleftrightarrow> n < 3" for n by (simp add: sample_fn_def)
  have n3: "n = 3" if "\<forall>i<n. i < 3" "\<not> n < (3 :: nat)" for n
    using that(1) [rule_format, of 3] that(2) by (cases n "3 :: nat" rule: linorder_cases) auto
  show "Do 5 (\<lambda>_. Suc) second sample_fn 0 = (Ok (), 3)"
    using retry_do_spec [where maxRetries = 5 and sleep = "\<lambda>_. Suc" and iv = second and fn = sample_fn and s = 0]
    unfolding c e add_0
  proof
    assume "\<exists>n<nat (max 1 5). (\<forall>i<n. i < 3) \<and> \<not> n < 3 \<and> Do 5 (\<lambda>_. Suc) second sample_fn 0 = sample_fn n"
    then have "Do 5 (\<lambda>_. Suc) second sample_fn 0 = sample_fn 3" using n3 by metis
    then show ?thesis by (simp add: sample_fn_def)
  qed (auto dest: spec [of _ 3])
  show "Do 2 (\<lambda>_. Suc) second sample_fn 0 = (Err errMaxRetriesReached, 1)"
    using retry_do_spec [where maxRetries = 2 and sleep = "\<lambda>_. Suc" and iv = second and fn = sample_fn and s = 0]
    unfolding c e add_0
  proof
    assume "\<exists>n<nat (max 1 2). (\<forall>i<n. i < 3) \<and> \<not> n < 3 \<and> Do 2 (\<lambda>_. Suc) second sample_fn 0 = sample_fn n"
    then show ?thesis by auto
  qed (simp add: sample_fn_def)
qed

end
