(* ===== verification/DataStore.thy ===== *)
theory DataStore
  imports Errors GoLib
begin

text \<open>
  The node's address book, \<^verbatim>\<open>pkg/ipam/datastore/datastore.go\<close>: which NICs are attached, which
  addresses each NIC carries, and which pod holds which address.

  Every exported method of the Go type but \<open>GetStats\<close> and \<open>GetNICNeedsIP\<close> holds the lock from its first
  to its last access, so each is one atomic step here: a function from the store to a result
  and the new store.  Pointers to pools and addresses never leave the maps that own them
  while the lock is held, so an update through a pointer is \<open>gm_adjust\<close> at its key.
  The iteration orders of the range loops are arguments (see \<open>go_range\<close>), and so are the
  clock readings.  The three Prometheus gauges are package variables of the same file; they
  are fields of the state holding the value last given to \<open>Set\<close>.
\<close>

section \<open>Data\<close>

definition minLifeTime :: duration where "minLifeTime = minute"
definition addressNICCoolingPeriod :: duration where "addressNICCoolingPeriod = minute"
definition addressCoolingPeriod :: duration where "addressCoolingPeriod = 30 * second"

definition DuplicatedNICError :: string where "DuplicatedNICError = ''data store: duplicate NIC''"
definition DuplicateIPError :: string where "DuplicateIPError = ''datastore: duplicated IP''"
definition DeviceNumberUnknownError :: string where
  "DeviceNumberUnknownError = ''datastore: unknown device number of nic''"
definition UnknownIPError :: string where "UnknownIPError = ''datastore: unknown IP''"
definition IPInUseError :: string where
  "IPInUseError = ''datastore: IP is used and can not be deleted''"
definition NICInUseError :: string where
  "NICInUseError = ''datastore: NIC is used and can not be deleted''"
definition UnknownNICError :: string where "UnknownNICError = ''datastore: unknown NIC''"

definition ErrUnknownPod :: go_error where "ErrUnknownPod = ErrorVar ''datastore: unknown pod''"
definition ErrUnknownPodIP :: go_error where
  "ErrUnknownPodIP = ErrorVar ''datastore: pod using unknown IP address''"

definition AddIPUnknownNIC :: go_error where
  "AddIPUnknownNIC = ErrorString ''add NIC's IP to datastore: unknown NIC''"
definition MultipleIPError :: go_error where
  "MultipleIPError = ErrorString ''AssignPodIPv4Address: invalid pod with multiple IP addresses''"
definition NoAvailableIPError :: go_error where
  "NoAvailableIPError = ErrorString ''assignPodIPv4AddressUnsafe: no available IP addresses''"

lemmas ds_error_defs =
  DuplicatedNICError_def DuplicateIPError_def DeviceNumberUnknownError_def UnknownIPError_def
  IPInUseError_def NICInUseError_def UnknownNICError_def ErrUnknownPod_def ErrUnknownPodIP_def
  AddIPUnknownNIC_def MultipleIPError_def NoAvailableIPError_def

lemmas ds_period_defs =
  minLifeTime_def addressNICCoolingPeriod_def addressCoolingPeriod_def

text \<open>\<^verbatim>\<open>k8sclient.K8SPodInfo\<close>: what the callers know of a pod; an unknown IP is the empty string.\<close>

record k8s_pod_info =
  pod_Name :: string
  pod_Namespace :: string
  pod_Container :: string
  pod_IP :: string
  pod_UID :: string

record address_info =
  addr_Address :: string
  addr_Assigned :: bool
  addr_UnassignedTime :: time

record nic_ip_pool =
  nic_createTime :: time
  nic_lastUnassignedTime :: time
  nic_IsPrimary :: bool
  nic_ID :: string
  nic_DeviceNumber :: int
  nic_AssignedIPv4Addresses :: int
  nic_IPv4Addresses :: "(string, address_info) gomap"

record pod_key =
  key_name :: string
  key_namespace :: string
  key_container :: string

record pod_ip_info =
  pi_IP :: string
  pi_DeviceNumber :: int

record data_store =
  ds_total :: int
  ds_assigned :: int
  ds_nicIPPools :: "(string, nic_ip_pool) gomap"
  ds_podsIP :: "(pod_key, pod_ip_info) gomap"
  gauge_nics :: int
  gauge_totalIPs :: int
  gauge_assignedIPs :: int

record nic_infos =
  infos_TotalIPs :: int
  infos_AssignedIPs :: int
  infos_NICIPPools :: "(string, nic_ip_pool) gomap"

text \<open>The runtime's choices for the range loops of one call.\<close>

record go_order =
  ord_nics :: "string list"
  ord_ips :: "string \<Rightarrow> string list"

definition pod_key_of :: "k8s_pod_info \<Rightarrow> pod_key" where
  "pod_key_of p = \<lparr> key_name = pod_Name p, key_namespace = pod_Namespace p, key_container = pod_Container p \<rparr>"

definition NewDataStore :: data_store where
  "NewDataStore = \<lparr> ds_total = 0, ds_assigned = 0, ds_nicIPPools = [], ds_podsIP = [],
     gauge_nics = 0, gauge_totalIPs = 0, gauge_assignedIPs = 0 \<rparr>"

section \<open>NICs and addresses\<close>

definition AddNIC :: "string \<Rightarrow> int \<Rightarrow> bool \<Rightarrow> time \<Rightarrow> data_store \<Rightarrow> unit go_result \<times> data_store" where
  "AddNIC nicID deviceNumber isPrimary now ds =
     (if deviceNumber \<le> 0 then (Err (ErrorString DeviceNumberUnknownError), ds)
      else case map_of (ds_nicIPPools ds) nicID of
        Some _ \<Rightarrow> (Err (ErrorString DuplicatedNICError), ds)
      | None \<Rightarrow>
          let pools = gm_put nicID
                \<lparr> nic_createTime = now, nic_lastUnassignedTime = time_zero, nic_IsPrimary = isPrimary,
                  nic_ID = nicID, nic_DeviceNumber = deviceNumber, nic_AssignedIPv4Addresses = 0,
                  nic_IPv4Addresses = [] \<rparr> (ds_nicIPPools ds)
          in (Ok (), ds\<lparr> ds_nicIPPools := pools, gauge_nics := int (length pools) \<rparr>))"

definition AddIPv4AddressFromStore :: "string \<Rightarrow> string \<Rightarrow> data_store \<Rightarrow> unit go_result \<times> data_store" where
  "AddIPv4AddressFromStore nicID ipv4 ds =
     (case map_of (ds_nicIPPools ds) nicID of
        None \<Rightarrow> (Err AddIPUnknownNIC, ds)
      | Some curNIC \<Rightarrow>
          (case map_of (nic_IPv4Addresses curNIC) ipv4 of
             Some _ \<Rightarrow> (Err (ErrorString DuplicateIPError), ds)
           | None \<Rightarrow>
               (Ok (), ds\<lparr> ds_total := ds_total ds + 1,
                           gauge_totalIPs := ds_total ds + 1,
                           ds_nicIPPools := gm_adjust nicID
                             (\<lambda>nic. nic\<lparr> nic_IPv4Addresses := gm_put ipv4
                               \<lparr> addr_Address = ipv4, addr_Assigned = False, addr_UnassignedTime = time_zero \<rparr>
                               (nic_IPv4Addresses nic) \<rparr>)
                             (ds_nicIPPools ds) \<rparr>)))"

definition DelIPv4AddressFromStore :: "string \<Rightarrow> string \<Rightarrow> data_store \<Rightarrow> unit go_result \<times> data_store" where
  "DelIPv4AddressFromStore nicID ipv4 ds =
     (case map_of (ds_nicIPPools ds) nicID of
        None \<Rightarrow> (Err (ErrorString UnknownNICError), ds)
      | Some curNIC \<Rightarrow>
          (case map_of (nic_IPv4Addresses curNIC) ipv4 of
             None \<Rightarrow> (Err (ErrorString UnknownIPError), ds)
           | Some ipAddr \<Rightarrow>
               if addr_Assigned ipAddr then (Err (ErrorString IPInUseError), ds)
               else (Ok (), ds\<lparr> ds_total := ds_total ds - 1,
                                gauge_totalIPs := ds_total ds - 1,
                                ds_nicIPPools := gm_adjust nicID
                                  (\<lambda>nic. nic\<lparr> nic_IPv4Addresses := gm_del ipv4 (nic_IPv4Addresses nic) \<rparr>)
                                  (ds_nicIPPools ds) \<rparr>)))"

section \<open>Assigning an address to a pod\<close>

definition incrementAssignedCount :: "string \<Rightarrow> string \<Rightarrow> data_store \<Rightarrow> data_store" where
  "incrementAssignedCount nk ak ds =
     ds\<lparr> ds_assigned := ds_assigned ds + 1,
         ds_nicIPPools := gm_adjust nk
           (\<lambda>nic. nic\<lparr> nic_AssignedIPv4Addresses := nic_AssignedIPv4Addresses nic + 1,
                       nic_IPv4Addresses := gm_adjust ak (\<lambda>a. a\<lparr> addr_Assigned := True \<rparr>) (nic_IPv4Addresses nic) \<rparr>)
           (ds_nicIPPools ds),
         gauge_assignedIPs := ds_assigned ds + 1 \<rparr>"

definition record_pod_ip :: "k8s_pod_info \<Rightarrow> string \<Rightarrow> int \<Rightarrow> data_store \<Rightarrow> data_store" where
  "record_pod_ip pod ip dev ds =
     ds\<lparr> ds_podsIP := gm_put (pod_key_of pod) \<lparr> pi_IP = ip, pi_DeviceNumber = dev \<rparr> (ds_podsIP ds) \<rparr>"

text \<open>The inner loop over one NIC's addresses; \<open>None\<close>: no address of this NIC was taken.\<close>

fun assign_addr_loop ::
  "k8s_pod_info \<Rightarrow> time \<Rightarrow> string \<Rightarrow> nic_ip_pool \<Rightarrow> (string \<times> address_info) list \<Rightarrow> data_store
   \<Rightarrow> ((string \<times> int) \<times> data_store) option" where
  "assign_addr_loop pod now nk nic [] ds = None"
| "assign_addr_loop pod now nk nic ((ak, addr) # addrs) ds =
     (if pod_IP pod = addr_Address addr then
        let ds1 = (if \<not> addr_Assigned addr then incrementAssignedCount nk ak ds else ds)
        in Some ((addr_Address addr, nic_DeviceNumber nic),
                 record_pod_ip pod (addr_Address addr) (nic_DeviceNumber nic) ds1)
      else if \<not> addr_Assigned addr \<and> pod_IP pod = ''''
              \<and> addressCoolingPeriod < time_sub now (addr_UnassignedTime addr) then
        let ds1 = incrementAssignedCount nk ak ds
        in Some ((addr_Address addr, nic_DeviceNumber nic),
                 record_pod_ip pod (addr_Address addr) (nic_DeviceNumber nic) ds1)
      else assign_addr_loop pod now nk nic addrs ds)"

fun assign_nic_loop ::
  "k8s_pod_info \<Rightarrow> time \<Rightarrow> (string \<Rightarrow> string list) \<Rightarrow> (string \<times> nic_ip_pool) list \<Rightarrow> data_store
   \<Rightarrow> (string \<times> int) go_result \<times> data_store" where
  "assign_nic_loop pod now ips [] ds = (Err NoAvailableIPError, ds)"
| "assign_nic_loop pod now ips ((nk, nic) # nics) ds =
     (if pod_IP pod = '''' \<and> int (length (nic_IPv4Addresses nic)) = nic_AssignedIPv4Addresses nic
      then assign_nic_loop pod now ips nics ds
      else (case assign_addr_loop pod now nk nic (go_range (ips nk) (nic_IPv4Addresses nic)) ds of
              Some (r, ds') \<Rightarrow> (Ok r, ds')
            | None \<Rightarrow> assign_nic_loop pod now ips nics ds))"

definition assignPodIPv4AddressUnsafe ::
  "go_order \<Rightarrow> time \<Rightarrow> k8s_pod_info \<Rightarrow> data_store \<Rightarrow> (string \<times> int) go_result \<times> data_store" where
  "assignPodIPv4AddressUnsafe ord now pod ds =
     assign_nic_loop pod now (ord_ips ord) (go_range (ord_nics ord) (ds_nicIPPools ds)) ds"

definition AssignPodIPv4Address ::
  "go_order \<Rightarrow> time \<Rightarrow> k8s_pod_info \<Rightarrow> data_store \<Rightarrow> (string \<times> int) go_result \<times> data_store" where
  "AssignPodIPv4Address ord now pod ds =
     (case map_of (ds_podsIP ds) (pod_key_of pod) of
        Some ipAddr \<Rightarrow>
          if pi_IP ipAddr = pod_IP pod \<and> pod_IP pod \<noteq> ''''
          then (Ok (pi_IP ipAddr, pi_DeviceNumber ipAddr), ds)
          else (Err MultipleIPError, ds)
      | None \<Rightarrow> assignPodIPv4AddressUnsafe ord now pod ds)"

section \<open>Taking an address back\<close>

fun unassign_loop ::
  "pod_key \<Rightarrow> string \<Rightarrow> time \<Rightarrow> (string \<times> nic_ip_pool) list \<Rightarrow> data_store
   \<Rightarrow> (string \<times> int) go_result \<times> data_store" where
  "unassign_loop podKey pip now [] ds = (Err ErrUnknownPodIP, ds)"
| "unassign_loop podKey pip now ((nk, nic) # nics) ds =
     (case map_of (nic_IPv4Addresses nic) pip of
        Some ip \<Rightarrow>
          if addr_Assigned ip then
            (Ok (addr_Address ip, nic_DeviceNumber nic),
             ds\<lparr> ds_assigned := ds_assigned ds - 1,
                 gauge_assignedIPs := ds_assigned ds - 1,
                 ds_nicIPPools := gm_adjust nk
                   (\<lambda>n. n\<lparr> nic_AssignedIPv4Addresses := nic_AssignedIPv4Addresses n - 1,
                           nic_lastUnassignedTime := now,
                           nic_IPv4Addresses := gm_adjust pip
                             (\<lambda>a. a\<lparr> addr_Assigned := False, addr_UnassignedTime := now \<rparr>) (nic_IPv4Addresses n) \<rparr>)
                   (ds_nicIPPools ds),
                 ds_podsIP := gm_del podKey (ds_podsIP ds) \<rparr>)
          else unassign_loop podKey pip now nics ds
      | None \<Rightarrow> unassign_loop podKey pip now nics ds)"

definition UnassignPodIPv4Address ::
  "go_order \<Rightarrow> time \<Rightarrow> k8s_pod_info \<Rightarrow> data_store \<Rightarrow> (string \<times> int) go_result \<times> data_store" where
  "UnassignPodIPv4Address ord now pod ds =
     (case map_of (ds_podsIP ds) (pod_key_of pod) of
        None \<Rightarrow> (Err ErrUnknownPod, ds)
      | Some ipAddr \<Rightarrow>
          unassign_loop (pod_key_of pod) (pi_IP ipAddr) now (go_range (ord_nics ord) (ds_nicIPPools ds)) ds)"

section \<open>Removing NICs\<close>

text \<open>
  \<open>clk nk\<close> holds the two readings of the clock that the loop makes in the turn of NIC
  \<open>nk\<close> (the second is used only when the first test passes).
\<close>

fun deletable_nic_loop ::
  "(string \<Rightarrow> time \<times> time) \<Rightarrow> (string \<times> nic_ip_pool) list \<Rightarrow> nic_ip_pool option" where
  "deletable_nic_loop clk [] = None"
| "deletable_nic_loop clk ((nk, nic) # nics) =
     (if nic_IsPrimary nic then deletable_nic_loop clk nics
      else if time_sub (fst (clk nk)) (nic_createTime nic) < minLifeTime then deletable_nic_loop clk nics
      else if time_sub (snd (clk nk)) (nic_lastUnassignedTime nic) < addressNICCoolingPeriod
        then deletable_nic_loop clk nics
      else if nic_AssignedIPv4Addresses nic \<noteq> 0 then deletable_nic_loop clk nics
      else Some nic)"

definition getDeletableNIC :: "go_order \<Rightarrow> (string \<Rightarrow> time \<times> time) \<Rightarrow> data_store \<Rightarrow> nic_ip_pool option" where
  "getDeletableNIC ord clk ds = deletable_nic_loop clk (go_range (ord_nics ord) (ds_nicIPPools ds))"

fun nic_needs_ip_loop :: "int \<Rightarrow> bool \<Rightarrow> (string \<times> nic_ip_pool) list \<Rightarrow> nic_ip_pool option" where
  "nic_needs_ip_loop maxIPperNIC skipPrimary [] = None"
| "nic_needs_ip_loop maxIPperNIC skipPrimary ((nk, nic) # nics) =
     (if skipPrimary \<and> nic_IsPrimary nic then nic_needs_ip_loop maxIPperNIC skipPrimary nics
      else if int (length (nic_IPv4Addresses nic)) < maxIPperNIC then Some nic
      else nic_needs_ip_loop maxIPperNIC skipPrimary nics)"

definition GetNICNeedsIP :: "go_order \<Rightarrow> int \<Rightarrow> bool \<Rightarrow> data_store \<Rightarrow> nic_ip_pool option" where
  "GetNICNeedsIP ord maxIPperNIC skipPrimary ds =
     nic_needs_ip_loop maxIPperNIC skipPrimary (go_range (ord_nics ord) (ds_nicIPPools ds))"

text \<open>
  The pool is looked up again by the ID of the pool found; an ID that is no key would be a
  nil dereference.  The empty string is the result when no NIC can be removed.
\<close>

definition RemoveUnusedNICFromStore ::
  "go_order \<Rightarrow> (string \<Rightarrow> time \<times> time) \<Rightarrow> data_store \<Rightarrow> string go_result \<times> data_store" where
  "RemoveUnusedNICFromStore ord clk ds =
     (case getDeletableNIC ord clk ds of
        None \<Rightarrow> (Ok '''', ds)
      | Some deletableNIC \<Rightarrow>
          let removableNIC = nic_ID deletableNIC in
          (case map_of (ds_nicIPPools ds) removableNIC of
             None \<Rightarrow> (Panic, ds)
           | Some nic \<Rightarrow>
               let nicIPCount = int (length (nic_IPv4Addresses nic));
                   pools = gm_del removableNIC (ds_nicIPPools ds)
               in (Ok removableNIC,
                   ds\<lparr> ds_total := ds_total ds - nicIPCount,
                       ds_nicIPPools := pools,
                       gauge_nics := int (length pools),
                       gauge_totalIPs := ds_total ds - nicIPCount \<rparr>)))"

definition RemoveNICFromDataStore :: "string \<Rightarrow> data_store \<Rightarrow> unit go_result \<times> data_store" where
  "RemoveNICFromDataStore nic ds =
     (case map_of (ds_nicIPPools ds) nic of
        None \<Rightarrow> (Err (ErrorString UnknownNICError), ds)
      | Some nicIPPool \<Rightarrow>
          if nic_AssignedIPv4Addresses nicIPPool \<noteq> 0 then (Err (ErrorString NICInUseError), ds)
          else
            let pools = gm_del nic (ds_nicIPPools ds)
            in (Ok (), ds\<lparr> ds_total := ds_total ds - int (length (nic_IPv4Addresses nicIPPool)),
                           ds_nicIPPools := pools,
                           gauge_nics := int (length pools) \<rparr>))"

section \<open>Queries\<close>

definition GetStats :: "data_store \<Rightarrow> int \<times> int" where
  "GetStats ds = (ds_total ds, ds_assigned ds)"

definition pod_info_key :: "pod_key \<Rightarrow> string" where
  "pod_info_key k = key_name k @ ''_'' @ key_namespace k @ ''_'' @ key_container k"

fun pod_infos_loop ::
  "(pod_key \<times> pod_ip_info) list \<Rightarrow> (string, pod_ip_info) gomap \<Rightarrow> (string, pod_ip_info) gomap" where
  "pod_infos_loop [] podInfos = podInfos"
| "pod_infos_loop ((podKey, podInfo) # es) podInfos =
     pod_infos_loop es (gm_put (pod_info_key podKey) podInfo podInfos)"

definition GetPodInfos :: "pod_key list \<Rightarrow> data_store \<Rightarrow> (string, pod_ip_info) gomap" where
  "GetPodInfos ord ds = pod_infos_loop (go_range ord (ds_podsIP ds)) []"

text \<open>
  The copies share the address maps of the store; a reader sees them as they are at the
  moment of the call as long as no other step runs.
\<close>

fun nic_infos_loop ::
  "(string \<times> nic_ip_pool) list \<Rightarrow> (string, nic_ip_pool) gomap \<Rightarrow> (string, nic_ip_pool) gomap" where
  "nic_infos_loop [] m = m"
| "nic_infos_loop ((nic, nicInfo) # es) m = nic_infos_loop es (gm_put nic nicInfo m)"

definition GetNICInfos :: "string list \<Rightarrow> data_store \<Rightarrow> nic_infos" where
  "GetNICInfos ord ds =
     \<lparr> infos_TotalIPs = ds_total ds, infos_AssignedIPs = ds_assigned ds,
       infos_NICIPPools = nic_infos_loop (go_range ord (ds_nicIPPools ds)) [] \<rparr>"

definition GetNICs :: "data_store \<Rightarrow> int" where
  "GetNICs ds = int (length (ds_nicIPPools ds))"

fun ip_pool_loop ::
  "(string \<times> address_info) list \<Rightarrow> (string, address_info) gomap \<Rightarrow> (string, address_info) gomap" where
  "ip_pool_loop [] m = m"
| "ip_pool_loop ((ip, ipAddr) # es) m = ip_pool_loop es (gm_put ip ipAddr m)"

definition GetNICIPPools ::
  "string list \<Rightarrow> string \<Rightarrow> data_store \<Rightarrow> (string, address_info) gomap go_result" where
  "GetNICIPPools ord nic ds =
     (case map_of (ds_nicIPPools ds) nic of
        None \<Rightarrow> Err (ErrorString UnknownNICError)
      | Some nicIPPool \<Rightarrow> Ok (ip_pool_loop (go_range ord (nic_IPv4Addresses nicIPPool)) []))"

end
