(* ===== verification/IpamdState.thy ===== *)
theory IpamdState
  imports Types Retry DataStore
begin

text \<open>
  The state of the daemon (\<^verbatim>\<open>type IpamD struct\<close> of \<^verbatim>\<open>pkg/ipam/ipam.go\<close>) and the interfaces it
  calls: the cloud (\<^verbatim>\<open>qcclient.QingCloudAPI\<close>), the API server (\<^verbatim>\<open>k8sclient.K8sHelper\<close>) and the
  node's network (\<^verbatim>\<open>networkutils.NetworkAPIs\<close>).  An interface is a record of functions on the
  world \<open>mem \<times> 'w\<close>: the byte arrays, where the networks a call returns are allocated, and
  everything outside the daemon.
\<close>

type_synonym ('w, 'a) ext_call = "mem \<times> 'w \<Rightarrow> 'a go_result \<times> (mem \<times> 'w)"

text \<open>The calls of the cloud interface that the daemon makes.  \<open>GetVxNet\<close> and
  \<open>GetPrimaryNIC\<close> may return a nil pointer without an error.\<close>

record 'w cloud_api =
  api_CreateNic :: "string \<Rightarrow> ('w, host_nic) ext_call"
  api_DeleteNic :: "string \<Rightarrow> ('w, unit) ext_call"
  api_GetPrimaryNIC :: "('w, host_nic option) ext_call"
  api_GetVxNet :: "string \<Rightarrow> ('w, vxnet option) ext_call"
  api_GetVxNetByName :: "string \<Rightarrow> ('w, vxnet) ext_call"
  api_CreateVxNet :: "string \<Rightarrow> ('w, vxnet) ext_call"
  api_GetAttachedNICs :: "string \<Rightarrow> ('w, host_nic list) ext_call"
  api_GetNodeVPC :: "('w, vpc) ext_call"
  api_GetVPCVxNets :: "string \<Rightarrow> ('w, vxnet list) ext_call"
  api_JoinVPC :: "string \<Rightarrow> string \<Rightarrow> string \<Rightarrow> ('w, unit) ext_call"
  api_LeaveVPC :: "string \<Rightarrow> string \<Rightarrow> ('w, unit) ext_call"
  api_GetInstanceID :: "string"

record k8s_node =
  node_Name :: string
  node_Annotations :: "(string, string) gomap"

record 'w k8s_api =
  k8s_Start :: "('w, unit) ext_call"
  k8s_GetCurrentNode :: "('w, k8s_node) ext_call"
  k8s_UpdateNodeAnnotation :: "string \<Rightarrow> string \<Rightarrow> ('w, unit) ext_call"
  k8s_GetCurrentNodePods :: "('w, k8s_pod_info list) ext_call"

text \<open>A rule is \<open>'r\<close> here: the daemon only hands the list of rules on.\<close>

record ('w, 'r) network_api =
  net_SetupHostNetwork :: "net_ref option \<Rightarrow> string list \<Rightarrow> string \<Rightarrow> byte list \<Rightarrow> ('w, unit) ext_call"
  net_SetupNICNetwork :: "string \<Rightarrow> string \<Rightarrow> int \<Rightarrow> string \<Rightarrow> ('w, unit) ext_call"
  net_UseExternalSNAT :: bool
  net_GetRuleList :: "('w, 'r list) ext_call"
  net_UpdateRuleListBySrc :: "'r list \<Rightarrow> ip_net \<Rightarrow> string list \<Rightarrow> bool \<Rightarrow> int \<Rightarrow> ('w, unit) ext_call"

section \<open>State\<close>

definition defaultPoolSize :: int where "defaultPoolSize = 3"
definition defaultMaxPoolSize :: int where "defaultMaxPoolSize = 10"
definition defaultClusterName :: string where "defaultClusterName = ''kubernetes''"
definition defaultVethPrefix :: string where "defaultVethPrefix = ''nic''"

record 'w ipamd =
  dataStore :: data_store
  InstanceID :: string
  NodeName :: string
  primaryNic :: "host_nic option"
  own_vxnet :: "vxnet option"
  own_vpc :: "vpc option"
  extraTags :: "string list"
  clusterName :: string
  disableLabel :: bool
  poolSize :: int
  maxPoolSize :: int
  supportVPNTraffic :: bool
  vethPrefix :: string
  ip_mem :: mem
  ip_ext :: 'w

definition NewIpamD :: "mem \<Rightarrow> 'w \<Rightarrow> 'w ipamd" where
  "NewIpamD m w = \<lparr> dataStore = NewDataStore, InstanceID = '''', NodeName = '''', primaryNic = None,
     own_vxnet = None, own_vpc = None, extraTags = [], clusterName = '''', disableLabel = False,
     poolSize = defaultPoolSize, maxPoolSize = defaultMaxPoolSize, supportVPNTraffic = False,
     vethPrefix = '''', ip_mem = m, ip_ext = w \<rparr>"

text \<open>A call of an interface, and a call of the data store, from the daemon's state.\<close>

definition ext :: "('w, 'a) ext_call \<Rightarrow> 'w ipamd \<Rightarrow> 'a go_result \<times> 'w ipamd" where
  "ext op s = (case op (ip_mem s, ip_ext s) of (r, m, w) \<Rightarrow> (r, s\<lparr> ip_mem := m, ip_ext := w \<rparr>))"

definition store :: "(data_store \<Rightarrow> 'a go_result \<times> data_store) \<Rightarrow> 'w ipamd \<Rightarrow> 'a go_result \<times> 'w ipamd" where
  "store op s = (case op (dataStore s) of (r, ds) \<Rightarrow> (r, s\<lparr> dataStore := ds \<rparr>))"

lemma ext_fields [simp]:
  "dataStore (snd (ext op s)) = dataStore s" "own_vpc (snd (ext op s)) = own_vpc s"
  "own_vxnet (snd (ext op s)) = own_vxnet s" "NodeName (snd (ext op s)) = NodeName s"
  "primaryNic (snd (ext op s)) = primaryNic s" "poolSize (snd (ext op s)) = poolSize s"
  "maxPoolSize (snd (ext op s)) = maxPoolSize s" "supportVPNTraffic (snd (ext op s)) = supportVPNTraffic s"
  by (simp_all add: ext_def split: prod.splits)

lemma store_fields [simp]:
  "dataStore (snd (store op s)) = snd (op (dataStore s))" "fst (store op s) = fst (op (dataStore s))"
  "own_vpc (snd (store op s)) = own_vpc s" "own_vxnet (snd (store op s)) = own_vxnet s"
  "ip_mem (snd (store op s)) = ip_mem s" "ip_ext (snd (store op s)) = ip_ext s"
  "poolSize (snd (store op s)) = poolSize s" "maxPoolSize (snd (store op s)) = maxPoolSize s"
  "supportVPNTraffic (snd (store op s)) = supportVPNTraffic s"
  by (simp_all add: store_def split: prod.splits)

section \<open>Subnets and settings\<close>

text \<open>\<open>None\<close>: a vxnet without a network, on which \<open>String\<close> panics.\<close>

fun subnets_loop :: "mem \<Rightarrow> vxnet list \<Rightarrow> string list option" where
  "subnets_loop m [] = Some []"
| "subnets_loop m (v # vs) =
     (case net_text m (vx_Network v) of
        None \<Rightarrow> None
      | Some str \<Rightarrow> map_option (Cons str) (subnets_loop m vs))"

definition vpcSubnets :: "'w ipamd \<Rightarrow> string list option" where
  "vpcSubnets s = Option.bind (own_vpc s) (\<lambda>v. subnets_loop (ip_mem s) (vpc_VxNets v))"

lemma subnets_loop_map:
  "subnets_loop m vs = (if list_all (\<lambda>v. vx_Network v \<noteq> None) vs
     then Some (List.map (\<lambda>v. the (net_text m (vx_Network v))) vs) else None)"
  by (induction vs) (auto simp: net_text_def split: option.splits)

fun split_on :: "char \<Rightarrow> string \<Rightarrow> string \<Rightarrow> string list" where
  "split_on sep cur [] = [cur]"
| "split_on sep cur (c # cs) = (if c = sep then cur # split_on sep [] cs else split_on sep (cur @ [c]) cs)"

text \<open>\<open>getenv\<close> is the environment of the process; an unset variable reads as empty.\<close>

definition parseEnv :: "(string \<Rightarrow> string) \<Rightarrow> 'w ipamd \<Rightarrow> 'w ipamd" where
  "parseEnv getenv s =
     (let t = getenv ''HOSTNIC_EXTRA_TAGS'';
          s1 = (if t \<noteq> '''' then s\<lparr> extraTags := split_on CHR '','' [] t \<rparr> else s);
          s2 = s1\<lparr> clusterName := getenv ''HOSTNIC_CLUSTER_NAME'' \<rparr>;
          s3 = (if clusterName s2 = '''' then s2\<lparr> clusterName := defaultClusterName \<rparr> else s2);
          s4 = s3\<lparr> vethPrefix := getenv ''HOSTNIC_VETH_PREFIX'' \<rparr>
      in if vethPrefix s4 = '''' then s4\<lparr> vethPrefix := defaultVethPrefix \<rparr> else s4)"

end
