(* ===== verification/Vxnet.thy ===== *)
theory Vxnet
  imports IpamdState
begin

text \<open>
  \<^verbatim>\<open>pkg/ipam/vxnet.go\<close>: find or create the node's vxnet and join it to the VPC on a free subnet.

  \<open>chooseIPFromVxnet\<close> receives a copy of the VPC's network, but a copy of the struct shares the
  bytes of address and mask: writing the candidate's bytes writes the VPC's network, and the
  network it returns shares them.  The model keeps that sharing (see Types).
\<close>

definition NodeAnnotationVxNet :: string where
  "NodeAnnotationVxNet = ''node.beta.kubernetes.io/vxnet''"

definition NameForVxnet :: "string \<Rightarrow> string" where
  "NameForVxnet node = ''HOSTNIC_'' @ node @ ''_vxnet''"

section \<open>Choosing a subnet\<close>

text \<open>The indices still to try; the result is \<open>None\<close> for a panic.\<close>

fun choose_loop :: "net_ref \<Rightarrow> string list \<Rightarrow> nat list \<Rightarrow> mem \<Rightarrow> (net_ref option \<times> mem) option" where
  "choose_loop r maps [] m = Some (None, m)"
| "choose_loop r maps (index # is) m =
     (case store_byte m (ref_IP r) 2 (of_nat index) of
        None \<Rightarrow> None
      | Some m1 \<Rightarrow>
          (case store_byte m1 (ref_Mask r) 2 255 of
             None \<Rightarrow> None
           | Some m2 \<Rightarrow>
               if ipnet_string (net_at m2 r) \<notin> set maps then Some (Some r, m2)
               else choose_loop r maps is m2))"

definition chooseIPFromVxnet :: "net_ref \<Rightarrow> vxnet list \<Rightarrow> mem \<Rightarrow> (net_ref option \<times> mem) option" where
  "chooseIPFromVxnet ipnet vxnets m =
     (case subnets_loop m vxnets of
        None \<Rightarrow> None
      | Some maps \<Rightarrow> choose_loop ipnet maps [1..<253] m)"

section \<open>Joining the VPC\<close>

text \<open>
  The vxnet is written through its pointer, so it is part of the state: \<open>(vxnet, daemon)\<close>.
  When every subnet is taken the function returns the nil error of its first call.
\<close>

definition with_vxnet :: "vxnet \<Rightarrow> 'a go_result \<times> 'w ipamd \<Rightarrow> 'a go_result \<times> (vxnet \<times> 'w ipamd)" where
  "with_vxnet v r = (fst r, (v, snd r))"

definition append_vxnet :: "vpc \<Rightarrow> vxnet \<times> 'w ipamd \<Rightarrow> unit go_result \<times> (vxnet \<times> 'w ipamd)" where
  "append_vxnet vp vs = (Ok (), (fst vs, (snd vs)\<lparr> own_vpc := Some (vp\<lparr> vpc_VxNets := vpc_VxNets vp @ [fst vs] \<rparr>) \<rparr>))"

definition joinVPC :: "'w cloud_api \<Rightarrow> vxnet \<times> 'w ipamd \<Rightarrow> unit go_result \<times> (vxnet \<times> 'w ipamd)" where
  "joinVPC api vs =
     (case own_vpc (snd vs) of
        None \<Rightarrow> (Panic, vs)
      | Some vp \<Rightarrow>
          check (with_vxnet (fst vs) (ext (api_GetVPCVxNets api (vpc_ID vp)) (snd vs))) (\<lambda>vxnets (v, s).
            case vpc_Network vp of
              None \<Rightarrow> (Panic, (v, s))
            | Some net \<Rightarrow>
                (case chooseIPFromVxnet net vxnets (ip_mem s) of
                   None \<Rightarrow> (Panic, (v, s))
                 | Some (None, m) \<Rightarrow> append_vxnet vp (v, s\<lparr> ip_mem := m \<rparr>)
                 | Some (Some ip, m) \<Rightarrow>
                     (let v1 = v\<lparr> vx_Network := Some ip \<rparr>
                      in check (with_vxnet v1 (ext (api_JoinVPC api (ipnet_string (net_at m ip)) (vx_ID v1) (vpc_ID vp))
                                 (s\<lparr> ip_mem := m \<rparr>)))
                           (\<lambda>_. append_vxnet vp)))))"

definition createNewVxnet :: "'w cloud_api \<Rightarrow> (duration \<Rightarrow> 'w ipamd \<Rightarrow> 'w ipamd) \<Rightarrow> 'w ipamd \<Rightarrow> vxnet go_result \<times> 'w ipamd" where
  "createNewVxnet api sleep s =
     check (ext (api_CreateVxNet api (NameForVxnet (NodeName s))) s) (\<lambda>vxnet s1.
       case Do 5 (\<lambda>d. apsnd (sleep d)) (5 * second) (joinVPC api) (vxnet, s1) of
         (r, (v, s2)) \<Rightarrow> check (r, s2) (\<lambda>_ s3. (Ok v, s3)))"

section \<open>The node's vxnet\<close>

definition EnsureVxNet ::
  "'w cloud_api \<Rightarrow> 'w k8s_api \<Rightarrow> (duration \<Rightarrow> 'w ipamd \<Rightarrow> 'w ipamd) \<Rightarrow> 'w ipamd \<Rightarrow> unit go_result \<times> 'w ipamd" where
  "EnsureVxNet api k8s sleep s =
     check (ext (k8s_GetCurrentNode k8s) s) (\<lambda>node s1.
       let s2 = s1\<lparr> NodeName := node_Name node \<rparr>
       in case map_of (node_Annotations node) NodeAnnotationVxNet of
            Some vxnet \<Rightarrow> check (ext (api_GetVxNet api vxnet) s2) (\<lambda>v s3. (Ok (), s3\<lparr> own_vxnet := v \<rparr>))
          | None \<Rightarrow>
              on_result (ext (api_GetVxNetByName api (NameForVxnet (NodeName s2))) s2)
                (\<lambda>exsitVxnet s3.
                   if vx_RouterID exsitVxnet = '''' then
                     (case joinVPC api (exsitVxnet, s3) of
                        (r, (v, s4)) \<Rightarrow> check (r, s4) (\<lambda>_ s5. (Ok (), s5\<lparr> own_vxnet := Some v \<rparr>)))
                   else (Ok (), s3\<lparr> own_vxnet := Some exsitVxnet \<rparr>))
                (\<lambda>err s3.
                   if \<not> IsResourceNotFound err then (Err err, s3)
                   else
                     check (createNewVxnet api sleep s3) (\<lambda>vxnet s4.
                       let s5 = s4\<lparr> own_vxnet := Some vxnet \<rparr>
                       in on_result (ext (k8s_UpdateNodeAnnotation k8s NodeAnnotationVxNet (vx_ID vxnet)) s5)
                            (\<lambda>_ s6. (Ok (), s6))
                            (\<lambda>err s6.
                               case own_vpc s6 of
                                 None \<Rightarrow> (Panic, s6)
                               | Some vp \<Rightarrow>
                                   on_result (ext (api_LeaveVPC api (vx_ID vxnet) (vpc_ID vp)) s6)
                                     (\<lambda>_ s7. (Err err, s7)) (\<lambda>_ s7. (Err err, s7))))))"

section \<open>What the choice finds\<close>

text \<open>The network the loop tries at an index, and when the loop can run at all.\<close>

definition candidate :: "mem \<Rightarrow> net_ref \<Rightarrow> nat \<Rightarrow> ip_net" where
  "candidate m r index = \<lparr> net_IP = (mem_bytes m (ref_IP r))[2 := of_nat index], net_Mask = (mem_bytes m (ref_Mask r))[2 := 255] \<rparr>"

definition choosable :: "mem \<Rightarrow> net_ref \<Rightarrow> bool" where
  "choosable m r \<longleftrightarrow> ref_IP r \<noteq> ref_Mask r \<and> 2 < length (mem_bytes m (ref_IP r)) \<and> 2 < length (mem_bytes m (ref_Mask r))"

text \<open>The memory differs at most in the two bytes of the network.\<close>

definition only_net_changed :: "mem \<Rightarrow> net_ref \<Rightarrow> mem \<Rightarrow> bool" where
  "only_net_changed m r m' \<longleftrightarrow> length m' = length m
     \<and> (\<forall>j. j \<noteq> ref_IP r \<and> j \<noteq> ref_Mask r \<longrightarrow> mem_bytes m' j = mem_bytes m j)"

lemma choose_step:
  assumes "choosable m r"
  obtains m1 m2 where "store_byte m (ref_IP r) 2 (of_nat i) = Some m1" "store_byte m1 (ref_Mask r) 2 255 = Some m2"
    "net_at m2 r = candidate m r i" "choosable m2 r" "\<And>k. candidate m2 r k = candidate m r k" "only_net_changed m r m2"
proof -
  from assms obtain m1 where m1: "store_byte m (ref_IP r) 2 (of_nat i) = Some m1" "length m1 = length m"
    "\<And>j. mem_bytes m1 j = (if j = ref_IP r then (mem_bytes m (ref_IP r))[2 := of_nat i] else mem_bytes m j)"
    by (auto simp: choosable_def elim: store_byte_Some [of 2 m "ref_IP r" "of_nat i"])
  with assms have "2 < length (mem_bytes m1 (ref_Mask r))" by (simp add: choosable_def)
  then obtain m2 where m2: "store_byte m1 (ref_Mask r) 2 255 = Some m2" "length m2 = length m1"
    "\<And>j. mem_bytes m2 j = (if j = ref_Mask r then (mem_bytes m1 (ref_Mask r))[2 := 255] else mem_bytes m1 j)"
    by (auto elim: store_byte_Some [of 2 m1 "ref_Mask r" 255])
  show ?thesis
    by (rule that [OF m1(1) m2(1)])
      (use assms in \<open>auto simp: m1 m2 net_at_def candidate_def choosable_def only_net_changed_def\<close>)
qed

lemma choose_loop_found:
  assumes "choosable m r" and "ipnet_string (candidate m r i) \<notin> set maps"
    and "\<And>j. j \<in> set is \<Longrightarrow> ipnet_string (candidate m r j) \<in> set maps"
  shows "\<exists>m'. choose_loop r maps (is @ i # is') m = Some (Some r, m') \<and> net_at m' r = candidate m r i \<and> only_net_changed m r m'"
  using assms
proof (induction "is" arbitrary: m)
  case Nil
  from Nil(1) show ?case
    by (rule choose_step [of m r i]) (use Nil(2) in auto)
next
  case (Cons k "is")
  obtain m1 m2 where m: "store_byte m (ref_IP r) 2 (of_nat k) = Some m1" "store_byte m1 (ref_Mask r) 2 255 = Some m2"
    and n: "net_at m2 r = candidate m r k" and c: "choosable m2 r" "\<And>k. candidate m2 r k = candidate m r k"
    and o: "only_net_changed m r m2"
    using choose_step [OF Cons.prems(1), of k] by metis
  have "\<exists>m'. choose_loop r maps (is @ i # is') m2 = Some (Some r, m') \<and> net_at m' r = candidate m2 r i \<and> only_net_changed m2 r m'"
    by (rule Cons.IH [OF c(1)]) (use Cons.prems c(2) in auto)
  with m n c(2) o Cons.prems(3) [of k] show ?case by (auto simp: only_net_changed_def)
qed

lemma choose_loop_none:
  assumes "choosable m r" and "\<And>j. j \<in> set is \<Longrightarrow> ipnet_string (candidate m r j) \<in> set maps"
  shows "\<exists>m'. choose_loop r maps is m = Some (None, m') \<and> only_net_changed m r m'
    \<and> (is \<noteq> [] \<longrightarrow> net_at m' r = candidate m r (last is))"
  using assms
proof (induction "is" arbitrary: m)
  case Nil
  then show ?case by (simp add: only_net_changed_def)
next
  case (Cons k "is")
  obtain m1 m2 where m: "store_byte m (ref_IP r) 2 (of_nat k) = Some m1" "store_byte m1 (ref_Mask r) 2 255 = Some m2"
    and n: "net_at m2 r = candidate m r k" and c: "choosable m2 r" "\<And>k. candidate m2 r k = candidate m r k"
    and o: "only_net_changed m r m2"
    using choose_step [OF Cons.prems(1), of k] by metis
  have "\<exists>m'. choose_loop r maps is m2 = Some (None, m') \<and> only_net_changed m2 r m'
      \<and> (is \<noteq> [] \<longrightarrow> net_at m' r = candidate m2 r (last is))"
    by (rule Cons.IH [OF c(1)]) (use Cons.prems c(2) in auto)
  with m n c(2) o Cons.prems(2) [of k] show ?case by (cases "is") (auto simp: only_net_changed_def)
qed

text \<open>A call that leaves the arrays the daemon already has alone (it may allocate new ones).\<close>

definition allocates :: "('w, 'a) ext_call \<Rightarrow> bool" where
  "allocates op \<longleftrightarrow> (\<forall>m w r m' w'. op (m, w) = (r, m', w') \<longrightarrow> (\<exists>new. m' = m @ new))"

lemma mem_bytes_append: "j < length m \<Longrightarrow> mem_bytes (m @ new) j = mem_bytes m j"
  by (simp add: mem_bytes_def nth_append)

lemma choosable_bound: "choosable m r \<Longrightarrow> ref_IP r < length m \<and> ref_Mask r < length m"
  by (auto simp: choosable_def mem_bytes_def split: if_splits)

lemma ext_allocates:
  assumes "ext op s = (x, s')" and "allocates op" and "choosable (ip_mem s) r"
  shows "net_at (ip_mem s') r = net_at (ip_mem s) r"
proof -
  obtain new where "ip_mem s' = ip_mem s @ new"
    using assms(1,2) unfolding ext_def allocates_def by (auto split: prod.splits) blast
  with choosable_bound [OF assms(3)] show ?thesis by (simp add: net_at_def mem_bytes_append)
qed

lemma choosable_net_at: "choosable m r \<Longrightarrow> net_at m' r = net_at m r \<Longrightarrow> choosable m' r"
  by (simp add: choosable_def net_at_def)

lemma candidate_net_at: "net_at m' r = net_at m r \<Longrightarrow> candidate m' r i = candidate m r i"
  by (simp add: candidate_def net_at_def)

definition taken :: "mem \<Rightarrow> vxnet list \<Rightarrow> net_ref \<Rightarrow> nat \<Rightarrow> bool" where
  "taken m vxnets r i \<longleftrightarrow> ipnet_string (candidate m r i) \<in> set (List.map (\<lambda>v. the (net_text m (vx_Network v))) vxnets)"

lemma choose_cases:
  assumes "choosable m r" and "list_all (\<lambda>v. vx_Network v \<noteq> None) vxnets"
  obtains (found) i m' where "1 \<le> i" "i \<le> 252" "\<not> taken m vxnets r i" "\<And>j. 1 \<le> j \<Longrightarrow> j < i \<Longrightarrow> taken m vxnets r j"
      "chooseIPFromVxnet r vxnets m = Some (Some r, m')" "net_at m' r = candidate m r i" "only_net_changed m r m'"
  | (full) m' where "\<And>j. 1 \<le> j \<Longrightarrow> j \<le> 252 \<Longrightarrow> taken m vxnets r j"
      "chooseIPFromVxnet r vxnets m = Some (None, m')" "net_at m' r = candidate m r 252" "only_net_changed m r m'"
proof (cases "\<exists>i. 1 \<le> i \<and> i \<le> 252 \<and> \<not> taken m vxnets r i")
  case True
  define i where "i = (LEAST i. 1 \<le> i \<and> i \<le> 252 \<and> \<not> taken m vxnets r i)"
  from LeastI_ex [OF True] have i: "1 \<le> i" "i \<le> 252" "\<not> taken m vxnets r i" by (simp_all add: i_def)
  have before: "taken m vxnets r j" if "1 \<le> j" "j < i" for j
    using not_less_Least [OF that(2) [unfolded i_def]] that i by auto
  have "[1..<253] = [1..<i] @ i # [Suc i..<253]"
    using upt_add_eq_append [of 1 i "253 - i"] upt_conv_Cons [of i 253] i by simp
  with choose_loop_found [OF assms(1), of i "List.map (\<lambda>v. the (net_text m (vx_Network v))) vxnets" "[1..<i]" "[Suc i..<253]"]
    i before assms(2)
  obtain m' where "chooseIPFromVxnet r vxnets m = Some (Some r, m')" "net_at m' r = candidate m r i" "only_net_changed m r m'"
    by (auto simp: chooseIPFromVxnet_def subnets_loop_map taken_def)
  with i before found show ?thesis by blast
next
  case False
  with choose_loop_none [OF assms(1), of "[1..<253]" "List.map (\<lambda>v. the (net_text m (vx_Network v))) vxnets"] assms(2)
  obtain m' where "chooseIPFromVxnet r vxnets m = Some (None, m')" "net_at m' r = candidate m r 252" "only_net_changed m r m'"
    by (auto simp: chooseIPFromVxnet_def subnets_loop_map taken_def)
  with False full show ?thesis by (meson not_le)
qed

section \<open>Properties\<close>

text \<open>C15: on a network of at least three address and mask bytes in different arrays, the choice
  never panics; it takes the least index from 1 to 252 whose subnet text none of the VPC's
  vxnets has, and only when all 252 are taken does it find none.  The network it returns is the
  VPC's own network, now holding the chosen subnet: its bytes are overwritten in both cases.\<close>

theorem choose_least_free_subnet:
  assumes "choosable m r" and "list_all (\<lambda>v. vx_Network v \<noteq> None) vxnets"
  shows "\<exists>m'. only_net_changed m r m'
    \<and> (if \<exists>i. 1 \<le> i \<and> i \<le> 252 \<and> \<not> taken m vxnets r i
       then chooseIPFromVxnet r vxnets m = Some (Some r, m')
         \<and> net_at m' r = candidate m r (LEAST i. 1 \<le> i \<and> i \<le> 252 \<and> \<not> taken m vxnets r i)
       else chooseIPFromVxnet r vxnets m = Some (None, m') \<and> net_at m' r = candidate m r 252)"
  using assms
proof (cases rule: choose_cases)
  case (found i m')
  have "(LEAST i. 1 \<le> i \<and> i \<le> 252 \<and> \<not> taken m vxnets r i) = i"
    by (rule Least_equality) (use found not_le in auto)
  with found show ?thesis by auto
next
  case (full m')
  then show ?thesis by auto
qed

definition sample_mem :: mem where
  "sample_mem = [[192, 168, 0, 0], [255, 255, 0, 0], [192, 168, 1, 0], [255, 255, 255, 0]]"

definition sample_vpc_net :: net_ref where "sample_vpc_net = \<lparr> ref_IP = 0, ref_Mask = 1 \<rparr>"

definition sample_vxnet :: vxnet where
  "sample_vxnet = \<lparr> vx_ID = ''vxnet-1'', vx_GateWay = '''', vx_Network = Some \<lparr> ref_IP = 2, ref_Mask = 3 \<rparr>,
     vx_RouterID = ''rtr'', vx_Name = ''old'' \<rparr>"

lemma choose_least_free_subnet_witness:
  "\<exists>m'. chooseIPFromVxnet sample_vpc_net [sample_vxnet] sample_mem = Some (Some sample_vpc_net, m')
    \<and> ipnet_string (net_at m' sample_vpc_net) = ''192.168.2.0/24''"
proof -
  let ?P = "\<lambda>i. 1 \<le> i \<and> i \<le> 252 \<and> \<not> taken sample_mem [sample_vxnet] sample_vpc_net i"
  have t: "taken sample_mem [sample_vxnet] sample_vpc_net 1" "\<not> taken sample_mem [sample_vxnet] sample_vpc_net 2"
    and c: "ipnet_string (candidate sample_mem sample_vpc_net 2) = ''192.168.2.0/24''"
    and h: "choosable sample_mem sample_vpc_net" "list_all (\<lambda>v. vx_Network v \<noteq> None) [sample_vxnet]"
    by code_simp+
  have "(LEAST i. ?P i) = 2"
  proof (rule Least_equality)
    fix i assume "?P i"
    with t(1) show "2 \<le> i" by (cases "i = 1") auto
  qed (use t in auto)
  moreover have "\<exists>i. ?P i" using t(2) by (intro exI [of _ 2]) simp
  ultimately show ?thesis
    using choose_least_free_subnet [OF h] c by auto
qed

text \<open>Joining a vxnet overwrites the VPC's own network in memory: when the join succeeds on a
  free subnet, the daemon's VPC record and the vxnet share one network, whose third byte is the
  index and whose mask is widened by the third byte.  A VPC of \<open>a.b.0.0/16\<close> reads as
  \<open>a.b.i.0/24\<close> from then on.\<close>

theorem join_overwrites_vpc_network:
  assumes "own_vpc s = Some vp" and "vpc_Network vp = Some net" and "choosable (ip_mem s) net"
    and "allocates (api_GetVPCVxNets api (vpc_ID vp))"
    and "\<And>n v w. allocates (api_JoinVPC api n v w)"
    and "ext (api_GetVPCVxNets api (vpc_ID vp)) s = (Ok vxnets, s1)"
    and "list_all (\<lambda>v. vx_Network v \<noteq> None) vxnets"
    and "\<not> taken (ip_mem s1) vxnets net j" and "1 \<le> j" and "j \<le> 252"
    and "joinVPC api (v, s) = (Ok (), (v', s'))"
  shows "vx_Network v' = Some net \<and> own_vpc s' = Some (vp\<lparr> vpc_VxNets := vpc_VxNets vp @ [v'] \<rparr>)
    \<and> (\<exists>i. 1 \<le> i \<and> i \<le> j \<and> net_at (ip_mem s') net = candidate (ip_mem s) net i)"
proof -
  have n1: "net_at (ip_mem s1) net = net_at (ip_mem s) net"
    using ext_allocates [OF assms(6,4,3)] .
  then have c1: "choosable (ip_mem s1) net" by (rule choosable_net_at [OF assms(3)])
  from c1 assms(7) show ?thesis
  proof (cases rule: choose_cases)
    case (found i m')
    have ij: "i \<le> j" using found(4) [of j] assms(8,9) by (meson not_le)
    let ?v = "v\<lparr> vx_Network := Some net \<rparr>"
    let ?s = "s1\<lparr> ip_mem := m' \<rparr>"
    obtain x s2 where j: "ext (api_JoinVPC api (ipnet_string (net_at m' net)) (vx_ID v) (vpc_ID vp)) ?s = (x, s2)"
      by fastforce
    have eq: "joinVPC api (v, s) = check (x, (?v, s2)) (\<lambda>_. append_vxnet vp)"
      using assms(1,2,6) found(5) j by (simp add: joinVPC_def with_vxnet_def Let_def)
    with assms(11) have "x = Ok ()" by (cases x) auto
    with eq assms(11) have v': "v' = ?v" and s': "s' = s2\<lparr> own_vpc := Some (vp\<lparr> vpc_VxNets := vpc_VxNets vp @ [?v] \<rparr>) \<rparr>"
      by (auto simp: append_vxnet_def)
    have "choosable m' net" using c1 found(6) by (auto simp: choosable_def net_at_def candidate_def)
    then have "net_at (ip_mem s2) net = net_at m' net"
      using ext_allocates [OF j assms(5)] by simp
    then have "net_at (ip_mem s') net = candidate (ip_mem s) net i"
      using found(6) candidate_net_at [OF n1] s' by simp
    with v' s' found(1) ij show ?thesis by auto
  next
    case (full m')
    with assms(8-10) show ?thesis by blast
  qed
qed

text \<open>When all 252 subnets of the VPC are taken, joining reports success without asking the
  cloud to join: the vxnet is appended to the VPC's list with the network it had, and a new
  vxnet, which has none, makes the list of subnets panic.\<close>

theorem join_full_vpc_reports_success:
  assumes "own_vpc s = Some vp" and "vpc_Network vp = Some net"
    and "ext (api_GetVPCVxNets api (vpc_ID vp)) s = (Ok vxnets, s1)" and "choosable (ip_mem s1) net"
    and "list_all (\<lambda>v. vx_Network v \<noteq> None) vxnets" and "\<And>j. 1 \<le> j \<Longrightarrow> j \<le> 252 \<Longrightarrow> taken (ip_mem s1) vxnets net j"
  shows "\<exists>m. joinVPC api (v, s) = (Ok (), (v, s1\<lparr> ip_mem := m, own_vpc := Some (vp\<lparr> vpc_VxNets := vpc_VxNets vp @ [v] \<rparr>) \<rparr>))
    \<and> (vx_Network v = None \<longrightarrow> vpcSubnets (snd (snd (joinVPC api (v, s)))) = None)"
  using assms(4,5)
proof (cases rule: choose_cases)
  case (found i m')
  with assms(6) show ?thesis by blast
next
  case (full m')
  then show ?thesis
    using assms(1-3)
    by (intro exI [of _ m']) (simp add: joinVPC_def with_vxnet_def append_vxnet_def vpcSubnets_def subnets_loop_map)
qed

section \<open>Witnesses\<close>

text \<open>A cloud that answers every question with given vxnets and counts the joins.\<close>

definition sample_cloud :: "vxnet list \<Rightarrow> nat cloud_api" where
  "sample_cloud vs = \<lparr>
     api_CreateNic = (\<lambda>v mw. (Err (ErrorString ''no nic''), mw)), api_DeleteNic = (\<lambda>n mw. (Ok (), mw)),
     api_GetPrimaryNIC = (\<lambda>mw. (Ok None, mw)), api_GetVxNet = (\<lambda>v mw. (Ok None, mw)),
     api_GetVxNetByName = (\<lambda>n mw. (Err (NewResourceNotFoundError ResourceTypeVxnet n []), mw)),
     api_CreateVxNet = (\<lambda>n mw. (Ok \<lparr> vx_ID = ''vxnet-2'', vx_GateWay = '''', vx_Network = None, vx_RouterID = '''', vx_Name = n \<rparr>, mw)),
     api_GetAttachedNICs = (\<lambda>v mw. (Ok [], mw)),
     api_GetNodeVPC = (\<lambda>mw. (Ok \<lparr> vpc_Network = Some sample_vpc_net, vpc_ID = ''rtr'', vpc_VxNets = vs \<rparr>, mw)),
     api_GetVPCVxNets = (\<lambda>r mw. (Ok vs, mw)),
     api_JoinVPC = (\<lambda>n v r (m, w). (Ok (), (m, Suc w))), api_LeaveVPC = (\<lambda>v r mw. (Ok (), mw)), api_GetInstanceID = ''i-1'' \<rparr>"

definition sample_ipamd :: "mem \<Rightarrow> vxnet list \<Rightarrow> nat ipamd" where
  "sample_ipamd m vs = (NewIpamD m 0)\<lparr> own_vpc := Some \<lparr> vpc_Network = Some sample_vpc_net, vpc_ID = ''rtr'', vpc_VxNets = vs \<rparr> \<rparr>"

definition new_vxnet :: vxnet where
  "new_vxnet = \<lparr> vx_ID = ''vxnet-2'', vx_GateWay = '''', vx_Network = None, vx_RouterID = '''', vx_Name = ''n'' \<rparr>"

lemma join_overwrites_vpc_network_witness:
  "\<exists>v' s'. joinVPC (sample_cloud [sample_vxnet]) (new_vxnet, sample_ipamd sample_mem [sample_vxnet]) = (Ok (), (v', s'))
    \<and> vx_Network v' = Some sample_vpc_net
    \<and> (\<exists>i. 1 \<le> i \<and> i \<le> 2 \<and> net_at (ip_mem s') sample_vpc_net = candidate sample_mem sample_vpc_net i)"
proof -
  define api where "api = sample_cloud [sample_vxnet]"
  define s where "s = sample_ipamd sample_mem [sample_vxnet]"
  define vp where "vp = \<lparr> vpc_Network = Some sample_vpc_net, vpc_ID = ''rtr'', vpc_VxNets = [sample_vxnet] \<rparr>"
  have "fst (joinVPC (sample_cloud [sample_vxnet]) (new_vxnet, sample_ipamd sample_mem [sample_vxnet])) = Ok ()"
    and c: "choosable sample_mem sample_vpc_net" "\<not> taken sample_mem [sample_vxnet] sample_vpc_net 2"
    by code_simp+
  then obtain v' s' where j: "joinVPC api (new_vxnet, s) = (Ok (), (v', s'))"
    unfolding api_def s_def by (metis prod.collapse)
  have e: "ext (api_GetVPCVxNets api (vpc_ID vp)) s = (Ok [sample_vxnet], s)"
    by (simp add: ext_def sample_cloud_def api_def)
  have al: "allocates (api_GetVPCVxNets api (vpc_ID vp))" "\<And>n v r. allocates (api_JoinVPC api n v r)"
    by (simp_all add: allocates_def sample_cloud_def api_def)
  have vp: "own_vpc s = Some vp" "vpc_Network vp = Some sample_vpc_net" and m: "ip_mem s = sample_mem"
    by (simp_all add: sample_ipamd_def NewIpamD_def s_def vp_def)
  have l: "list_all (\<lambda>v. vx_Network v \<noteq> None) [sample_vxnet]" by (simp add: sample_vxnet_def)
  have "vx_Network v' = Some sample_vpc_net \<and> own_vpc s' = Some (vp\<lparr> vpc_VxNets := vpc_VxNets vp @ [v'] \<rparr>)
    \<and> (\<exists>i. 1 \<le> i \<and> i \<le> 2 \<and> net_at (ip_mem s') sample_vpc_net = candidate (ip_mem s) sample_vpc_net i)"
    by (rule join_overwrites_vpc_network [OF vp _ al e l _ _ _ j]) (use c m in simp_all)
  with j m show ?thesis unfolding api_def s_def by auto
qed

definition full_mem :: mem where
  "full_mem = [[192, 168, 0, 0], [255, 255, 0, 0], [255, 255, 255, 0]] @ List.map (\<lambda>i. [192, 168, of_nat i, 0]) [0..<253]"

definition full_vxnets :: "vxnet list" where
  "full_vxnets = List.map (\<lambda>i. sample_vxnet\<lparr> vx_Network := Some \<lparr> ref_IP = i + 3, ref_Mask = 2 \<rparr> \<rparr>) [0..<253]"

lemma full_taken: "j \<le> 252 \<Longrightarrow> taken full_mem full_vxnets sample_vpc_net j"
proof -
  assume j: "j \<le> 252"
  have "full_mem ! (j + 3) = [192, 168, of_nat j, 0]" "j + 3 < length full_mem"
    using j by (simp_all add: full_mem_def nth_append)
  then have "net_at full_mem \<lparr> ref_IP = j + 3, ref_Mask = 2 \<rparr> = candidate full_mem sample_vpc_net j"
    by (simp add: net_at_def candidate_def mem_bytes_def) (simp add: full_mem_def sample_vpc_net_def)
  then show ?thesis
    using j unfolding taken_def
    by (auto simp: full_vxnets_def net_text_def image_iff intro!: bexI [of _ j])
qed

lemma join_full_vpc_reports_success_witness:
  "fst (joinVPC (sample_cloud full_vxnets) (new_vxnet, sample_ipamd full_mem full_vxnets)) = Ok ()
   \<and> ip_ext (snd (snd (joinVPC (sample_cloud full_vxnets) (new_vxnet, sample_ipamd full_mem full_vxnets)))) = 0
   \<and> vpcSubnets (snd (snd (joinVPC (sample_cloud full_vxnets) (new_vxnet, sample_ipamd full_mem full_vxnets)))) = None"
proof -
  let ?s = "sample_ipamd full_mem full_vxnets"
  have "own_vpc ?s = Some \<lparr> vpc_Network = Some sample_vpc_net, vpc_ID = ''rtr'', vpc_VxNets = full_vxnets \<rparr>"
    "ip_mem ?s = full_mem" "ip_ext ?s = 0" "vx_Network new_vxnet = None"
    by (simp_all add: sample_ipamd_def NewIpamD_def new_vxnet_def)
  moreover have "ext (api_GetVPCVxNets (sample_cloud full_vxnets) ''rtr'') ?s = (Ok full_vxnets, ?s)"
    by (simp add: ext_def sample_cloud_def)
  moreover have "choosable full_mem sample_vpc_net"
    by (simp add: choosable_def full_mem_def sample_vpc_net_def mem_bytes_def)
  moreover have "list_all (\<lambda>v. vx_Network v \<noteq> None) full_vxnets"
    by (simp add: full_vxnets_def list_all_iff)
  ultimately show ?thesis
    using join_full_vpc_reports_success [of ?s _ sample_vpc_net "sample_cloud full_vxnets" full_vxnets ?s new_vxnet] full_taken
    by fastforce
qed

end
