(* ===== verification/VxnetCloud.thy ===== *)
theory VxnetCloud
  imports Vxnet
begin

text \<open>
  The contract between \<^verbatim>\<open>EnsureVxNet\<close> and the cloud: which vxnets exist and what they are named.
  \<open>names w\<close> maps the ID of a vxnet to its name.  From the laws follows what the daemon needs: one
  vxnet per node, found again after a restart.
\<close>

text \<open>A call that leaves a view \<open>v\<close> of the outside alone, in the states \<open>ok\<close>.\<close>

definition leaves :: "('w \<Rightarrow> bool) \<Rightarrow> ('w \<Rightarrow> 'v) \<Rightarrow> ('w, 'a) ext_call \<Rightarrow> bool" where
  "leaves ok v op \<longleftrightarrow> (\<forall>s. ok (snd s) \<longrightarrow> ok (snd (snd (op s))) \<and> v (snd (snd (op s))) = v (snd s))"

lemma ext_result: "ext op s = (r, s') \<Longrightarrow> op (ip_mem s, ip_ext s) = (r, (ip_mem s', ip_ext s'))"
  by (auto simp: ext_def split: prod.splits)

lemma ext_leaves:
  "leaves ok v op \<Longrightarrow> ok (ip_ext s) \<Longrightarrow> ext op s = (r, s') \<Longrightarrow> ok (ip_ext s') \<and> v (ip_ext s') = v (ip_ext s)"
  unfolding leaves_def using ext_result [of op s r s'] by (metis snd_conv)

lemma ext_leaves_snd:
  "leaves ok v op \<Longrightarrow> ok (ip_ext s) \<Longrightarrow> ok (ip_ext (snd (ext op s))) \<and> v (ip_ext (snd (ext op s))) = v (ip_ext s)"
  by (rule ext_leaves [of ok v op s "fst (ext op s)"]) simp_all

lemma ext_NodeName: "ext op s = (r, s') \<Longrightarrow> NodeName s' = NodeName s"
  by (metis ext_fields(4) snd_conv)

text \<open>Sleeping leaves the view and the name of the node alone.\<close>

definition calm :: "('w \<Rightarrow> bool) \<Rightarrow> ('w \<Rightarrow> 'v) \<Rightarrow> (duration \<Rightarrow> 'w ipamd \<Rightarrow> 'w ipamd) \<Rightarrow> bool" where
  "calm ok v sleep \<longleftrightarrow> (\<forall>d s. ok (ip_ext s) \<longrightarrow>
     ok (ip_ext (sleep d s)) \<and> v (ip_ext (sleep d s)) = v (ip_ext s) \<and> NodeName (sleep d s) = NodeName s)"

text \<open>At most one vxnet has the name.\<close>

definition one_named :: "(string \<Rightarrow> string option) \<Rightarrow> string \<Rightarrow> bool" where
  "one_named ns n \<longleftrightarrow> (\<forall>i j. ns i = Some n \<longrightarrow> ns j = Some n \<longrightarrow> i = j)"

lemma one_named_sub: "one_named ns n \<Longrightarrow> ms \<subseteq>\<^sub>m ns \<Longrightarrow> one_named ms n"
  unfolding one_named_def map_le_def by (metis domI)

lemma one_named_new: "n \<notin> ran ns \<Longrightarrow> one_named (ns(i \<mapsto> n)) n"
  by (auto simp: one_named_def ran_def split: if_splits)

locale vxnet_cloud =
  fixes api :: "'w cloud_api"
    and ok :: "'w \<Rightarrow> bool"
    and names :: "'w \<Rightarrow> string \<Rightarrow> string option"
  assumes get_leaves: "leaves ok names (api_GetVxNet api i)"
    and by_name_leaves: "leaves ok names (api_GetVxNetByName api n)"
    and vxnets_leaves: "leaves ok names (api_GetVPCVxNets api r)"
    and join_leaves: "leaves ok names (api_JoinVPC api net i r)"
    and leave_removes: "ok w \<Longrightarrow> api_LeaveVPC api i r (m, w) = (x, (m', w')) \<Longrightarrow> ok w' \<and> names w' \<subseteq>\<^sub>m names w"
    and get_found: "ok w \<Longrightarrow> names w i \<noteq> None \<Longrightarrow> api_GetVxNet api i (m, w) = (Ok z, s'') \<Longrightarrow> \<exists>v. z = Some v \<and> vx_ID v = i"
    and by_name_found: "ok w \<Longrightarrow> api_GetVxNetByName api n (m, w) = (Ok v, s') \<Longrightarrow> names w (vx_ID v) = Some n"
    and by_name_missing: "ok w \<Longrightarrow> api_GetVxNetByName api n (m, w) = (Err e, s') \<Longrightarrow> IsResourceNotFound e \<Longrightarrow> n \<notin> ran (names w)"
    and create_adds: "ok w \<Longrightarrow> api_CreateVxNet api n (m, w) = (y, (m', w')) \<Longrightarrow>
      ok w' \<and> (case y of Ok v \<Rightarrow> names w' = (names w)(vx_ID v \<mapsto> n) | _ \<Rightarrow> names w' = names w)"
begin

lemma joinVPC_leaves:
  assumes "ok (ip_ext s)" and "joinVPC api (v, s) = (r, (v', s'))"
  shows "ok (ip_ext s') \<and> names (ip_ext s') = names (ip_ext s) \<and> vx_ID v' = vx_ID v \<and> NodeName s' = NodeName s"
proof (cases "own_vpc s")
  case (Some vp)
  obtain x s1 where e: "ext (api_GetVPCVxNets api (vpc_ID vp)) s = (x, s1)" by (rule prod.exhaust)
  note l1 = ext_leaves [OF vxnets_leaves assms(1) e] ext_NodeName [OF e]
  show ?thesis
  proof (cases x)
    case (Ok vxnets)
    have j: "ok (ip_ext (snd (ext (api_JoinVPC api net i rid) (s1\<lparr> ip_mem := m \<rparr>))))"
      "names (ip_ext (snd (ext (api_JoinVPC api net i rid) (s1\<lparr> ip_mem := m \<rparr>)))) = names (ip_ext s1)" for net i rid m
      using ext_leaves_snd [OF join_leaves, of "s1\<lparr> ip_mem := m \<rparr>" net i rid] l1 by simp_all
    show ?thesis
      using assms(2) Some e Ok l1
      by (auto simp: joinVPC_def with_vxnet_def append_vxnet_def check_def Let_def elim!: on_result.elims
          split: option.splits prod.splits simp: j)
  qed (use assms(2) Some e l1 in \<open>auto simp: joinVPC_def with_vxnet_def\<close>)
qed (use assms in \<open>simp add: joinVPC_def\<close>)

lemma createNewVxnet_names:
  assumes "ok (ip_ext s)" and "calm ok names sleep" and "createNewVxnet api sleep s = (r, s')"
  shows "ok (ip_ext s') \<and> NodeName s' = NodeName s
    \<and> (case r of
         Ok v \<Rightarrow> names (ip_ext s') = (names (ip_ext s))(vx_ID v \<mapsto> NameForVxnet (NodeName s))
       | _ \<Rightarrow> names (ip_ext s') = names (ip_ext s) \<or> (\<exists>i. names (ip_ext s') = (names (ip_ext s))(i \<mapsto> NameForVxnet (NodeName s))))"
proof -
  obtain x s1 where e: "ext (api_CreateVxNet api (NameForVxnet (NodeName s))) s = (x, s1)" by (rule prod.exhaust)
  note c = create_adds [OF assms(1) ext_result [OF e]] ext_NodeName [OF e]
  show ?thesis
  proof (cases x)
    case (Ok vxnet)
    let ?P = "\<lambda>vs. ok (ip_ext (snd vs)) \<and> names (ip_ext (snd vs)) = names (ip_ext s1) \<and> vx_ID (fst vs) = vx_ID vxnet
      \<and> NodeName (snd vs) = NodeName s"
    obtain rd v s2 where d: "Do 5 (\<lambda>d. apsnd (sleep d)) (5 * second) (joinVPC api) (vxnet, s1) = (rd, (v, s2))"
      by (metis prod.exhaust)
    have "?P (snd (Do 5 (\<lambda>d. apsnd (sleep d)) (5 * second) (joinVPC api) (vxnet, s1)))"
    proof (rule Do_invariant)
      show "?P (snd (joinVPC api vs))" if "?P vs" for vs
        using joinVPC_leaves [of "snd vs" "fst vs" "fst (joinVPC api vs)" "fst (snd (joinVPC api vs))" "snd (snd (joinVPC api vs))"] that
        by simp
      show "?P (apsnd (sleep (5 * second)) vs)" if "?P vs" for vs
        using assms(2) that by (simp add: calm_def)
    qed (use c Ok in simp)
    then have P: "?P (v, s2)" unfolding d by simp
    from assms(3) e d Ok have "check (rd, s2) (\<lambda>_ s3. (Ok v, s3)) = (r, s')" by (simp add: createNewVxnet_def)
    with P c Ok show ?thesis by (cases rd) auto
  qed (use assms(3) e c in \<open>auto simp: createNewVxnet_def\<close>)
qed

text \<open>The node's vxnet is the one with the node's name, and there is at most one, whatever fails.\<close>

lemma EnsureVxNet_names:
  assumes "ok (ip_ext s)" and "calm ok names sleep"
    and "leaves ok names (k8s_GetCurrentNode k8s)" and "\<And>k x. leaves ok names (k8s_UpdateNodeAnnotation k8s k x)"
    and "ext (k8s_GetCurrentNode k8s) s = (Ok node, s1)" and "map_of (node_Annotations node) NodeAnnotationVxNet = None"
    and "one_named (names (ip_ext s)) (NameForVxnet (node_Name node))"
    and "EnsureVxNet api k8s sleep s = (r, s')"
  shows "ok (ip_ext s') \<and> one_named (names (ip_ext s')) (NameForVxnet (node_Name node))
    \<and> (NameForVxnet (node_Name node) \<in> ran (names (ip_ext s)) \<longrightarrow> names (ip_ext s') = names (ip_ext s))
    \<and> (r = Ok () \<longrightarrow> (\<exists>v. own_vxnet s' = Some v \<and> names (ip_ext s') (vx_ID v) = Some (NameForVxnet (node_Name node))))"
proof -
  let ?n = "NameForVxnet (node_Name node)"
  let ?s2 = "s1\<lparr> NodeName := node_Name node \<rparr>"
  note l1 = ext_leaves [OF assms(3,1,5)]
  obtain x s3 where b: "ext (api_GetVxNetByName api ?n) ?s2 = (x, s3)" by (rule prod.exhaust)
  have l3: "ok (ip_ext s3) \<and> names (ip_ext s3) = names (ip_ext s)" and n3: "NodeName s3 = node_Name node"
    using ext_leaves [OF by_name_leaves _ b] l1 ext_NodeName [OF b] by simp_all
  have call: "api_GetVxNetByName api ?n (ip_mem s1, ip_ext s1) = (x, (ip_mem s3, ip_ext s3))" using ext_result [OF b] by simp
  show ?thesis
  proof (cases x)
    case (Ok w)
    then have w: "names (ip_ext s) (vx_ID w) = Some ?n" using by_name_found [of "ip_ext s1"] call l1 by simp
    obtain rj v s4 where j: "joinVPC api (w, s3) = (rj, (v, s4))" by (metis prod.exhaust)
    note lj = joinVPC_leaves [OF _ j]
    show ?thesis
      using assms(5-8) b Ok j lj l3 w
      by (cases rj) (auto simp: EnsureVxNet_def Let_def split: if_splits)
  next
    case (Err e)
    show ?thesis
    proof (cases "IsResourceNotFound e")
      case True
      then have missing: "?n \<notin> ran (names (ip_ext s))" using by_name_missing [of "ip_ext s1"] call Err l1 by simp
      obtain rc s4 where c: "createNewVxnet api sleep s3 = (rc, s4)" by (rule prod.exhaust)
      note lc = createNewVxnet_names [OF _ assms(2) c]
      show ?thesis
      proof (cases rc)
        case (Ok v)
        let ?s5 = "s4\<lparr> own_vxnet := Some v \<rparr>"
        have n5: "ok (ip_ext ?s5)" "names (ip_ext ?s5) = (names (ip_ext s))(vx_ID v \<mapsto> ?n)"
          using lc l3 n3 Ok by simp_all
        obtain ru s6 where u: "ext (k8s_UpdateNodeAnnotation k8s NodeAnnotationVxNet (vx_ID v)) ?s5 = (ru, s6)" by (rule prod.exhaust)
        have l6: "ok (ip_ext s6)" "names (ip_ext s6) = (names (ip_ext s))(vx_ID v \<mapsto> ?n)"
          using ext_leaves [OF assms(4) n5(1) u] n5(2) by simp_all
        have own: "own_vxnet s6 = Some v"
          using ext_fields(3) [of "k8s_UpdateNodeAnnotation k8s NodeAnnotationVxNet (vx_ID v)" ?s5] u by simp
        have eq: "EnsureVxNet api k8s sleep s = on_result (ru, s6) (\<lambda>_ s6. (Ok (), s6)) (\<lambda>err s6.
            case own_vpc s6 of None \<Rightarrow> (Panic, s6)
            | Some vp \<Rightarrow> on_result (ext (api_LeaveVPC api (vx_ID v) (vpc_ID vp)) s6) (\<lambda>_ s7. (Err err, s7)) (\<lambda>_ s7. (Err err, s7)))"
          using assms(5,6) b Err True c Ok u by (simp add: EnsureVxNet_def Let_def)
        have leave: "ok (ip_ext s7) \<and> names (ip_ext s7) \<subseteq>\<^sub>m names (ip_ext s6)"
          if "ext (api_LeaveVPC api i rid) s6 = (y, s7)" for i rid y s7
          by (rule leave_removes [OF l6(1) ext_result [OF that]])
        have one: "one_named (names (ip_ext s6)) ?n" using one_named_new [OF missing] l6(2) by simp
        show ?thesis
        proof (cases ru)
          case (Err err)
          show ?thesis
          proof (cases "own_vpc s6")
            case (Some vp)
            obtain y s7 where y: "ext (api_LeaveVPC api (vx_ID v) (vpc_ID vp)) s6 = (y, s7)" by (rule prod.exhaust)
            with leave [OF y] one one_named_sub have "ok (ip_ext s7)" "one_named (names (ip_ext s7)) ?n" by auto
            moreover have "s' = s7 \<and> r \<noteq> Ok ()" using eq Err Some y assms(8) by (cases y) auto
            ultimately show ?thesis using missing by simp
          qed (use eq Err assms(8) one l6 missing in simp)
        qed (use eq assms(8) one l6 own missing in auto)
      qed (use lc l3 n3 assms(5-8) b Err True c missing in \<open>auto simp: EnsureVxNet_def Let_def one_named_new\<close>)
    qed (use assms(5-8) b Err l3 in \<open>auto simp: EnsureVxNet_def Let_def\<close>)
  qed (use assms(5-8) b l3 in \<open>auto simp: EnsureVxNet_def Let_def\<close>)
qed

lemma EnsureVxNet_annotated:
  assumes "ok (ip_ext s)" and "leaves ok names (k8s_GetCurrentNode k8s)"
    and "ext (k8s_GetCurrentNode k8s) s = (Ok node, s1)" and "map_of (node_Annotations node) NodeAnnotationVxNet = Some i"
    and "names (ip_ext s) i \<noteq> None" and "EnsureVxNet api k8s sleep s = (Ok (), s')"
  shows "\<exists>v. own_vxnet s' = Some v \<and> vx_ID v = i"
proof -
  note l1 = ext_leaves [OF assms(2,1,3)]
  obtain x s3 where g: "ext (api_GetVxNet api i) (s1\<lparr> NodeName := node_Name node \<rparr>) = (x, s3)" by (rule prod.exhaust)
  with assms(3,4,6) obtain z where z: "x = Ok z" "s' = s3\<lparr> own_vxnet := z \<rparr>" by (cases x) (auto simp: EnsureVxNet_def Let_def)
  with get_found [of "ip_ext s1" i "ip_mem s1" z "(ip_mem s3, ip_ext s3)"] l1 assms(5) ext_result [OF g] show ?thesis by simp
qed

text \<open>
  A later start, of any daemon on the same vxnets: with or without the annotation it finds the vxnet
  the first one used.
\<close>

lemma restart_same_vxnet:
  assumes "ok (ip_ext s)" and "calm ok names sleep"
    and "leaves ok names (k8s_GetCurrentNode k8s)" and "\<And>k x. leaves ok names (k8s_UpdateNodeAnnotation k8s k x)"
    and "ext (k8s_GetCurrentNode k8s) s = (Ok node, s1)" and "map_of (node_Annotations node) NodeAnnotationVxNet = None"
    and "one_named (names (ip_ext s)) (NameForVxnet (node_Name node))"
    and "EnsureVxNet api k8s sleep s = (Ok (), s')" and "own_vxnet s' = Some v"
    and "ok (ip_ext t)" and "names (ip_ext t) = names (ip_ext s')"
    and "ext (k8s_GetCurrentNode k8s) t = (Ok node', t1)" and "node_Name node' = node_Name node"
    and "map_of (node_Annotations node') NodeAnnotationVxNet \<in> {None, Some (vx_ID v)}"
    and "EnsureVxNet api k8s sleep t = (Ok (), t')"
  shows "\<exists>v'. own_vxnet t' = Some v' \<and> vx_ID v' = vx_ID v"
proof -
  note first = EnsureVxNet_names [OF assms(1-8)]
  then have v: "names (ip_ext t) (vx_ID v) = Some (NameForVxnet (node_Name node))" using assms(9,11) by simp
  show ?thesis
  proof (cases "map_of (node_Annotations node') NodeAnnotationVxNet")
    case None
    have "one_named (names (ip_ext t)) (NameForVxnet (node_Name node'))" using first assms(11,13) by simp
    from EnsureVxNet_names [OF assms(10,2,3,4,12) None this assms(15)]
    obtain v' where "own_vxnet t' = Some v'" "names (ip_ext t') (vx_ID v') = Some (NameForVxnet (node_Name node))"
      "names (ip_ext t') = names (ip_ext t)" "one_named (names (ip_ext t')) (NameForVxnet (node_Name node))"
      using assms(13) v by (auto simp: ranI)
    with v show ?thesis by (auto simp: one_named_def)
  next
    case (Some i)
    with EnsureVxNet_annotated [OF assms(10,3,12) Some _ assms(15)] v assms(14) show ?thesis by simp
  qed
qed

end

end
