(* ===== verification/FakeCloud.thy ===== *)
theory FakeCloud
  imports VxnetCloud
begin

unbundle bit_operations_syntax

text \<open>
  \<^verbatim>\<open>pkg/qcclient/fake.go\<close>: the cloud in memory.  A vxnet is a struct the maps and the NICs point to
  and that two calls write, so the vxnets live in a heap, \<open>fq_heap\<close>, and a pointer is an index
  into it; a call returns the vxnet as it is at that moment.  \<open>fq_Tags\<close> is \<open>None\<close> for the nil map.

  \<open>rnd k n\<close> is the \<open>k\<close>-th number the random generator gives below \<open>n\<close>, \<open>fq_draws\<close> how many
  have been drawn.  The order of a range loop is an argument.
\<close>

record fake_nic =
  fn_nic :: host_nic
  fn_VxNet :: "nat option"

record fake_cloud =
  fq_InstanceID :: string
  fq_Nics :: "(string, fake_nic) gomap"
  fq_VxNets :: "(string, nat) gomap"
  fq_VPC :: vpc
  fq_Tags :: "(string, tag) gomap option"
  fq_heap :: "vxnet list"
  fq_draws :: nat

definition NewFakeQingCloudAPI :: "string \<Rightarrow> vpc \<Rightarrow> fake_cloud" where
  "NewFakeQingCloudAPI instanceID vp = \<lparr> fq_InstanceID = instanceID, fq_Nics = [], fq_VxNets = [], fq_VPC = vp,
     fq_Tags = None, fq_heap = [], fq_draws = 0 \<rparr>"

type_synonym 'a fake_call = "mem \<times> fake_cloud \<Rightarrow> 'a go_result \<times> (mem \<times> fake_cloud)"

text \<open>What a pointer reads as now.\<close>

definition vxnet_at :: "fake_cloud \<Rightarrow> nat \<Rightarrow> vxnet" where
  "vxnet_at f p = fq_heap f ! p"

definition nic_view :: "fake_cloud \<Rightarrow> fake_nic \<Rightarrow> host_nic" where
  "nic_view f n = (fn_nic n)\<lparr> hn_VxNet := map_option (vxnet_at f) (fn_VxNet n) \<rparr>"

definition vxnet_named :: "fake_cloud \<Rightarrow> string \<Rightarrow> vxnet option" where
  "vxnet_named f i = map_option (vxnet_at f) (map_of (fq_VxNets f) i)"

section \<open>NICs\<close>

text \<open>\<open>%02x\<close> of six random bytes, with the local bit set.\<close>

definition generateMAC :: "(nat \<Rightarrow> byte list) \<Rightarrow> nat \<Rightarrow> string" where
  "generateMAC bytes k = mac_string ((bytes k)[0 := bytes k ! 0 OR 2])"

text \<open>The loop that draws an address: it ends when one is drawn that no NIC has, and may never end.\<close>

partial_function (option) pick_ip :: "(nat \<Rightarrow> nat \<Rightarrow> nat) \<Rightarrow> byte list \<Rightarrow> string list \<Rightarrow> nat \<Rightarrow> (byte list \<times> nat) option" where
  "pick_ip rnd n used k =
     (let dup = n[3 := of_nat (rnd k 253 + 2)]
      in if ip_string dup \<in> set used then pick_ip rnd n used (Suc k) else Some (dup, Suc k))"

text \<open>
  \<open>after\<close> is the field \<open>AfterCreatingNIC\<close>.  \<open>None\<close>: the call never returns.
\<close>

definition fq_CreateNic ::
  "(nat \<Rightarrow> nat \<Rightarrow> nat) \<Rightarrow> (nat \<Rightarrow> byte list) \<Rightarrow> (host_nic \<Rightarrow> unit fake_call) \<Rightarrow> string \<Rightarrow> mem \<times> fake_cloud
   \<Rightarrow> (host_nic go_result \<times> (mem \<times> fake_cloud)) option" where
  "fq_CreateNic rnd bytes after vxnet s =
     (case s of (m, f) \<Rightarrow>
        (case Option.bind (vxnet_named f vxnet) (\<lambda>v. Option.bind (vx_Network v) (\<lambda>r. To4 (net_IP (net_at m r)))) of
           None \<Rightarrow> Some (Panic, s)
         | Some n \<Rightarrow>
             (case pick_ip rnd n (List.map (hn_Address \<circ> fn_nic \<circ> snd) (fq_Nics f)) (fq_draws f) of
                None \<Rightarrow> None
              | Some (ip, k) \<Rightarrow>
                  (let mac = generateMAC bytes k;
                       nic = \<lparr> fn_nic = \<lparr> hn_ID = mac, hn_VxNet = None, hn_HardwareAddr = mac, hn_Address = ip_string ip,
                                          hn_DeviceNumber = int (length (fq_Nics f)), hn_IsPrimary = False \<rparr>,
                               fn_VxNet = map_of (fq_VxNets f) vxnet \<rparr>;
                       f1 = f\<lparr> fq_Nics := gm_put mac nic (fq_Nics f), fq_draws := Suc k \<rparr>
                   in Some (check (after (nic_view f1 nic) (m, f1)) (\<lambda>_ s2. (Ok (nic_view (snd s2) nic), s2)))))))"

definition fq_DeleteNic :: "string \<Rightarrow> unit fake_call" where
  "fq_DeleteNic nicID = (\<lambda>(m, f). (Ok (), (m, f\<lparr> fq_Nics := gm_del nicID (fq_Nics f) \<rparr>)))"

fun fq_DeleteNics :: "string list \<Rightarrow> unit fake_call" where
  "fq_DeleteNics [] s = (Ok (), s)"
| "fq_DeleteNics (i # is) s = check (fq_DeleteNic i s) (\<lambda>_ s1. fq_DeleteNics is s1)"

fun first_primary :: "(string \<times> fake_nic) list \<Rightarrow> fake_nic option" where
  "first_primary [] = None"
| "first_primary ((k, n) # ns) = (if hn_IsPrimary (fn_nic n) then Some n else first_primary ns)"

definition fq_GetPrimaryNIC :: "string list \<Rightarrow> host_nic option fake_call" where
  "fq_GetPrimaryNIC ord = (\<lambda>(m, f). (Ok (map_option (nic_view f) (first_primary (go_range ord (fq_Nics f)))), (m, f)))"

text \<open>An ID that is not there gives a nil pointer in the list.\<close>

definition fq_GetNics :: "string list \<Rightarrow> host_nic option list fake_call" where
  "fq_GetNics nics = (\<lambda>(m, f). (Ok (List.map (\<lambda>i. map_option (nic_view f) (map_of (fq_Nics f) i)) nics), (m, f)))"

text \<open>A NIC without a vxnet is a nil pointer the loop reads.\<close>

fun fq_attached_loop :: "fake_cloud \<Rightarrow> string \<Rightarrow> (string \<times> fake_nic) list \<Rightarrow> host_nic list \<Rightarrow> host_nic list option" where
  "fq_attached_loop f vxnet [] result = Some result"
| "fq_attached_loop f vxnet ((k, n) # ns) result =
     (case fn_VxNet n of
        None \<Rightarrow> None
      | Some p \<Rightarrow> fq_attached_loop f vxnet ns (if vx_ID (vxnet_at f p) = vxnet then result @ [nic_view f n] else result))"

definition fq_GetAttachedNICs :: "string list \<Rightarrow> string \<Rightarrow> host_nic list fake_call" where
  "fq_GetAttachedNICs ord vxnet s =
     deref (fq_attached_loop (snd s) vxnet (go_range ord (fq_Nics (snd s))) []) (\<lambda>result s1. (Ok result, s1)) s"

section \<open>Vxnets and the VPC\<close>

definition fq_GetVxNet :: "string \<Rightarrow> vxnet option fake_call" where
  "fq_GetVxNet vxNet = (\<lambda>(m, f). (Ok (vxnet_named f vxNet), (m, f)))"

definition fq_GetVxNets :: "string list \<Rightarrow> vxnet option list fake_call" where
  "fq_GetVxNets vxNets = (\<lambda>(m, f). (Ok (List.map (vxnet_named f) vxNets), (m, f)))"

definition fq_DeleteVxNet :: "string \<Rightarrow> unit fake_call" where
  "fq_DeleteVxNet v = (\<lambda>(m, f). (Ok (), (m, f\<lparr> fq_VxNets := gm_del v (fq_VxNets f) \<rparr>)))"

text \<open>\<open>_, ipnet, _ := net.ParseCIDR(ip)\<close>\<close>

definition parse_net :: "string \<Rightarrow> mem \<Rightarrow> net_ref option \<times> mem" where
  "parse_net str m = (case ParseCIDR str of None \<Rightarrow> (None, m) | Some (_, n) \<Rightarrow> apfst Some (alloc_net n m))"

definition fq_CreateVxNet :: "(nat \<Rightarrow> nat \<Rightarrow> nat) \<Rightarrow> string \<Rightarrow> vxnet fake_call" where
  "fq_CreateVxNet rnd name = (\<lambda>(m, f).
     (let ip = ''192.168.'' @ dec_nat (rnd (fq_draws f) 255) @ ''.0/24''
      in case parse_net ip m of (ipnet, m1) \<Rightarrow>
           (let v = \<lparr> vx_ID = ''vxnet-'' @ name, vx_GateWay = '''', vx_Network = ipnet, vx_RouterID = '''', vx_Name = name \<rparr>
            in (Ok v, (m1, f\<lparr> fq_heap := fq_heap f @ [v], fq_VxNets := gm_put (vx_ID v) (length (fq_heap f)) (fq_VxNets f),
                              fq_draws := Suc (fq_draws f) \<rparr>)))))"

definition fq_GetVPCVxNets :: "string list \<Rightarrow> string \<Rightarrow> vxnet list fake_call" where
  "fq_GetVPCVxNets ord routeid = (\<lambda>(m, f).
     (Ok (filter (\<lambda>v. vx_RouterID v = routeid) (List.map (vxnet_at f \<circ> snd) (go_range ord (fq_VxNets f)))), (m, f)))"

text \<open>The list of the VPC is written before it is returned.\<close>

definition fq_GetVPC :: "string list \<Rightarrow> string \<Rightarrow> vpc fake_call" where
  "fq_GetVPC ord i s =
     check (fq_GetVPCVxNets ord (vpc_ID (fq_VPC (snd s))) s) (\<lambda>vxnets (m, f).
       let vp = (fq_VPC f)\<lparr> vpc_VxNets := vxnets \<rparr> in (Ok vp, (m, f\<lparr> fq_VPC := vp \<rparr>)))"

definition fq_GetNodeVPC :: "string list \<Rightarrow> vpc fake_call" where
  "fq_GetNodeVPC ord s = fq_GetVPC ord (fq_InstanceID (snd s)) s"

text \<open>A write through the pointer the map has for an ID; an unknown ID is a nil pointer.\<close>

definition write_vxnet :: "string \<Rightarrow> (vxnet \<Rightarrow> vxnet) \<Rightarrow> unit fake_call" where
  "write_vxnet vxnetID g = (\<lambda>(m, f).
     deref (map_of (fq_VxNets f) vxnetID) (\<lambda>p _. (Ok (), (m, f\<lparr> fq_heap := (fq_heap f)[p := g (vxnet_at f p)] \<rparr>))) (m, f))"

definition fq_JoinVPC :: "string \<Rightarrow> string \<Rightarrow> string \<Rightarrow> unit fake_call" where
  "fq_JoinVPC network vxnetID vpcID = (\<lambda>(m, f).
     case parse_net network m of
       (ipnet, m1) \<Rightarrow> write_vxnet vxnetID (\<lambda>v. v\<lparr> vx_Network := ipnet, vx_RouterID := vpcID \<rparr>) (m1, f))"

definition fq_LeaveVPC :: "string \<Rightarrow> string \<Rightarrow> unit fake_call" where
  "fq_LeaveVPC vxnetID vpcID = write_vxnet vxnetID (\<lambda>v. v\<lparr> vx_RouterID := '''' \<rparr>)"

fun first_named :: "string \<Rightarrow> vxnet list \<Rightarrow> vxnet option" where
  "first_named name [] = None"
| "first_named name (v # vs) = (if vx_Name v = name then Some v else first_named name vs)"

definition fq_GetVxNetByName :: "string list \<Rightarrow> string \<Rightarrow> vxnet fake_call" where
  "fq_GetVxNetByName ord name = (\<lambda>(m, f).
     case first_named name (List.map (vxnet_at f \<circ> snd) (go_range ord (fq_VxNets f))) of
       Some v \<Rightarrow> (Ok v, (m, f))
     | None \<Rightarrow> (Err (NewResourceNotFoundError ResourceTypeVxnet name []), (m, f)))"

definition fq_GetInstanceID :: "fake_cloud \<Rightarrow> string" where
  "fq_GetInstanceID f = fq_InstanceID f"

section \<open>Tags\<close>

definition tag_entries :: "fake_cloud \<Rightarrow> (string, tag) gomap" where
  "tag_entries f = (case fq_Tags f of None \<Rightarrow> [] | Some m \<Rightarrow> m)"

fun first_labelled :: "string \<Rightarrow> tag list \<Rightarrow> tag option" where
  "first_labelled label [] = None"
| "first_labelled label (t # ts) = (if tag_Label t = label then Some t else first_labelled label ts)"

definition fq_GetTagByLabel :: "string list \<Rightarrow> string \<Rightarrow> tag fake_call" where
  "fq_GetTagByLabel ord label = (\<lambda>(m, f).
     case first_labelled label (List.map snd (go_range ord (tag_entries f))) of
       Some t \<Rightarrow> (Ok t, (m, f))
     | None \<Rightarrow> (Err (NewResourceNotFoundError ResourceTypeTag label []), (m, f)))"

definition fq_GetTagByID :: "string \<Rightarrow> tag fake_call" where
  "fq_GetTagByID i = (\<lambda>(m, f).
     case map_of (tag_entries f) i of
       Some t \<Rightarrow> (Ok t, (m, f))
     | None \<Rightarrow> (Err (NewResourceNotFoundError ResourceTypeTag i []), (m, f)))"

text \<open>Whether or not the tag exists, the call ends with the error that it was not found.\<close>

definition fq_TagResources :: "string \<Rightarrow> string \<Rightarrow> string list \<Rightarrow> unit fake_call" where
  "fq_TagResources tagid resourceType ids = (\<lambda>(m, f).
     (Err (NewResourceNotFoundError ResourceTypeTag tagid []),
      (m, f\<lparr> fq_Tags := map_option (gm_adjust tagid (\<lambda>t. t\<lparr> tag_TaggedResources := tag_TaggedResources t
            @ List.map (\<lambda>i. Some \<lparr> tr_ResourceType = resourceType, tr_ResourceID = i \<rparr>) ids \<rparr>)) (fq_Tags f) \<rparr>)))"

text \<open>An assignment to an entry of a nil map is a panic.\<close>

definition fq_CreateTag :: "string \<Rightarrow> string \<Rightarrow> string fake_call" where
  "fq_CreateTag label color = (\<lambda>(m, f).
     deref (fq_Tags f) (\<lambda>tags _. (Ok label, (m, f\<lparr> fq_Tags := Some (gm_put label
         \<lparr> tag_Label = label, tag_ID = label, tag_TaggedResources = [] \<rparr> tags) \<rparr>))) (m, f))"

section \<open>The interface of the daemon\<close>

text \<open>
  The calls the daemon makes.  The interface has no call that never returns: for such a
  \<open>CreateNic\<close> this says \<open>Panic\<close>.  A nil pointer in a list has no place in it either, and the daemon
  does not call \<open>GetNics\<close> and \<open>GetVxNets\<close>.
\<close>

record cloud_order =
  order_nics :: "string list"
  order_vxnets :: "string list"

definition fake_cloud_api ::
  "(nat \<Rightarrow> nat \<Rightarrow> nat) \<Rightarrow> (nat \<Rightarrow> byte list) \<Rightarrow> (host_nic \<Rightarrow> unit fake_call) \<Rightarrow> cloud_order \<Rightarrow> string \<Rightarrow> fake_cloud cloud_api" where
  "fake_cloud_api rnd bytes after ord instanceID = \<lparr>
     api_CreateNic = (\<lambda>v s. case fq_CreateNic rnd bytes after v s of None \<Rightarrow> (Panic, s) | Some r \<Rightarrow> r),
     api_DeleteNic = fq_DeleteNic, api_GetPrimaryNIC = fq_GetPrimaryNIC (order_nics ord), api_GetVxNet = fq_GetVxNet,
     api_GetVxNetByName = fq_GetVxNetByName (order_vxnets ord), api_CreateVxNet = fq_CreateVxNet rnd,
     api_GetAttachedNICs = fq_GetAttachedNICs (order_nics ord), api_GetNodeVPC = fq_GetNodeVPC (order_vxnets ord),
     api_GetVPCVxNets = fq_GetVPCVxNets (order_vxnets ord), api_JoinVPC = fq_JoinVPC, api_LeaveVPC = fq_LeaveVPC,
     api_GetInstanceID = instanceID \<rparr>"

section \<open>Its vxnets keep the contract\<close>

text \<open>The map's keys are the IDs of the vxnets, and its pointers point into the heap.\<close>

definition fq_ok :: "fake_cloud \<Rightarrow> bool" where
  "fq_ok f \<longleftrightarrow> gm_wf (fq_VxNets f)
     \<and> list_all (\<lambda>(k, p). p < length (fq_heap f) \<and> vx_ID (fq_heap f ! p) = k) (fq_VxNets f)"

definition fq_names :: "fake_cloud \<Rightarrow> string \<Rightarrow> string option" where
  "fq_names f i = map_option vx_Name (vxnet_named f i)"

lemma fq_ok_entry: "fq_ok f \<Longrightarrow> map_of (fq_VxNets f) k = Some p \<Longrightarrow> p < length (fq_heap f) \<and> vx_ID (fq_heap f ! p) = k"
  by (auto simp: fq_ok_def list_all_iff dest!: map_of_SomeD)

lemma fq_ok_iff:
  "fq_ok f \<longleftrightarrow> gm_wf (fq_VxNets f)
     \<and> (\<forall>k p. map_of (fq_VxNets f) k = Some p \<longrightarrow> p < length (fq_heap f) \<and> vx_ID (fq_heap f ! p) = k)"
  by (auto simp: fq_ok_def list_all_iff dest!: map_of_SomeD)

lemma first_named_Some: "first_named n vs = Some v \<Longrightarrow> v \<in> set vs \<and> vx_Name v = n"
  by (induction vs) (auto split: if_splits)

lemma first_named_None: "first_named n vs = None \<longleftrightarrow> (\<forall>v \<in> set vs. vx_Name v \<noteq> n)"
  by (induction vs) auto

lemma listed_vxnets:
  assumes "fq_ok f"
  shows "set (List.map (vxnet_at f \<circ> snd) (go_range ord (fq_VxNets f))) = {v. vxnet_named f (vx_ID v) = Some v}"
proof -
  have wf: "gm_wf (fq_VxNets f)" using assms by (simp add: fq_ok_def)
  show ?thesis
  proof (intro set_eqI iffI)
    fix v assume "v \<in> set (List.map (vxnet_at f \<circ> snd) (go_range ord (fq_VxNets f)))"
    with wf obtain k p where "(k, p) \<in> set (fq_VxNets f)" "v = vxnet_at f p" by auto
    moreover from this wf have "map_of (fq_VxNets f) k = Some p" by simp
    ultimately show "v \<in> {v. vxnet_named f (vx_ID v) = Some v}"
      using fq_ok_entry [OF assms] by (simp add: vxnet_named_def vxnet_at_def)
  next
    fix v assume "v \<in> {v. vxnet_named f (vx_ID v) = Some v}"
    then show "v \<in> set (List.map (vxnet_at f \<circ> snd) (go_range ord (fq_VxNets f)))"
      using wf by (force simp: vxnet_named_def dest: map_of_SomeD)
  qed
qed

text \<open>Writing the network or the router of a vxnet changes no ID and no name.\<close>

lemma write_vxnet_leaves:
  assumes "\<And>v. vx_ID (g v) = vx_ID v \<and> vx_Name (g v) = vx_Name v" and "fq_ok f"
  shows "fq_ok (snd (snd (write_vxnet i g (m, f)))) \<and> fq_names (snd (snd (write_vxnet i g (m, f)))) = fq_names f"
proof (cases "map_of (fq_VxNets f) i")
  case (Some p)
  note e = fq_ok_entry [OF assms(2)]
  have "vx_Name ((fq_heap f)[p := g (fq_heap f ! p)] ! q) = vx_Name (fq_heap f ! q)"
    "vx_ID ((fq_heap f)[p := g (fq_heap f ! p)] ! q) = vx_ID (fq_heap f ! q)" for q
    using assms(1) e [OF Some] by (cases "q = p"; simp)+
  with Some assms(2) show ?thesis
    by (auto simp: write_vxnet_def fq_ok_def fq_names_def vxnet_named_def vxnet_at_def fun_eq_iff option.map_comp comp_def)
qed (use assms(2) in \<open>simp add: write_vxnet_def\<close>)

text \<open>A new vxnet is put under its ID, whatever was there.\<close>

lemma CreateVxNet_adds:
  assumes "fq_ok f" and "fq_CreateVxNet rnd n (m, f) = (y, (m', f'))"
  shows "\<exists>v. y = Ok v \<and> vx_ID v = ''vxnet-'' @ n \<and> vx_Name v = n \<and> fq_ok f' \<and> fq_names f' = (fq_names f)(vx_ID v \<mapsto> n)"
proof -
  let ?i = "''vxnet-'' @ n"
  obtain ipnet m1 where p: "parse_net (''192.168.'' @ dec_nat (rnd (fq_draws f) 255) @ ''.0/24'') m = (ipnet, m1)" by fastforce
  let ?v = "\<lparr> vx_ID = ?i, vx_GateWay = '''', vx_Network = ipnet, vx_RouterID = '''', vx_Name = n \<rparr>"
  have r: "y = Ok ?v" "f' = f\<lparr> fq_heap := fq_heap f @ [?v], fq_VxNets := gm_put ?i (length (fq_heap f)) (fq_VxNets f),
      fq_draws := Suc (fq_draws f) \<rparr>"
    using assms(2) p by (simp_all add: fq_CreateVxNet_def Let_def)
  have old: "p < length (fq_heap f) \<and> vx_ID (fq_heap f ! p) = k" if "map_of (fq_VxNets f) k = Some p" for k p
    using fq_ok_entry [OF assms(1) that] .
  have "fq_ok f'"
    using assms(1) old unfolding fq_ok_iff r(2) by (auto simp: nth_append less_Suc_eq split: if_splits)
  moreover have "fq_names f' k = ((fq_names f)(?i \<mapsto> n)) k" for k
    using old [of k] by (cases "map_of (fq_VxNets f) k") (auto simp: fq_names_def vxnet_named_def vxnet_at_def r(2) nth_append)
  ultimately show ?thesis using r(1) by (auto simp: fun_eq_iff)
qed

interpretation fake_vxnets: vxnet_cloud "fake_cloud_api rnd bytes after ord instanceID" fq_ok fq_names
  for rnd bytes after ord instanceID
proof
  let ?api = "fake_cloud_api rnd bytes after ord instanceID"
  show "leaves fq_ok fq_names (api_GetVxNet ?api i)" for i
    by (simp add: leaves_def fake_cloud_api_def fq_GetVxNet_def split: prod.split)
  show "leaves fq_ok fq_names (api_GetVxNetByName ?api n)" for n
    by (auto simp: leaves_def fake_cloud_api_def fq_GetVxNetByName_def split: prod.split option.split)
  show "leaves fq_ok fq_names (api_GetVPCVxNets ?api r)" for r
    by (simp add: leaves_def fake_cloud_api_def fq_GetVPCVxNets_def split: prod.split)
  show "leaves fq_ok fq_names (api_JoinVPC ?api net i r)" for net i r
  proof -
    have "fq_ok f \<Longrightarrow> fq_ok (snd (snd (write_vxnet i (\<lambda>v. v\<lparr> vx_Network := x, vx_RouterID := r \<rparr>) (m, f))))
        \<and> fq_names (snd (snd (write_vxnet i (\<lambda>v. v\<lparr> vx_Network := x, vx_RouterID := r \<rparr>) (m, f)))) = fq_names f" for x m f
      by (rule write_vxnet_leaves) simp_all
    then show ?thesis by (auto simp: leaves_def fake_cloud_api_def fq_JoinVPC_def split: prod.split)
  qed
  show "fq_ok w' \<and> fq_names w' \<subseteq>\<^sub>m fq_names w"
    if "fq_ok w" "api_LeaveVPC ?api i r (m, w) = (x, m', w')" for w i r m x m' w'
    using write_vxnet_leaves [OF _ that(1), of "\<lambda>v. v\<lparr> vx_RouterID := '''' \<rparr>" i m] that(2)
    by (simp add: fake_cloud_api_def fq_LeaveVPC_def)
  show "\<exists>v. z = Some v \<and> vx_ID v = i"
    if "fq_ok w" "fq_names w i \<noteq> None" "api_GetVxNet ?api i (m, w) = (Ok z, s'')" for w i m z s''
    using that fq_ok_entry [OF that(1)]
    by (auto simp: fake_cloud_api_def fq_GetVxNet_def fq_names_def vxnet_named_def vxnet_at_def)
  show "fq_names w (vx_ID v) = Some n"
    if "fq_ok w" "api_GetVxNetByName ?api n (m, w) = (Ok v, s')" for w n m v s'
    using that listed_vxnets [OF that(1), of "order_vxnets ord"]
    by (auto simp: fake_cloud_api_def fq_GetVxNetByName_def fq_names_def split: option.splits dest!: first_named_Some)
  show "n \<notin> ran (fq_names w)"
    if "fq_ok w" "api_GetVxNetByName ?api n (m, w) = (Err e, s')" "IsResourceNotFound e" for w n m e s'
  proof
    assume "n \<in> ran (fq_names w)"
    then obtain k p where "map_of (fq_VxNets w) k = Some p" "vx_Name (vxnet_at w p) = n"
      by (auto simp: ran_def fq_names_def vxnet_named_def)
    with fq_ok_entry [OF that(1)] have "vxnet_named w (vx_ID (vxnet_at w p)) = Some (vxnet_at w p)"
      by (simp add: vxnet_named_def vxnet_at_def)
    then have "vxnet_at w p \<in> set (List.map (vxnet_at w \<circ> snd) (go_range (order_vxnets ord) (fq_VxNets w)))"
      unfolding listed_vxnets [OF that(1)] by simp
    with \<open>vx_Name (vxnet_at w p) = n\<close> that(2) show False
      using first_named_None by (fastforce simp: fake_cloud_api_def fq_GetVxNetByName_def split: option.splits)
  qed
  show "fq_ok w' \<and> (case y of Ok v \<Rightarrow> fq_names w' = (fq_names w)(vx_ID v \<mapsto> n) | _ \<Rightarrow> fq_names w' = fq_names w)"
    if "fq_ok w" "api_CreateVxNet ?api n (m, w) = (y, m', w')" for w n m y m' w'
    using CreateVxNet_adds [OF that(1), of rnd n m y m' w'] that(2) by (auto simp: fake_cloud_api_def)
qed

end
