(* ===== verification/FakeCloudThms.thy ===== *)
theory FakeCloudThms
  imports FakeCloud
begin

text \<open>
  One vxnet per node, on every cloud that keeps the contract of \<open>VxnetCloud\<close> (the cloud in memory
  does), and the address the cloud in memory gives a new NIC.
\<close>

section \<open>Drawing an address\<close>

definition drawn :: "(nat \<Rightarrow> nat \<Rightarrow> nat) \<Rightarrow> byte list \<Rightarrow> nat \<Rightarrow> byte list" where
  "drawn rnd n k = n[3 := of_nat (rnd k 253 + 2)]"

text \<open>The first draw from \<open>k\<close> on that no NIC has.\<close>

definition first_free :: "(nat \<Rightarrow> nat \<Rightarrow> nat) \<Rightarrow> byte list \<Rightarrow> string list \<Rightarrow> nat \<Rightarrow> byte list \<times> nat \<Rightarrow> bool" where
  "first_free rnd n used k r \<longleftrightarrow>
     (\<exists>j \<ge> k. r = (drawn rnd n j, Suc j) \<and> ip_string (drawn rnd n j) \<notin> set used
        \<and> (\<forall>i. k \<le> i \<longrightarrow> i < j \<longrightarrow> ip_string (drawn rnd n i) \<in> set used))"

lemma pick_ip_Some: "pick_ip rnd n used k = Some r \<Longrightarrow> first_free rnd n used k r"
proof (rule pick_ip.raw_induct [of first_free])
  fix f rnd n used k r
  assume IH: "\<And>rnd n used k r. f rnd n used k = Some r \<Longrightarrow> first_free rnd n used k r"
    and step: "(let dup = n[3 := of_nat (rnd k 253 + 2)] in if ip_string dup \<in> set used then f rnd n used (Suc k) else Some (dup, Suc k)) = Some r"
  show "first_free rnd n used k r"
  proof (cases "ip_string (drawn rnd n k) \<in> set used")
    case True
    then have "first_free rnd n used (Suc k) r" using IH step by (simp add: Let_def drawn_def)
    then show ?thesis using True unfolding first_free_def by (metis Suc_leD le_neq_implies_less Suc_leI)
  next
    case False
    then show ?thesis using step by (auto simp: first_free_def Let_def drawn_def)
  qed
qed

lemma pick_ip_finds:
  assumes "k \<le> j" and "ip_string (drawn rnd n j) \<notin> set used"
  shows "pick_ip rnd n used k \<noteq> None"
  using assms
proof (induction "j - k" arbitrary: k)
  case 0
  then show ?case by (subst pick_ip.simps) (simp add: drawn_def Let_def)
next
  case (Suc d)
  then show ?case by (subst pick_ip.simps) (auto simp: Let_def)
qed

section \<open>Properties\<close>

text \<open>C30: in the cloud in memory a new NIC gets an address of its vxnet's subnet that no NIC of the cloud
  has; the call returns exactly when such an address is drawn at some time, so with all 253
  addresses of the subnet in use it never returns.\<close>

theorem fake_nic_address:
  assumes "vxnet_named f vx = Some v" and "vx_Network v = Some ref" and "To4 (net_IP (net_at m ref)) = Some n"
  defines "used \<equiv> List.map (hn_Address \<circ> fn_nic \<circ> snd) (fq_Nics f)"
  shows "(fq_CreateNic rnd bytes after vx (m, f) \<noteq> None \<longleftrightarrow> (\<exists>j \<ge> fq_draws f. ip_string (drawn rnd n j) \<notin> set used))
    \<and> (\<forall>nic s'. fq_CreateNic rnd bytes after vx (m, f) = Some (Ok nic, s') \<longrightarrow>
         (\<exists>j \<ge> fq_draws f. hn_Address nic = ip_string (drawn rnd n j)) \<and> hn_Address nic \<notin> set used)
    \<and> ((\<forall>k. rnd k 253 < 253) \<longrightarrow> (\<forall>b \<in> {2..254}. ip_string (n[3 := of_nat b]) \<in> set used)
       \<longrightarrow> fq_CreateNic rnd bytes after vx (m, f) = None)"
proof (intro conjI impI allI)
  let ?run = "fq_CreateNic rnd bytes after vx (m, f)"
  note eq = fq_CreateNic_def [of rnd bytes after vx "(m, f)", simplified, unfolded assms(1)]
  have run: "?run = (case pick_ip rnd n used (fq_draws f) of None \<Rightarrow> None | Some (ip, k) \<Rightarrow> ?run)"
    using assms(2,3) by (auto simp: eq used_def split: option.split)
  have some: "?run \<noteq> None" if "pick_ip rnd n used (fq_draws f) = Some r" for r
    using that assms(2,3) by (cases r) (simp add: eq used_def Let_def)
  show iff: "?run \<noteq> None \<longleftrightarrow> (\<exists>j \<ge> fq_draws f. ip_string (drawn rnd n j) \<notin> set used)"
  proof
    assume "?run \<noteq> None"
    with run obtain r where "pick_ip rnd n used (fq_draws f) = Some r" by (metis option.case(1) option.exhaust)
    with pick_ip_Some show "\<exists>j \<ge> fq_draws f. ip_string (drawn rnd n j) \<notin> set used" unfolding first_free_def by blast
  next
    assume "\<exists>j \<ge> fq_draws f. ip_string (drawn rnd n j) \<notin> set used"
    with pick_ip_finds obtain r where "pick_ip rnd n used (fq_draws f) = Some r" by blast
    then show "?run \<noteq> None" by (rule some)
  qed
  show "?run = None" if lim: "\<forall>k. rnd k 253 < 253" and full: "\<forall>b \<in> {2..254}. ip_string (n[3 := of_nat b]) \<in> set used"
  proof -
    have "ip_string (drawn rnd n j) \<in> set used" for j
    proof -
      have "rnd j 253 + 2 \<in> {2..254}" using lim [rule_format, of j] by simp
      with full show ?thesis unfolding drawn_def by (rule bspec)
    qed
    with iff show ?thesis by blast
  qed
  fix nic s' assume "?run = Some (Ok nic, s')"
  with run obtain ip k where p: "pick_ip rnd n used (fq_draws f) = Some (ip, k)" by (metis option.case(1) option.exhaust option.distinct(1) prod.exhaust)
  have "hn_Address nic = ip_string ip"
    using \<open>?run = Some (Ok nic, s')\<close> assms(2,3) p by (auto simp: eq used_def Let_def nic_view_def elim!: check_Ok_elim)
  with pick_ip_Some [OF p] show "\<exists>j \<ge> fq_draws f. hn_Address nic = ip_string (drawn rnd n j)" "hn_Address nic \<notin> set used"
    unfolding first_free_def by auto
qed



section \<open>Witnesses\<close>

text \<open>A node without annotations, on the cloud in memory; the VPC is \<open>192.168.0.0/16\<close>.\<close>

definition plain_k8s :: "fake_cloud k8s_api" where
  "plain_k8s = \<lparr> k8s_Start = (\<lambda>s. (Ok (), s)), k8s_GetCurrentNode = (\<lambda>s. (Ok \<lparr> node_Name = ''n'', node_Annotations = [] \<rparr>, s)),
     k8s_UpdateNodeAnnotation = (\<lambda>k x s. (Ok (), s)), k8s_GetCurrentNodePods = (\<lambda>s. (Ok [], s)) \<rparr>"

definition memory_vpc :: vpc where
  "memory_vpc = \<lparr> vpc_Network = Some sample_vpc_net, vpc_ID = ''rtr'', vpc_VxNets = [] \<rparr>"

definition memory_node :: "fake_cloud ipamd" where
  "memory_node = (NewIpamD sample_mem (NewFakeQingCloudAPI ''i-1'' memory_vpc))\<lparr> own_vpc := Some memory_vpc \<rparr>"

abbreviation memory_api :: "fake_cloud cloud_api" where
  "memory_api \<equiv> fake_cloud_api (\<lambda>k n. k mod n) (\<lambda>k. [0, 0, 0, 0, 0, 0]) (\<lambda>nic s. (Ok (), s)) \<lparr> order_nics = [], order_vxnets = [] \<rparr> ''i-1''"

lemma memory_facts:
  "fq_ok (ip_ext memory_node)" "calm fq_ok fq_names (\<lambda>d s. s)"
  "leaves fq_ok fq_names (k8s_GetCurrentNode plain_k8s)" "\<And>k x. leaves fq_ok fq_names (k8s_UpdateNodeAnnotation plain_k8s k x)"
  "one_named (fq_names (ip_ext memory_node)) n"
  "ext (k8s_GetCurrentNode plain_k8s) s = (Ok \<lparr> node_Name = ''n'', node_Annotations = [] \<rparr>, s)"
  by (simp_all add: memory_node_def NewIpamD_def NewFakeQingCloudAPI_def fq_ok_def calm_def leaves_def plain_k8s_def
      one_named_def fq_names_def vxnet_named_def ext_def)

text \<open>On it the vxnet is created, joined and used.\<close>

lemma memory_runs:
  obtains v s' x i where "EnsureVxNet memory_api plain_k8s (\<lambda>d s. s) memory_node = (Ok (), s')" "own_vxnet s' = Some v"
    "fq_heap (ip_ext s') = [x]" "vx_RouterID x = ''rtr''" "vx_Name x = NameForVxnet ''n''" "fq_VxNets (ip_ext s') = [(i, 0)]"
proof -
  let ?rnd = "\<lambda>k n. k mod n :: nat"
  obtain net m1 where p: "parse_net (''192.168.'' @ dec_nat (?rnd 0 255) @ ''.0/24'') sample_mem = (net, m1)" by fastforce
  then obtain new where m1: "m1 = sample_mem @ new" by (auto simp: parse_net_def alloc_net_def split: option.splits)
  let ?v = "\<lparr> vx_ID = ''vxnet-'' @ NameForVxnet ''n'', vx_GateWay = '''', vx_Network = net, vx_RouterID = '''', vx_Name = NameForVxnet ''n'' \<rparr>"
  let ?f1 = "(NewFakeQingCloudAPI ''i-1'' memory_vpc)\<lparr> fq_heap := [?v], fq_VxNets := [(vx_ID ?v, 0)], fq_draws := 1 \<rparr>"
  let ?s1 = "memory_node\<lparr> NodeName := ''n'', ip_mem := m1, ip_ext := ?f1 \<rparr>"

  have create: "ext (api_CreateVxNet memory_api (NameForVxnet ''n'')) (memory_node\<lparr> NodeName := ''n'' \<rparr>) = (Ok ?v, ?s1)"
    using p by (simp add: memory_node_def NewIpamD_def ext_def fake_cloud_api_def fq_CreateVxNet_def Let_def NewFakeQingCloudAPI_def)
  have "choosable m1 sample_vpc_net"
    by (simp add: m1 choosable_def sample_vpc_net_def mem_bytes_def sample_mem_def nth_append)
  then obtain m2 where m2: "chooseIPFromVxnet sample_vpc_net [] m1 = Some (Some sample_vpc_net, m2)"
    by (rule choose_cases [of m1 sample_vpc_net "[]"]) (auto simp: taken_def dest: meta_spec [of _ 1])
  have vx: "ext (api_GetVPCVxNets memory_api ''rtr'') ?s1 = (Ok [], ?s1)"
    by (simp add: ext_def fake_cloud_api_def fq_GetVPCVxNets_def vxnet_at_def go_range_def)
  have "\<exists>s2. ext (api_JoinVPC memory_api str (vx_ID ?v) ''rtr'') (?s1\<lparr> ip_mem := m2 \<rparr>) = (Ok (), s2)
      \<and> (\<exists>x. fq_heap (ip_ext s2) = [x] \<and> vx_RouterID x = ''rtr'' \<and> vx_Name x = NameForVxnet ''n'') \<and> fq_VxNets (ip_ext s2) = [(vx_ID ?v, 0)]" for str
    by (simp add: ext_def fake_cloud_api_def fq_JoinVPC_def write_vxnet_def vxnet_at_def memory_node_def split: prod.split)
  then obtain s2 x where after: "fq_heap (ip_ext s2) = [x]" "vx_RouterID x = ''rtr''" "vx_Name x = NameForVxnet ''n''" "fq_VxNets (ip_ext s2) = [(vx_ID ?v, 0)]"
    and j: "ext (api_JoinVPC memory_api (ipnet_string (net_at m2 sample_vpc_net)) (vx_ID ?v) ''rtr'') (?s1\<lparr> ip_mem := m2 \<rparr>) = (Ok (), s2)"
    by blast
  have own: "own_vpc ?s1 = Some memory_vpc" "vpc_ID memory_vpc = ''rtr''" "vpc_Network memory_vpc = Some sample_vpc_net"
    by (simp_all add: memory_node_def memory_vpc_def)
  obtain v' s3 where join: "joinVPC memory_api (?v, ?s1) = (Ok (), (v', s3))" and s3: "ip_ext s3 = ip_ext s2"
    using own vx m2 j by (simp add: joinVPC_def with_vxnet_def append_vxnet_def Let_def)
  have "createNewVxnet memory_api (\<lambda>d s. s) (memory_node\<lparr> NodeName := ''n'' \<rparr>) = (Ok v', s3)"
  proof -
    have "createNewVxnet memory_api (\<lambda>d s. s) s = (Ok v', s3)"
      if "ext (api_CreateVxNet memory_api (NameForVxnet (NodeName s))) s = (Ok ?v, ?s1)" for s
      using that Do_first [of "joinVPC memory_api", OF join] by (simp add: createNewVxnet_def)
    then show ?thesis using create by simp
  qed
  moreover have "ext (api_GetVxNetByName memory_api (NameForVxnet ''n'')) (memory_node\<lparr> NodeName := ''n'' \<rparr>)
      = (Err (NewResourceNotFoundError ResourceTypeVxnet (NameForVxnet ''n'') []), memory_node\<lparr> NodeName := ''n'' \<rparr>)"
    by (simp add: ext_def fake_cloud_api_def fq_GetVxNetByName_def memory_node_def NewIpamD_def NewFakeQingCloudAPI_def go_range_def)
  ultimately have "EnsureVxNet memory_api plain_k8s (\<lambda>d s. s) memory_node = (Ok (), s3\<lparr> own_vxnet := Some v' \<rparr>)"
    using memory_facts(6) by (simp add: EnsureVxNet_def Let_def) (simp add: ext_def plain_k8s_def)
  then show ?thesis by (rule that) (use after s3 in simp_all)
qed



text \<open>The first address of the subnet is taken, the second is drawn next.\<close>

definition memory_cloud :: fake_cloud where
  "memory_cloud = (NewFakeQingCloudAPI ''i-1'' memory_vpc)\<lparr> fq_heap := [sample_vxnet], fq_VxNets := [(''vxnet-1'', 0)],
     fq_Nics := [(''m'', \<lparr> fn_nic = \<lparr> hn_ID = ''m'', hn_VxNet = None, hn_HardwareAddr = ''m'', hn_Address = ''192.168.1.2'',
       hn_DeviceNumber = 1, hn_IsPrimary = True \<rparr>, fn_VxNet = Some 0 \<rparr>)] \<rparr>"

lemma fake_nic_address_witness:
  "\<exists>nic s'. fq_CreateNic (\<lambda>k n. k mod n) (\<lambda>k. [0, 0, 0, 0, 0, 0]) (\<lambda>nic s. (Ok (), s)) ''vxnet-1'' (sample_mem, memory_cloud) = Some (Ok nic, s')
    \<and> hn_Address nic \<noteq> ''192.168.1.2''"
proof -
  have v: "vxnet_named memory_cloud ''vxnet-1'' = Some sample_vxnet" "vx_Network sample_vxnet = Some \<lparr> ref_IP = 2, ref_Mask = 3 \<rparr>"
    "To4 (net_IP (net_at sample_mem \<lparr> ref_IP = 2, ref_Mask = 3 \<rparr>)) = Some [192, 168, 1, 0]" by code_simp+
  have free: "ip_string (drawn (\<lambda>k n. k mod n) [192, 168, 1, 0] 1) \<notin> set (List.map (hn_Address \<circ> fn_nic \<circ> snd) (fq_Nics memory_cloud))"
    "fq_draws memory_cloud \<le> 1" "''192.168.1.2'' \<in> set (List.map (hn_Address \<circ> fn_nic \<circ> snd) (fq_Nics memory_cloud))" by code_simp+
  note c = fake_nic_address [OF v, of "\<lambda>k n. k mod n" "\<lambda>k. [0, 0, 0, 0, 0, 0]" "\<lambda>nic s. (Ok (), s)"]
  with free obtain r where r: "fq_CreateNic (\<lambda>k n. k mod n) (\<lambda>k. [0, 0, 0, 0, 0, 0]) (\<lambda>nic s. (Ok (), s)) ''vxnet-1'' (sample_mem, memory_cloud) = Some r"
    by blast
  then obtain nic s' where n: "r = (Ok nic, s')"
    using v by (auto simp: fq_CreateNic_def Let_def split: option.splits prod.splits)
  with c r have "hn_Address nic \<notin> set (List.map (hn_Address \<circ> fn_nic \<circ> snd) (fq_Nics memory_cloud))" by simp
  with free(3) have "hn_Address nic \<noteq> ''192.168.1.2''" by metis
  with r n show ?thesis by blast
qed

end
