(* ===== verification/Ipamd.thy ===== *)
theory Ipamd
  imports Vxnet NetAddr
begin

text \<open>
  \<^verbatim>\<open>pkg/ipam/ipam.go\<close>: bringing the daemon up.  \<open>setup\<close> learns the node's VPC, vxnet and NICs
  from the cloud, sets the host network up, fills the data store and takes the addresses of
  the pods that already run; \<open>Start\<close> writes the CNI configuration once an address is free.

  Parameters: the three interfaces, the links of the node (\<open>netlink.LinkList\<close>), the environment,
  the texts of errno values, the clock and the iteration orders of the data store's loops, and
  \<open>sleep\<close>, what happens to the state while the daemon sleeps.
\<close>

section \<open>NICs\<close>

definition is_duplicate_nic :: "(errno \<Rightarrow> string) \<Rightarrow> go_error \<Rightarrow> bool" where
  "is_duplicate_nic strerror err \<longleftrightarrow> error_string strerror err = DuplicatedNICError"

text \<open>The part of \<open>setupNic\<close> after the device number is known.\<close>

definition setup_known_nic ::
  "('w, 'r) network_api \<Rightarrow> (errno \<Rightarrow> string) \<Rightarrow> time \<Rightarrow> host_nic \<Rightarrow> 'w ipamd \<Rightarrow> unit go_result \<times> 'w ipamd" where
  "setup_known_nic napi strerror now nic s =
     (let network = (\<lambda>s1.
        if \<not> hn_IsPrimary nic then
          (case Option.bind (own_vxnet s1) (\<lambda>v. net_text (ip_mem s1) (vx_Network v)) of
             None \<Rightarrow> (Panic, s1)
           | Some subnet \<Rightarrow>
               check (ext (net_SetupNICNetwork napi (hn_Address nic) (hn_HardwareAddr nic) (hn_DeviceNumber nic) subnet) s1)
                 (\<lambda>_ s2. on_result (store (AddIPv4AddressFromStore (hn_ID nic) (hn_Address nic)) s2)
                    (\<lambda>_ s3. (Ok (), s3)) (\<lambda>_ s3. (Ok (), s3))))
        else (Ok (), s1))
      in on_result (store (AddNIC (hn_ID nic) (hn_DeviceNumber nic) (hn_IsPrimary nic) now) s)
           (\<lambda>_. network)
           (\<lambda>err s1. if is_duplicate_nic strerror err then network s1
              else (Err (Wrapped (''failed to add NIC '' @ hn_ID nic @ '' to data store'') err), s1)))"

definition setupNic ::
  "('w, 'r) network_api \<Rightarrow> ('w, link list) ext_call \<Rightarrow> (errno \<Rightarrow> string) \<Rightarrow> time \<Rightarrow> host_nic \<Rightarrow> 'w ipamd
   \<Rightarrow> unit go_result \<times> 'w ipamd" where
  "setupNic napi linkList strerror now nic s =
     (if hn_DeviceNumber nic \<le> 0 then
        check (LinkByMacAddr (hn_HardwareAddr nic) (ext linkList s)) (\<lambda>l s1.
          setup_known_nic napi strerror now (nic\<lparr> hn_DeviceNumber := link_Index l \<rparr>) s1)
      else setup_known_nic napi strerror now nic s)"

section \<open>Pods that already run\<close>

fun nic_index_loop :: "string \<Rightarrow> (string \<times> nic_ip_pool) list \<Rightarrow> int" where
  "nic_index_loop ip [] = -1"
| "nic_index_loop ip ((nk, nic) # nics) =
     (if ip \<in> set (gm_keys (nic_IPv4Addresses nic)) then nic_DeviceNumber nic else nic_index_loop ip nics)"

definition getNicIndexByIP :: "string list \<Rightarrow> string \<Rightarrow> 'w ipamd \<Rightarrow> int" where
  "getNicIndexByIP ord ip s = nic_index_loop ip (go_range ord (infos_NICIPPools (GetNICInfos ord (dataStore s))))"

text \<open>One turn of the loop over the pods; only a panic ends it early.\<close>

definition prepare_pod ::
  "('w, 'r) network_api \<Rightarrow> go_order \<Rightarrow> time \<Rightarrow> 'r list \<Rightarrow> k8s_pod_info \<Rightarrow> 'w ipamd \<Rightarrow> unit go_result \<times> 'w ipamd" where
  "prepare_pod napi ord now rules pod s =
     (if pod_IP pod = '''' then (Ok (), s)
      else
        let continue = (\<lambda>s1.
          case vpcSubnets s1 of
            None \<Rightarrow> (Panic, s1)
          | Some cidrs \<Rightarrow>
              (case GetVPNNet (pod_IP pod) of
                 None \<Rightarrow> (Panic, s1)
               | Some vpn \<Rightarrow>
                   (let table = getNicIndexByIP (ord_nics ord) (pod_IP pod) s1
                    in if table = -1 then (Ok (), s1)
                       else on_result
                         (ext (net_UpdateRuleListBySrc napi rules
                            \<lparr> net_IP = ParseIP (pod_IP pod), net_Mask = [255, 255, 255, 255] \<rparr>
                            (cidrs @ [vpn]) (\<not> net_UseExternalSNAT napi) table) s1)
                         (\<lambda>_ s2. (Ok (), s2)) (\<lambda>_ s2. (Ok (), s2)))))
        in on_result (store (AssignPodIPv4Address ord now pod) s) (\<lambda>_. continue) (\<lambda>_. continue))"

fun prepare_loop ::
  "('w, 'r) network_api \<Rightarrow> go_order \<Rightarrow> time \<Rightarrow> 'r list \<Rightarrow> k8s_pod_info list \<Rightarrow> 'w ipamd \<Rightarrow> unit go_result \<times> 'w ipamd" where
  "prepare_loop napi ord now rules [] s = (Ok (), s)"
| "prepare_loop napi ord now rules (pod # pods) s =
     check (prepare_pod napi ord now rules pod s) (\<lambda>_ s1. prepare_loop napi ord now rules pods s1)"

definition prepareLocalPods ::
  "('w, 'r) network_api \<Rightarrow> go_order \<Rightarrow> time \<Rightarrow> k8s_pod_info list \<Rightarrow> 'w ipamd \<Rightarrow> unit go_result \<times> 'w ipamd" where
  "prepareLocalPods napi ord now pods s =
     on_result (ext (net_GetRuleList napi) s)
       (\<lambda>rules s1. prepare_loop napi ord now rules pods s1)
       (\<lambda>_ s1. (Ok (), s1))"

section \<open>Start-up\<close>

text \<open>The closure given to \<open>retry.Do\<close>; the variable \<open>pods\<close> it assigns is part of its state.\<close>

definition list_pods ::
  "'w k8s_api \<Rightarrow> k8s_pod_info list \<times> 'w ipamd \<Rightarrow> unit go_result \<times> (k8s_pod_info list \<times> 'w ipamd)" where
  "list_pods k8s ps =
     (case ext (k8s_GetCurrentNodePods k8s) (snd ps) of
        (Ok pods, s1) \<Rightarrow>
          (if list_all (\<lambda>p. pod_IP p \<noteq> '''') pods then (Ok (), (pods, s1))
           else (Err (ErrorString ''Should retry''), (pods, s1)))
      | (Err err, s1) \<Rightarrow> (Err err, ([], s1))
      | (Panic, s1) \<Rightarrow> (Panic, (fst ps, s1)))"

fun setup_nics ::
  "('w, 'r) network_api \<Rightarrow> ('w, link list) ext_call \<Rightarrow> (errno \<Rightarrow> string) \<Rightarrow> time \<Rightarrow> host_nic list \<Rightarrow> 'w ipamd
   \<Rightarrow> unit go_result \<times> 'w ipamd" where
  "setup_nics napi linkList strerror now [] s = (Ok (), s)"
| "setup_nics napi linkList strerror now (nic # nics) s =
     check (setupNic napi linkList strerror now nic s) (\<lambda>_ s1. setup_nics napi linkList strerror now nics s1)"

text \<open>The last part of \<open>setup\<close>: the pods are listed, the outcome of the retries is ignored.\<close>

definition setup_pods ::
  "('w, 'r) network_api \<Rightarrow> 'w k8s_api \<Rightarrow> (duration \<Rightarrow> 'w ipamd \<Rightarrow> 'w ipamd) \<Rightarrow> go_order \<Rightarrow> time \<Rightarrow> 'w ipamd
   \<Rightarrow> unit go_result \<times> 'w ipamd" where
  "setup_pods napi k8s sleep ord now s =
     (case Do 5 (\<lambda>d. apsnd (sleep d)) (5 * second) (list_pods k8s) ([], s) of
        (r, (pods, s1)) \<Rightarrow> (if r = Panic then (Panic, s1) else prepareLocalPods napi ord now pods s1))"

text \<open>\<open>newCloud\<close> is the field \<^verbatim>\<open>prepareCloudClient\<close>; it is given the label configuration, if any.\<close>

definition ipamd_setup ::
  "((string \<times> string list) option \<Rightarrow> 'w cloud_api go_result) \<Rightarrow> ('w, 'r) network_api \<Rightarrow> 'w k8s_api \<Rightarrow> ('w, link list) ext_call
   \<Rightarrow> (string \<Rightarrow> string) \<Rightarrow> (errno \<Rightarrow> string) \<Rightarrow> (duration \<Rightarrow> 'w ipamd \<Rightarrow> 'w ipamd) \<Rightarrow> go_order \<Rightarrow> time \<Rightarrow> 'w ipamd
   \<Rightarrow> unit go_result \<times> 'w ipamd" where
  "ipamd_setup newCloud napi k8s linkList getenv strerror sleep ord now s0 =
     (let s = parseEnv getenv s0;
          labelConfig = (if disableLabel s then None else Some (clusterName s, extraTags s))
      in check (newCloud labelConfig, s) (\<lambda>api s1.
           check (ext (api_GetNodeVPC api) (s1\<lparr> InstanceID := api_GetInstanceID api \<rparr>)) (\<lambda>vp s2.
           check (EnsureVxNet api k8s sleep (s2\<lparr> own_vpc := Some vp \<rparr>)) (\<lambda>_ s3.
           check (ext (api_GetPrimaryNIC api) s3) (\<lambda>pn s4.
             let s5 = s4\<lparr> primaryNic := pn \<rparr>
             in case (pn, own_vpc s5, vpcSubnets s5) of
                  (Some nic, Some vp, Some subnets) \<Rightarrow>
                    on_result (ext (net_SetupHostNetwork napi (vpc_Network vp) subnets (hn_HardwareAddr nic) (ParseIP (hn_Address nic))) s5)
                      (\<lambda>_ s6.
                         case own_vxnet s6 of
                           None \<Rightarrow> (Panic, s6)
                         | Some v \<Rightarrow>
                             check (ext (api_GetAttachedNICs api (vx_ID v)) s6) (\<lambda>nics s7.
                             check (setup_nics napi linkList strerror now nics s7) (\<lambda>_ s8.
                               setup_pods napi k8s sleep ord now s8)))
                      (\<lambda>err s6. (Err (Wrapped ''ipamd init: failed to setup host network'' err), s6))
                | _ \<Rightarrow> (Panic, s5))))))"

definition StartIPAMD ::
  "((string \<times> string list) option \<Rightarrow> 'w cloud_api go_result) \<Rightarrow> ('w, 'r) network_api \<Rightarrow> 'w k8s_api \<Rightarrow> ('w, link list) ext_call
   \<Rightarrow> (string \<Rightarrow> string) \<Rightarrow> (errno \<Rightarrow> string) \<Rightarrow> (duration \<Rightarrow> 'w ipamd \<Rightarrow> 'w ipamd) \<Rightarrow> go_order \<Rightarrow> time \<Rightarrow> 'w ipamd
   \<Rightarrow> unit go_result \<times> 'w ipamd" where
  "StartIPAMD newCloud napi k8s linkList getenv strerror sleep ord now s =
     check (ext (k8s_Start k8s) s) (\<lambda>_ s1. ipamd_setup newCloud napi k8s linkList getenv strerror sleep ord now s1)"

section \<open>The CNI configuration\<close>

text \<open>The text the template gives; line breaks and tabs as in the source, nothing is escaped.\<close>

definition line :: "nat \<Rightarrow> string \<Rightarrow> string" where
  "line tabs t = replicate tabs (char_of (9 :: nat)) @ t @ [char_of (10 :: nat)]"

definition json_field :: "string \<Rightarrow> string \<Rightarrow> string" where
  "json_field name value = quoted name @ '': '' @ quoted value"

definition cni_config :: "string \<Rightarrow> string \<Rightarrow> string" where
  "cni_config CniVersion VethPrefix =
     line 0 ''{''
     @ line 1 (json_field ''cniVersion'' CniVersion @ '','')
     @ line 1 (json_field ''name'' ''hostnic-cni'' @ '','')
     @ line 1 (quoted ''plugins'' @ '': ['')
     @ line 2 ''{''
     @ line 2 (json_field ''name'' ''hostnic'' @ '','')
     @ line 2 (json_field ''type'' ''hostnic'' @ '','')
     @ line 2 (json_field ''vethPrefix'' VethPrefix)
     @ line 2 ''}]''
     @ ''}''"

text \<open>\<open>create\<close> and \<open>write\<close> are \<open>os.Create\<close> of the configuration file and the write to it.\<close>

definition WriteCNIConfig :: "('w, unit) ext_call \<Rightarrow> (string \<Rightarrow> ('w, unit) ext_call) \<Rightarrow> 'w ipamd \<Rightarrow> unit go_result \<times> 'w ipamd" where
  "WriteCNIConfig create write s =
     check (ext create s) (\<lambda>_ s1. ext (write (cni_config ''0.3.1'' (vethPrefix s1))) s1)"

text \<open>The closure of \<open>Start\<close> that waits for a free address.\<close>

definition config_attempt ::
  "(errno \<Rightarrow> string) \<Rightarrow> ('w, unit) ext_call \<Rightarrow> (string \<Rightarrow> ('w, unit) ext_call) \<Rightarrow> 'w ipamd \<Rightarrow> unit go_result \<times> 'w ipamd" where
  "config_attempt strerror create write s =
     (case GetStats (dataStore s) of
        (totalIPs, assigned) \<Rightarrow>
          if assigned < totalIPs then
            on_result (WriteCNIConfig create write s)
              (\<lambda>_ s1. (Ok (), s1))
              (\<lambda>err s1. (Err (ErrorString (''Failed to write CNI configlist, err: '' @ error_string strerror err)), s1))
          else (Err (ErrorString ''DataStore has no enough pods''), s))"

section \<open>A network interface for the witnesses\<close>

text \<open>Nothing but listing rules (\<open>b\<close>) and setting a NIC up (\<open>c\<close>) can fail; no rule exists.\<close>

definition sample_net :: "bool \<Rightarrow> bool \<Rightarrow> (nat, unit) network_api" where
  "sample_net b c = \<lparr> net_SetupHostNetwork = (\<lambda>n ss m a mw. (Ok (), mw)),
     net_SetupNICNetwork = (\<lambda>i m t sc mw. (if c then Ok () else Err (ErrorString ''no link''), mw)), net_UseExternalSNAT = False,
     net_GetRuleList = (\<lambda>mw. (if b then Ok [] else Err (ErrnoValue ENOENT), mw)),
     net_UpdateRuleListBySrc = (\<lambda>rs n cs f t mw. (Ok (), mw)) \<rparr>"

end
