(* ===== verification/DataStoreInv.thy ===== *)
theory DataStoreInv
  imports DataStore
begin

text \<open>
  The well-formedness of the data store: its counters agree with the maps, its keys with the
  values stored under them.  Each operation's effect is characterised once and each keeps the
  invariant; \<open>store_sys\<close> collects this for every sequence of operations.
\<close>

section \<open>Well-formedness\<close>

definition assigned_count :: "(string, address_info) gomap \<Rightarrow> int" where
  "assigned_count m = msum (\<lambda>a. if addr_Assigned a then 1 else 0) m"

definition nic_ok :: "string \<Rightarrow> nic_ip_pool \<Rightarrow> bool" where
  "nic_ok nk nic \<longleftrightarrow>
     nic_ID nic = nk \<and> 0 < nic_DeviceNumber nic \<and> gm_wf (nic_IPv4Addresses nic)
     \<and> (\<forall>(ak, a) \<in> set (nic_IPv4Addresses nic). addr_Address a = ak)
     \<and> nic_AssignedIPv4Addresses nic = assigned_count (nic_IPv4Addresses nic)"

definition ds_ok :: "data_store \<Rightarrow> bool" where
  "ds_ok ds \<longleftrightarrow>
     gm_wf (ds_nicIPPools ds) \<and> gm_wf (ds_podsIP ds)
     \<and> (\<forall>(nk, nic) \<in> set (ds_nicIPPools ds). nic_ok nk nic)
     \<and> ds_total ds = msum (\<lambda>nic. int (length (nic_IPv4Addresses nic))) (ds_nicIPPools ds)
     \<and> ds_assigned ds = msum nic_AssignedIPv4Addresses (ds_nicIPPools ds)"

named_theorems store_rules \<open>facts of a well-formed data store\<close>

lemma ds_ok_wf [store_rules]: "ds_ok ds \<Longrightarrow> gm_wf (ds_nicIPPools ds)" "ds_ok ds \<Longrightarrow> gm_wf (ds_podsIP ds)"
  by (auto simp: ds_ok_def)

lemma ds_ok_nic: "ds_ok ds \<Longrightarrow> map_of (ds_nicIPPools ds) nk = Some nic \<Longrightarrow> nic_ok nk nic"
  by (auto simp: ds_ok_def dest: map_of_SomeD)

lemma nic_ok_wf: "nic_ok nk nic \<Longrightarrow> gm_wf (nic_IPv4Addresses nic)"
  by (simp add: nic_ok_def)

lemma nic_ok_addr: "nic_ok nk nic \<Longrightarrow> map_of (nic_IPv4Addresses nic) ak = Some a \<Longrightarrow> addr_Address a = ak"
  by (auto simp: nic_ok_def dest: map_of_SomeD)

lemma assigned_count_simps [simp]:
  "assigned_count [] = 0"
  "assigned_count (e # m) = (if addr_Assigned (snd e) then 1 else 0) + assigned_count m"
  "assigned_count (m @ m') = assigned_count m + assigned_count m'"
  by (simp_all add: assigned_count_def)

lemma assigned_count_bounds: "0 \<le> assigned_count m \<and> assigned_count m \<le> int (length m)"
  by (induction m) auto

lemma assigned_count_full: "assigned_count m = int (length m) \<longleftrightarrow> (\<forall>e \<in> set m. addr_Assigned (snd e))"
  by (induction m) (use assigned_count_bounds in \<open>auto, (smt (verit))+\<close>)

lemma assigned_count_zero: "assigned_count m = 0 \<longleftrightarrow> (\<forall>e \<in> set m. \<not> addr_Assigned (snd e))"
  by (induction m) (use assigned_count_bounds in \<open>auto, (smt (verit))+\<close>)

lemma assigned_count_adjust:
  "gm_wf m \<Longrightarrow> map_of m k = Some a \<Longrightarrow>
   assigned_count (gm_adjust k g m)
   = assigned_count m - (if addr_Assigned a then 1 else 0) + (if addr_Assigned (g a) then 1 else 0)"
  unfolding assigned_count_def by (subst msum_adjust) auto

lemma assigned_count_del:
  "gm_wf m \<Longrightarrow> map_of m k = Some a \<Longrightarrow>
   assigned_count (gm_del k m) = assigned_count m - (if addr_Assigned a then 1 else 0)"
  unfolding assigned_count_def by (subst msum_del) auto

lemma nic_ok_adjust:
  assumes "nic_ok nk nic" and "map_of (nic_IPv4Addresses nic) k = Some a"
    and same: "\<And>a. addr_Address (g a) = addr_Address a"
    and "nic_ID nic' = nic_ID nic" and "nic_DeviceNumber nic' = nic_DeviceNumber nic"
    and addrs: "nic_IPv4Addresses nic' = gm_adjust k g (nic_IPv4Addresses nic)"
    and count: "nic_AssignedIPv4Addresses nic' = nic_AssignedIPv4Addresses nic
      - (if addr_Assigned a then 1 else 0) + (if addr_Assigned (g a) then 1 else 0)"
  shows "nic_ok nk nic'"
proof -
  have "assigned_count (nic_IPv4Addresses nic') = nic_AssignedIPv4Addresses nic'"
    unfolding addrs count using assms(1,2) by (subst assigned_count_adjust) (simp_all add: nic_ok_def)
  moreover have "\<forall>(ak, a) \<in> set (nic_IPv4Addresses nic'). addr_Address a = ak"
    using assms(1) same unfolding addrs set_gm_adjust nic_ok_def by auto
  ultimately show ?thesis
    using assms(1,4,5) addrs by (simp add: nic_ok_def)
qed

section \<open>The three ways an operation changes the pools\<close>

lemma ds_ok_adjust:
  assumes "ds_ok ds" and "map_of (ds_nicIPPools ds) nk = Some nic" and "nic_ok nk (f nic)"
    and "ds_nicIPPools ds' = gm_adjust nk f (ds_nicIPPools ds)" and "gm_wf (ds_podsIP ds')"
    and "ds_total ds' = ds_total ds - int (length (nic_IPv4Addresses nic)) + int (length (nic_IPv4Addresses (f nic)))"
    and "ds_assigned ds' = ds_assigned ds - nic_AssignedIPv4Addresses nic + nic_AssignedIPv4Addresses (f nic)"
  shows "ds_ok ds'"
proof -
  have "nic_ok k (if k = nk then f v else v)" if "(k, v) \<in> set (ds_nicIPPools ds)" for k v
  proof (cases "k = nk")
    case True
    with that have "v = nic"
      using gm_wf_unique assms(2) ds_ok_wf(1) [OF assms(1)] by metis
    with True assms(3) show ?thesis by simp
  next
    case False
    with that assms(1) show ?thesis by (auto simp: ds_ok_def)
  qed
  then have "\<forall>(k, v) \<in> set (ds_nicIPPools ds'). nic_ok k v"
    unfolding assms(4) set_gm_adjust by auto
  with assms show ?thesis
    unfolding ds_ok_def by (simp add: msum_adjust)
qed

lemma ds_ok_remove:
  assumes "ds_ok ds" and "map_of (ds_nicIPPools ds) nk = Some nic" and "nic_AssignedIPv4Addresses nic = 0"
    and "ds_nicIPPools ds' = gm_del nk (ds_nicIPPools ds)" and "ds_podsIP ds' = ds_podsIP ds"
    and "ds_total ds' = ds_total ds - int (length (nic_IPv4Addresses nic))" and "ds_assigned ds' = ds_assigned ds"
  shows "ds_ok ds'"
  using assms unfolding ds_ok_def
  by (auto simp: msum_del set_gm_del)

lemma ds_ok_insert:
  assumes "ds_ok ds" and "map_of (ds_nicIPPools ds) nk = None" and "nic_ok nk nic"
    and "nic_IPv4Addresses nic = []"
    and "ds_nicIPPools ds' = gm_put nk nic (ds_nicIPPools ds)" and "ds_podsIP ds' = ds_podsIP ds"
    and "ds_total ds' = ds_total ds" and "ds_assigned ds' = ds_assigned ds"
  shows "ds_ok ds'"
  using assms unfolding ds_ok_def
  by (auto simp: gm_put_fresh nic_ok_def gm_get_None_iff)

section \<open>What an assignment does\<close>

text \<open>The condition of the inner loop's two branches, and the effect both have.\<close>

definition takes :: "k8s_pod_info \<Rightarrow> time \<Rightarrow> address_info \<Rightarrow> bool" where
  "takes pod now a \<longleftrightarrow>
     pod_IP pod = addr_Address a
     \<or> \<not> addr_Assigned a \<and> pod_IP pod = '''' \<and> addressCoolingPeriod < time_sub now (addr_UnassignedTime a)"

definition skips_nic :: "k8s_pod_info \<Rightarrow> nic_ip_pool \<Rightarrow> bool" where
  "skips_nic pod nic \<longleftrightarrow>
     pod_IP pod = '''' \<and> int (length (nic_IPv4Addresses nic)) = nic_AssignedIPv4Addresses nic"

definition take_address ::
  "k8s_pod_info \<Rightarrow> string \<Rightarrow> nic_ip_pool \<Rightarrow> string \<Rightarrow> address_info \<Rightarrow> data_store \<Rightarrow> data_store" where
  "take_address pod nk nic ak a ds =
     record_pod_ip pod (addr_Address a) (nic_DeviceNumber nic)
       (if addr_Assigned a then ds else incrementAssignedCount nk ak ds)"

lemma assign_addr_loop_find:
  "assign_addr_loop pod now nk nic es ds =
     map_option (\<lambda>(ak, a). ((addr_Address a, nic_DeviceNumber nic), take_address pod nk nic ak a ds))
       (List.find (\<lambda>(ak, a). takes pod now a) es)"
  by (induction pod now nk nic es ds rule: assign_addr_loop.induct)
    (auto simp: takes_def take_address_def Let_def)

lemma assign_addr_loop_Some:
  assumes "assign_addr_loop pod now nk nic es ds = Some x"
  obtains ak a where "(ak, a) \<in> set es" "takes pod now a"
    "x = ((addr_Address a, nic_DeviceNumber nic), take_address pod nk nic ak a ds)"
  using assms by (auto simp: assign_addr_loop_find find_Some_iff in_set_conv_nth) (metis nth_mem)

lemma assign_addr_loop_None:
  "assign_addr_loop pod now nk nic es ds = None \<longleftrightarrow> (\<forall>(ak, a) \<in> set es. \<not> takes pod now a)"
  by (auto simp: assign_addr_loop_find find_None_iff)

lemma assign_nic_loop_cases:
  obtains
    (taken) nk nic ak a where "(nk, nic) \<in> set es" "\<not> skips_nic pod nic"
      "(ak, a) \<in> set (go_range (ips nk) (nic_IPv4Addresses nic))" "takes pod now a"
      "assign_nic_loop pod now ips es ds
       = (Ok (addr_Address a, nic_DeviceNumber nic), take_address pod nk nic ak a ds)"
  | (none) "assign_nic_loop pod now ips es ds = (Err NoAvailableIPError, ds)"
      "\<And>nk nic. (nk, nic) \<in> set es \<Longrightarrow> \<not> skips_nic pod nic \<Longrightarrow>
         \<forall>(ak, a) \<in> set (go_range (ips nk) (nic_IPv4Addresses nic)). \<not> takes pod now a"
proof (induction pod now ips es ds arbitrary: thesis rule: assign_nic_loop.induct)
  case (1 pod now ips ds)
  then show ?case by auto
next
  case (2 pod now ips nk nic nics ds)
  show ?case
  proof (cases "skips_nic pod nic")
    case True
    then have eq: "assign_nic_loop pod now ips ((nk, nic) # nics) ds = assign_nic_loop pod now ips nics ds"
      and cond: "pod_IP pod = '''' \<and> int (length (nic_IPv4Addresses nic)) = nic_AssignedIPv4Addresses nic"
      by (auto simp: skips_nic_def)
    show ?thesis
      by (rule "2.IH"(1) [OF cond]) (use "2.prems" True in \<open>auto simp only: eq set_simps insert_iff prod.inject, blast+\<close>)
  next
    case False
    then have cond: "\<not> (pod_IP pod = '''' \<and> int (length (nic_IPv4Addresses nic)) = nic_AssignedIPv4Addresses nic)"
      by (auto simp: skips_nic_def)
    show ?thesis
    proof (cases "assign_addr_loop pod now nk nic (go_range (ips nk) (nic_IPv4Addresses nic)) ds")
      case (Some x)
      then obtain ak a where "(ak, a) \<in> set (go_range (ips nk) (nic_IPv4Addresses nic))" "takes pod now a"
        and x: "x = ((addr_Address a, nic_DeviceNumber nic), take_address pod nk nic ak a ds)"
        by (rule assign_addr_loop_Some)
      moreover have "assign_nic_loop pod now ips ((nk, nic) # nics) ds = (Ok (fst x), snd x)"
        using Some cond by (auto split: prod.splits)
      ultimately show ?thesis
        using False by (intro "2.prems"(1) [of nk nic ak a]) auto
    next
      case None
      with cond have eq: "assign_nic_loop pod now ips ((nk, nic) # nics) ds = assign_nic_loop pod now ips nics ds"
        by auto
      from None have no: "\<forall>(ak, a) \<in> set (go_range (ips nk) (nic_IPv4Addresses nic)). \<not> takes pod now a"
        by (simp only: assign_addr_loop_None)
      show ?thesis
        by (rule "2.IH"(2) [OF cond None]) (use "2.prems" no in \<open>auto simp only: eq set_simps insert_iff prod.inject, blast+\<close>)
    qed
  qed
qed

text \<open>
  The four outcomes of \<^verbatim>\<open>AssignPodIPv4Address\<close> on a well-formed store.  In the last case no
  address satisfies the loop's condition, apart from addresses already assigned, which the
  loop without a requested IP does not look at when the whole NIC is used.
\<close>

lemma range_nics_mem: "ds_ok ds \<Longrightarrow>
    (nk, nic) \<in> set (go_range ord (ds_nicIPPools ds)) \<longleftrightarrow> map_of (ds_nicIPPools ds) nk = Some nic"
  by (simp add: store_rules)

lemma range_addrs_mem: "nic_ok nk nic \<Longrightarrow>
    (ak, a) \<in> set (go_range ord (nic_IPv4Addresses nic)) \<longleftrightarrow> map_of (nic_IPv4Addresses nic) ak = Some a"
  by (simp add: nic_ok_wf)

lemma skipped_nic_assigned:
  assumes "nic_ok nk nic" and "skips_nic pod nic" and "map_of (nic_IPv4Addresses nic) ak = Some a"
  shows "pod_IP pod = '''' \<and> addr_Assigned a"
proof -
  have "assigned_count (nic_IPv4Addresses nic) = int (length (nic_IPv4Addresses nic))"
    using assms by (simp add: skips_nic_def nic_ok_def)
  with map_of_SomeD [OF assms(3)] have "addr_Assigned a"
    unfolding assigned_count_full by fastforce
  with assms(2) show ?thesis by (simp add: skips_nic_def)
qed

lemma AssignPod_cases [consumes 1]:
  assumes ok: "ds_ok ds"
  obtains
    (known) e where "map_of (ds_podsIP ds) (pod_key_of pod) = Some e" "pi_IP e = pod_IP pod" "pod_IP pod \<noteq> ''''"
      "AssignPodIPv4Address ord now pod ds = (Ok (pi_IP e, pi_DeviceNumber e), ds)"
  | (refused) e where "map_of (ds_podsIP ds) (pod_key_of pod) = Some e" "\<not> (pi_IP e = pod_IP pod \<and> pod_IP pod \<noteq> '''')"
      "AssignPodIPv4Address ord now pod ds = (Err MultipleIPError, ds)"
  | (taken) nk nic ak a where "map_of (ds_podsIP ds) (pod_key_of pod) = None"
      "map_of (ds_nicIPPools ds) nk = Some nic" "map_of (nic_IPv4Addresses nic) ak = Some a" "takes pod now a"
      "AssignPodIPv4Address ord now pod ds
       = (Ok (addr_Address a, nic_DeviceNumber nic), take_address pod nk nic ak a ds)"
  | (none) "map_of (ds_podsIP ds) (pod_key_of pod) = None"
      "AssignPodIPv4Address ord now pod ds = (Err NoAvailableIPError, ds)"
      "\<And>nk nic ak a. map_of (ds_nicIPPools ds) nk = Some nic \<Longrightarrow> map_of (nic_IPv4Addresses nic) ak = Some a
         \<Longrightarrow> \<not> takes pod now a \<or> pod_IP pod = '''' \<and> addr_Assigned a"
proof (cases "map_of (ds_podsIP ds) (pod_key_of pod)")
  case (Some e)
  then show ?thesis
    by (cases "pi_IP e = pod_IP pod \<and> pod_IP pod \<noteq> []")
      (use known refused Some in \<open>auto simp: AssignPodIPv4Address_def\<close>)
next
  case None
  let ?es = "go_range (ord_nics ord) (ds_nicIPPools ds)"
  have eq: "AssignPodIPv4Address ord now pod ds = assign_nic_loop pod now (ord_ips ord) ?es ds"
    using None by (simp add: AssignPodIPv4Address_def assignPodIPv4AddressUnsafe_def)
  note mem = range_nics_mem [OF ok, of _ _ "ord_nics ord"]
    and amem = range_addrs_mem [OF ds_ok_nic [OF ok]]
  show ?thesis
  proof (rule assign_nic_loop_cases [of ?es pod "ord_ips ord" now ds])
    fix nk nic ak a
    assume n: "(nk, nic) \<in> set ?es" and a: "(ak, a) \<in> set (go_range (ord_ips ord nk) (nic_IPv4Addresses nic))"
      and t: "takes pod now a"
      and res: "assign_nic_loop pod now (ord_ips ord) ?es ds
       = (Ok (addr_Address a, nic_DeviceNumber nic), take_address pod nk nic ak a ds)"
    from n have n: "map_of (ds_nicIPPools ds) nk = Some nic" by (simp only: mem)
    show ?thesis
      using taken [OF None n _ t] a res by (simp only: amem [OF n] eq)
  next
    assume res: "assign_nic_loop pod now (ord_ips ord) ?es ds = (Err NoAvailableIPError, ds)"
      and free: "\<And>nk nic. (nk, nic) \<in> set ?es \<Longrightarrow> \<not> skips_nic pod nic \<Longrightarrow>
         \<forall>(ak, a) \<in> set (go_range (ord_ips ord nk) (nic_IPv4Addresses nic)). \<not> takes pod now a"
    have "\<not> takes pod now a \<or> pod_IP pod = '''' \<and> addr_Assigned a"
      if n: "map_of (ds_nicIPPools ds) nk = Some nic" and a: "map_of (nic_IPv4Addresses nic) ak = Some a" for nk nic ak a
      using free [of nk nic] skipped_nic_assigned [OF ds_ok_nic [OF ok n] _ a, of pod]
        n [folded mem] a [folded amem [OF n, of _ _ "ord_ips ord nk"]] by blast
    with None res show ?thesis by (intro none) (simp_all only: eq)
  qed
qed

lemma take_address_ok:
  assumes ok: "ds_ok ds" and n: "map_of (ds_nicIPPools ds) nk = Some nic"
    and a: "map_of (nic_IPv4Addresses nic) ak = Some a"
  shows "ds_ok (take_address pod nk nic ak a ds)"
proof (cases "addr_Assigned a")
  case True
  with ok show ?thesis by (auto simp: take_address_def record_pod_ip_def ds_ok_def)
next
  case False
  let ?f = "\<lambda>nic. nic\<lparr> nic_AssignedIPv4Addresses := nic_AssignedIPv4Addresses nic + 1,
    nic_IPv4Addresses := gm_adjust ak (\<lambda>a. a\<lparr> addr_Assigned := True \<rparr>) (nic_IPv4Addresses nic) \<rparr>"
  have "nic_ok nk (?f nic)"
    by (rule nic_ok_adjust [OF ds_ok_nic [OF ok n] a, where g = "\<lambda>a. a\<lparr> addr_Assigned := True \<rparr>"])
      (simp_all add: False)
  from ok n this show ?thesis
    by (rule ds_ok_adjust)
      (use ok False in \<open>simp_all add: take_address_def record_pod_ip_def incrementAssignedCount_def ds_ok_wf\<close>)
qed

section \<open>What a release does\<close>

definition release_address :: "pod_key \<Rightarrow> string \<Rightarrow> time \<Rightarrow> string \<Rightarrow> data_store \<Rightarrow> data_store" where
  "release_address podKey pip now nk ds =
     ds\<lparr> ds_assigned := ds_assigned ds - 1,
         gauge_assignedIPs := ds_assigned ds - 1,
         ds_nicIPPools := gm_adjust nk
           (\<lambda>n. n\<lparr> nic_AssignedIPv4Addresses := nic_AssignedIPv4Addresses n - 1,
                   nic_lastUnassignedTime := now,
                   nic_IPv4Addresses := gm_adjust pip
                     (\<lambda>a. a\<lparr> addr_Assigned := False, addr_UnassignedTime := now \<rparr>) (nic_IPv4Addresses n) \<rparr>)
           (ds_nicIPPools ds),
         ds_podsIP := gm_del podKey (ds_podsIP ds) \<rparr>"

lemma unassign_loop_cases:
  obtains
    (freed) nk nic a where "(nk, nic) \<in> set es" "map_of (nic_IPv4Addresses nic) pip = Some a" "addr_Assigned a"
      "unassign_loop podKey pip now es ds
       = (Ok (addr_Address a, nic_DeviceNumber nic), release_address podKey pip now nk ds)"
  | (unknown) "unassign_loop podKey pip now es ds = (Err ErrUnknownPodIP, ds)"
      "\<And>nk nic a. (nk, nic) \<in> set es \<Longrightarrow> map_of (nic_IPv4Addresses nic) pip = Some a \<Longrightarrow> \<not> addr_Assigned a"
proof (induction es arbitrary: thesis)
  case Nil
  then show ?case by auto
next
  case (Cons e es)
  obtain nk nic where e: "e = (nk, nic)" by fastforce
  show ?case
  proof (cases "\<exists>a. map_of (nic_IPv4Addresses nic) pip = Some a \<and> addr_Assigned a")
    case True
    then obtain a where a: "map_of (nic_IPv4Addresses nic) pip = Some a" "addr_Assigned a" by blast
    show ?thesis
      by (rule Cons.prems(1) [of nk nic a]) (simp_all add: e a release_address_def)
  next
    case False
    then have eq: "unassign_loop podKey pip now (e # es) ds = unassign_loop podKey pip now es ds"
      by (auto simp: e split: option.splits)
    show ?thesis
    proof (rule Cons.IH)
      fix nk' nic' a
      assume "(nk', nic') \<in> set es" "map_of (nic_IPv4Addresses nic') pip = Some a" "addr_Assigned a"
        "unassign_loop podKey pip now es ds
          = (Ok (addr_Address a, nic_DeviceNumber nic'), release_address podKey pip now nk' ds)"
      then show ?thesis by (intro Cons.prems(1) [of nk' nic' a]) (simp_all only: eq set_simps insert_iff simp_thms)
    next
      assume "unassign_loop podKey pip now es ds = (Err ErrUnknownPodIP, ds)"
        and "\<And>nk nic a. (nk, nic) \<in> set es \<Longrightarrow> map_of (nic_IPv4Addresses nic) pip = Some a \<Longrightarrow> \<not> addr_Assigned a"
      with False show ?thesis by (intro Cons.prems(2)) (simp only: eq, auto simp only: e set_simps insert_iff prod.inject)
    qed
  qed
qed

lemma UnassignPod_cases [consumes 1]:
  assumes ok: "ds_ok ds"
  obtains
    (unknown_pod) "map_of (ds_podsIP ds) (pod_key_of pod) = None"
      "UnassignPodIPv4Address ord now pod ds = (Err ErrUnknownPod, ds)"
  | (freed) e nk nic a where "map_of (ds_podsIP ds) (pod_key_of pod) = Some e"
      "map_of (ds_nicIPPools ds) nk = Some nic" "map_of (nic_IPv4Addresses nic) (pi_IP e) = Some a" "addr_Assigned a"
      "UnassignPodIPv4Address ord now pod ds
       = (Ok (pi_IP e, nic_DeviceNumber nic), release_address (pod_key_of pod) (pi_IP e) now nk ds)"
  | (unknown_ip) e where "map_of (ds_podsIP ds) (pod_key_of pod) = Some e"
      "UnassignPodIPv4Address ord now pod ds = (Err ErrUnknownPodIP, ds)"
      "\<And>nk nic a. map_of (ds_nicIPPools ds) nk = Some nic \<Longrightarrow> map_of (nic_IPv4Addresses nic) (pi_IP e) = Some a
         \<Longrightarrow> \<not> addr_Assigned a"
proof (cases "map_of (ds_podsIP ds) (pod_key_of pod)")
  case None
  then show ?thesis by (intro unknown_pod) (auto simp: UnassignPodIPv4Address_def)
next
  case (Some e)
  let ?es = "go_range (ord_nics ord) (ds_nicIPPools ds)"
  have eq: "UnassignPodIPv4Address ord now pod ds = unassign_loop (pod_key_of pod) (pi_IP e) now ?es ds"
    using Some by (simp add: UnassignPodIPv4Address_def)
  note mem = range_nics_mem [OF ok, of _ _ "ord_nics ord"]
  show ?thesis
  proof (rule unassign_loop_cases [of ?es "pi_IP e" "pod_key_of pod" now ds])
    fix nk nic a
    assume n: "(nk, nic) \<in> set ?es" and a: "map_of (nic_IPv4Addresses nic) (pi_IP e) = Some a" "addr_Assigned a"
      and res: "unassign_loop (pod_key_of pod) (pi_IP e) now ?es ds
        = (Ok (addr_Address a, nic_DeviceNumber nic), release_address (pod_key_of pod) (pi_IP e) now nk ds)"
    from n have n: "map_of (ds_nicIPPools ds) nk = Some nic" by (simp only: mem)
    with a res nic_ok_addr [OF ds_ok_nic [OF ok n] a(1)] show ?thesis
      using freed [OF Some n a] by (simp only: eq)
  next
    assume res: "unassign_loop (pod_key_of pod) (pi_IP e) now ?es ds = (Err ErrUnknownPodIP, ds)"
      and free: "\<And>nk nic a. (nk, nic) \<in> set ?es \<Longrightarrow> map_of (nic_IPv4Addresses nic) (pi_IP e) = Some a \<Longrightarrow> \<not> addr_Assigned a"
    show ?thesis
      by (rule unknown_ip [OF Some]) (simp only: eq res, rule free, simp only: mem)
  qed
qed

lemma release_address_ok:
  assumes ok: "ds_ok ds" and n: "map_of (ds_nicIPPools ds) nk = Some nic"
    and a: "map_of (nic_IPv4Addresses nic) pip = Some a" and assigned: "addr_Assigned a"
  shows "ds_ok (release_address podKey pip now nk ds)"
proof -
  let ?f = "\<lambda>n. n\<lparr> nic_AssignedIPv4Addresses := nic_AssignedIPv4Addresses n - 1, nic_lastUnassignedTime := now,
    nic_IPv4Addresses := gm_adjust pip (\<lambda>a. a\<lparr> addr_Assigned := False, addr_UnassignedTime := now \<rparr>) (nic_IPv4Addresses n) \<rparr>"
  have "nic_ok nk (?f nic)"
    by (rule nic_ok_adjust [OF ds_ok_nic [OF ok n] a,
          where g = "\<lambda>a. a\<lparr> addr_Assigned := False, addr_UnassignedTime := now \<rparr>"])
      (simp_all add: assigned)
  from ok n this show ?thesis
    by (rule ds_ok_adjust) (use ok in \<open>simp_all add: release_address_def ds_ok_wf\<close>)
qed

section \<open>What a removal does\<close>

definition deletable :: "(string \<Rightarrow> time \<times> time) \<Rightarrow> string \<Rightarrow> nic_ip_pool \<Rightarrow> bool" where
  "deletable clk nk nic \<longleftrightarrow>
     \<not> nic_IsPrimary nic \<and> nic_AssignedIPv4Addresses nic = 0
     \<and> minLifeTime \<le> time_sub (fst (clk nk)) (nic_createTime nic)
     \<and> addressNICCoolingPeriod \<le> time_sub (snd (clk nk)) (nic_lastUnassignedTime nic)"

lemma deletable_nic_loop_find:
  "deletable_nic_loop clk es = map_option snd (List.find (\<lambda>(nk, nic). deletable clk nk nic) es)"
  by (induction clk es rule: deletable_nic_loop.induct) (auto simp: deletable_def)

lemma getDeletableNIC_Some:
  assumes ok: "ds_ok ds" and "getDeletableNIC ord clk ds = Some nic"
  shows "map_of (ds_nicIPPools ds) (nic_ID nic) = Some nic \<and> deletable clk (nic_ID nic) nic"
proof -
  from assms(2) obtain e where e: "List.find (\<lambda>(nk, nic). deletable clk nk nic)
      (go_range (ord_nics ord) (ds_nicIPPools ds)) = Some e" and nic: "nic = snd e"
    by (auto simp: getDeletableNIC_def deletable_nic_loop_find)
  from e have "deletable clk (fst e) nic" "(fst e, nic) \<in> set (go_range (ord_nics ord) (ds_nicIPPools ds))"
    by (auto simp: find_Some_iff nic) (metis nth_mem)
  then have m: "map_of (ds_nicIPPools ds) (fst e) = Some nic"
    by (simp only: range_nics_mem [OF ok])
  then have "nic_ID nic = fst e"
    using ds_ok_nic [OF ok] by (auto simp: nic_ok_def)
  with m \<open>deletable clk (fst e) nic\<close> show ?thesis by simp
qed

lemma getDeletableNIC_None:
  assumes ok: "ds_ok ds"
  shows "getDeletableNIC ord clk ds = None \<longleftrightarrow>
    (\<forall>nk nic. map_of (ds_nicIPPools ds) nk = Some nic \<longrightarrow> \<not> deletable clk nk nic)"
  using range_nics_mem [OF ok, of _ _ "ord_nics ord"]
  by (auto simp: getDeletableNIC_def deletable_nic_loop_find find_None_iff simp del: set_go_range)

text \<open>What removing a NIC leaves; the two callers differ in the gauge of addresses.\<close>

definition remove_nic :: "string \<Rightarrow> nic_ip_pool \<Rightarrow> int \<Rightarrow> data_store \<Rightarrow> data_store" where
  "remove_nic nk nic g ds =
     ds\<lparr> ds_total := ds_total ds - int (length (nic_IPv4Addresses nic)),
         ds_nicIPPools := gm_del nk (ds_nicIPPools ds),
         gauge_nics := int (length (gm_del nk (ds_nicIPPools ds))),
         gauge_totalIPs := g \<rparr>"

lemma remove_nic_ok:
  assumes "ds_ok ds" and "map_of (ds_nicIPPools ds) nk = Some nic" and "nic_AssignedIPv4Addresses nic = 0"
  shows "ds_ok (remove_nic nk nic g ds)"
  using assms by (rule ds_ok_remove) (simp_all add: remove_nic_def)

lemma RemoveUnused_cases [consumes 1]:
  assumes ok: "ds_ok ds"
  obtains
    (removed) nk nic where "map_of (ds_nicIPPools ds) nk = Some nic" "deletable clk nk nic" "nic_ID nic = nk"
      "RemoveUnusedNICFromStore ord clk ds
       = (Ok nk, remove_nic nk nic (ds_total ds - int (length (nic_IPv4Addresses nic))) ds)"
  | (none) "RemoveUnusedNICFromStore ord clk ds = (Ok '''', ds)"
      "\<And>nk nic. map_of (ds_nicIPPools ds) nk = Some nic \<Longrightarrow> \<not> deletable clk nk nic"
proof (cases "getDeletableNIC ord clk ds")
  case None
  then show ?thesis
    using getDeletableNIC_None [OF ok, of ord clk] by (intro none) (simp_all add: RemoveUnusedNICFromStore_def)
next
  case (Some nic)
  note found = getDeletableNIC_Some [OF ok Some]
  show ?thesis
    by (rule removed [of "nic_ID nic" nic])
      (use found Some in \<open>simp_all add: RemoveUnusedNICFromStore_def remove_nic_def Let_def del: map_of_eq_Some_iff\<close>)
qed

lemma RemoveNIC_cases:
  obtains
    (unknown) "map_of (ds_nicIPPools ds) nk = None"
      "RemoveNICFromDataStore nk ds = (Err (ErrorString UnknownNICError), ds)"
  | (in_use) nic where "map_of (ds_nicIPPools ds) nk = Some nic" "nic_AssignedIPv4Addresses nic \<noteq> 0"
      "RemoveNICFromDataStore nk ds = (Err (ErrorString NICInUseError), ds)"
  | (removed) nic where "map_of (ds_nicIPPools ds) nk = Some nic" "nic_AssignedIPv4Addresses nic = 0"
      "RemoveNICFromDataStore nk ds = (Ok (), remove_nic nk nic (gauge_totalIPs ds) ds)"
proof (cases "map_of (ds_nicIPPools ds) nk")
  case None
  then show ?thesis using unknown by (simp add: RemoveNICFromDataStore_def)
next
  case (Some nic)
  show ?thesis
    by (cases "nic_AssignedIPv4Addresses nic = 0")
      (use in_use [OF Some] removed [OF Some] Some in \<open>simp_all add: RemoveNICFromDataStore_def remove_nic_def Let_def\<close>)
qed

section \<open>Every operation keeps the store well-formed\<close>

lemma NewDataStore_ok: "ds_ok NewDataStore"
  by (simp add: ds_ok_def NewDataStore_def)

lemma AddNIC_ok: "ds_ok ds \<Longrightarrow> ds_ok (snd (AddNIC n d p now ds))"
proof (cases "d \<le> 0 \<or> map_of (ds_nicIPPools ds) n \<noteq> None")
  case True
  then show "ds_ok ds \<Longrightarrow> ?thesis" by (auto simp: AddNIC_def)
next
  case False
  let ?nic = "\<lparr> nic_createTime = now, nic_lastUnassignedTime = time_zero, nic_IsPrimary = p, nic_ID = n,
    nic_DeviceNumber = d, nic_AssignedIPv4Addresses = 0, nic_IPv4Addresses = [] \<rparr>"
  assume "ds_ok ds"
  moreover from False have "map_of (ds_nicIPPools ds) n = None" by blast
  moreover from False have "nic_ok n ?nic" by (simp add: nic_ok_def)
  ultimately show ?thesis
    by (rule ds_ok_insert) (use False in \<open>simp_all add: AddNIC_def Let_def\<close>)
qed

lemma AddIP_cases:
  obtains
    (unknown) "map_of (ds_nicIPPools ds) n = None" "AddIPv4AddressFromStore n ip ds = (Err AddIPUnknownNIC, ds)"
  | (duplicate) nic a where "map_of (ds_nicIPPools ds) n = Some nic" "map_of (nic_IPv4Addresses nic) ip = Some a"
      "AddIPv4AddressFromStore n ip ds = (Err (ErrorString DuplicateIPError), ds)"
  | (added) nic where "map_of (ds_nicIPPools ds) n = Some nic" "map_of (nic_IPv4Addresses nic) ip = None"
      "fst (AddIPv4AddressFromStore n ip ds) = Ok ()"
proof (cases "map_of (ds_nicIPPools ds) n")
  case None
  then show ?thesis using unknown by (simp add: AddIPv4AddressFromStore_def)
next
  case (Some nic)
  show ?thesis
    by (cases "map_of (nic_IPv4Addresses nic) ip")
      (use added [OF Some] duplicate [OF Some] Some in \<open>simp_all add: AddIPv4AddressFromStore_def\<close>)
qed

lemma nic_ok_add_ip:
  assumes "nic_ok nk nic" and "map_of (nic_IPv4Addresses nic) ip = None"
  shows "nic_ok nk (nic\<lparr> nic_IPv4Addresses := gm_put ip
    \<lparr> addr_Address = ip, addr_Assigned = False, addr_UnassignedTime = t \<rparr> (nic_IPv4Addresses nic) \<rparr>)"
  using assms by (auto simp: nic_ok_def gm_put_fresh gm_get_None_iff)

lemma AddIP_ok: "ds_ok ds \<Longrightarrow> ds_ok (snd (AddIPv4AddressFromStore n ip ds))"
proof (cases rule: AddIP_cases [of ds n ip])
  case (added nic)
  assume ok: "ds_ok ds"
  let ?f = "\<lambda>nic. nic\<lparr> nic_IPv4Addresses := gm_put ip
    \<lparr> addr_Address = ip, addr_Assigned = False, addr_UnassignedTime = time_zero \<rparr> (nic_IPv4Addresses nic) \<rparr>"
  have "nic_ok n (?f nic)"
    by (rule nic_ok_add_ip [OF ds_ok_nic [OF ok added(1)] added(2)])
  from ok added(1) this show ?thesis
    by (rule ds_ok_adjust [where f = ?f])
      (use added ok in \<open>simp_all add: AddIPv4AddressFromStore_def ds_ok_wf gm_put_fresh\<close>)
qed auto

lemma nic_ok_del_ip:
  assumes "nic_ok nk nic" and "map_of (nic_IPv4Addresses nic) ip = Some a" and "\<not> addr_Assigned a"
  shows "nic_ok nk (nic\<lparr> nic_IPv4Addresses := gm_del ip (nic_IPv4Addresses nic) \<rparr>)"
  using assms assigned_count_del [of "nic_IPv4Addresses nic" ip a]
  by (simp add: nic_ok_def set_gm_del)

lemma DelIP_ok: "ds_ok ds \<Longrightarrow> ds_ok (snd (DelIPv4AddressFromStore n ip ds))"
proof (cases "fst (DelIPv4AddressFromStore n ip ds) = Ok ()")
  case False
  then show "ds_ok ds \<Longrightarrow> ?thesis"
    by (auto simp: DelIPv4AddressFromStore_def split: option.splits if_splits)
next
  case True
  assume ok: "ds_ok ds"
  from True obtain nic a where n: "map_of (ds_nicIPPools ds) n = Some nic"
    and a: "map_of (nic_IPv4Addresses nic) ip = Some a" and free: "\<not> addr_Assigned a"
    by (auto simp: DelIPv4AddressFromStore_def split: option.splits if_splits)
  note nok = ds_ok_nic [OF ok n]
  have len: "int (length (gm_del ip (nic_IPv4Addresses nic))) = int (length (nic_IPv4Addresses nic)) - 1"
    using nic_ok_wf [OF nok] a by (rule length_gm_del)
  let ?f = "\<lambda>nic. nic\<lparr> nic_IPv4Addresses := gm_del ip (nic_IPv4Addresses nic) \<rparr>"
  from ok n nic_ok_del_ip [OF nok a free] show ?thesis
    by (rule ds_ok_adjust [where f = ?f])
      (use n a free ok len in \<open>simp_all add: DelIPv4AddressFromStore_def ds_ok_wf del: map_of_eq_Some_iff\<close>)
qed

lemma Assign_ok: "ds_ok ds \<Longrightarrow> ds_ok (snd (AssignPodIPv4Address ord now pod ds))"
  by (cases rule: AssignPod_cases [of ds pod ord now]) (auto intro: take_address_ok simp del: map_of_eq_Some_iff)

lemma Unassign_ok: "ds_ok ds \<Longrightarrow> ds_ok (snd (UnassignPodIPv4Address ord now pod ds))"
  by (cases rule: UnassignPod_cases [of ds pod ord now]) (auto intro: release_address_ok simp del: map_of_eq_Some_iff)

lemma RemoveUnused_ok: "ds_ok ds \<Longrightarrow> ds_ok (snd (RemoveUnusedNICFromStore ord clk ds))"
  by (cases rule: RemoveUnused_cases [of ds clk ord])
    (auto intro!: remove_nic_ok simp: deletable_def simp del: map_of_eq_Some_iff)

lemma RemoveNIC_ok: "ds_ok ds \<Longrightarrow> ds_ok (snd (RemoveNICFromDataStore n ds))"
  by (cases rule: RemoveNIC_cases [of ds n]) (auto intro!: remove_nic_ok simp del: map_of_eq_Some_iff)

lemmas store_preserved =
  AddNIC_ok AddIP_ok DelIP_ok Assign_ok Unassign_ok RemoveUnused_ok RemoveNIC_ok

end
