(* ===== verification/DataStoreSys.thy ===== *)
theory DataStoreSys
  imports DataStoreInv
begin

text \<open>
  The data store as a system: its operations as data, what each does to the three views
  a caller has of the store (which NIC carries an address and in what condition, the device
  number of a NIC, the address of a pod), the exclusive ownership of addresses, the cooling
  period over whole runs, and the gauges.
\<close>

section \<open>Operations\<close>

datatype ds_op =
    OpAddNIC string int bool time
  | OpAddIP string string
  | OpDelIP string string
  | OpAssign go_order time k8s_pod_info
  | OpUnassign go_order time k8s_pod_info
  | OpRemoveUnused go_order "string \<Rightarrow> time \<times> time"
  | OpRemoveNIC string

fun ds_step :: "data_store \<Rightarrow> ds_op \<Rightarrow> data_store" where
  "ds_step ds (OpAddNIC n d p now) = snd (AddNIC n d p now ds)"
| "ds_step ds (OpAddIP n ip) = snd (AddIPv4AddressFromStore n ip ds)"
| "ds_step ds (OpDelIP n ip) = snd (DelIPv4AddressFromStore n ip ds)"
| "ds_step ds (OpAssign ord now pod) = snd (AssignPodIPv4Address ord now pod ds)"
| "ds_step ds (OpUnassign ord now pod) = snd (UnassignPodIPv4Address ord now pod ds)"
| "ds_step ds (OpRemoveUnused ord clk) = snd (RemoveUnusedNICFromStore ord clk ds)"
| "ds_step ds (OpRemoveNIC n) = snd (RemoveNICFromDataStore n ds)"

lemma ds_step_ok: "ds_ok ds \<Longrightarrow> ds_ok (ds_step ds x)"
  by (cases x) (auto intro: store_preserved)

interpretation store_sys: invariant_system NewDataStore ds_step "\<lambda>_ _. True" ds_ok
  by unfold_locales (auto intro: NewDataStore_ok ds_step_ok)

section \<open>Views\<close>

definition lookup_addr :: "data_store \<Rightarrow> string \<Rightarrow> string \<Rightarrow> address_info option" where
  "lookup_addr ds nk ip = Option.bind (map_of (ds_nicIPPools ds) nk) (\<lambda>nic. map_of (nic_IPv4Addresses nic) ip)"

definition nic_dev :: "data_store \<Rightarrow> string \<Rightarrow> int option" where
  "nic_dev ds nk = map_option nic_DeviceNumber (map_of (ds_nicIPPools ds) nk)"

definition pod_ip :: "data_store \<Rightarrow> pod_key \<Rightarrow> pod_ip_info option" where
  "pod_ip ds = map_of (ds_podsIP ds)"

named_theorems views \<open>the three views after each effect\<close>

lemma lookup_addr_known:
  "map_of (ds_nicIPPools ds) nk = Some nic \<Longrightarrow> lookup_addr ds nk ip = map_of (nic_IPv4Addresses nic) ip"
  by (simp add: lookup_addr_def)

lemma lookup_addr_SomeE:
  assumes "lookup_addr ds nk ip = Some a"
  obtains nic where "map_of (ds_nicIPPools ds) nk = Some nic" "map_of (nic_IPv4Addresses nic) ip = Some a"
  using assms by (auto simp: lookup_addr_def bind_eq_Some_conv)

lemma lookup_addr_Address: "ds_ok ds \<Longrightarrow> lookup_addr ds nk ip = Some a \<Longrightarrow> addr_Address a = ip"
  by (metis lookup_addr_SomeE ds_ok_nic nic_ok_addr)

text \<open>A change to one NIC's addresses that keeps its device number.\<close>

lemma lookup_addr_adjust:
  "lookup_addr (ds\<lparr> ds_nicIPPools := gm_adjust nk f (ds_nicIPPools ds) \<rparr>) nk' ip' =
     (if nk' = nk then Option.bind (map_of (ds_nicIPPools ds) nk) (\<lambda>nic. map_of (nic_IPv4Addresses (f nic)) ip')
      else lookup_addr ds nk' ip')"
  by (cases "map_of (ds_nicIPPools ds) nk") (auto simp: lookup_addr_def)

lemma lookup_addr_fields [simp]:
  "lookup_addr (ds\<lparr> ds_total := i \<rparr>) = lookup_addr ds"
  "lookup_addr (ds\<lparr> ds_assigned := i \<rparr>) = lookup_addr ds"
  "lookup_addr (ds\<lparr> ds_podsIP := ps \<rparr>) = lookup_addr ds"
  "lookup_addr (ds\<lparr> gauge_nics := i \<rparr>) = lookup_addr ds"
  "lookup_addr (ds\<lparr> gauge_totalIPs := i \<rparr>) = lookup_addr ds"
  "lookup_addr (ds\<lparr> gauge_assignedIPs := i \<rparr>) = lookup_addr ds"
  by (simp_all add: lookup_addr_def fun_eq_iff)

lemma take_address_views [views]:
  assumes "map_of (ds_nicIPPools ds) nk = Some nic" and "map_of (nic_IPv4Addresses nic) ak = Some a"
  shows "lookup_addr (take_address pod nk nic ak a ds) =
      (\<lambda>nk' ip'. if nk' = nk \<and> ip' = ak then Some (a\<lparr> addr_Assigned := True \<rparr>) else lookup_addr ds nk' ip')"
    and "nic_dev (take_address pod nk nic ak a ds) = nic_dev ds"
    and "pod_ip (take_address pod nk nic ak a ds) =
      (pod_ip ds)(pod_key_of pod \<mapsto> \<lparr> pi_IP = addr_Address a, pi_DeviceNumber = nic_DeviceNumber nic \<rparr>)"
  using assms
  by (auto simp: take_address_def record_pod_ip_def incrementAssignedCount_def lookup_addr_def nic_dev_def
      pod_ip_def fun_eq_iff option.map_comp o_def simp del: map_of_eq_Some_iff split: option.splits)

lemma release_address_views [views]:
  assumes "map_of (ds_nicIPPools ds) nk = Some nic" and "map_of (nic_IPv4Addresses nic) pip = Some a"
  shows "lookup_addr (release_address k pip now nk ds) =
      (\<lambda>nk' ip'. if nk' = nk \<and> ip' = pip then Some (a\<lparr> addr_Assigned := False, addr_UnassignedTime := now \<rparr>)
         else lookup_addr ds nk' ip')"
    and "nic_dev (release_address k pip now nk ds) = nic_dev ds"
    and "pod_ip (release_address k pip now nk ds) = (pod_ip ds)(k := None)"
  using assms
  by (auto simp: release_address_def lookup_addr_def nic_dev_def
      pod_ip_def fun_eq_iff option.map_comp o_def simp del: map_of_eq_Some_iff split: option.splits)

lemma remove_nic_views [views]:
  shows "lookup_addr (remove_nic nk nic g ds) = (\<lambda>nk' ip'. if nk' = nk then None else lookup_addr ds nk' ip')"
    and "nic_dev (remove_nic nk nic g ds) = (nic_dev ds)(nk := None)"
    and "pod_ip (remove_nic nk nic g ds) = pod_ip ds"
  by (auto simp: remove_nic_def lookup_addr_def nic_dev_def pod_ip_def fun_eq_iff)

lemma AddNIC_views [views]:
  "lookup_addr (snd (AddNIC n d p now ds)) = lookup_addr ds"
  "nic_dev (snd (AddNIC n d p now ds)) =
     (if d \<le> 0 \<or> nic_dev ds n \<noteq> None then nic_dev ds else (nic_dev ds)(n \<mapsto> d))"
  "pod_ip (snd (AddNIC n d p now ds)) = pod_ip ds"
  by (auto simp: AddNIC_def lookup_addr_def nic_dev_def pod_ip_def fun_eq_iff Let_def split: option.splits)

lemma AddIP_views [views]:
  "lookup_addr (snd (AddIPv4AddressFromStore n ip ds)) =
     (\<lambda>nk' ip'. if nk' = n \<and> ip' = ip \<and> nic_dev ds n \<noteq> None \<and> lookup_addr ds n ip = None
        then Some \<lparr> addr_Address = ip, addr_Assigned = False, addr_UnassignedTime = time_zero \<rparr>
        else lookup_addr ds nk' ip')"
  "nic_dev (snd (AddIPv4AddressFromStore n ip ds)) = nic_dev ds"
  "pod_ip (snd (AddIPv4AddressFromStore n ip ds)) = pod_ip ds"
  by (auto simp: AddIPv4AddressFromStore_def lookup_addr_def nic_dev_def pod_ip_def fun_eq_iff option.map_comp
      o_def split: option.splits)

lemma DelIP_views [views]:
  "lookup_addr (snd (DelIPv4AddressFromStore n ip ds)) =
     (\<lambda>nk' ip'. if nk' = n \<and> ip' = ip \<and> (\<exists>a. lookup_addr ds n ip = Some a \<and> \<not> addr_Assigned a) then None
        else lookup_addr ds nk' ip')"
  "nic_dev (snd (DelIPv4AddressFromStore n ip ds)) = nic_dev ds"
  "pod_ip (snd (DelIPv4AddressFromStore n ip ds)) = pod_ip ds"
  by (auto simp: DelIPv4AddressFromStore_def lookup_addr_def nic_dev_def pod_ip_def fun_eq_iff option.map_comp
      o_def split: option.splits)

section \<open>Exclusive ownership\<close>

definition held :: "data_store \<Rightarrow> string \<Rightarrow> string \<Rightarrow> bool" where
  "held ds nk ip = (case lookup_addr ds nk ip of None \<Rightarrow> False | Some a \<Rightarrow> addr_Assigned a)"

text \<open>
  No two NICs carry the same address, no address is the empty string, every pod holds an
  address that is marked assigned on the NIC whose device number the pod was given, no two
  pods hold the same address, and every assigned address is held by a pod.
\<close>

definition exclusive :: "data_store \<Rightarrow> bool" where
  "exclusive ds \<longleftrightarrow>
     ds_ok ds
     \<and> (\<forall>nk nk' ip. lookup_addr ds nk ip \<noteq> None \<longrightarrow> lookup_addr ds nk' ip \<noteq> None \<longrightarrow> nk = nk')
     \<and> (\<forall>nk. lookup_addr ds nk '''' = None)
     \<and> (\<forall>k e. pod_ip ds k = Some e \<longrightarrow> (\<exists>nk. nic_dev ds nk = Some (pi_DeviceNumber e) \<and> held ds nk (pi_IP e)))
     \<and> (\<forall>k k' e e'. pod_ip ds k = Some e \<longrightarrow> pod_ip ds k' = Some e' \<longrightarrow> pi_IP e = pi_IP e' \<longrightarrow> k = k')
     \<and> (\<forall>nk ip. held ds nk ip \<longrightarrow> (\<exists>k e. pod_ip ds k = Some e \<and> pi_IP e = ip))"

lemma exclusiveD:
  assumes "exclusive ds"
  shows exclusive_ok: "ds_ok ds"
    and exclusive_nic: "lookup_addr ds nk ip = Some a \<Longrightarrow> lookup_addr ds nk' ip = Some a' \<Longrightarrow> nk' = nk"
    and exclusive_nonempty: "lookup_addr ds nk '''' = None"
    and exclusive_pod: "pod_ip ds k = Some e \<Longrightarrow> \<exists>nk. nic_dev ds nk = Some (pi_DeviceNumber e) \<and> held ds nk (pi_IP e)"
    and exclusive_inj: "pod_ip ds k = Some e \<Longrightarrow> pod_ip ds k' = Some e' \<Longrightarrow> pi_IP e = pi_IP e' \<Longrightarrow> k' = k"
    and exclusive_held: "held ds nk ip \<Longrightarrow> \<exists>k e. pod_ip ds k = Some e \<and> pi_IP e = ip"
  using assms unfolding exclusive_def by blast+

lemma exclusiveI:
  assumes "ds_ok ds"
    and "\<And>nk nk' ip a a'. lookup_addr ds nk ip = Some a \<Longrightarrow> lookup_addr ds nk' ip = Some a' \<Longrightarrow> nk' = nk"
    and "\<And>nk. lookup_addr ds nk [] = None"
    and "\<And>k e. pod_ip ds k = Some e \<Longrightarrow> \<exists>nk. nic_dev ds nk = Some (pi_DeviceNumber e) \<and> held ds nk (pi_IP e)"
    and "\<And>k k' e e'. pod_ip ds k = Some e \<Longrightarrow> pod_ip ds k' = Some e' \<Longrightarrow> pi_IP e = pi_IP e' \<Longrightarrow> k' = k"
    and "\<And>nk ip. held ds nk ip \<Longrightarrow> \<exists>k e. pod_ip ds k = Some e \<and> pi_IP e = ip"
  shows "exclusive ds"
  using assms(1,3) unfolding exclusive_def
  by (intro conjI allI impI) (blast dest: assms(2) intro: assms(4,6) assms(5) [symmetric])+

text \<open>
  What the environment owes: the cloud gives a NIC an address no other NIC carries, and a pod
  that already runs is reported with an address no other pod holds.
\<close>

fun ds_legal :: "data_store \<Rightarrow> ds_op \<Rightarrow> bool" where
  "ds_legal ds (OpAddIP n ip) \<longleftrightarrow>
     ip \<noteq> '''' \<and> (\<forall>(nk, nic) \<in> set (ds_nicIPPools ds). ip \<in> set (gm_keys (nic_IPv4Addresses nic)) \<longrightarrow> nk = n)"
| "ds_legal ds (OpAssign ord now pod) \<longleftrightarrow>
     pod_IP pod = '''' \<or> (\<forall>(k, e) \<in> set (ds_podsIP ds). pi_IP e = pod_IP pod \<longrightarrow> k = pod_key_of pod)"
| "ds_legal ds _ \<longleftrightarrow> True"

lemma legal_AddIP:
  assumes "ds_legal ds (OpAddIP n ip)"
  shows "ip \<noteq> ''''" and "lookup_addr ds nk ip = Some a \<Longrightarrow> nk = n"
  using assms by (auto elim!: lookup_addr_SomeE dest!: map_of_SomeD) force+

lemma legal_Assign:
  assumes "ds_legal ds (OpAssign ord now pod)" and "pod_IP pod \<noteq> ''''"
    and "pod_ip ds k = Some e" and "pi_IP e = pod_IP pod"
  shows "k = pod_key_of pod"
  using assms by (auto simp: pod_ip_def dest!: map_of_SomeD)

text \<open>The views decide exclusiveness, so each operation's effect on them is enough.\<close>

lemma exclusive_transfer:
  assumes "exclusive ds" and "ds_ok ds'"
    and "lookup_addr ds' = lookup_addr ds" and "nic_dev ds' = nic_dev ds" and "pod_ip ds' = pod_ip ds"
  shows "exclusive ds'"
  using assms unfolding exclusive_def held_def by simp

lemma AddNIC_exclusive: "exclusive ds \<Longrightarrow> exclusive (snd (AddNIC n d p now ds))"
proof -
  assume ex: "exclusive ds"
  have "nic_dev ds n = None \<Longrightarrow> held ds n ip \<Longrightarrow> False" for ip
    by (auto simp: held_def lookup_addr_def nic_dev_def)
  moreover have "ds_ok (snd (AddNIC n d p now ds))"
    using exclusive_ok [OF ex] by (rule AddNIC_ok)
  moreover have "held (snd (AddNIC n d p now ds)) = held ds"
    by (simp add: held_def AddNIC_views fun_eq_iff)
  ultimately show ?thesis
    using exclusiveD [OF ex] by (intro exclusiveI) (simp_all add: AddNIC_views, metis)
qed

lemma AddIP_exclusive:
  assumes ex: "exclusive ds" and legal: "ds_legal ds (OpAddIP n ip)"
  shows "exclusive (snd (AddIPv4AddressFromStore n ip ds))"
proof -
  have "ds_ok (snd (AddIPv4AddressFromStore n ip ds))"
    using exclusive_ok [OF ex] by (rule AddIP_ok)
  moreover have "held (snd (AddIPv4AddressFromStore n ip ds)) = held ds"
    by (auto simp: held_def AddIP_views fun_eq_iff split: option.splits)
  ultimately show ?thesis
    using exclusiveD [OF ex] legal_AddIP [OF legal]
    by (intro exclusiveI) (simp_all add: AddIP_views split: if_splits)
qed

lemma DelIP_exclusive:
  assumes ex: "exclusive ds"
  shows "exclusive (snd (DelIPv4AddressFromStore n ip ds))"
proof -
  have "ds_ok (snd (DelIPv4AddressFromStore n ip ds))"
    using exclusive_ok [OF ex] by (rule DelIP_ok)
  moreover have "held (snd (DelIPv4AddressFromStore n ip ds)) = held ds"
    by (auto simp: held_def DelIP_views fun_eq_iff split: option.splits)
  ultimately show ?thesis
    using exclusiveD [OF ex] by (intro exclusiveI) (simp_all add: DelIP_views split: if_splits)
qed

lemma remove_nic_exclusive:
  assumes ex: "exclusive ds" and n: "map_of (ds_nicIPPools ds) nk = Some nic"
    and idle: "nic_AssignedIPv4Addresses nic = 0"
  shows "exclusive (remove_nic nk nic g ds)"
proof -
  note ok = exclusive_ok [OF ex]
  have "\<not> addr_Assigned a" if "lookup_addr ds nk ip = Some a" for ip a
  proof -
    from that n have "(ip, a) \<in> set (nic_IPv4Addresses nic)"
      by (auto elim!: lookup_addr_SomeE dest: map_of_SomeD simp del: map_of_eq_Some_iff)
    moreover have "assigned_count (nic_IPv4Addresses nic) = 0"
      using ds_ok_nic [OF ok n] idle by (simp add: nic_ok_def)
    ultimately show ?thesis by (auto simp: assigned_count_zero)
  qed
  then have "held (remove_nic nk nic g ds) = held ds"
    by (auto simp: held_def remove_nic_views fun_eq_iff split: option.splits)
  moreover have "ds_ok (remove_nic nk nic g ds)"
    using ok n idle by (rule remove_nic_ok)
  moreover have "\<not> held ds nk ip" for ip
    using \<open>\<And>ip a. lookup_addr ds nk ip = Some a \<Longrightarrow> \<not> addr_Assigned a\<close> by (auto simp: held_def split: option.splits)
  ultimately show ?thesis
    using exclusiveD [OF ex] by (intro exclusiveI) (simp_all add: remove_nic_views split: if_splits, metis)
qed

lemma RemoveUnused_exclusive: "exclusive ds \<Longrightarrow> exclusive (snd (RemoveUnusedNICFromStore ord clk ds))"
  by (cases rule: RemoveUnused_cases [of ds clk ord])
    (auto intro!: remove_nic_exclusive simp: exclusive_ok deletable_def simp del: map_of_eq_Some_iff)

lemma RemoveNIC_exclusive: "exclusive ds \<Longrightarrow> exclusive (snd (RemoveNICFromDataStore n ds))"
  by (cases rule: RemoveNIC_cases [of ds n])
    (auto intro!: remove_nic_exclusive simp del: map_of_eq_Some_iff)

text \<open>Under exclusive ownership an assignment takes an address that nobody holds.\<close>

lemma taken_is_free:
  assumes ex: "exclusive ds" and legal: "ds_legal ds (OpAssign ord now pod)" and fresh: "pod_ip ds (pod_key_of pod) = None"
    and n: "map_of (ds_nicIPPools ds) nk = Some nic" and a: "map_of (nic_IPv4Addresses nic) ak = Some a"
    and takes: "takes pod now a"
  shows "\<not> addr_Assigned a" and "pod_IP pod = '''' \<Longrightarrow> addressCoolingPeriod < time_sub now (addr_UnassignedTime a)"
    and "pod_IP pod = '''' \<or> pod_IP pod = ak"
proof -
  have l: "lookup_addr ds nk ak = Some a" using n a by (simp add: lookup_addr_known)
  have key: "addr_Address a = ak" using exclusive_ok [OF ex] l by (rule lookup_addr_Address)
  have nonempty: "ak \<noteq> ''''" using l exclusive_nonempty [OF ex] by auto
  show "\<not> addr_Assigned a"
  proof
    assume "addr_Assigned a"
    with takes key have ip: "pod_IP pod = ak" by (simp add: takes_def)
    from l \<open>addr_Assigned a\<close> have "held ds nk ak" by (simp add: held_def)
    then obtain k e where k: "pod_ip ds k = Some e" "pi_IP e = ak" using exclusive_held [OF ex] by blast
    with legal_Assign [OF legal _ k(1)] ip nonempty fresh show False by auto
  qed
  show "pod_IP pod = '''' \<Longrightarrow> addressCoolingPeriod < time_sub now (addr_UnassignedTime a)"
    using takes key nonempty by (auto simp: takes_def)
  show "pod_IP pod = '''' \<or> pod_IP pod = ak"
    using takes key by (auto simp: takes_def)
qed

lemma take_address_exclusive:
  assumes ex: "exclusive ds" and fresh: "pod_ip ds (pod_key_of pod) = None"
    and n: "map_of (ds_nicIPPools ds) nk = Some nic" and a: "map_of (nic_IPv4Addresses nic) ak = Some a"
    and free: "\<not> addr_Assigned a"
  shows "exclusive (take_address pod nk nic ak a ds)" (is "exclusive ?ds")
proof -
  note v = take_address_views [OF n a, of pod]
  have l: "lookup_addr ds nk ak = Some a" using n a by (simp add: lookup_addr_known)
  have key: "addr_Address a = ak" using exclusive_ok [OF ex] l by (rule lookup_addr_Address)
  have dev: "nic_dev ds nk = Some (nic_DeviceNumber nic)" using n by (simp add: nic_dev_def)
  have h: "held ?ds = (\<lambda>nk' ip'. nk' = nk \<and> ip' = ak \<or> held ds nk' ip')"
    by (auto simp: held_def v fun_eq_iff split: option.splits)
  have unheld: "pod_ip ds k = Some e \<Longrightarrow> pi_IP e \<noteq> ak" for k e
  proof
    assume "pod_ip ds k = Some e" "pi_IP e = ak"
    then obtain nk' where "held ds nk' ak" using exclusive_pod [OF ex] by blast
    then obtain a' where "lookup_addr ds nk' ak = Some a'" "addr_Assigned a'" by (auto simp: held_def split: option.splits)
    with exclusive_nic [OF ex l] l free show False by auto
  qed
  show ?thesis
  proof (rule exclusiveI)
    show "ds_ok ?ds" using exclusive_ok [OF ex] n a by (rule take_address_ok)
  next
    fix nk1 nk2 ip a1 a2
    assume "lookup_addr ?ds nk1 ip = Some a1" "lookup_addr ?ds nk2 ip = Some a2"
    then show "nk2 = nk1" using exclusive_nic [OF ex] l by (auto simp: v split: if_splits)
  next
    show "lookup_addr ?ds nk' [] = None" for nk'
      using exclusive_nonempty [OF ex] l by (auto simp: v)
  next
    fix k e assume "pod_ip ?ds k = Some e"
    then show "\<exists>nk. nic_dev ?ds nk = Some (pi_DeviceNumber e) \<and> held ?ds nk (pi_IP e)"
      using exclusive_pod [OF ex, of k e] dev key by (auto simp: v h split: if_splits)
  next
    fix k k' e e' assume "pod_ip ?ds k = Some e" "pod_ip ?ds k' = Some e'" "pi_IP e = pi_IP e'"
    then show "k' = k"
      using exclusive_inj [OF ex, of k e k' e'] unheld [of k e] unheld [of k' e'] key
      by (auto simp: v split: if_splits)
  next
    fix nk' ip assume "held ?ds nk' ip"
    then consider "ip = ak" | "held ds nk' ip" by (auto simp: h)
    then show "\<exists>k e. pod_ip ?ds k = Some e \<and> pi_IP e = ip"
    proof cases
      case 1
      then show ?thesis by (auto simp: v key intro!: exI [of _ "pod_key_of pod"])
    next
      case 2
      then obtain k e where "pod_ip ds k = Some e" "pi_IP e = ip" using exclusive_held [OF ex] by blast
      with fresh show ?thesis by (intro exI [of _ k] exI [of _ e]) (auto simp: v)
    qed
  qed
qed

lemma Assign_exclusive:
  assumes ex: "exclusive ds" and legal: "ds_legal ds (OpAssign ord now pod)"
  shows "exclusive (snd (AssignPodIPv4Address ord now pod ds))"
  using exclusive_ok [OF ex]
proof (cases rule: AssignPod_cases [of ds pod ord now])
  case (taken nk nic ak a)
  from taken(1) have fresh: "pod_ip ds (pod_key_of pod) = None" by (simp add: pod_ip_def)
  show ?thesis
    using take_address_exclusive [OF ex fresh taken(2,3) taken_is_free(1) [OF ex legal fresh taken(2,3,4)]] taken(5)
    by simp
qed (use ex in auto)

lemma release_address_exclusive:
  assumes ex: "exclusive ds" and k: "pod_ip ds k = Some e"
    and n: "map_of (ds_nicIPPools ds) nk = Some nic" and a: "map_of (nic_IPv4Addresses nic) (pi_IP e) = Some a"
    and assigned: "addr_Assigned a"
  shows "exclusive (release_address k (pi_IP e) now nk ds)" (is "exclusive ?ds")
proof -
  note v = release_address_views [OF n a, of k now]
  have l: "lookup_addr ds nk (pi_IP e) = Some a" using n a by (simp add: lookup_addr_known)
  have h: "held ?ds = (\<lambda>nk' ip'. \<not> (nk' = nk \<and> ip' = pi_IP e) \<and> held ds nk' ip')"
    by (auto simp: held_def v fun_eq_iff split: option.splits)
  show ?thesis
  proof (rule exclusiveI)
    show "ds_ok ?ds" using exclusive_ok [OF ex] n a assigned by (rule release_address_ok)
  next
    fix nk1 nk2 ip a1 a2
    assume "lookup_addr ?ds nk1 ip = Some a1" "lookup_addr ?ds nk2 ip = Some a2"
    then show "nk2 = nk1" using exclusive_nic [OF ex] l by (auto simp: v split: if_splits)
  next
    show "lookup_addr ?ds nk' [] = None" for nk'
      using exclusive_nonempty [OF ex] l by (auto simp: v)
  next
    fix k' e' assume "pod_ip ?ds k' = Some e'"
    then have k': "pod_ip ds k' = Some e'" "k' \<noteq> k" by (auto simp: v split: if_splits)
    then have "pi_IP e' \<noteq> pi_IP e" using exclusive_inj [OF ex k k'(1)] by auto
    then show "\<exists>nk. nic_dev ?ds nk = Some (pi_DeviceNumber e') \<and> held ?ds nk (pi_IP e')"
      using exclusive_pod [OF ex k'(1)] by (auto simp: v h)
  next
    fix k1 k2 e1 e2 assume "pod_ip ?ds k1 = Some e1" "pod_ip ?ds k2 = Some e2" "pi_IP e1 = pi_IP e2"
    then show "k2 = k1" using exclusive_inj [OF ex] by (auto simp: v split: if_splits)
  next
    fix nk' ip assume "held ?ds nk' ip"
    then have hh: "held ds nk' ip" "\<not> (nk' = nk \<and> ip = pi_IP e)" by (auto simp: h)
    then have "ip \<noteq> pi_IP e"
      using exclusive_nic [OF ex l] by (auto simp: held_def split: option.splits)
    moreover obtain k' e' where "pod_ip ds k' = Some e'" "pi_IP e' = ip" using exclusive_held [OF ex hh(1)] by blast
    ultimately show "\<exists>k e. pod_ip ?ds k = Some e \<and> pi_IP e = ip"
      using k by (intro exI [of _ k'] exI [of _ e']) (auto simp: v)
  qed
qed

lemma Unassign_exclusive:
  assumes ex: "exclusive ds"
  shows "exclusive (snd (UnassignPodIPv4Address ord now pod ds))"
  using exclusive_ok [OF ex]
proof (cases rule: UnassignPod_cases [of ds pod ord now])
  case (freed e nk nic a)
  from freed(1) have "pod_ip ds (pod_key_of pod) = Some e" by (simp add: pod_ip_def)
  from release_address_exclusive [OF ex this freed(2-4)] freed(5) show ?thesis by simp
qed (use ex in auto)

lemma NewDataStore_exclusive: "exclusive NewDataStore"
  by (intro exclusiveI NewDataStore_ok) (auto simp: NewDataStore_def lookup_addr_def pod_ip_def held_def)

lemma ds_step_exclusive: "exclusive ds \<Longrightarrow> ds_legal ds x \<Longrightarrow> exclusive (ds_step ds x)"
  by (cases x)
    (auto intro: AddNIC_exclusive AddIP_exclusive DelIP_exclusive Assign_exclusive Unassign_exclusive
      RemoveUnused_exclusive RemoveNIC_exclusive simp del: ds_legal.simps)

interpretation exclusive_sys: invariant_system NewDataStore ds_step ds_legal exclusive
  by unfold_locales (auto intro: NewDataStore_exclusive ds_step_exclusive)

text \<open>A known pod can always be released: the error for a pod with an unknown IP is unreachable.\<close>

lemma Unassign_known:
  assumes ex: "exclusive ds" and k: "pod_ip ds (pod_key_of pod) = Some e"
  obtains nk nic a where "map_of (ds_nicIPPools ds) nk = Some nic" "map_of (nic_IPv4Addresses nic) (pi_IP e) = Some a"
    "addr_Assigned a" "nic_DeviceNumber nic = pi_DeviceNumber e"
    "UnassignPodIPv4Address ord now pod ds
     = (Ok (pi_IP e, pi_DeviceNumber e), release_address (pod_key_of pod) (pi_IP e) now nk ds)"
  using exclusive_ok [OF ex]
proof (cases rule: UnassignPod_cases [of ds pod ord now])
  case unknown_pod
  with k show ?thesis by (simp add: pod_ip_def)
next
  case (freed e' nk nic a)
  with k have [simp]: "e' = e" by (simp add: pod_ip_def)
  obtain nk' where nk': "nic_dev ds nk' = Some (pi_DeviceNumber e)" "held ds nk' (pi_IP e)"
    using exclusive_pod [OF ex k] by blast
  have "nk' = nk"
    using exclusive_nic [OF ex, of nk "pi_IP e" a nk'] nk'(2) freed(2,3)
    by (auto simp: held_def lookup_addr_known split: option.splits)
  with nk' freed(2) have "nic_DeviceNumber nic = pi_DeviceNumber e" by (simp add: nic_dev_def)
  with freed that show ?thesis by simp
next
  case (unknown_ip e')
  with k have "e' = e" by (simp add: pod_ip_def)
  obtain nk a where "lookup_addr ds nk (pi_IP e) = Some a" "addr_Assigned a"
    using exclusive_pod [OF ex k] by (auto simp: held_def split: option.splits)
  with unknown_ip(3) \<open>e' = e\<close> show ?thesis by (auto elim!: lookup_addr_SomeE simp del: map_of_eq_Some_iff)
qed

end
