(* ===== verification/AddressBook.thy ===== *)
theory AddressBook
  imports DataStoreSys
begin

text \<open>
  What the data store promises, without NICs, counters, clocks or loops: a book of free
  addresses (each with the device number its NIC gives it) and of the addresses pods hold.
  \<open>book_of\<close> reads the book off a store; \<open>ds_step_refines\<close> shows that every
  operation of the store is one step of the book.
\<close>

record address_book =
  book_free :: "string \<rightharpoonup> int"
  book_pods :: "pod_key \<rightharpoonup> string \<times> int"

datatype book_event =
    Idle
  | Learn string int
  | Forget "string set"
  | Take pod_key string int
  | Return pod_key string int

inductive book_step :: "address_book \<Rightarrow> book_event \<Rightarrow> address_book \<Rightarrow> bool" where
  idle: "book_step b Idle b"
| learn: "book_free b ip = None \<Longrightarrow> (\<And>k d'. book_pods b k \<noteq> Some (ip, d')) \<Longrightarrow>
    book_step b (Learn ip d) (b\<lparr> book_free := (book_free b)(ip \<mapsto> d) \<rparr>)"
| forget: "S \<subseteq> dom (book_free b) \<Longrightarrow>
    book_step b (Forget S) (b\<lparr> book_free := (book_free b) |` (- S) \<rparr>)"
| take: "book_pods b k = None \<Longrightarrow> book_free b ip = Some d \<Longrightarrow>
    book_step b (Take k ip d)
      (b\<lparr> book_free := (book_free b)(ip := None), book_pods := (book_pods b)(k \<mapsto> (ip, d)) \<rparr>)"
| return: "book_pods b k = Some (ip, d) \<Longrightarrow>
    book_step b (Return k ip d)
      (b\<lparr> book_free := (book_free b)(ip \<mapsto> d), book_pods := (book_pods b)(k := None) \<rparr>)"

inductive_cases book_take_elim: "book_step b (Take k ip d) b'"
inductive_cases book_return_elim: "book_step b (Return k ip d) b'"

definition empty_book :: address_book where
  "empty_book = \<lparr> book_free = Map.empty, book_pods = Map.empty \<rparr>"

text \<open>The book never has an address both free and held, nor held twice.\<close>

definition book_ok :: "address_book \<Rightarrow> bool" where
  "book_ok b \<longleftrightarrow>
     (\<forall>k ip d. book_pods b k = Some (ip, d) \<longrightarrow> book_free b ip = None)
     \<and> (\<forall>k k' ip d d'. book_pods b k = Some (ip, d) \<longrightarrow> book_pods b k' = Some (ip, d') \<longrightarrow> k = k')"

lemma book_step_ok: "book_step b ev b' \<Longrightarrow> book_ok b \<Longrightarrow> book_ok b'"
proof (induction rule: book_step.induct)
  case (learn b ip d)
  then show ?case by (auto simp: book_ok_def)
next
  case (return b k ip d)
  then show ?case by (auto simp: book_ok_def)
qed (force simp: book_ok_def restrict_map_def)+

section \<open>Reading the book off a store\<close>

definition free_list :: "data_store \<Rightarrow> (string \<times> int) list" where
  "free_list ds = concat (List.map
     (\<lambda>(nk, nic). List.map (\<lambda>(ip, a). (ip, nic_DeviceNumber nic))
        (filter (\<lambda>(ip, a). \<not> addr_Assigned a) (nic_IPv4Addresses nic)))
     (ds_nicIPPools ds))"

definition book_of :: "data_store \<Rightarrow> address_book" where
  "book_of ds =
     \<lparr> book_free = map_of (free_list ds),
       book_pods = (\<lambda>k. map_option (\<lambda>e. (pi_IP e, pi_DeviceNumber e)) (pod_ip ds k)) \<rparr>"

definition free_at :: "data_store \<Rightarrow> string \<Rightarrow> int \<Rightarrow> bool" where
  "free_at ds ip d \<longleftrightarrow>
     (\<exists>nk a. lookup_addr ds nk ip = Some a \<and> \<not> addr_Assigned a \<and> nic_dev ds nk = Some d)"

lemma free_list_mem: "ds_ok ds \<Longrightarrow> (ip, d) \<in> set (free_list ds) \<longleftrightarrow> free_at ds ip d"
proof -
  assume ok: "ds_ok ds"
  have "(ip, d) \<in> set (free_list ds) \<longleftrightarrow>
      (\<exists>(nk, nic) \<in> set (ds_nicIPPools ds). nic_DeviceNumber nic = d
        \<and> (\<exists>a. (ip, a) \<in> set (nic_IPv4Addresses nic) \<and> \<not> addr_Assigned a))"
    by (force simp: free_list_def)
  also have "\<dots> \<longleftrightarrow> (\<exists>nk nic. map_of (ds_nicIPPools ds) nk = Some nic \<and> nic_DeviceNumber nic = d
        \<and> (\<exists>a. (ip, a) \<in> set (nic_IPv4Addresses nic) \<and> \<not> addr_Assigned a))"
    using ok by (auto simp: store_rules)
  also have "\<dots> \<longleftrightarrow> free_at ds ip d"
    using nic_ok_wf [OF ds_ok_nic [OF ok]] unfolding free_at_def lookup_addr_def nic_dev_def
    by (auto simp: bind_eq_Some_conv simp del: map_of_eq_Some_iff) (metis map_of_eq_Some_iff)+
  finally show ?thesis .
qed

lemma free_at_unique:
  assumes "exclusive ds" and "free_at ds ip d" and "free_at ds ip d'"
  shows "d' = d"
  using assms exclusive_nic [OF assms(1)] unfolding free_at_def by (metis option.inject)

lemma book_free_iff:
  assumes ex: "exclusive ds"
  shows "book_free (book_of ds) ip = Some d \<longleftrightarrow> free_at ds ip d"
proof
  assume "book_free (book_of ds) ip = Some d"
  then show "free_at ds ip d"
    using free_list_mem [OF exclusive_ok [OF ex]] by (auto simp: book_of_def dest: map_of_SomeD)
next
  assume f: "free_at ds ip d"
  then have "ip \<in> fst ` set (free_list ds)"
    using free_list_mem [OF exclusive_ok [OF ex]] by force
  then obtain d' where d': "map_of (free_list ds) ip = Some d'"
    by (metis map_of_eq_None_iff option.exhaust)
  then have "free_at ds ip d'"
    using free_list_mem [OF exclusive_ok [OF ex]] by (auto dest: map_of_SomeD)
  with free_at_unique [OF ex f] d' show "book_free (book_of ds) ip = Some d"
    by (simp add: book_of_def)
qed

lemma book_pods_iff: "book_pods (book_of ds) k = Some (ip, d) \<longleftrightarrow>
    pod_ip ds k = Some \<lparr> pi_IP = ip, pi_DeviceNumber = d \<rparr>"
  by (cases "pod_ip ds k") (auto simp: book_of_def)

lemma book_eqI:
  assumes "\<And>ip d. book_free b ip = Some d \<longleftrightarrow> f ip = Some d" and "book_pods b = p"
  shows "b = \<lparr> book_free = f, book_pods = p \<rparr>"
proof -
  have "book_free b ip = f ip" for ip using assms(1) [of ip] by (metis option.exhaust)
  with assms(2) show ?thesis by (cases b) (simp add: fun_eq_iff)
qed

lemma book_pods_eq: "book_pods (book_of ds) = (\<lambda>k. map_option (\<lambda>e. (pi_IP e, pi_DeviceNumber e)) (pod_ip ds k))"
  by (simp add: book_of_def)

text \<open>What a change of the free addresses does to the book.\<close>

lemma book_same:
  assumes "exclusive ds" and "exclusive ds'" and "\<And>ip d. free_at ds' ip d \<longleftrightarrow> free_at ds ip d"
    and "book_pods (book_of ds') = book_pods (book_of ds)"
  shows "book_of ds' = book_of ds"
  using book_eqI [of "book_of ds'" "book_free (book_of ds)" "book_pods (book_of ds)"] assms
  by (simp add: book_free_iff)

lemma book_less:
  assumes "exclusive ds" and "exclusive ds'"
    and "\<And>ip d. free_at ds' ip d \<longleftrightarrow> ip \<notin> S \<and> free_at ds ip d"
  shows "book_of ds' = \<lparr> book_free = (book_free (book_of ds)) |` (- S), book_pods = book_pods (book_of ds') \<rparr>"
  by (rule book_eqI) (use assms in \<open>auto simp: book_free_iff restrict_map_def\<close>)

lemma book_more:
  assumes "exclusive ds" and "exclusive ds'"
    and "\<And>ip d. free_at ds' ip d \<longleftrightarrow> ip = i \<and> d = e \<or> ip \<noteq> i \<and> free_at ds ip d"
  shows "book_of ds' = \<lparr> book_free = (book_free (book_of ds))(i \<mapsto> e), book_pods = book_pods (book_of ds') \<rparr>"
  by (rule book_eqI) (use assms in \<open>auto simp: book_free_iff\<close>)

section \<open>The book's view of an operation\<close>

definition nic_ips :: "data_store \<Rightarrow> string \<Rightarrow> string set" where
  "nic_ips ds nk = (case map_of (ds_nicIPPools ds) nk of None \<Rightarrow> {} | Some nic \<Rightarrow> set (gm_keys (nic_IPv4Addresses nic)))"

fun event_of :: "data_store \<Rightarrow> ds_op \<Rightarrow> book_event" where
  "event_of ds (OpAddNIC n d p now) = Idle"
| "event_of ds (OpAddIP n ip) =
     (case (fst (AddIPv4AddressFromStore n ip ds), nic_dev ds n) of (Ok _, Some d) \<Rightarrow> Learn ip d | _ \<Rightarrow> Idle)"
| "event_of ds (OpDelIP n ip) =
     (case fst (DelIPv4AddressFromStore n ip ds) of Ok _ \<Rightarrow> Forget {ip} | _ \<Rightarrow> Idle)"
| "event_of ds (OpAssign ord now pod) =
     (case fst (AssignPodIPv4Address ord now pod ds) of
        Ok (ip, d) \<Rightarrow> (if pod_ip ds (pod_key_of pod) = None then Take (pod_key_of pod) ip d else Idle)
      | _ \<Rightarrow> Idle)"
| "event_of ds (OpUnassign ord now pod) =
     (case fst (UnassignPodIPv4Address ord now pod ds) of Ok (ip, d) \<Rightarrow> Return (pod_key_of pod) ip d | _ \<Rightarrow> Idle)"
| "event_of ds (OpRemoveUnused ord clk) =
     (case getDeletableNIC ord clk ds of Some nic \<Rightarrow> Forget (nic_ips ds (nic_ID nic)) | None \<Rightarrow> Idle)"
| "event_of ds (OpRemoveNIC n) =
     (case fst (RemoveNICFromDataStore n ds) of Ok _ \<Rightarrow> Forget (nic_ips ds n) | _ \<Rightarrow> Idle)"

section \<open>Refinement\<close>

lemma take_refines:
  assumes ex: "exclusive ds" and fresh: "pod_ip ds (pod_key_of pod) = None"
    and n: "map_of (ds_nicIPPools ds) nk = Some nic" and a: "map_of (nic_IPv4Addresses nic) ak = Some a"
    and free: "\<not> addr_Assigned a"
  shows "book_step (book_of ds) (Take (pod_key_of pod) (addr_Address a) (nic_DeviceNumber nic))
     (book_of (take_address pod nk nic ak a ds))"
proof -
  note v = take_address_views [OF n a, of pod]
  have l: "lookup_addr ds nk ak = Some a" using n a by (simp add: lookup_addr_known)
  have key: "addr_Address a = ak" using exclusive_ok [OF ex] l by (rule lookup_addr_Address)
  have f: "free_at ds ak (nic_DeviceNumber nic)"
    using l free n by (auto simp: free_at_def nic_dev_def)
  have free': "free_at (take_address pod nk nic ak a ds) ip d \<longleftrightarrow> ip \<notin> {ak} \<and> free_at ds ip d" for ip d
    using exclusive_nic [OF ex l] unfolding free_at_def v by auto
  have eq: "book_of (take_address pod nk nic ak a ds) =
      book_of ds \<lparr> book_free := (book_free (book_of ds))(ak := None),
        book_pods := (book_pods (book_of ds))(pod_key_of pod \<mapsto> (ak, nic_DeviceNumber nic)) \<rparr>"
    by (subst book_less [OF ex take_address_exclusive [OF ex fresh n a free] free'])
      (rule address_book.equality; simp add: book_pods_eq v key restrict_complement_singleton_eq fun_eq_iff)
  show ?thesis
    unfolding eq key
    by (rule book_step.take) (use fresh f in \<open>simp_all add: book_free_iff [OF ex] book_pods_eq\<close>)
qed

lemma release_refines:
  assumes ex: "exclusive ds" and k: "pod_ip ds k = Some e"
    and n: "map_of (ds_nicIPPools ds) nk = Some nic" and a: "map_of (nic_IPv4Addresses nic) (pi_IP e) = Some a"
    and assigned: "addr_Assigned a" and dev: "nic_DeviceNumber nic = pi_DeviceNumber e"
  shows "book_step (book_of ds) (Return k (pi_IP e) (pi_DeviceNumber e))
     (book_of (release_address k (pi_IP e) now nk ds))"
proof -
  note v = release_address_views [OF n a, of k now]
  have l: "lookup_addr ds nk (pi_IP e) = Some a" using n a by (simp add: lookup_addr_known)
  have d: "nic_dev ds nk = Some (pi_DeviceNumber e)" using n dev by (simp add: nic_dev_def)
  have free': "free_at (release_address k (pi_IP e) now nk ds) ip d \<longleftrightarrow>
      ip = pi_IP e \<and> d = pi_DeviceNumber e \<or> ip \<noteq> pi_IP e \<and> free_at ds ip d" for ip d
    using exclusive_nic [OF ex l] d unfolding free_at_def v by auto
  have eq: "book_of (release_address k (pi_IP e) now nk ds) =
      book_of ds \<lparr> book_free := (book_free (book_of ds))(pi_IP e \<mapsto> pi_DeviceNumber e),
        book_pods := (book_pods (book_of ds))(k := None) \<rparr>"
    by (subst book_more [OF ex release_address_exclusive [OF ex k n a assigned] free'])
      (rule address_book.equality; simp add: book_pods_eq v fun_eq_iff)
  show ?thesis
    unfolding eq by (rule book_step.return) (use k in \<open>simp add: book_of_def\<close>)
qed

lemma remove_refines:
  assumes ex: "exclusive ds" and n: "map_of (ds_nicIPPools ds) nk = Some nic"
    and idle: "nic_AssignedIPv4Addresses nic = 0"
  shows "book_step (book_of ds) (Forget (nic_ips ds nk)) (book_of (remove_nic nk nic g ds))"
proof -
  have ips: "ip \<in> nic_ips ds nk \<longleftrightarrow> lookup_addr ds nk ip \<noteq> None" for ip
    using n by (simp add: nic_ips_def lookup_addr_known map_of_eq_None_iff)
  have free: "free_at ds ip (nic_DeviceNumber nic)" if "ip \<in> nic_ips ds nk" for ip
  proof -
    from that obtain a where a: "lookup_addr ds nk ip = Some a" by (auto simp: ips)
    then have "(ip, a) \<in> set (nic_IPv4Addresses nic)"
      using n by (auto simp: lookup_addr_known dest: map_of_SomeD)
    then have "\<not> addr_Assigned a"
      using ds_ok_nic [OF exclusive_ok [OF ex] n] idle assigned_count_zero [of "nic_IPv4Addresses nic"]
      by (auto simp: nic_ok_def)
    with a n show ?thesis by (auto simp: free_at_def nic_dev_def)
  qed
  have free': "free_at (remove_nic nk nic g ds) ip d \<longleftrightarrow> ip \<notin> nic_ips ds nk \<and> free_at ds ip d" for ip d
  proof (cases "lookup_addr ds nk ip")
    case None
    then have "nk' \<noteq> nk" if "lookup_addr ds nk' ip = Some a" for nk' a using that by auto
    with None show ?thesis by (auto simp: free_at_def remove_nic_views ips)
  next
    case (Some a)
    then have "nk' = nk" if "lookup_addr ds nk' ip = Some a'" for nk' a' using that exclusive_nic [OF ex Some] by simp
    then have "\<not> free_at (remove_nic nk nic g ds) ip d"
      unfolding free_at_def remove_nic_views by (metis option.distinct(1))
    with Some show ?thesis by (simp add: ips)
  qed
  have eq: "book_of (remove_nic nk nic g ds) =
      book_of ds \<lparr> book_free := (book_free (book_of ds)) |` (- nic_ips ds nk) \<rparr>"
    by (subst book_less [OF ex remove_nic_exclusive [OF ex n idle] free'])
      (simp add: book_pods_eq remove_nic_views)
  show ?thesis
    unfolding eq by (rule book_step.forget) (use free book_free_iff [OF ex] in blast)
qed

lemma AddIP_refines:
  assumes ex: "exclusive ds" and legal: "ds_legal ds (OpAddIP n ip)"
  shows "book_step (book_of ds) (event_of ds (OpAddIP n ip)) (book_of (snd (AddIPv4AddressFromStore n ip ds)))"
proof (cases "fst (AddIPv4AddressFromStore n ip ds) = Ok ()")
  case False
  then have "snd (AddIPv4AddressFromStore n ip ds) = ds" "event_of ds (OpAddIP n ip) = Idle"
    by (cases rule: AddIP_cases [of ds n ip]; simp)+
  then show ?thesis by (simp add: book_step.idle)
next
  case True
  then obtain nic where n: "map_of (ds_nicIPPools ds) n = Some nic" and new: "map_of (nic_IPv4Addresses nic) ip = None"
    by (cases rule: AddIP_cases [of ds n ip]) auto
  have d: "nic_dev ds n = Some (nic_DeviceNumber nic)" and l: "lookup_addr ds n ip = None"
    using n new by (simp_all add: nic_dev_def lookup_addr_known)
  have none: "lookup_addr ds nk ip = None" for nk
    using legal_AddIP(2) [OF legal, of nk] l by (cases "lookup_addr ds nk ip") auto
  have free': "free_at (snd (AddIPv4AddressFromStore n ip ds)) ip' d' \<longleftrightarrow>
      ip' = ip \<and> d' = nic_DeviceNumber nic \<or> ip' \<noteq> ip \<and> free_at ds ip' d'" for ip' d'
    using none d l unfolding free_at_def AddIP_views by auto
  have eq: "book_of (snd (AddIPv4AddressFromStore n ip ds)) =
      book_of ds \<lparr> book_free := (book_free (book_of ds))(ip \<mapsto> nic_DeviceNumber nic) \<rparr>"
    by (subst book_more [OF ex AddIP_exclusive [OF ex legal] free']) (simp add: book_pods_eq AddIP_views)
  have "\<not> held ds nk ip" for nk using none by (simp add: held_def)
  moreover have "book_free (book_of ds) ip = None"
    using none book_free_iff [OF ex, of ip] by (metis free_at_def option.exhaust option.distinct(1))
  ultimately have "book_step (book_of ds) (Learn ip (nic_DeviceNumber nic)) (book_of (snd (AddIPv4AddressFromStore n ip ds)))"
    unfolding eq using exclusive_pod [OF ex] by (intro book_step.learn) (fastforce simp: book_pods_iff)+
  then show ?thesis using True d by simp
qed

lemma DelIP_refines:
  assumes ex: "exclusive ds"
  shows "book_step (book_of ds) (event_of ds (OpDelIP n ip)) (book_of (snd (DelIPv4AddressFromStore n ip ds)))"
proof (cases "\<exists>a. lookup_addr ds n ip = Some a \<and> \<not> addr_Assigned a")
  case False
  then have "snd (DelIPv4AddressFromStore n ip ds) = ds" "event_of ds (OpDelIP n ip) = Idle"
    by (auto simp: DelIPv4AddressFromStore_def lookup_addr_def split: option.splits)
  then show ?thesis by (simp add: book_step.idle)
next
  case True
  then obtain a where a: "lookup_addr ds n ip = Some a" "\<not> addr_Assigned a" by blast
  then have ev: "event_of ds (OpDelIP n ip) = Forget {ip}"
    by (auto simp: DelIPv4AddressFromStore_def elim!: lookup_addr_SomeE split: option.splits simp del: map_of_eq_Some_iff)
  from a(1) obtain d where d: "nic_dev ds n = Some d" by (auto simp: nic_dev_def elim!: lookup_addr_SomeE simp del: map_of_eq_Some_iff)
  have free': "free_at (snd (DelIPv4AddressFromStore n ip ds)) ip' d' \<longleftrightarrow> ip' \<notin> {ip} \<and> free_at ds ip' d'" for ip' d'
    using True exclusive_nic [OF ex a(1)] unfolding free_at_def DelIP_views by auto
  have eq: "book_of (snd (DelIPv4AddressFromStore n ip ds)) =
      book_of ds \<lparr> book_free := (book_free (book_of ds)) |` (- {ip}) \<rparr>"
    by (subst book_less [OF ex DelIP_exclusive [OF ex] free']) (simp add: book_pods_eq DelIP_views)
  have "free_at ds ip d" using a d by (auto simp: free_at_def)
  then show ?thesis
    unfolding eq ev by (intro book_step.forget) (auto simp: dom_def book_free_iff [OF ex])
qed

lemma AddNIC_refines:
  assumes ex: "exclusive ds"
  shows "book_of (snd (AddNIC n d p now ds)) = book_of ds"
proof -
  have none: "nic_dev ds n = None \<Longrightarrow> lookup_addr ds n ip = None" for ip
    by (auto simp: nic_dev_def lookup_addr_def)
  have "free_at (snd (AddNIC n d p now ds)) ip d' \<longleftrightarrow> free_at ds ip d'" for ip d'
    using none [of ip] unfolding free_at_def AddNIC_views by (intro ex_cong1) auto
  then show ?thesis
    by (rule book_same [OF ex AddNIC_exclusive [OF ex]]) (simp add: book_pods_eq AddNIC_views)
qed

lemma Assign_refines:
  assumes ex: "exclusive ds" and legal: "ds_legal ds (OpAssign ord now pod)"
  shows "book_step (book_of ds) (event_of ds (OpAssign ord now pod))
     (book_of (snd (AssignPodIPv4Address ord now pod ds)))"
  using exclusive_ok [OF ex]
proof (cases rule: AssignPod_cases [of ds pod ord now])
  case (taken nk nic ak a)
  then have fresh: "pod_ip ds (pod_key_of pod) = None" by (simp add: pod_ip_def)
  from take_refines [OF ex fresh taken(2,3) taken_is_free(1) [OF ex legal fresh taken(2,3,4)]] taken(5) fresh
  show ?thesis by simp
qed (auto simp: book_step.idle pod_ip_def)

lemma Unassign_refines:
  assumes ex: "exclusive ds"
  shows "book_step (book_of ds) (event_of ds (OpUnassign ord now pod))
     (book_of (snd (UnassignPodIPv4Address ord now pod ds)))"
proof (cases "pod_ip ds (pod_key_of pod)")
  case None
  then show ?thesis by (simp add: UnassignPodIPv4Address_def pod_ip_def book_step.idle)
next
  case (Some e)
  obtain nk nic a where "map_of (ds_nicIPPools ds) nk = Some nic" "map_of (nic_IPv4Addresses nic) (pi_IP e) = Some a"
    "addr_Assigned a" "nic_DeviceNumber nic = pi_DeviceNumber e"
    "UnassignPodIPv4Address ord now pod ds
     = (Ok (pi_IP e, pi_DeviceNumber e), release_address (pod_key_of pod) (pi_IP e) now nk ds)"
    using ex Some by (rule Unassign_known)
  with release_refines [OF ex Some this(1-4)] show ?thesis by simp
qed

lemma RemoveUnused_refines:
  assumes ex: "exclusive ds"
  shows "book_step (book_of ds) (event_of ds (OpRemoveUnused ord clk))
     (book_of (snd (RemoveUnusedNICFromStore ord clk ds)))"
proof (cases "getDeletableNIC ord clk ds")
  case None
  then show ?thesis by (simp add: RemoveUnusedNICFromStore_def book_step.idle)
next
  case (Some nic)
  note found = getDeletableNIC_Some [OF exclusive_ok [OF ex] Some]
  then show ?thesis
    using remove_refines [OF ex, of "nic_ID nic" nic "ds_total ds - int (length (nic_IPv4Addresses nic))"] Some
    by (simp add: RemoveUnusedNICFromStore_def Let_def deletable_def remove_nic_def del: map_of_eq_Some_iff)
qed

lemma RemoveNIC_refines:
  assumes ex: "exclusive ds"
  shows "book_step (book_of ds) (event_of ds (OpRemoveNIC n)) (book_of (snd (RemoveNICFromDataStore n ds)))"
  by (cases rule: RemoveNIC_cases [of ds n])
    (auto intro: book_step.idle remove_refines [OF ex] simp del: map_of_eq_Some_iff)

lemma ds_step_refines_lemma:
  assumes "exclusive ds" and "ds_legal ds x"
  shows "book_step (book_of ds) (event_of ds x) (book_of (ds_step ds x))"
  using assms
  by (cases x)
    (auto simp: AddNIC_refines book_step.idle simp del: ds_legal.simps event_of.simps(2-)
      intro: AddIP_refines DelIP_refines Assign_refines Unassign_refines RemoveUnused_refines RemoveNIC_refines)

lemma book_of_New: "book_of NewDataStore = empty_book"
  by (simp add: book_of_def empty_book_def NewDataStore_def free_list_def pod_ip_def fun_eq_iff)

lemma exclusive_book_ok: "exclusive ds \<Longrightarrow> book_ok (book_of ds)"
proof -
  assume ex: "exclusive ds"
  have "book_free (book_of ds) ip = None" if k: "book_pods (book_of ds) k = Some (ip, d)" for k ip d
  proof (rule ccontr)
    assume "book_free (book_of ds) ip \<noteq> None"
    then obtain d' where "free_at ds ip d'" using book_free_iff [OF ex] by auto
    then obtain nk a where a: "lookup_addr ds nk ip = Some a" "\<not> addr_Assigned a" by (auto simp: free_at_def)
    from k obtain nk' where "held ds nk' ip" using exclusive_pod [OF ex] by (fastforce simp: book_pods_iff)
    then obtain a' where "lookup_addr ds nk' ip = Some a'" "addr_Assigned a'" by (auto simp: held_def split: option.splits)
    with a exclusive_nic [OF ex a(1)] show False by auto
  qed
  then show ?thesis
    using exclusive_inj [OF ex] unfolding book_ok_def by (fastforce simp: book_pods_iff)
qed

end
