(* ===== verification/DataStoreThms.thy ===== *)
theory DataStoreThms
  imports AddressBook
begin

text \<open>
  The properties of the data store, over the operations of DataStore and the invariants of
  DataStoreInv, DataStoreSys and AddressBook, and the two arguments over whole runs that only
  they need: the cooling period of a released address and the Prometheus gauges.
\<close>

section \<open>The cooling period over a run\<close>

text \<open>
  \<open>daemon_op lo hi\<close>: the operations the running daemon performs once its pools are read
  from the cloud, with every clock reading between \<open>lo\<close> and \<open>hi\<close>.
\<close>

fun daemon_op :: "time \<Rightarrow> time \<Rightarrow> ds_op \<Rightarrow> bool" where
  "daemon_op lo hi (OpAddNIC n d p now) = True"
| "daemon_op lo hi (OpAddIP n ip) = True"
| "daemon_op lo hi (OpDelIP n ip) = False"
| "daemon_op lo hi (OpAssign ord now pod) = (pod_IP pod = '''' \<and> now \<le> hi)"
| "daemon_op lo hi (OpUnassign ord now pod) = (lo \<le> now)"
| "daemon_op lo hi (OpRemoveUnused ord clk) = (\<forall>nk. snd (clk nk) \<le> hi)"
| "daemon_op lo hi (OpRemoveNIC n) = False"

definition cooling :: "data_store \<Rightarrow> string \<Rightarrow> string \<Rightarrow> time \<Rightarrow> bool" where
  "cooling ds nk ip T \<longleftrightarrow>
     (\<exists>nic a. map_of (ds_nicIPPools ds) nk = Some nic \<and> map_of (nic_IPv4Addresses nic) ip = Some a
        \<and> \<not> addr_Assigned a \<and> addr_UnassignedTime a = T \<and> T \<le> nic_lastUnassignedTime nic)"

lemma cooling_step:
  assumes ok: "ds_ok ds" and cool: "cooling ds nk ip T" and op: "daemon_op T (T + addressCoolingPeriod) x"
    and ip: "ip \<noteq> ''''"
  shows "cooling (ds_step ds x) nk ip T"
proof -
  obtain nic a where n: "map_of (ds_nicIPPools ds) nk = Some nic" and a: "map_of (nic_IPv4Addresses nic) ip = Some a"
    and free: "\<not> addr_Assigned a" and T: "addr_UnassignedTime a = T" "T \<le> nic_lastUnassignedTime nic"
    using cool by (auto simp: cooling_def)
  have key: "addr_Address a = ip" using nic_ok_addr [OF ds_ok_nic [OF ok n] a] .
  show ?thesis
  proof (cases x)
    case (OpAddNIC n' d p now)
    then show ?thesis using n a free T
      by (auto simp: cooling_def AddNIC_def Let_def simp del: map_of_eq_Some_iff split: option.splits)
  next
    case (OpAddIP n' ip')
    then show ?thesis using n a free T
      by (auto simp: cooling_def AddIPv4AddressFromStore_def simp del: map_of_eq_Some_iff split: option.splits)
  next
    case (OpAssign ord now pod)
    from ok show ?thesis
    proof (cases rule: AssignPod_cases [of ds pod ord now])
      case (taken nk' nic' ak a')
      have "addr_Address a' = ak" using nic_ok_addr [OF ds_ok_nic [OF ok taken(2)] taken(3)] .
      have "\<not> (nk' = nk \<and> ak = ip)"
      proof
        assume same: "nk' = nk \<and> ak = ip"
        with taken n a have [simp]: "a' = a" by (simp del: map_of_eq_Some_iff)
        have "time_sub now T \<le> addressCoolingPeriod"
          using OpAssign op by (auto simp: time_sub_def ds_period_defs GoLib.second_def min_duration_def max_duration_def)
        with taken(4) OpAssign op key ip T show False by (auto simp: takes_def)
      qed
      then show ?thesis using OpAssign taken n a free T
        by (auto simp: cooling_def take_address_def record_pod_ip_def incrementAssignedCount_def
            simp del: map_of_eq_Some_iff)
    qed (use OpAssign cool in auto)
  next
    case (OpUnassign ord now pod)
    from ok show ?thesis
    proof (cases rule: UnassignPod_cases [of ds pod ord now])
      case (freed e nk' nic' a')
      then have "\<not> (nk' = nk \<and> pi_IP e = ip)" using n a free by auto
      then show ?thesis using OpUnassign freed n a free T op
        by (auto simp: cooling_def release_address_def simp del: map_of_eq_Some_iff)
    qed (use OpUnassign cool in auto)
  next
    case (OpRemoveUnused ord clk)
    from ok show ?thesis
    proof (cases rule: RemoveUnused_cases [of ds clk ord])
      case (removed nk' nic')
      have "nk' \<noteq> nk"
      proof
        assume "nk' = nk"
        with removed n have [simp]: "nic' = nic" by (simp del: map_of_eq_Some_iff)
        have "snd (clk nk) \<le> T + addressCoolingPeriod" using op OpRemoveUnused by simp
        then have "time_sub (snd (clk nk)) (nic_lastUnassignedTime nic) < addressNICCoolingPeriod"
          using T(2) by (auto simp: time_sub_def ds_period_defs GoLib.second_def minute_def min_duration_def max_duration_def)
        with removed(2) \<open>nk' = nk\<close> show False by (simp add: deletable_def)
      qed
      with removed OpRemoveUnused n a free T show ?thesis
        by (auto simp: cooling_def remove_nic_def simp del: map_of_eq_Some_iff)
    qed (use OpRemoveUnused cool in auto)
  qed (use op in auto)
qed

lemma cooling_run:
  "ds_ok ds \<Longrightarrow> cooling ds nk ip T \<Longrightarrow> ip \<noteq> '''' \<Longrightarrow> list_all (daemon_op T (T + addressCoolingPeriod)) xs \<Longrightarrow>
   cooling (run ds_step ds xs) nk ip T"
  by (induction xs arbitrary: ds) (auto intro: cooling_step ds_step_ok)

section \<open>The gauges\<close>

definition gauges_ok :: "data_store \<Rightarrow> bool" where
  "gauges_ok ds \<longleftrightarrow>
     gauge_nics ds = int (length (ds_nicIPPools ds)) \<and> gauge_totalIPs ds = ds_total ds
     \<and> gauge_assignedIPs ds = ds_assigned ds"

fun removes_nic :: "ds_op \<Rightarrow> bool" where
  "removes_nic (OpRemoveNIC n) = True"
| "removes_nic _ = False"

lemma gauges_step:
  assumes ok: "ds_ok ds" and g: "gauges_ok ds" and x: "\<not> removes_nic x"
  shows "gauges_ok (ds_step ds x)"
proof (cases x)
  case (OpAssign ord now pod)
  from ok show ?thesis
    by (cases rule: AssignPod_cases [of ds pod ord now])
      (use OpAssign g in \<open>auto simp: gauges_ok_def take_address_def record_pod_ip_def incrementAssignedCount_def\<close>)
next
  case (OpUnassign ord now pod)
  from ok show ?thesis
    by (cases rule: UnassignPod_cases [of ds pod ord now])
      (use OpUnassign g in \<open>auto simp: gauges_ok_def release_address_def\<close>)
next
  case (OpRemoveUnused ord clk)
  from ok show ?thesis
    by (cases rule: RemoveUnused_cases [of ds clk ord])
      (use OpRemoveUnused g in \<open>auto simp: gauges_ok_def remove_nic_def\<close>)
qed (use g x in \<open>auto simp: gauges_ok_def AddNIC_def AddIPv4AddressFromStore_def DelIPv4AddressFromStore_def Let_def
  split: option.splits\<close>)

lemma gauges_run:
  "ds_ok ds \<Longrightarrow> gauges_ok ds \<Longrightarrow> list_all (\<lambda>x. \<not> removes_nic x) xs \<Longrightarrow> gauges_ok (run ds_step ds xs)"
  by (induction xs arbitrary: ds) (auto intro: gauges_step ds_step_ok)

section \<open>Lists of pods\<close>

text \<open>A name without the separator is read back from a joined key.\<close>

lemma split_at_sep:
  "c \<notin> set xs \<Longrightarrow> c \<notin> set xs' \<Longrightarrow> xs @ c # ys = xs' @ c # ys' \<longleftrightarrow> xs = xs' \<and> ys = ys'"
  by (induction xs arbitrary: xs') (case_tac xs'; auto; fail)+

definition plain_key :: "pod_key \<Rightarrow> bool" where
  "plain_key k \<longleftrightarrow> CHR ''_'' \<notin> set (key_name k) \<and> CHR ''_'' \<notin> set (key_namespace k)"

lemma pod_info_key_inj: "plain_key k \<Longrightarrow> plain_key k' \<Longrightarrow> pod_info_key k = pod_info_key k' \<longleftrightarrow> k = k'"
  by (cases k; cases k') (auto simp: plain_key_def pod_info_key_def split_at_sep)

lemma pod_infos_loop_get:
  "distinct (List.map (pod_info_key \<circ> fst) es) \<Longrightarrow>
   map_of (pod_infos_loop es m) = map_of m ++ map_of (List.map (\<lambda>e. (pod_info_key (fst e), snd e)) es)"
proof -
  have "pod_infos_loop es m = fold (\<lambda>e. gm_put (pod_info_key (fst e)) (snd e)) es m"
    by (induction es m rule: pod_infos_loop.induct) auto
  then show "distinct (List.map (pod_info_key \<circ> fst) es) \<Longrightarrow> ?thesis" by (simp add: fold_put_get)
qed

lemma nic_infos_loop_get: "gm_wf es \<Longrightarrow> map_of (nic_infos_loop es m) = map_of m ++ map_of es"
proof -
  have "nic_infos_loop es m = fold (\<lambda>e. gm_put (id (fst e)) (snd e)) es m"
    by (induction es m rule: nic_infos_loop.induct) auto
  then show "gm_wf es \<Longrightarrow> ?thesis" by (simp only: fold_put_get id_o) simp
qed

lemma ip_pool_loop_get: "gm_wf es \<Longrightarrow> map_of (ip_pool_loop es m) = map_of m ++ map_of es"
proof -
  have "ip_pool_loop es m = fold (\<lambda>e. gm_put (id (fst e)) (snd e)) es m"
    by (induction es m rule: ip_pool_loop.induct) auto
  then show "gm_wf es \<Longrightarrow> ?thesis" by (simp only: fold_put_get id_o) simp
qed

section \<open>A sample run\<close>

text \<open>The concrete store the witnesses use: one NIC, two addresses, one pod.\<close>

definition sample_order :: go_order where
  "sample_order = \<lparr> ord_nics = [], ord_ips = (\<lambda>_. []) \<rparr>"

definition sample_pod :: "string \<Rightarrow> string \<Rightarrow> k8s_pod_info" where
  "sample_pod name ip = \<lparr> pod_Name = name, pod_Namespace = ''default'', pod_Container = ''c'', pod_IP = ip, pod_UID = '''' \<rparr>"

definition sample_run :: "ds_op list" where
  "sample_run = [OpAddNIC ''n1'' 3 False 0, OpAddIP ''n1'' ''10.0.0.2'', OpAddIP ''n1'' ''10.0.0.3'',
     OpAssign sample_order (2 * minute) (sample_pod ''p'' '''')]"

definition sample_store :: data_store where
  "sample_store = run ds_step NewDataStore sample_run"

lemmas sample_defs = sample_order_def sample_pod_def sample_run_def sample_store_def

lemma sample_legal: "legal_run ds_step ds_legal NewDataStore sample_run"
  by code_simp

lemma sample_exclusive: "exclusive sample_store"
  unfolding sample_store_def by (rule exclusive_sys.reachable_inv [OF sample_legal])

lemma legal_run_True: "legal_run step (\<lambda>_ _. True) s xs"
  by (induction xs arbitrary: s) auto

fun events_of :: "data_store \<Rightarrow> ds_op list \<Rightarrow> book_event list" where
  "events_of ds [] = []"
| "events_of ds (x # xs) = event_of ds x # events_of (ds_step ds x) xs"

inductive book_run :: "address_book \<Rightarrow> book_event list \<Rightarrow> address_book \<Rightarrow> bool" where
  nil: "book_run b [] b"
| cons: "book_step b ev b' \<Longrightarrow> book_run b' evs b'' \<Longrightarrow> book_run b (ev # evs) b''"

inductive_simps book_run_nil [simp]: "book_run b [] b'"
inductive_simps book_run_cons: "book_run b (ev # evs) b'"

lemma refines_run:
  "exclusive ds \<Longrightarrow> legal_run ds_step ds_legal ds xs \<Longrightarrow>
   book_run (book_of ds) (events_of ds xs) (book_of (run ds_step ds xs))"
  by (induction xs arbitrary: ds)
    (auto simp: book_run_cons intro!: exI conjI ds_step_refines_lemma ds_step_exclusive)

text \<open>An address a pod without a known address may be given.\<close>

definition available :: "time \<Rightarrow> data_store \<Rightarrow> string \<Rightarrow> string \<Rightarrow> bool" where
  "available now ds nk ip \<longleftrightarrow>
     (case lookup_addr ds nk ip of None \<Rightarrow> False
      | Some a \<Rightarrow> \<not> addr_Assigned a \<and> addressCoolingPeriod < time_sub now (addr_UnassignedTime a))"

lemma takes_available:
  assumes "exclusive ds" and "pod_IP pod = ''''" and "lookup_addr ds nk ip = Some a"
  shows "takes pod now a \<longleftrightarrow> available now ds nk ip"
proof -
  have "addr_Address a = ip" using exclusive_ok [OF assms(1)] assms(3) by (rule lookup_addr_Address)
  moreover have "ip \<noteq> ''''" using exclusive_nonempty [OF assms(1)] assms(3) by auto
  ultimately show ?thesis using assms by (auto simp: takes_def available_def)
qed

text \<open>What an assignment without a requested address does, whatever the order of the loops.\<close>

lemma cni_assign_cases:
  assumes ex: "exclusive ds" and pod: "pod_IP pod = ''''" and fresh: "pod_ip ds (pod_key_of pod) = None"
  obtains (taken) nk nic ip a where "map_of (ds_nicIPPools ds) nk = Some nic" "map_of (nic_IPv4Addresses nic) ip = Some a"
      "available now ds nk ip" "addr_Address a = ip"
      "AssignPodIPv4Address ord now pod ds = (Ok (ip, nic_DeviceNumber nic), take_address pod nk nic ip a ds)"
  | (none) "AssignPodIPv4Address ord now pod ds = (Err NoAvailableIPError, ds)" "\<And>nk ip. \<not> available now ds nk ip"
  using exclusive_ok [OF ex]
proof (cases rule: AssignPod_cases [of ds pod ord now])
  case (taken nk nic ak a)
  have l: "lookup_addr ds nk ak = Some a" using taken(2,3) by (simp add: lookup_addr_known)
  have "addr_Address a = ak" using exclusive_ok [OF ex] l by (rule lookup_addr_Address)
  with taken that(1) takes_available [OF ex pod l] show ?thesis by simp
next
  case none
  have "\<not> available now ds nk ip" for nk ip
    using none(3) takes_available [OF ex pod]
    by (auto simp: available_def split: option.splits elim!: lookup_addr_SomeE simp del: map_of_eq_Some_iff) (metis lookup_addr_known)
  with none that(2) show ?thesis by blast
qed (use fresh in \<open>auto simp: pod_ip_def\<close>)

section \<open>Properties\<close>

text \<open>C16: the counters of the store (total, assigned, per NIC) agree with its maps, every NIC
  is stored under its own ID with a positive device number and every address under itself,
  after any sequence of operations with any arguments, clock readings and loop orders.\<close>

theorem store_well_formed: "ds_ok (run ds_step NewDataStore xs)"
  by (rule store_sys.reachable_inv [OF legal_run_True])

text \<open>C6: over every legal sequence of operations, two pods never hold the same address, the
  address a pod holds is marked assigned on exactly one NIC, the one whose device number the
  pod was given, and no address is assigned without a pod that holds it.\<close>

theorem exclusive_ownership:
  assumes "legal_run ds_step ds_legal NewDataStore xs"
  shows "exclusive (run ds_step NewDataStore xs)"
  using assms by (rule exclusive_sys.reachable_inv)

lemma exclusive_ownership_witness: "exclusive (run ds_step NewDataStore sample_run)"
  by (rule exclusive_ownership) (rule sample_legal)

text \<open>C7: the store refines the address book: read through \<open>book_of\<close>, a legal run of the
  store is a run of the abstract book, one book event (learn, take, return, forget or nothing)
  for each operation.\<close>

theorem store_refines_book:
  assumes "legal_run ds_step ds_legal NewDataStore xs"
  shows "book_run empty_book (events_of NewDataStore xs) (book_of (run ds_step NewDataStore xs))"
  using refines_run [OF NewDataStore_exclusive assms] by (simp only: book_of_New)

lemma store_refines_book_witness:
  "book_run empty_book (events_of NewDataStore sample_run) (book_of (run ds_step NewDataStore sample_run))"
  by (rule store_refines_book) (rule sample_legal)

text \<open>C10: a pod with no address yet is served exactly when some address is free and past its
  cooling period of 30 seconds, whatever order the runtime ranges over the maps in; otherwise
  the store is unchanged and the error says that no address is available.\<close>

theorem cni_assign_iff_available:
  assumes "exclusive ds" and "pod_IP pod = ''''" and "pod_ip ds (pod_key_of pod) = None"
  shows "if \<exists>nk ip. available now ds nk ip
    then \<exists>ip d. fst (AssignPodIPv4Address ord now pod ds) = Ok (ip, d)
    else AssignPodIPv4Address ord now pod ds = (Err NoAvailableIPError, ds)"
  using assms by (cases rule: cni_assign_cases [of ds pod now ord]) auto

lemma cni_assign_iff_available_witness:
  "if \<exists>nk ip. available (2 * minute) sample_store nk ip
   then \<exists>ip d. fst (AssignPodIPv4Address sample_order (2 * minute) (sample_pod ''q'' '''') sample_store) = Ok (ip, d)
   else AssignPodIPv4Address sample_order (2 * minute) (sample_pod ''q'' '''') sample_store
     = (Err NoAvailableIPError, sample_store)"
  by (rule cni_assign_iff_available [OF sample_exclusive]) code_simp+



text \<open>After a restart, a running pod is given the address it reports, on whichever NIC
  carries it, with that NIC's device number, even before the address has cooled down; when no
  NIC carries it nothing changes and the error says so.\<close>

theorem restart_assign:
  assumes "exclusive ds" and "ds_legal ds (OpAssign ord now pod)"
    and "pod_IP pod \<noteq> ''''" and "pod_ip ds (pod_key_of pod) = None"
  shows "case fst (AssignPodIPv4Address ord now pod ds) of
      Ok (ip, d) \<Rightarrow> ip = pod_IP pod
        \<and> (\<exists>nk. nic_dev ds nk = Some d \<and> lookup_addr ds nk ip \<noteq> None \<and> \<not> held ds nk ip
             \<and> held (snd (AssignPodIPv4Address ord now pod ds)) = (held ds)(nk := (held ds nk)(ip := True)))
        \<and> pod_ip (snd (AssignPodIPv4Address ord now pod ds))
            = (pod_ip ds)(pod_key_of pod \<mapsto> \<lparr> pi_IP = ip, pi_DeviceNumber = d \<rparr>)
    | Err e \<Rightarrow> e = NoAvailableIPError \<and> snd (AssignPodIPv4Address ord now pod ds) = ds
        \<and> (\<forall>nk. lookup_addr ds nk (pod_IP pod) = None)
    | Panic \<Rightarrow> False"
  using exclusive_ok [OF assms(1)]
proof (cases rule: AssignPod_cases [of ds pod ord now])
  case (taken nk nic ak a)
  have l: "lookup_addr ds nk ak = Some a" using taken(2,3) by (simp add: lookup_addr_known)
  have key: "addr_Address a = ak" using exclusive_ok [OF assms(1)] l by (rule lookup_addr_Address)
  have "\<not> addr_Assigned a"
    using taken_is_free(1) [OF assms(1,2,4) taken(2,3,4)] .
  then have "held (take_address pod nk nic ak a ds) = (held ds)(nk := (held ds nk)(ak := True))" "\<not> held ds nk ak"
    using taken l by (auto simp: held_def take_address_views fun_eq_iff simp del: map_of_eq_Some_iff)
  moreover have "ak = pod_IP pod" using taken(4) assms(3) key by (auto simp: takes_def)
  moreover have "nic_dev ds nk = Some (nic_DeviceNumber nic)" using taken(2) by (simp add: nic_dev_def)
  ultimately show ?thesis
    using taken l key by (auto simp: take_address_views simp del: map_of_eq_Some_iff)
next
  case none
  have "lookup_addr ds nk (pod_IP pod) = None" for nk
  proof (rule ccontr)
    assume "lookup_addr ds nk (pod_IP pod) \<noteq> None"
    then obtain a where l: "lookup_addr ds nk (pod_IP pod) = Some a" by blast
    then obtain nic where n: "map_of (ds_nicIPPools ds) nk = Some nic" "map_of (nic_IPv4Addresses nic) (pod_IP pod) = Some a"
      by (rule lookup_addr_SomeE)
    from none(3) [OF n] lookup_addr_Address [OF exclusive_ok [OF assms(1)] l] assms(3) show False
      by (simp add: takes_def)
  qed
  with none(2) show ?thesis by simp
qed (use assms(4) in \<open>auto simp: pod_ip_def\<close>)

lemma restart_assign_witness:
  "case fst (AssignPodIPv4Address sample_order 0 (sample_pod ''q'' ''10.0.0.3'') sample_store) of
      Ok (ip, d) \<Rightarrow> ip = pod_IP (sample_pod ''q'' ''10.0.0.3'')
        \<and> (\<exists>nk. nic_dev sample_store nk = Some d \<and> lookup_addr sample_store nk ip \<noteq> None \<and> \<not> held sample_store nk ip
             \<and> held (snd (AssignPodIPv4Address sample_order 0 (sample_pod ''q'' ''10.0.0.3'') sample_store))
               = (held sample_store)(nk := (held sample_store nk)(ip := True)))
        \<and> pod_ip (snd (AssignPodIPv4Address sample_order 0 (sample_pod ''q'' ''10.0.0.3'') sample_store))
            = (pod_ip sample_store)(pod_key_of (sample_pod ''q'' ''10.0.0.3'') \<mapsto> \<lparr> pi_IP = ip, pi_DeviceNumber = d \<rparr>)
    | Err e \<Rightarrow> e = NoAvailableIPError
        \<and> snd (AssignPodIPv4Address sample_order 0 (sample_pod ''q'' ''10.0.0.3'') sample_store) = sample_store
        \<and> (\<forall>nk. lookup_addr sample_store nk (pod_IP (sample_pod ''q'' ''10.0.0.3'')) = None)
    | Panic \<Rightarrow> False"
  by (rule restart_assign [OF sample_exclusive]) code_simp+

text \<open>Releasing a pod the store knows always succeeds (the error for a pod whose address is
  unknown cannot occur), returns the address and device number the pod was given, makes exactly
  that address free, stamped with the time of the release, and forgets exactly that pod.\<close>

theorem unassign_known_pod:
  assumes "exclusive ds" and "pod_ip ds (pod_key_of pod) = Some e"
  shows "\<exists>nk ds'. UnassignPodIPv4Address ord now pod ds = (Ok (pi_IP e, pi_DeviceNumber e), ds')
    \<and> nic_dev ds nk = Some (pi_DeviceNumber e) \<and> held ds nk (pi_IP e)
    \<and> held ds' = (held ds)(nk := (held ds nk)(pi_IP e := False))
    \<and> map_option addr_UnassignedTime (lookup_addr ds' nk (pi_IP e)) = Some now
    \<and> nic_dev ds' = nic_dev ds
    \<and> pod_ip ds' = (pod_ip ds)(pod_key_of pod := None) \<and> ds_assigned ds' = ds_assigned ds - 1"
proof -
  from assms obtain nk nic a where n: "map_of (ds_nicIPPools ds) nk = Some nic" "map_of (nic_IPv4Addresses nic) (pi_IP e) = Some a"
    and a: "addr_Assigned a" "nic_DeviceNumber nic = pi_DeviceNumber e"
    and res: "UnassignPodIPv4Address ord now pod ds
     = (Ok (pi_IP e, pi_DeviceNumber e), release_address (pod_key_of pod) (pi_IP e) now nk ds)"
    by (rule Unassign_known)
  let ?ds = "release_address (pod_key_of pod) (pi_IP e) now nk ds"
  have "held ?ds = (held ds)(nk := (held ds nk)(pi_IP e := False))"
    by (auto simp: held_def release_address_views [OF n] fun_eq_iff)
  moreover have "ds_assigned ?ds = ds_assigned ds - 1" by (simp add: release_address_def)
  moreover have "nic_dev ds nk = Some (pi_DeviceNumber e)" "held ds nk (pi_IP e)"
    using n a by (simp_all add: nic_dev_def held_def lookup_addr_known)
  ultimately show ?thesis
    using res by (intro exI [of _ nk] exI [of _ ?ds]) (simp add: release_address_views [OF n])
qed

lemma unassign_known_pod_witness:
  "\<exists>nk ds'. UnassignPodIPv4Address sample_order (3 * minute) (sample_pod ''p'' '''') sample_store
        = (Ok (''10.0.0.2'', 3), ds')
    \<and> nic_dev sample_store nk = Some 3 \<and> held sample_store nk ''10.0.0.2''
    \<and> held ds' = (held sample_store)(nk := (held sample_store nk)(''10.0.0.2'' := False))
    \<and> map_option addr_UnassignedTime (lookup_addr ds' nk ''10.0.0.2'') = Some (3 * minute)
    \<and> nic_dev ds' = nic_dev sample_store
    \<and> pod_ip ds' = (pod_ip sample_store)(pod_key_of (sample_pod ''p'' '''') := None)
    \<and> ds_assigned ds' = ds_assigned sample_store - 1"
proof -
  have "pod_ip sample_store (pod_key_of (sample_pod ''p'' '''')) = Some \<lparr> pi_IP = ''10.0.0.2'', pi_DeviceNumber = 3 \<rparr>"
    by code_simp
  from unassign_known_pod [OF sample_exclusive this, of sample_order "3 * minute"]
  show ?thesis by (simp only: pod_ip_info.simps)
qed

text \<open>Giving a pod an address and taking it back restores the address book: the release
  returns what the assignment returned, and the free addresses and the pods with an address are
  those there were before.\<close>

theorem assign_unassign_roundtrip:
  assumes "exclusive ds" and "ds_legal ds (OpAssign ord now pod)" and "pod_ip ds (pod_key_of pod) = None"
    and "AssignPodIPv4Address ord now pod ds = (Ok r, ds1)"
    and "UnassignPodIPv4Address ord' now' pod ds1 = (res, ds2)"
  shows "res = Ok r \<and> book_of ds2 = book_of ds"
proof -
  obtain ip d where r: "r = (ip, d)" by fastforce
  have ex1: "exclusive ds1" using Assign_exclusive [OF assms(1,2)] assms(4) by simp
  have take: "book_step (book_of ds) (Take (pod_key_of pod) ip d) (book_of ds1)"
    using Assign_refines [OF assms(1,2)] assms(3,4) r by simp
  then have "pod_ip ds1 (pod_key_of pod) = Some \<lparr> pi_IP = ip, pi_DeviceNumber = d \<rparr>"
    by (intro iffD1 [OF book_pods_iff], elim book_take_elim) simp
  from Unassign_known [OF ex1 this, of ord' now'] have res: "res = Ok r" using assms(5) r by auto
  then have "book_step (book_of ds1) (Return (pod_key_of pod) ip d) (book_of ds2)"
    using Unassign_refines [OF ex1, of ord' now' pod] assms(5) r by simp
  with take have "book_of ds2 = book_of ds"
    by (elim book_take_elim book_return_elim) (simp add: fun_upd_idem)
  with res show ?thesis by simp
qed

lemma assign_unassign_roundtrip_witness:
  "let (r, ds1) = AssignPodIPv4Address sample_order (2 * minute) (sample_pod ''q'' '''') sample_store;
       (res, ds2) = UnassignPodIPv4Address sample_order (3 * minute) (sample_pod ''q'' '''') ds1
   in res = Ok (''10.0.0.3'', 3) \<and> book_of ds2 = book_of sample_store"
proof -
  let ?a = "AssignPodIPv4Address sample_order (2 * minute) (sample_pod ''q'' '''') sample_store"
  have "fst ?a = Ok (''10.0.0.3'', 3)" and legal: "ds_legal sample_store (OpAssign sample_order (2 * minute) (sample_pod ''q'' ''''))"
    and fresh: "pod_ip sample_store (pod_key_of (sample_pod ''q'' '''')) = None"
    by code_simp+
  then have a: "?a = (Ok (''10.0.0.3'', 3), snd ?a)" by (simp add: prod_eq_iff)
  show ?thesis
    using assign_unassign_roundtrip [OF sample_exclusive legal fresh a prod.collapse [symmetric]]
    by (simp add: Let_def case_prod_beta)
qed

text \<open>C19: a released address is not given to another pod while it cools down: for 30 seconds
  after the release, whatever the daemon does in between (new NICs, new addresses, other pods
  served and released, unused NICs removed), the address stays on its NIC, unassigned and with
  its release time.\<close>

theorem released_address_cools:
  assumes "legal_run ds_step ds_legal NewDataStore xs"
    and "ds = run ds_step NewDataStore xs"
    and "UnassignPodIPv4Address ord T pod ds = (Ok (ip, d), ds1)"
    and "list_all (daemon_op T (T + addressCoolingPeriod)) ys"
  shows "\<exists>nk. nic_dev ds nk = Some d \<and> cooling (run ds_step ds1 ys) nk ip T"
proof -
  have ex: "exclusive ds" using exclusive_sys.reachable_inv [OF assms(1)] assms(2) by simp
  then have "exclusive ds1" using Unassign_exclusive [OF ex, of ord T pod] assms(3) by simp
  have "\<exists>nk. nic_dev ds nk = Some d \<and> ip \<noteq> '''' \<and> cooling ds1 nk ip T"
    using exclusive_ok [OF ex]
  proof (cases rule: UnassignPod_cases [of ds pod ord T])
    case (freed e nk nic a)
    have "ip \<noteq> ''''"
      using exclusive_nonempty [OF ex, of nk] freed assms(3) by (auto simp: lookup_addr_known)
    moreover have "cooling ds1 nk ip T"
      using freed assms(3) by (auto simp: cooling_def release_address_def simp del: map_of_eq_Some_iff)
    ultimately show ?thesis using freed assms(3) by (auto simp: nic_dev_def)
  qed (use assms(3) in auto)
  with cooling_run [OF exclusive_ok [OF \<open>exclusive ds1\<close>] _ _ assms(4)] show ?thesis by blast
qed

lemma released_address_cools_witness:
  "\<exists>nk. nic_dev sample_store nk = Some 3
    \<and> cooling (run ds_step (snd (UnassignPodIPv4Address sample_order (3 * minute) (sample_pod ''p'' '''') sample_store))
        [OpAssign sample_order (3 * minute + second) (sample_pod ''q'' ''''),
         OpRemoveUnused sample_order (\<lambda>_. (3 * minute, 3 * minute))]) nk ''10.0.0.2'' (3 * minute)"
proof -
  let ?u = "UnassignPodIPv4Address sample_order (3 * minute) (sample_pod ''p'' '''') sample_store"
  have "fst ?u = Ok (''10.0.0.2'', 3)" by code_simp
  then have "?u = (Ok (''10.0.0.2'', 3), snd ?u)" by (simp add: prod_eq_iff)
  from released_address_cools [OF sample_legal sample_store_def this] show ?thesis
    by this (simp add: sample_pod_def time_defs addressCoolingPeriod_def)
qed

text \<open>C21: a NIC taken out of the store because it is unused is never the primary NIC, has lived
  at least a minute, has had no release for a minute and carries no assigned address; every pod
  keeps its address and device, every other NIC stays.\<close>

theorem removed_nic_is_unused:
  assumes "exclusive ds" and "RemoveUnusedNICFromStore ord clk ds = (Ok n, ds')" and "n \<noteq> ''''"
  shows "\<exists>nic. map_of (ds_nicIPPools ds) n = Some nic \<and> \<not> nic_IsPrimary nic
    \<and> minLifeTime \<le> time_sub (fst (clk n)) (nic_createTime nic)
    \<and> addressNICCoolingPeriod \<le> time_sub (snd (clk n)) (nic_lastUnassignedTime nic)
    \<and> (\<forall>ip. \<not> held ds n ip)
    \<and> (\<forall>k e. pod_ip ds k = Some e \<longrightarrow>
         (\<exists>nk. nk \<noteq> n \<and> nic_dev ds' nk = Some (pi_DeviceNumber e) \<and> held ds' nk (pi_IP e)))
    \<and> pod_ip ds' = pod_ip ds \<and> ds_nicIPPools ds' = gm_del n (ds_nicIPPools ds)
    \<and> ds_total ds' = ds_total ds - int (length (nic_IPv4Addresses nic))"
  using exclusive_ok [OF assms(1)]
proof (cases rule: RemoveUnused_cases [of ds clk ord])
  case (removed nk nic)
  have no: "\<not> held ds n ip" for ip
  proof
    assume "held ds n ip"
    then obtain a where "map_of (nic_IPv4Addresses nic) ip = Some a" "addr_Assigned a"
      using removed assms(2) by (auto simp: held_def lookup_addr_known split: option.splits)
    moreover have "assigned_count (nic_IPv4Addresses nic) = 0"
      using ds_ok_nic [OF exclusive_ok [OF assms(1)] removed(1)] removed(2) by (simp add: nic_ok_def deletable_def)
    ultimately show False by (fastforce simp: assigned_count_zero dest: map_of_SomeD)
  qed
  have "\<exists>nk. nk \<noteq> n \<and> nic_dev ds' nk = Some (pi_DeviceNumber e) \<and> held ds' nk (pi_IP e)"
    if k: "pod_ip ds k = Some e" for k e
  proof -
    obtain nk' where nk': "nic_dev ds nk' = Some (pi_DeviceNumber e)" "held ds nk' (pi_IP e)"
      using exclusive_pod [OF assms(1) k] by blast
    then have "nk' \<noteq> n" using no by auto
    with nk' show ?thesis
      using removed assms(2) by (intro exI [of _ nk']) (auto simp: remove_nic_views held_def)
  qed
  moreover have "pod_ip ds' = pod_ip ds" "ds_nicIPPools ds' = gm_del n (ds_nicIPPools ds)"
    "ds_total ds' = ds_total ds - int (length (nic_IPv4Addresses nic))"
    using removed assms(2) by (auto simp: remove_nic_views) (auto simp: remove_nic_def)
  ultimately show ?thesis using removed assms(2) no by (intro exI [of _ nic]) (simp add: deletable_def)
qed (use assms in auto)

lemma removed_nic_is_unused_witness:
  "\<exists>nic ds'. ds' = snd (RemoveUnusedNICFromStore sample_order (\<lambda>_. (minute, minute)) (run ds_step NewDataStore (take 3 sample_run)))
    \<and> map_of (ds_nicIPPools (run ds_step NewDataStore (take 3 sample_run))) ''n1'' = Some nic
    \<and> \<not> nic_IsPrimary nic \<and> ds_total ds' = 2 - int (length (nic_IPv4Addresses nic))"
proof -
  let ?ds = "run ds_step NewDataStore (take 3 sample_run)"
  let ?r = "RemoveUnusedNICFromStore sample_order (\<lambda>_. (minute, minute)) ?ds"
  have "legal_run ds_step ds_legal NewDataStore (take 3 sample_run)" by code_simp
  then have ex: "exclusive ?ds" by (rule exclusive_sys.reachable_inv)
  have "fst ?r = Ok ''n1''" and total: "ds_total ?ds = 2" by code_simp+
  then have r: "?r = (Ok ''n1'', snd ?r)" by (simp add: prod_eq_iff)
  from removed_nic_is_unused [OF ex r] show ?thesis unfolding total by auto
qed

text \<open>The three Prometheus gauges show the number of NICs, of addresses and of assigned
  addresses after every sequence of operations that does not use
  \<^verbatim>\<open>RemoveNICFromDataStore\<close>.\<close>

theorem gauges_follow_store:
  assumes "list_all (\<lambda>x. \<not> removes_nic x) xs"
  shows "gauges_ok (run ds_step NewDataStore xs)"
  by (rule gauges_run [OF NewDataStore_ok _ assms]) (simp add: gauges_ok_def NewDataStore_def)

lemma gauges_follow_store_witness: "gauges_ok (run ds_step NewDataStore sample_run)"
  by (rule gauges_follow_store) code_simp

text \<open>\<^verbatim>\<open>RemoveNICFromDataStore\<close> leaves the gauge of addresses at its old value: after it
  removes a NIC that carries addresses, the gauge is too high by their number.\<close>

theorem remove_nic_leaves_gauge:
  assumes "gauges_ok ds" and "RemoveNICFromDataStore n ds = (Ok (), ds')"
  shows "\<exists>nic. map_of (ds_nicIPPools ds) n = Some nic
    \<and> gauge_totalIPs ds' = ds_total ds' + int (length (nic_IPv4Addresses nic))"
  by (cases rule: RemoveNIC_cases [of ds n]) (use assms in \<open>auto simp: gauges_ok_def remove_nic_def\<close>)

lemma remove_nic_leaves_gauge_witness:
  "\<exists>nic. map_of (ds_nicIPPools (run ds_step NewDataStore (take 3 sample_run))) ''n1'' = Some nic
    \<and> gauge_totalIPs (snd (RemoveNICFromDataStore ''n1'' (run ds_step NewDataStore (take 3 sample_run))))
      = ds_total (snd (RemoveNICFromDataStore ''n1'' (run ds_step NewDataStore (take 3 sample_run))))
        + int (length (nic_IPv4Addresses nic))"
proof (rule remove_nic_leaves_gauge)
  show "gauges_ok (run ds_step NewDataStore (take 3 sample_run))" by code_simp
  have "fst (RemoveNICFromDataStore ''n1'' (run ds_step NewDataStore (take 3 sample_run))) = Ok ()" by code_simp
  then show "RemoveNICFromDataStore ''n1'' (run ds_step NewDataStore (take 3 sample_run)) =
    (Ok (), snd (RemoveNICFromDataStore ''n1'' (run ds_step NewDataStore (take 3 sample_run))))"
    by (simp add: prod_eq_iff)
qed

text \<open>The introspection list of pods shows every pod with its address, and nothing else, as
  long as no pod or namespace name contains the separator of its keys.\<close>

theorem pod_infos_complete:
  assumes "ds_ok ds" and "list_all plain_key (gm_keys (ds_podsIP ds))"
  shows "map_of (GetPodInfos ord ds) s = Some e
    \<longleftrightarrow> (\<exists>k. pod_info_key k = s \<and> pod_ip ds k = Some e)"
proof -
  let ?es = "go_range ord (ds_podsIP ds)"
  note wf = ds_ok_wf(2) [OF assms(1)]
  have inj: "inj_on pod_info_key (set (gm_keys ?es))"
    using assms(2) wf by (auto simp: inj_on_def list_all_iff pod_info_key_inj)
  have d: "distinct (List.map (pod_info_key \<circ> fst) ?es)"
    using distinct_map [of pod_info_key "gm_keys ?es"] gm_wf_go_range [OF wf] inj by simp
  then have wf': "gm_wf (List.map (\<lambda>e. (pod_info_key (fst e), snd e)) ?es)" by (simp add: o_def)
  have "map_of (GetPodInfos ord ds) s = Some e \<longleftrightarrow> (s, e) \<in> (\<lambda>e. (pod_info_key (fst e), snd e)) ` set ?es"
    unfolding GetPodInfos_def using pod_infos_loop_get [OF d] wf' by simp
  also have "\<dots> \<longleftrightarrow> (\<exists>k. pod_info_key k = s \<and> (k, e) \<in> set (ds_podsIP ds))"
    using wf by force
  finally show ?thesis using wf by (simp add: pod_ip_def)
qed

lemma pod_infos_complete_witness:
  "map_of (GetPodInfos [] sample_store) ''p_default_c'' = Some \<lparr> pi_IP = ''10.0.0.2'', pi_DeviceNumber = 3 \<rparr>"
proof -
  have "ds_ok sample_store" by (rule exclusive_ok [OF sample_exclusive])
  moreover have "list_all plain_key (gm_keys (ds_podsIP sample_store))" by code_simp
  moreover have "pod_info_key (pod_key_of (sample_pod ''p'' '''')) = ''p_default_c''"
    "pod_ip sample_store (pod_key_of (sample_pod ''p'' '''')) = Some \<lparr> pi_IP = ''10.0.0.2'', pi_DeviceNumber = 3 \<rparr>"
    by code_simp+
  ultimately show ?thesis by (subst pod_infos_complete) blast+
qed

text \<open>The other introspection calls copy the store faithfully: the NIC list has the totals and
  every pool, the pool of a NIC every address of it, and an unknown NIC is an error.\<close>

theorem introspection_copies:
  assumes "ds_ok ds"
  shows "infos_TotalIPs (GetNICInfos ord ds) = ds_total ds \<and> infos_AssignedIPs (GetNICInfos ord ds) = ds_assigned ds
    \<and> map_of (infos_NICIPPools (GetNICInfos ord ds)) = map_of (ds_nicIPPools ds)
    \<and> (case GetNICIPPools ord' n ds of
         Ok m \<Rightarrow> map_of m = (\<lambda>ip. lookup_addr ds n ip) \<and> n \<in> set (gm_keys (ds_nicIPPools ds))
       | Err e \<Rightarrow> e = ErrorString UnknownNICError \<and> n \<notin> set (gm_keys (ds_nicIPPools ds))
       | Panic \<Rightarrow> False)"
proof -
  have "map_of (ip_pool_loop (go_range ord' (nic_IPv4Addresses nic)) []) = map_of (nic_IPv4Addresses nic)"
    if "map_of (ds_nicIPPools ds) n = Some nic" for nic
    using nic_ok_wf [OF ds_ok_nic [OF assms that]] by (simp add: ip_pool_loop_get)
  moreover have "n \<in> set (gm_keys (ds_nicIPPools ds)) \<longleftrightarrow> map_of (ds_nicIPPools ds) n \<noteq> None"
    by (simp add: map_of_eq_None_iff)
  ultimately show ?thesis
    using ds_ok_wf(1) [OF assms]
    by (cases "map_of (ds_nicIPPools ds) n")
      (simp_all add: GetNICInfos_def GetNICIPPools_def nic_infos_loop_get lookup_addr_def fun_eq_iff
        del: set_map map_of_eq_Some_iff)
qed

lemma introspection_copies_witness:
  "map_of (infos_NICIPPools (GetNICInfos [] sample_store)) = map_of (ds_nicIPPools sample_store)"
  using introspection_copies [OF exclusive_ok [OF sample_exclusive], of "[]" "''n1''" "[]"] by simp

end
