(* ===== verification/PoolInterface.thy ===== *)
theory PoolInterface
  imports DataStoreThms
begin

text \<open>
  The contract between the request handlers and the data store: what a caller of
  \<^verbatim>\<open>AssignPodIPv4Address\<close> and \<^verbatim>\<open>UnassignPodIPv4Address\<close> may rely on without knowing NICs,
  counters or loops.  \<open>owner\<close> is the address a pod holds.  The data store provides it.
\<close>

locale ip_pool =
  fixes inv :: "'s \<Rightarrow> bool"
    and assign :: "k8s_pod_info \<Rightarrow> 's \<Rightarrow> (string \<times> int) go_result \<times> 's"
    and unassign :: "k8s_pod_info \<Rightarrow> 's \<Rightarrow> (string \<times> int) go_result \<times> 's"
    and owner :: "'s \<Rightarrow> pod_key \<Rightarrow> pod_ip_info option"
  assumes assign_new: "inv s \<Longrightarrow> pod_IP p = '''' \<Longrightarrow> owner s (pod_key_of p) = None \<Longrightarrow>
      assign p s = (Ok (ip, d), s') \<Longrightarrow>
      inv s' \<and> owner s' = (owner s)(pod_key_of p \<mapsto> \<lparr> pi_IP = ip, pi_DeviceNumber = d \<rparr>)
      \<and> ip \<noteq> '''' \<and> (\<forall>k e. owner s k = Some e \<longrightarrow> pi_IP e \<noteq> ip)"
    and assign_again: "inv s \<Longrightarrow> pod_IP p = '''' \<Longrightarrow> owner s (pod_key_of p) \<noteq> None \<Longrightarrow>
      assign p s = (Err MultipleIPError, s)"
    and assign_total: "inv s \<Longrightarrow> fst (assign p s) \<noteq> Panic \<and> (is_err (fst (assign p s)) \<longrightarrow> snd (assign p s) = s)"
    and unassign_owner: "inv s \<Longrightarrow> owner s (pod_key_of p) = Some e \<Longrightarrow>
      \<exists>s'. unassign p s = (Ok (pi_IP e, pi_DeviceNumber e), s') \<and> inv s' \<and> owner s' = (owner s)(pod_key_of p := None)"
    and unassign_stranger: "owner s (pod_key_of p) = None \<Longrightarrow> unassign p s = (Err ErrUnknownPod, s)"
begin

lemma assign_cases:
  assumes "inv s" and "pod_IP p = ''''"
  obtains (fresh) ip d s' where "assign p s = (Ok (ip, d), s')" "owner s (pod_key_of p) = None" "inv s'"
      "owner s' = (owner s)(pod_key_of p \<mapsto> \<lparr> pi_IP = ip, pi_DeviceNumber = d \<rparr>)" "ip \<noteq> ''''"
  | (refused) e where "assign p s = (Err e, s)"
proof (cases "owner s (pod_key_of p)")
  case None
  show ?thesis
  proof (cases "fst (assign p s)")
    case (Ok r)
    then have "assign p s = (Ok (fst r, snd r), snd (assign p s))" by (simp add: prod_eq_iff)
    with assign_new [OF assms None this] None fresh show ?thesis by blast
  next
    case (Err e)
    then have "assign p s = (Err e, s)" using assign_total [OF assms(1), of p] by (simp add: prod_eq_iff)
    then show ?thesis by (rule refused)
  next
    case Panic
    with assign_total [OF assms(1), of p] show ?thesis by simp
  qed
next
  case (Some e)
  with assign_again [OF assms] refused show ?thesis by simp
qed

lemma unassign_twice: "inv s \<Longrightarrow> owner s (pod_key_of p) = Some e \<Longrightarrow> unassign p s = (r, s') \<Longrightarrow>
   unassign p s' = (Err ErrUnknownPod, s')"
  using unassign_owner [of s p e] unassign_stranger by fastforce

lemma assign_unassign: "inv s \<Longrightarrow> pod_IP p = '''' \<Longrightarrow> assign p s = (Ok r, s') \<Longrightarrow>
   \<exists>s''. unassign p s' = (Ok r, s'') \<and> inv s'' \<and> owner s'' = owner s"
proof -
  assume inv: "inv s" and pod: "pod_IP p = ''''" and a: "assign p s = (Ok r, s')"
  from inv pod show ?thesis
  proof (cases rule: assign_cases)
    case (fresh ip d s1)
    with a have "r = (ip, d)" "inv s'" "owner s' = (owner s)(pod_key_of p \<mapsto> \<lparr> pi_IP = ip, pi_DeviceNumber = d \<rparr>)" by auto
    with unassign_owner [of s' p] fresh(2) show ?thesis by fastforce
  qed (use a in simp)
qed

end

text \<open>The data store keeps the contract, whatever the clocks and the loop orders.\<close>

lemma Assign_pod_ip:
  assumes ex: "exclusive ds" and pod: "pod_IP p = ''''" and fresh: "pod_ip ds (pod_key_of p) = None"
    and a: "AssignPodIPv4Address ord now p ds = (Ok (ip, d), ds')"
  shows "exclusive ds' \<and> pod_ip ds' = (pod_ip ds)(pod_key_of p \<mapsto> \<lparr> pi_IP = ip, pi_DeviceNumber = d \<rparr>)
    \<and> ip \<noteq> '''' \<and> (\<forall>k e. pod_ip ds k = Some e \<longrightarrow> pi_IP e \<noteq> ip)"
proof -
  have ex': "exclusive ds'" using Assign_exclusive [OF ex, of ord now p] a pod by simp
  from ex pod fresh show ?thesis
  proof (cases rule: cni_assign_cases [of ds p now ord])
    case (taken nk nic ip' a')
    then have [simp]: "ip' = ip" "d = nic_DeviceNumber nic" "ds' = take_address p nk nic ip a' ds" using a by simp_all
    have l: "lookup_addr ds nk ip = Some a'" "\<not> addr_Assigned a'"
      using taken by (simp_all add: available_def lookup_addr_known)
    then have "ip \<noteq> ''''" using exclusive_nonempty [OF ex, of nk] by auto
    moreover have "pi_IP e \<noteq> ip" if e: "pod_ip ds k = Some e" for k e
    proof
      assume "pi_IP e = ip"
      then obtain nk' a'' where "lookup_addr ds nk' ip = Some a''" "addr_Assigned a''"
        using exclusive_pod [OF ex e] by (auto simp: held_def split: option.splits)
      with l exclusive_nic [OF ex l(1)] show False by auto
    qed
    ultimately show ?thesis using taken ex' by (simp add: take_address_views)
  qed (use a in simp)
qed

lemma Assign_total:
  assumes "exclusive ds"
  shows "fst (AssignPodIPv4Address ord now p ds) \<noteq> Panic
    \<and> (is_err (fst (AssignPodIPv4Address ord now p ds)) \<longrightarrow> snd (AssignPodIPv4Address ord now p ds) = ds)"
  using exclusive_ok [OF assms] by (cases rule: AssignPod_cases [of ds p ord now]) auto

lemma Unassign_pod_ip:
  assumes "exclusive ds" and "pod_ip ds (pod_key_of p) = Some e"
  shows "\<exists>ds'. UnassignPodIPv4Address ord now p ds = (Ok (pi_IP e, pi_DeviceNumber e), ds')
    \<and> exclusive ds' \<and> pod_ip ds' = (pod_ip ds)(pod_key_of p := None)"
  using assms
proof (rule Unassign_known [of ds p e ord now])
  fix nk nic a
  assume n: "map_of (ds_nicIPPools ds) nk = Some nic" "map_of (nic_IPv4Addresses nic) (pi_IP e) = Some a"
    and u: "UnassignPodIPv4Address ord now p ds
     = (Ok (pi_IP e, pi_DeviceNumber e), release_address (pod_key_of p) (pi_IP e) now nk ds)"
  have "exclusive (release_address (pod_key_of p) (pi_IP e) now nk ds)"
    using Unassign_exclusive [OF assms(1), of ord now p] u by simp
  with u show ?thesis by (simp add: release_address_views [OF n])
qed

lemma Assign_again:
  assumes "pod_IP p = ''''" and "pod_ip ds (pod_key_of p) \<noteq> None"
  shows "AssignPodIPv4Address ord now p ds = (Err MultipleIPError, ds)"
  using assms by (auto simp: AssignPodIPv4Address_def pod_ip_def split: option.split)

lemma Unassign_stranger: "pod_ip ds (pod_key_of p) = None \<Longrightarrow> UnassignPodIPv4Address ord now p ds = (Err ErrUnknownPod, ds)"
  by (simp add: UnassignPodIPv4Address_def pod_ip_def)

interpretation pool: ip_pool exclusive "AssignPodIPv4Address ord now" "UnassignPodIPv4Address ord' now'" pod_ip
  for ord now ord' now'
proof unfold_locales
  fix s p ip d s'
  assume "exclusive s" "pod_IP p = ''''" "pod_ip s (pod_key_of p) = None" "AssignPodIPv4Address ord now p s = (Ok (ip, d), s')"
  then show "exclusive s' \<and> pod_ip s' = (pod_ip s)(pod_key_of p \<mapsto> \<lparr> pi_IP = ip, pi_DeviceNumber = d \<rparr>)
      \<and> ip \<noteq> '''' \<and> (\<forall>k e. pod_ip s k = Some e \<longrightarrow> pi_IP e \<noteq> ip)"
    by (rule Assign_pod_ip)
qed (auto intro: Assign_again Unassign_pod_ip Unassign_stranger dest: Assign_total [of _ ord now])

end
