(* ===== verification/Handlers.thy ===== *)
theory Handlers
  imports Ipamd PoolInterface
begin

text \<open>
  \<^verbatim>\<open>pkg/ipam/grpc_handlers.go\<close>: what the daemon answers the CNI plugin, and the messages of
  \<^verbatim>\<open>pkg/rpc/message.proto\<close> (their generated structs in \<^verbatim>\<open>pkg/rpc/message.pb.go\<close>).
\<close>

section \<open>Messages\<close>

record AddNetworkRequest =
  anr_K8S_POD_NAME :: string
  anr_K8S_POD_NAMESPACE :: string
  anr_K8S_POD_INFRA_CONTAINER_ID :: string
  anr_Netns :: string
  anr_IfName :: string

record AddNetworkReply =
  anp_Success :: bool
  anp_IPv4Addr :: string
  anp_IPv4Subnet :: string
  anp_DeviceNumber :: int
  anp_UseExternalSNAT :: bool
  anp_Message :: string
  anp_VPCcidrs :: "string list"

record DelNetworkRequest =
  dnr_K8S_POD_NAME :: string
  dnr_K8S_POD_NAMESPACE :: string
  dnr_K8S_POD_INFRA_CONTAINER_ID :: string
  dnr_IPv4Addr :: string
  dnr_Reason :: string

record DelNetworkReply =
  dnp_Success :: bool
  dnp_IPv4Addr :: string
  dnp_DeviceNumber :: int
  dnp_Message :: string

section \<open>Handlers\<close>

text \<open>
  The subnets of the reply.  With support for VPN traffic the handler writes the third byte of
  the VPC's own address (the copy of the struct shares it) and appends that network with a new
  24-bit mask.  \<open>None\<close> is a panic.
\<close>

definition reply_subnets :: "'w ipamd \<Rightarrow> (string list \<times> 'w ipamd) option" where
  "reply_subnets s =
     (case vpcSubnets s of
        None \<Rightarrow> None
      | Some subnets \<Rightarrow>
          if \<not> supportVPNTraffic s then Some (subnets, s)
          else Option.bind (own_vpc s) (\<lambda>vp. Option.bind (vpc_Network vp) (\<lambda>net.
            map_option (\<lambda>m. (subnets @ [ipnet_string \<lparr> net_IP = mem_bytes m (ref_IP net), net_Mask = [255, 255, 255, 0] \<rparr>],
                             s\<lparr> ip_mem := m \<rparr>))
              (store_byte (ip_mem s) (ref_IP net) 2 255))))"

definition result_text :: "(errno \<Rightarrow> string) \<Rightarrow> 'a go_result \<Rightarrow> string" where
  "result_text strerror r = (case r of Err e \<Rightarrow> error_string strerror e | _ \<Rightarrow> '''')"

definition add_pod :: "AddNetworkRequest \<Rightarrow> k8s_pod_info" where
  "add_pod r = \<lparr> pod_Name = anr_K8S_POD_NAME r, pod_Namespace = anr_K8S_POD_NAMESPACE r,
     pod_Container = anr_K8S_POD_INFRA_CONTAINER_ID r, pod_IP = '''', pod_UID = '''' \<rparr>"

definition AddNetwork ::
  "(errno \<Rightarrow> string) \<Rightarrow> go_order \<Rightarrow> time \<Rightarrow> AddNetworkRequest \<Rightarrow> 'w ipamd \<Rightarrow> AddNetworkReply go_result \<times> 'w ipamd" where
  "AddNetwork strerror ord now req s =
     (case store (AssignPodIPv4Address ord now (add_pod req)) s of
        (r, s1) \<Rightarrow>
          (case reply_subnets s1 of
             None \<Rightarrow> (Panic, s1)
           | Some (subnets, s2) \<Rightarrow>
               (case r of
                  Panic \<Rightarrow> (Panic, s1)
                | _ \<Rightarrow>
                    (let (addr, deviceNumber) = (case r of Ok a \<Rightarrow> a | _ \<Rightarrow> ('''', 0))
                     in (Ok \<lparr> anp_Success = (\<not> is_err r), anp_IPv4Addr = addr, anp_IPv4Subnet = '''',
                              anp_DeviceNumber = to_int32 deviceNumber, anp_UseExternalSNAT = False,
                              anp_Message = result_text strerror r, anp_VPCcidrs = subnets \<rparr>, s2)))))"

definition del_pod :: "DelNetworkRequest \<Rightarrow> k8s_pod_info" where
  "del_pod r = \<lparr> pod_Name = dnr_K8S_POD_NAME r, pod_Namespace = dnr_K8S_POD_NAMESPACE r,
     pod_Container = dnr_K8S_POD_INFRA_CONTAINER_ID r, pod_IP = '''', pod_UID = '''' \<rparr>"

definition del_reply :: "(errno \<Rightarrow> string) \<Rightarrow> (string \<times> int) go_result \<Rightarrow> DelNetworkReply go_result" where
  "del_reply strerror r =
     (case r of
        Ok (ip, deviceNumber) \<Rightarrow> Ok \<lparr> dnp_Success = True, dnp_IPv4Addr = ip, dnp_DeviceNumber = to_int32 deviceNumber, dnp_Message = '''' \<rparr>
      | Err e \<Rightarrow> Ok \<lparr> dnp_Success = False, dnp_IPv4Addr = '''', dnp_DeviceNumber = 0, dnp_Message = error_string strerror e \<rparr>
      | Panic \<Rightarrow> Panic)"

text \<open>
  The two calls of the store are two steps: \<open>between\<close> is what other goroutines do in the
  meantime.  \<open>ErrUnknownPod\<close> is compared by identity.
\<close>

definition DelNetwork ::
  "(errno \<Rightarrow> string) \<Rightarrow> go_order \<Rightarrow> time \<Rightarrow> ('w ipamd \<Rightarrow> 'w ipamd) \<Rightarrow> DelNetworkRequest \<Rightarrow> 'w ipamd
   \<Rightarrow> DelNetworkReply go_result \<times> 'w ipamd" where
  "DelNetwork strerror ord now between req s =
     (case store (UnassignPodIPv4Address ord now (del_pod req)) s of
        (r, s1) \<Rightarrow>
          if r \<noteq> Err ErrUnknownPod then (del_reply strerror r, s1)
          else
            (case store (UnassignPodIPv4Address ord now ((del_pod req)\<lparr> pod_Container := '''' \<rparr>)) (between s1) of
               (r, s2) \<Rightarrow>
                 if r = Err ErrUnknownPod
                 then (Ok \<lparr> dnp_Success = True, dnp_IPv4Addr = '''', dnp_DeviceNumber = 0, dnp_Message = '''' \<rparr>, s2)
                 else (del_reply strerror r, s2)))"

section \<open>What the handlers do to the store\<close>

lemma pod_keys [simp]:
  "pod_key_of (add_pod r) = \<lparr> key_name = anr_K8S_POD_NAME r, key_namespace = anr_K8S_POD_NAMESPACE r,
     key_container = anr_K8S_POD_INFRA_CONTAINER_ID r \<rparr>"
  "pod_key_of (del_pod q) = \<lparr> key_name = dnr_K8S_POD_NAME q, key_namespace = dnr_K8S_POD_NAMESPACE q,
     key_container = dnr_K8S_POD_INFRA_CONTAINER_ID q \<rparr>"
  "pod_key_of ((del_pod q)\<lparr> pod_Container := c \<rparr>) = \<lparr> key_name = dnr_K8S_POD_NAME q,
     key_namespace = dnr_K8S_POD_NAMESPACE q, key_container = c \<rparr>"
  "pod_IP (add_pod r) = ''''"
  by (simp_all add: pod_key_of_def add_pod_def del_pod_def)

lemma store_eq:
  "AssignPodIPv4Address ord now p (dataStore s) = (r, ds) \<Longrightarrow>
   store (AssignPodIPv4Address ord now p) s = (r, s\<lparr> dataStore := ds \<rparr>)"
  "UnassignPodIPv4Address ord now p (dataStore s) = (r, ds) \<Longrightarrow>
   store (UnassignPodIPv4Address ord now p) s = (r, s\<lparr> dataStore := ds \<rparr>)"
  by (simp_all add: store_def)

lemma vpcSubnets_store [simp]: "vpcSubnets (s\<lparr> dataStore := ds \<rparr>) = vpcSubnets s"
  by (simp add: vpcSubnets_def)

lemma reply_subnets_plain:
  "\<not> supportVPNTraffic s \<Longrightarrow> vpcSubnets s = Some subnets \<Longrightarrow>
   reply_subnets (s\<lparr> dataStore := ds \<rparr>) = Some (subnets, s\<lparr> dataStore := ds \<rparr>)"
  by (simp add: reply_subnets_def)

text \<open>A request is answered by the outcome of the assignment.\<close>

lemma AddNetwork_result:
  assumes "\<not> supportVPNTraffic s" and "vpcSubnets s = Some subnets"
    and "AssignPodIPv4Address ord now (add_pod req) (dataStore s) = (r, ds)" and "r \<noteq> Panic"
  shows "AddNetwork strerror ord now req s =
    (Ok \<lparr> anp_Success = (\<not> is_err r), anp_IPv4Addr = (case r of Ok a \<Rightarrow> fst a | _ \<Rightarrow> ''''), anp_IPv4Subnet = '''',
          anp_DeviceNumber = to_int32 (case r of Ok a \<Rightarrow> snd a | _ \<Rightarrow> 0), anp_UseExternalSNAT = False,
          anp_Message = result_text strerror r, anp_VPCcidrs = subnets \<rparr>, s\<lparr> dataStore := ds \<rparr>)"
  using assms(4) reply_subnets_plain [OF assms(1,2), of ds]
  by (cases r) (auto simp: AddNetwork_def store_eq(1) [OF assms(3)])

lemma DelNetwork_known:
  assumes "exclusive (dataStore s)" and "pod_ip (dataStore s) (pod_key_of (del_pod req)) = Some e"
  obtains ds where "DelNetwork strerror ord now between req s =
      (Ok \<lparr> dnp_Success = True, dnp_IPv4Addr = pi_IP e, dnp_DeviceNumber = to_int32 (pi_DeviceNumber e), dnp_Message = '''' \<rparr>,
       s\<lparr> dataStore := ds \<rparr>)"
    "exclusive ds" "pod_ip ds = (pod_ip (dataStore s))(pod_key_of (del_pod req) := None)"
proof -
  from pool.unassign_owner [OF assms] obtain ds where
    u: "UnassignPodIPv4Address ord now (del_pod req) (dataStore s) = (Ok (pi_IP e, pi_DeviceNumber e), ds)"
    and ds: "exclusive ds" "pod_ip ds = (pod_ip (dataStore s))(pod_key_of (del_pod req) := None)" by blast
  show ?thesis
    by (rule that [OF _ ds]) (simp add: DelNetwork_def store_eq(2) [OF u] del_reply_def)
qed

lemma DelNetwork_unknown:
  assumes "pod_ip (dataStore s) (pod_key_of (del_pod req)) = None"
  shows "DelNetwork strerror ord now between req s =
    (case store (UnassignPodIPv4Address ord now ((del_pod req)\<lparr> pod_Container := '''' \<rparr>)) (between s) of
       (r, s2) \<Rightarrow>
         if r = Err ErrUnknownPod
         then (Ok \<lparr> dnp_Success = True, dnp_IPv4Addr = '''', dnp_DeviceNumber = 0, dnp_Message = '''' \<rparr>, s2)
         else (del_reply strerror r, s2))"
proof -
  have "UnassignPodIPv4Address ord now (del_pod req) (dataStore s) = (Err ErrUnknownPod, dataStore s)"
    using assms by (rule pool.unassign_stranger)
  from store_eq(2) [OF this] show ?thesis by (simp add: DelNetwork_def)
qed

section \<open>Properties\<close>


definition sample_ipam :: "nat ipamd" where
  "sample_ipam = (sample_ipamd sample_mem [sample_vxnet])\<lparr> dataStore := sample_store \<rparr>"

definition sample_add :: AddNetworkRequest where
  "sample_add = \<lparr> anr_K8S_POD_NAME = ''q'', anr_K8S_POD_NAMESPACE = ''default'', anr_K8S_POD_INFRA_CONTAINER_ID = ''c'',
     anr_Netns = ''/proc/1/ns/net'', anr_IfName = ''eth0'' \<rparr>"

lemma sample_ipam_facts:
  "dataStore sample_ipam = sample_store" "\<not> supportVPNTraffic sample_ipam" "vpcSubnets sample_ipam = Some [''192.168.1.0/24'']"
  by code_simp+


text \<open>A successful request followed by the deletion of the same pod is a round trip: the
  deletion succeeds with the address and device number the first reply carried, and afterwards
  every pod, this one included, has what it had before the request.\<close>

theorem AddNetwork_DelNetwork_roundtrip:
  assumes "exclusive (dataStore s)" and "\<not> supportVPNTraffic s" and "vpcSubnets s = Some subnets"
    and "AddNetwork strerror ord now req s = (Ok reply, s1)" and "anp_Success reply"
    and "pod_key_of (del_pod del) = pod_key_of (add_pod req)"
  shows "\<exists>s2. DelNetwork strerror ord' now' between del s1 =
      (Ok \<lparr> dnp_Success = True, dnp_IPv4Addr = anp_IPv4Addr reply, dnp_DeviceNumber = anp_DeviceNumber reply,
            dnp_Message = '''' \<rparr>, s2)
    \<and> pod_ip (dataStore s2) = pod_ip (dataStore s)"
proof -
  obtain r ds where a: "AssignPodIPv4Address ord now (add_pod req) (dataStore s) = (r, ds)" by fastforce
  have np: "r \<noteq> Panic" using pool.assign_total [OF assms(1), of ord now "add_pod req"] a by simp
  with AddNetwork_result [OF assms(2,3) a np] assms(4,5) obtain ip d where r: "r = Ok (ip, d)" and s1: "s1 = s\<lparr> dataStore := ds \<rparr>"
    and reply: "anp_IPv4Addr reply = ip" "anp_DeviceNumber reply = to_int32 d"
    by (cases r) auto
  have "pod_ip (dataStore s) (pod_key_of (add_pod req)) = None"
    using pool.assign_again [OF assms(1), of "add_pod req" ord now] a r by fastforce
  with pool.assign_new [OF assms(1), of "add_pod req" ord now ip d ds] a r
  have ds: "exclusive ds" "pod_ip ds = (pod_ip (dataStore s))(pod_key_of (add_pod req) \<mapsto> \<lparr> pi_IP = ip, pi_DeviceNumber = d \<rparr>)"
    and fresh: "pod_ip (dataStore s) (pod_key_of (add_pod req)) = None" by auto
  have e: "exclusive (dataStore s1)" "pod_ip (dataStore s1) (pod_key_of (del_pod del)) = Some \<lparr> pi_IP = ip, pi_DeviceNumber = d \<rparr>"
    using ds s1 assms(6) by simp_all
  show ?thesis
    by (rule DelNetwork_known [OF e, of strerror ord' now' between])
      (use ds fresh reply s1 assms(6) in \<open>auto simp: fun_upd_idem\<close>)
qed

definition sample_del :: "string \<Rightarrow> DelNetworkRequest" where
  "sample_del c = \<lparr> dnr_K8S_POD_NAME = ''q'', dnr_K8S_POD_NAMESPACE = ''default'', dnr_K8S_POD_INFRA_CONTAINER_ID = c,
     dnr_IPv4Addr = '''', dnr_Reason = ''PodDeleted'' \<rparr>"

lemma AddNetwork_DelNetwork_roundtrip_witness:
  "\<exists>reply s1 s2. AddNetwork (\<lambda>_. '''') sample_order (2 * minute) sample_add sample_ipam = (Ok reply, s1)
    \<and> DelNetwork (\<lambda>_. '''') sample_order (3 * minute) id (sample_del ''c'') s1 =
      (Ok \<lparr> dnp_Success = True, dnp_IPv4Addr = anp_IPv4Addr reply, dnp_DeviceNumber = anp_DeviceNumber reply,
            dnp_Message = '''' \<rparr>, s2)
    \<and> pod_ip (dataStore s2) = pod_ip sample_store"
proof -
  let ?a = "AddNetwork (\<lambda>_. '''') sample_order (2 * minute) sample_add sample_ipam"
  have "case fst ?a of Ok reply \<Rightarrow> anp_Success reply | _ \<Rightarrow> False" by code_simp
  then obtain reply where "fst ?a = Ok reply" and ok: "anp_Success reply" by (cases "fst ?a") auto
  then have a: "?a = (Ok reply, snd ?a)" by (simp add: prod_eq_iff)
  have ex: "exclusive (dataStore sample_ipam)" by (simp add: sample_ipam_facts sample_exclusive)
  have "pod_key_of (del_pod (sample_del ''c'')) = pod_key_of (add_pod sample_add)" by code_simp
  from AddNetwork_DelNetwork_roundtrip [OF ex sample_ipam_facts(2,3) a ok this, of sample_order "3 * minute" id] a
  show ?thesis by (metis sample_ipam_facts(1))
qed

text \<open>C18: a deletion always ends with one pod at most losing its address: the pod with the
  container of the request if it has one, otherwise the pod recorded without a container, and if
  neither has, the reply still reports success, with no address, and nothing is released.\<close>

theorem DelNetwork_cases:
  assumes "exclusive (dataStore s)"
  shows "let k = pod_key_of (del_pod req); k0 = k\<lparr> key_container := '''' \<rparr>; own = pod_ip (dataStore s)
    in \<exists>s'. DelNetwork strerror ord now id req s = (Ok
        (case (own k, own k0) of
           (Some e, _) \<Rightarrow> \<lparr> dnp_Success = True, dnp_IPv4Addr = pi_IP e, dnp_DeviceNumber = to_int32 (pi_DeviceNumber e), dnp_Message = '''' \<rparr>
         | (None, Some e) \<Rightarrow> \<lparr> dnp_Success = True, dnp_IPv4Addr = pi_IP e, dnp_DeviceNumber = to_int32 (pi_DeviceNumber e), dnp_Message = '''' \<rparr>
         | (None, None) \<Rightarrow> \<lparr> dnp_Success = True, dnp_IPv4Addr = '''', dnp_DeviceNumber = 0, dnp_Message = '''' \<rparr>), s')
      \<and> pod_ip (dataStore s') = own(if own k \<noteq> None then k else k0 := None) \<and> exclusive (dataStore s')"
proof -
  let ?k = "pod_key_of (del_pod req)"
  let ?p0 = "(del_pod req)\<lparr> pod_Container := '''' \<rparr>"
  have k0: "pod_key_of ?p0 = ?k\<lparr> key_container := '''' \<rparr>" by simp
  show ?thesis
  proof (cases "pod_ip (dataStore s) ?k")
    case (Some e)
    show ?thesis
      by (rule DelNetwork_known [OF assms Some, of strerror ord now id]) (use Some in \<open>auto simp: Let_def simp del: pod_keys\<close>)
  next
    case None
    note eq = DelNetwork_unknown [OF None, of strerror ord now id]
    show ?thesis
    proof (cases "pod_ip (dataStore s) (pod_key_of ?p0)")
      case None2: None
      then have "UnassignPodIPv4Address ord now ?p0 (dataStore s) = (Err ErrUnknownPod, dataStore s)"
        by (rule pool.unassign_stranger)
      from store_eq(2) [OF this] None None2 eq show ?thesis
        using assms by (auto simp: Let_def k0 [symmetric] simp del: pod_keys)
    next
      case (Some e)
      from pool.unassign_owner [OF assms Some] obtain ds where
        u: "UnassignPodIPv4Address ord now ?p0 (dataStore s) = (Ok (pi_IP e, pi_DeviceNumber e), ds)"
        and "exclusive ds" "pod_ip ds = (pod_ip (dataStore s))(pod_key_of ?p0 := None)" by blast
      with store_eq(2) [OF u] None Some eq show ?thesis
        by (auto simp: Let_def k0 [symmetric] del_reply_def simp del: pod_keys)
    qed
  qed
qed

lemma DelNetwork_cases_witness:
  "\<exists>s'. DelNetwork (\<lambda>_. '''') sample_order (3 * minute) id (sample_del ''c'') sample_ipam
      = (Ok \<lparr> dnp_Success = True, dnp_IPv4Addr = '''', dnp_DeviceNumber = 0, dnp_Message = '''' \<rparr>, s')
    \<and> exclusive (dataStore s')"
proof -
  have ex: "exclusive (dataStore sample_ipam)" by (simp add: sample_ipam_facts sample_exclusive)
  have "pod_ip (dataStore sample_ipam) (pod_key_of (del_pod (sample_del ''c''))) = None"
    "pod_ip (dataStore sample_ipam) ((pod_key_of (del_pod (sample_del ''c'')))\<lparr> key_container := '''' \<rparr>) = None"
    by code_simp+
  with DelNetwork_cases [OF ex, of "sample_del ''c''" "\<lambda>_. ''''" sample_order "3 * minute"]
  show ?thesis by (auto simp: Let_def simp del: pod_keys)
qed

end
