(* ===== verification/CniPlugin.thy ===== *)
theory CniPlugin
  imports Handlers
begin

text \<open>
  \<^verbatim>\<open>cmd/hostnic/hostnic.go\<close>: the CNI plugin that the container runtime starts for every pod.
  It asks the daemon for an address, builds the pod's network with it, and gives it back when
  the pod is deleted or its network cannot be built.

  The plugin acts on a world \<open>'w\<close> through \<open>plugin_env\<close>: the connection and the two calls of the
  daemon, the two operations of the driver and the printing of the result.  A failing call of
  the daemon returns a nil reply with its error (\<^verbatim>\<open>message.pb.go\<close>, the generated client), so a
  reply exists exactly in the case \<open>Ok\<close>.  The decoders of the network configuration (JSON) and of
  the CNI arguments are parameters: the plugin sees their results.
\<close>

section \<open>SHA-1\<close>

text \<open>\<open>crypto/sha1\<close> (FIPS 180-4), by which the host side of a pod's link is named.\<close>

definition sha1_pad :: "byte list \<Rightarrow> byte list" where
  "sha1_pad m =
     (let l = length m; bits = 8 * l
      in m @ [0x80] @ replicate ((119 - l mod 64) mod 64) 0
           @ List.map (\<lambda>i. of_nat (bits div 256 ^ i)) [7, 6, 5, 4, 3, 2, 1, 0])"

fun be_words :: "byte list \<Rightarrow> 32 word list" where
  "be_words (a # b # c # d # bs) = be_uint32 [a, b, c, d] # be_words bs"
| "be_words _ = []"

text \<open>The schedule, newest word first: each new word depends on the four 3, 8, 14 and 16 before.\<close>

fun sha1_extend :: "nat \<Rightarrow> 32 word list \<Rightarrow> 32 word list" where
  "sha1_extend 0 ws = ws"
| "sha1_extend (Suc n) ws =
     sha1_extend n (word_rotl 1 (ws ! 2 XOR ws ! 7 XOR ws ! 13 XOR ws ! 15) # ws)"

type_synonym sha1_state = "32 word \<times> 32 word \<times> 32 word \<times> 32 word \<times> 32 word"

definition sha1_round :: "nat \<Rightarrow> 32 word \<Rightarrow> sha1_state \<Rightarrow> sha1_state" where
  "sha1_round t w st =
     (case st of (a, b, c, d, e) \<Rightarrow>
       let (f, k) = (if t < 20 then ((b AND c) OR (NOT b AND d), 0x5A827999)
                     else if t < 40 then (b XOR c XOR d, 0x6ED9EBA1)
                     else if t < 60 then ((b AND c) OR (b AND d) OR (c AND d), 0x8F1BBCDC)
                     else (b XOR c XOR d, 0xCA62C1D6))
       in (word_rotl 5 a + f + e + w + k, a, word_rotl 30 b, c, d))"

fun sha1_rounds :: "nat \<Rightarrow> 32 word list \<Rightarrow> sha1_state \<Rightarrow> sha1_state" where
  "sha1_rounds t [] st = st"
| "sha1_rounds t (w # ws) st = sha1_rounds (Suc t) ws (sha1_round t w st)"

definition sha1_block :: "32 word list \<Rightarrow> sha1_state \<Rightarrow> sha1_state" where
  "sha1_block ws st =
     (case (st, sha1_rounds 0 (rev (sha1_extend 64 (rev ws))) st) of
        ((a, b, c, d, e), (a', b', c', d', e')) \<Rightarrow> (a + a', b + b', c + c', d + d', e + e'))"

function sha1_blocks :: "32 word list \<Rightarrow> sha1_state \<Rightarrow> sha1_state" where
  "sha1_blocks ws st = (if ws = [] then st else sha1_blocks (drop 16 ws) (sha1_block (take 16 ws) st))"
  by pat_completeness auto
termination by (relation "measure (\<lambda>(ws, _). length ws)") auto

declare sha1_blocks.simps [simp del]

definition sha1_init :: sha1_state where
  "sha1_init = (0x67452301, 0xEFCDAB89, 0x98BADCFE, 0x10325476, 0xC3D2E1F0)"

definition sha1 :: "byte list \<Rightarrow> byte list" where
  "sha1 m =
     (case sha1_blocks (be_words (sha1_pad m)) sha1_init of
        (a, b, c, d, e) \<Rightarrow> concat (List.map put_be_uint32 [a, b, c, d, e]))"

definition str_bytes :: "string \<Rightarrow> byte list" where
  "str_bytes s = List.map (\<lambda>c. of_nat (of_char c)) s"

lemma length_sha1 [simp]: "length (sha1 m) = 20"
  by (simp add: sha1_def split: prod.splits)

section \<open>Data\<close>

record net_conf =
  nc_CNIVersion :: string
  nc_Name :: string
  nc_Type :: string
  nc_VethPrefix :: string

record k8s_args =
  ka_K8S_POD_NAME :: string
  ka_K8S_POD_NAMESPACE :: string
  ka_K8S_POD_INFRA_CONTAINER_ID :: string

record cmd_args =
  ca_ContainerID :: string
  ca_Netns :: string
  ca_IfName :: string
  ca_Args :: string
  ca_StdinData :: string

record 'w plugin_env =
  pe_Unmarshal :: "string \<Rightarrow> net_conf go_result"
  pe_LoadArgs :: "string \<Rightarrow> k8s_args go_result"
  pe_Dial :: "('w, unit) world_call"
  pe_AddNetwork :: "AddNetworkRequest \<Rightarrow> ('w, AddNetworkReply) world_call"
  pe_DelNetwork :: "DelNetworkRequest \<Rightarrow> ('w, DelNetworkReply) world_call"
  pe_SetupNS :: "string \<Rightarrow> string \<Rightarrow> string \<Rightarrow> ip_net \<Rightarrow> int \<Rightarrow> string list \<Rightarrow> string \<Rightarrow> bool \<Rightarrow> ('w, unit) world_call"
  pe_TeardownNS :: "ip_net \<Rightarrow> int \<Rightarrow> ('w, unit) world_call"
  pe_PrintResult :: "ip_net \<Rightarrow> string \<Rightarrow> ('w, unit) world_call"

definition generateHostVethName :: "string \<Rightarrow> string \<Rightarrow> string \<Rightarrow> string" where
  "generateHostVethName prefix namespace podname =
     prefix @ take 11 (hex_bytes (sha1 (str_bytes (namespace @ ''.'' @ podname))))"

definition host_net :: "string \<Rightarrow> ip_net" where
  "host_net ip = \<lparr> net_IP = ParseIP ip, net_Mask = [255, 255, 255, 255] \<rparr>"

section \<open>Adding a pod\<close>

definition add_request :: "cmd_args \<Rightarrow> k8s_args \<Rightarrow> AddNetworkRequest" where
  "add_request args k8sArgs = \<lparr> anr_K8S_POD_NAME = ka_K8S_POD_NAME k8sArgs, anr_K8S_POD_NAMESPACE = ka_K8S_POD_NAMESPACE k8sArgs,
     anr_K8S_POD_INFRA_CONTAINER_ID = ka_K8S_POD_INFRA_CONTAINER_ID k8sArgs, anr_Netns = ca_Netns args, anr_IfName = ca_IfName args \<rparr>"

definition del_request :: "string \<Rightarrow> string \<Rightarrow> k8s_args \<Rightarrow> DelNetworkRequest" where
  "del_request ip reason k8sArgs = \<lparr> dnr_K8S_POD_NAME = ka_K8S_POD_NAME k8sArgs, dnr_K8S_POD_NAMESPACE = ka_K8S_POD_NAMESPACE k8sArgs,
     dnr_K8S_POD_INFRA_CONTAINER_ID = ka_K8S_POD_INFRA_CONTAINER_ID k8sArgs, dnr_IPv4Addr = ip, dnr_Reason = reason \<rparr>"

text \<open>
  The handling of a failed \<open>SetupNS\<close>.  When the call that gives the address back fails too, the
  reply is nil and reading its field \<open>Success\<close> is a panic.
\<close>

definition give_back :: "'w plugin_env \<Rightarrow> k8s_args \<Rightarrow> AddNetworkReply \<Rightarrow> go_error \<Rightarrow> 'w \<Rightarrow> unit go_result \<times> 'w" where
  "give_back env k8sArgs r err w =
     on_result (pe_DelNetwork env (del_request (anp_IPv4Addr r) ''SetupNSFailed'' k8sArgs) w)
       (\<lambda>_ w1. (Err (Wrapped ''add command: failed to setup network'' err), w1))
       (\<lambda>delErr w1. (Panic, w1))"

definition add :: "'w plugin_env \<Rightarrow> cmd_args \<Rightarrow> 'w \<Rightarrow> unit go_result \<times> 'w" where
  "add env args w =
     on_result (pe_Unmarshal env (ca_StdinData args), w)
       (\<lambda>conf0 w. on_result (pe_LoadArgs env (ca_Args args), w)
         (\<lambda>k8sArgs w.
            let conf = (if nc_VethPrefix conf0 = '''' then conf0\<lparr> nc_VethPrefix := ''nic'' \<rparr> else conf0)
            in if 4 < length (nc_VethPrefix conf)
               then (Err (ErrorString ''conf.VethPrefix must be less than 4 characters long''), w)
               else on_result (pe_Dial env w)
                 (\<lambda>_ w1. check (pe_AddNetwork env (add_request args k8sArgs) w1) (\<lambda>r w2.
                    if \<not> anp_Success r
                    then (Err (ErrorString (''add cmd: failed to assign an IP address to container, err: '' @ anp_Message r)), w2)
                    else
                      (case GetVPNNet (anp_IPv4Addr r) of
                         None \<Rightarrow> (Panic, w2)
                       | Some vpn \<Rightarrow>
                           on_result (pe_SetupNS env
                               (generateHostVethName (nc_VethPrefix conf) (ka_K8S_POD_NAMESPACE k8sArgs) (ka_K8S_POD_NAME k8sArgs))
                               (ca_IfName args) (ca_Netns args) (host_net (anp_IPv4Addr r)) (anp_DeviceNumber r)
                               (anp_VPCcidrs r) vpn (anp_UseExternalSNAT r) w2)
                             (\<lambda>_ w3. pe_PrintResult env (host_net (anp_IPv4Addr r)) (nc_CNIVersion conf) w3)
                             (\<lambda>err w3. give_back env k8sArgs r err w3))))
                 (\<lambda>err w1. (Err (Wrapped ''add cmd: failed to connect to backend server'' err), w1)))
         (\<lambda>err w. (Err (Wrapped ''add cmd: failed to load k8s config from arg'' err), w)))
       (\<lambda>err w. (Err (Wrapped ''add cmd: error loading config from args'' err), w))"

section \<open>Deleting a pod\<close>

text \<open>
  When the reply reports a failure, the function wraps \<open>err\<close>, which is nil there: wrapping nil
  gives nil, so the failure is returned as success.
\<close>

definition del :: "'w plugin_env \<Rightarrow> cmd_args \<Rightarrow> 'w \<Rightarrow> unit go_result \<times> 'w" where
  "del env args w =
     on_result (pe_Unmarshal env (ca_StdinData args), w)
       (\<lambda>conf w. on_result (pe_LoadArgs env (ca_Args args), w)
         (\<lambda>k8sArgs w. on_result (pe_Dial env w)
            (\<lambda>_ w1. check (pe_DelNetwork env (del_request '''' ''PodDeleted'' k8sArgs) w1) (\<lambda>r w2.
               if \<not> dnp_Success r
               then ((case errors_Wrap None ''del cmd: failed to process delete request'' of None \<Rightarrow> Ok () | Some e \<Rightarrow> Err e), w2)
               else if dnp_IPv4Addr r = '''' then (Ok (), w2)
               else pe_TeardownNS env (host_net (dnp_IPv4Addr r)) (dnp_DeviceNumber r) w2))
            (\<lambda>err w1. (Err (Wrapped ''del cmd: failed to connect to backend server'' err), w1)))
         (\<lambda>err w. (Err (Wrapped ''del cmd: failed to load k8s config from args'' err), w)))
       (\<lambda>err w. (Err (Wrapped ''del cmd: failed to load netconf from args'' err), w))"

section \<open>The stages of an addition\<close>

text \<open>The settings the plugin works with once its input is accepted.\<close>

definition accepted :: "'w plugin_env \<Rightarrow> cmd_args \<Rightarrow> (net_conf \<times> k8s_args) option" where
  "accepted env args =
     (case (pe_Unmarshal env (ca_StdinData args), pe_LoadArgs env (ca_Args args)) of
        (Ok conf0, Ok k8sArgs) \<Rightarrow>
          (let conf = (if nc_VethPrefix conf0 = '''' then conf0\<lparr> nc_VethPrefix := ''nic'' \<rparr> else conf0)
           in if 4 < length (nc_VethPrefix conf) then None else Some (conf, k8sArgs))
      | _ \<Rightarrow> None)"

lemma accepted_prefix: "accepted env args = Some (conf, ka) \<Longrightarrow> 0 < length (nc_VethPrefix conf) \<and> length (nc_VethPrefix conf) \<le> 4"
  by (auto simp: accepted_def Let_def split: outcome.splits if_splits)

definition setup_pod :: "'w plugin_env \<Rightarrow> cmd_args \<Rightarrow> net_conf \<Rightarrow> k8s_args \<Rightarrow> AddNetworkReply \<Rightarrow> string \<Rightarrow> ('w, unit) world_call" where
  "setup_pod env args conf ka r vpn =
     pe_SetupNS env (generateHostVethName (nc_VethPrefix conf) (ka_K8S_POD_NAMESPACE ka) (ka_K8S_POD_NAME ka))
       (ca_IfName args) (ca_Netns args) (host_net (anp_IPv4Addr r)) (anp_DeviceNumber r) (anp_VPCcidrs r) vpn (anp_UseExternalSNAT r)"

lemma add_rejected: "accepted env args = None \<Longrightarrow> \<exists>r. add env args w = (r, w) \<and> r \<noteq> Ok ()"
  by (cases "pe_Unmarshal env (ca_StdinData args)"; cases "pe_LoadArgs env (ca_Args args)")
    (auto simp: accepted_def add_def Let_def split: if_splits)

lemma add_accepted:
  "accepted env args = Some (conf, ka) \<Longrightarrow> add env args w =
     on_result (pe_Dial env w)
       (\<lambda>_ w1. check (pe_AddNetwork env (add_request args ka) w1) (\<lambda>r w2.
          if \<not> anp_Success r
          then (Err (ErrorString (''add cmd: failed to assign an IP address to container, err: '' @ anp_Message r)), w2)
          else
            (case GetVPNNet (anp_IPv4Addr r) of
               None \<Rightarrow> (Panic, w2)
             | Some vpn \<Rightarrow>
                 on_result (setup_pod env args conf ka r vpn w2)
                   (\<lambda>_ w3. pe_PrintResult env (host_net (anp_IPv4Addr r)) (nc_CNIVersion conf) w3)
                   (\<lambda>err w3. give_back env ka r err w3))))
       (\<lambda>err w1. (Err (Wrapped ''add cmd: failed to connect to backend server'' err), w1))"
  by (auto simp: accepted_def add_def setup_pod_def Let_def split: outcome.splits if_splits cong: if_cong option.case_cong)

lemma del_accepted:
  "pe_Unmarshal env (ca_StdinData args) = Ok conf \<Longrightarrow> pe_LoadArgs env (ca_Args args) = Ok ka \<Longrightarrow> pe_Dial env w = (Ok (), w1) \<Longrightarrow>
   del env args w = check (pe_DelNetwork env (del_request '''' ''PodDeleted'' ka) w1) (\<lambda>r w2.
     if \<not> dnp_Success r then (Ok (), w2) else if dnp_IPv4Addr r = '''' then (Ok (), w2)
     else pe_TeardownNS env (host_net (dnp_IPv4Addr r)) (dnp_DeviceNumber r) w2)"
  by (simp add: del_def cong: if_cong)

section \<open>Properties\<close>

text \<open>The host side of a pod's link is named by the prefix and eleven hexadecimal digits of
  the SHA-1 of \<open>namespace.name\<close>: with any accepted prefix the name fits the kernel's limit of 15
  characters, and it depends on nothing else, so that the plugin finds it again.\<close>

theorem veth_name_fits:
  assumes "accepted env args = Some (conf, ka)"
  shows "length (generateHostVethName (nc_VethPrefix conf) ns pod) \<le> 15
    \<and> length (generateHostVethName (nc_VethPrefix conf) ns pod) = length (nc_VethPrefix conf) + 11
    \<and> (ns @ ''.'' @ pod = ns' @ ''.'' @ pod' \<longrightarrow>
         generateHostVethName (nc_VethPrefix conf) ns' pod' = generateHostVethName (nc_VethPrefix conf) ns pod)"
proof -
  have "length (hex_bytes bs) = 2 * length bs" for bs
    by (induction bs) (simp_all add: hex_bytes_def)
  then show ?thesis
    using accepted_prefix [OF assms] by (simp add: generateHostVethName_def)
qed

text \<open>When the network of a pod cannot be built and the call that gives the address back fails
  as well, the plugin panics on the missing reply instead of returning the error.\<close>

theorem add_panics_when_giving_back_fails:
  assumes "accepted env args = Some (conf, ka)" and "pe_Dial env w = (Ok (), w1)"
    and "pe_AddNetwork env (add_request args ka) w1 = (Ok r, w2)" and "anp_Success r" and "GetVPNNet (anp_IPv4Addr r) = Some vpn"
    and "setup_pod env args conf ka r vpn w2 = (Err err, w3)"
    and "pe_DelNetwork env (del_request (anp_IPv4Addr r) ''SetupNSFailed'' ka) w3 = (Err delErr, w4)"
  shows "add env args w = (Panic, w4)"
  by (simp add: add_accepted [OF assms(1)] assms give_back_def)

text \<open>C31: a deletion the daemon answers with a failure is reported as success, and the network of
  the pod is not taken down.\<close>

theorem del_swallows_failure:
  assumes "pe_Unmarshal env (ca_StdinData args) = Ok conf" and "pe_LoadArgs env (ca_Args args) = Ok ka" and "pe_Dial env w = (Ok (), w1)"
    and "pe_DelNetwork env (del_request '''' ''PodDeleted'' ka) w1 = (Ok r, w2)" and "\<not> dnp_Success r"
  shows "del env args w = (Ok (), w2)"
  using assms(4,5) by (simp add: del_accepted [OF assms(1-3)])

section \<open>Witnesses\<close>

text \<open>An environment in which building a network fails; the daemon's two answers are given.\<close>

definition sample_env :: "AddNetworkReply \<Rightarrow> DelNetworkReply go_result \<Rightarrow> nat plugin_env" where
  "sample_env r d = \<lparr>
     pe_Unmarshal = (\<lambda>_. Ok \<lparr> nc_CNIVersion = ''0.3.1'', nc_Name = ''hostnic'', nc_Type = ''hostnic'', nc_VethPrefix = '''' \<rparr>),
     pe_LoadArgs = (\<lambda>_. Ok \<lparr> ka_K8S_POD_NAME = ''q'', ka_K8S_POD_NAMESPACE = ''default'', ka_K8S_POD_INFRA_CONTAINER_ID = ''c'' \<rparr>),
     pe_Dial = (\<lambda>w. (Ok (), w)), pe_AddNetwork = (\<lambda>_ w. (Ok r, w)), pe_DelNetwork = (\<lambda>_ w. (d, w)),
     pe_SetupNS = (\<lambda>_ _ _ _ _ _ _ _ w. (Err (ErrorString ''no namespace''), w)),
     pe_TeardownNS = (\<lambda>_ _ w. (Ok (), Suc w)), pe_PrintResult = (\<lambda>_ _ w. (Ok (), w)) \<rparr>"

definition sample_args :: cmd_args where
  "sample_args = \<lparr> ca_ContainerID = ''c'', ca_Netns = ''/proc/1/ns/net'', ca_IfName = ''eth0'', ca_Args = '''', ca_StdinData = ''{}'' \<rparr>"

definition sample_add_reply :: AddNetworkReply where
  "sample_add_reply = \<lparr> anp_Success = True, anp_IPv4Addr = ip_string [10, 0, 0, 2], anp_IPv4Subnet = '''', anp_DeviceNumber = 3,
     anp_UseExternalSNAT = False, anp_Message = '''', anp_VPCcidrs = [] \<rparr>"

lemma sample_accepted: "\<exists>conf ka. accepted (sample_env r d) sample_args = Some (conf, ka)"
  by (simp add: accepted_def sample_env_def Let_def)

lemma veth_name_fits_witness: "length (generateHostVethName ''nic'' ''default'' ''q'') \<le> 15"
proof -
  have "accepted (sample_env r d) sample_args = Some (\<lparr> nc_CNIVersion = ''0.3.1'', nc_Name = ''hostnic'', nc_Type = ''hostnic'',
      nc_VethPrefix = ''nic'' \<rparr>, \<lparr> ka_K8S_POD_NAME = ''q'', ka_K8S_POD_NAMESPACE = ''default'', ka_K8S_POD_INFRA_CONTAINER_ID = ''c'' \<rparr>)" for r d
    by (simp add: accepted_def sample_env_def Let_def)
  from veth_name_fits [OF this, of "''default''" "''q''", THEN conjunct1] show ?thesis by (simp only: net_conf.simps)
qed

lemma add_panics_when_giving_back_fails_witness:
  "add (sample_env sample_add_reply (Err (ErrorString ''connection refused''))) sample_args 0 = (Panic, 0)"
proof -
  obtain conf ka where a: "accepted (sample_env sample_add_reply (Err (ErrorString ''connection refused''))) sample_args = Some (conf, ka)"
    using sample_accepted by blast
  define env where "env = sample_env sample_add_reply (Err (ErrorString ''connection refused''))"
  have vpn: "GetVPNNet (anp_IPv4Addr sample_add_reply) = Some (ip_string [10, 0, 255, 254] @ ''/32'')"
    by (simp add: sample_add_reply_def GetVPNNet_dotted)
  have calls: "pe_Dial env 0 = (Ok (), 0)" "pe_AddNetwork env req 0 = (Ok sample_add_reply, 0)" "anp_Success sample_add_reply"
    "pe_DelNetwork env dreq 0 = (Err (ErrorString ''connection refused''), 0)"
    "setup_pod env sample_args conf ka sample_add_reply vpn 0 = (Err (ErrorString ''no namespace''), 0)" for req dreq vpn
    by (simp_all add: env_def sample_env_def setup_pod_def) (simp add: sample_add_reply_def)
  show ?thesis
    using add_panics_when_giving_back_fails [OF a [folded env_def] calls(1,2,3) vpn calls(5,4)] unfolding env_def .
qed

lemma del_swallows_failure_witness:
  "del (sample_env sample_add_reply (Ok \<lparr> dnp_Success = False, dnp_IPv4Addr = '''', dnp_DeviceNumber = 0, dnp_Message = ''unknown'' \<rparr>))
     sample_args 0 = (Ok (), 0)"
proof -
  define r where "r = \<lparr> dnp_Success = False, dnp_IPv4Addr = '''', dnp_DeviceNumber = 0, dnp_Message = ''unknown'' \<rparr>"
  define env where "env = sample_env sample_add_reply (Ok r)"
  obtain conf ka where "pe_Unmarshal env (ca_StdinData sample_args) = Ok conf" "pe_LoadArgs env (ca_Args sample_args) = Ok ka"
    "pe_Dial env 0 = (Ok (), 0)" "\<And>q. pe_DelNetwork env q 0 = (Ok r, 0)" "\<not> dnp_Success r"
    by (simp add: env_def sample_env_def r_def)
  from del_swallows_failure [OF this] show ?thesis unfolding env_def r_def .
qed

end
