(* ===== verification/PluginSystem.thy ===== *)
theory PluginSystem
  imports CniPlugin
begin

text \<open>
  The plugin and the daemon together: the world of the plugin is the node's network and the
  daemon's state, and its two remote calls are the daemon's handlers.  What the node's other
  goroutines do between the calls is left out: the calls of one plugin run follow each other.
\<close>

definition on_daemon :: "('w ipamd \<Rightarrow> 'a go_result \<times> 'w ipamd) \<Rightarrow> ('n \<times> 'w ipamd, 'a) world_call" where
  "on_daemon f ns = (case f (snd ns) of (r, s') \<Rightarrow> (r, (fst ns, s')))"

definition with_daemon ::
  "('n \<times> 'w ipamd) plugin_env \<Rightarrow> (errno \<Rightarrow> string) \<Rightarrow> go_order \<Rightarrow> time \<Rightarrow> go_order \<Rightarrow> time \<Rightarrow> ('n \<times> 'w ipamd) plugin_env" where
  "with_daemon env strerror ord now ord' now' = env\<lparr>
     pe_AddNetwork := \<lambda>req. on_daemon (AddNetwork strerror ord now req),
     pe_DelNetwork := \<lambda>req. on_daemon (DelNetwork strerror ord' now' id req) \<rparr>"

text \<open>Calls that act on the node's network only.\<close>

definition node_only :: "('n \<times> 'w ipamd, 'a) world_call \<Rightarrow> bool" where
  "node_only op \<longleftrightarrow> (\<forall>n s. snd (snd (op (n, s))) = s)"

definition local_env :: "('n \<times> 'w ipamd) plugin_env \<Rightarrow> bool" where
  "local_env env \<longleftrightarrow> node_only (pe_Dial env) \<and> (\<forall>v i n a t c p u. node_only (pe_SetupNS env v i n a t c p u))
     \<and> (\<forall>a t. node_only (pe_TeardownNS env a t)) \<and> (\<forall>a v. node_only (pe_PrintResult env a v))"

lemma with_daemon_fields [simp]:
  "pe_Unmarshal (with_daemon env e o1 n1 o2 n2) = pe_Unmarshal env"
  "pe_LoadArgs (with_daemon env e o1 n1 o2 n2) = pe_LoadArgs env"
  "pe_Dial (with_daemon env e o1 n1 o2 n2) = pe_Dial env"
  "pe_SetupNS (with_daemon env e o1 n1 o2 n2) = pe_SetupNS env"
  "pe_TeardownNS (with_daemon env e o1 n1 o2 n2) = pe_TeardownNS env"
  "pe_PrintResult (with_daemon env e o1 n1 o2 n2) = pe_PrintResult env"
  "pe_AddNetwork (with_daemon env e o1 n1 o2 n2) = (\<lambda>req. on_daemon (AddNetwork e o1 n1 req))"
  "pe_DelNetwork (with_daemon env e o1 n1 o2 n2) = (\<lambda>req. on_daemon (DelNetwork e o2 n2 id req))"
  by (simp_all add: with_daemon_def)

lemma accepted_with_daemon [simp]: "accepted (with_daemon env e o1 n1 o2 n2) args = accepted env args"
  by (simp add: accepted_def)

lemma setup_pod_with_daemon [simp]: "setup_pod (with_daemon env e o1 n1 o2 n2) args = setup_pod env args"
  by (simp add: setup_pod_def fun_eq_iff)

lemma local_results:
  assumes "local_env env"
  shows "pe_Dial env (n, s) = (r, w) \<Longrightarrow> snd w = s"
    and "setup_pod env args conf ka reply vpn (n, s) = (r, w) \<Longrightarrow> snd w = s"
    and "pe_PrintResult env a v (n, s) = (r, w) \<Longrightarrow> snd w = s"
  using assms by (auto simp: local_env_def node_only_def setup_pod_def) (metis snd_conv)+

text \<open>The daemon's side of an addition: an answer with the pod as owner, or a refusal.\<close>

lemma AddNetwork_outcome:
  assumes "exclusive (dataStore s)" and "\<not> supportVPNTraffic s" and "vpcSubnets s = Some subnets"
  obtains (given) reply d s1 where "AddNetwork strerror ord now req s = (Ok reply, s1)" "anp_Success reply"
      "exclusive (dataStore s1)" "pod_ip (dataStore s) (pod_key_of (add_pod req)) = None"
      "pod_ip (dataStore s1) = (pod_ip (dataStore s))
        (pod_key_of (add_pod req) \<mapsto> \<lparr> pi_IP = anp_IPv4Addr reply, pi_DeviceNumber = d \<rparr>)"
      "anp_DeviceNumber reply = to_int32 d" "anp_VPCcidrs reply = subnets" "anp_IPv4Addr reply \<noteq> ''''"
  | (refused) reply where "AddNetwork strerror ord now req s = (Ok reply, s)" "\<not> anp_Success reply"
proof -
  have "pod_IP (add_pod req) = ''''" by simp
  from assms(1) this show ?thesis
  proof (cases rule: pool.assign_cases [of "dataStore s" "add_pod req" ord now])
    case (fresh ip d ds)
    from AddNetwork_result [OF assms(2,3) fresh(1), of strerror] fresh given show ?thesis by simp
  next
    case (refused e)
    from AddNetwork_result [OF assms(2,3) refused, of strerror] that(2) show ?thesis by simp
  qed
qed

lemma DelNetwork_owner:
  assumes "exclusive (dataStore s)" and "pod_ip (dataStore s) (pod_key_of (del_pod req)) = Some e"
  shows "\<exists>s'. DelNetwork strerror ord now id req s
      = (Ok \<lparr> dnp_Success = True, dnp_IPv4Addr = pi_IP e, dnp_DeviceNumber = to_int32 (pi_DeviceNumber e), dnp_Message = '''' \<rparr>, s')
    \<and> exclusive (dataStore s') \<and> pod_ip (dataStore s') = (pod_ip (dataStore s))(pod_key_of (del_pod req) := None)"
  by (rule DelNetwork_known [OF assms, of strerror ord now id]) auto

text \<open>Both requests of the plugin name the pod by the same key.\<close>

definition args_key :: "k8s_args \<Rightarrow> pod_key" where
  "args_key ka = \<lparr> key_name = ka_K8S_POD_NAME ka, key_namespace = ka_K8S_POD_NAMESPACE ka,
     key_container = ka_K8S_POD_INFRA_CONTAINER_ID ka \<rparr>"

lemma request_keys [simp]:
  "pod_key_of (add_pod (add_request args ka)) = args_key ka"
  "pod_key_of (del_pod (del_request ip reason ka)) = args_key ka"
  by (simp_all add: add_request_def del_request_def args_key_def)

declare pod_keys [simp del]

lemma give_back_fails [simp]: "give_back env ka r err w \<noteq> (Ok u, w')"
  by (cases "pe_DelNetwork env (del_request (anp_IPv4Addr r) ''SetupNSFailed'' ka) w";
      cases "fst (pe_DelNetwork env (del_request (anp_IPv4Addr r) ''SetupNSFailed'' ka) w)")
    (auto simp: give_back_def)

text \<open>After an addition, a deletion by the same arguments releases the address it gave.\<close>

lemma DelNetwork_after_add:
  assumes "exclusive (dataStore s1)" and "pod_ip (dataStore s) (args_key ka) = None"
    and "pod_ip (dataStore s1) = (pod_ip (dataStore s))(args_key ka \<mapsto> \<lparr> pi_IP = ip, pi_DeviceNumber = d \<rparr>)"
  obtains s2 where "DelNetwork strerror ord now id (del_request dip reason ka) s1
      = (Ok \<lparr> dnp_Success = True, dnp_IPv4Addr = ip, dnp_DeviceNumber = to_int32 d, dnp_Message = '''' \<rparr>, s2)"
    and "pod_ip (dataStore s2) = pod_ip (dataStore s)"
proof -
  have "pod_ip (dataStore s1) (pod_key_of (del_pod (del_request dip reason ka))) = Some \<lparr> pi_IP = ip, pi_DeviceNumber = d \<rparr>"
    by (simp add: assms(3))
  from DelNetwork_owner [OF assms(1) this, of strerror ord now] that assms(2,3) show thesis
    by (auto simp: fun_upd_idem)
qed

text \<open>The calls of a successful addition and of the deletion after it.\<close>

lemma add_then_del_calls:
  assumes "local_env env" and "exclusive (dataStore s)" and "\<not> supportVPNTraffic s" and "vpcSubnets s = Some subnets"
    and "add (with_daemon env strerror ord now ord' now') args (n, s) = (Ok (), (n1, s1))"
    and "pe_Dial env (n1, s1) = (Ok (), (n2, s1))"
  obtains conf ka reply d vpn m m' s2 where "accepted env args = Some (conf, ka)" "pe_Dial env (n, s) = (Ok (), (m, s))"
    "AddNetwork strerror ord now (add_request args ka) s = (Ok reply, s1)" "anp_Success reply"
    "pod_ip (dataStore s1) = (pod_ip (dataStore s))(args_key ka \<mapsto> \<lparr> pi_IP = anp_IPv4Addr reply, pi_DeviceNumber = d \<rparr>)"
    "pe_SetupNS env (generateHostVethName (nc_VethPrefix conf) (ka_K8S_POD_NAMESPACE ka) (ka_K8S_POD_NAME ka))
        (ca_IfName args) (ca_Netns args) (host_net (anp_IPv4Addr reply)) (to_int32 d) subnets vpn False (m, s1) = (Ok (), (m', s1))"
    "pe_PrintResult env (host_net (anp_IPv4Addr reply)) (nc_CNIVersion conf) (m', s1) = (Ok (), (n1, s1))"
    "del (with_daemon env strerror ord now ord' now') args (n1, s1) = pe_TeardownNS env (host_net (anp_IPv4Addr reply)) (to_int32 d) (n2, s2)"
    "pod_ip (dataStore s2) = pod_ip (dataStore s)"
proof -
  let ?env = "with_daemon env strerror ord now ord' now'"
  obtain conf ka where acc: "accepted ?env args = Some (conf, ka)"
    using add_rejected [of ?env args "(n, s)"] assms(5) by (cases "accepted env args") auto
  obtain x w1 where dial: "pe_Dial env (n, s) = (x, w1)" by (cases "pe_Dial env (n, s)") blast
  have w1: "snd w1 = s" using local_results(1) [OF assms(1) dial] .
  have x: "x = Ok ()" using assms(5) by (cases x) (auto simp: add_accepted [OF acc] dial)
  from assms(2-4) show ?thesis
  proof (cases rule: AddNetwork_outcome [of s subnets strerror ord now "add_request args ka"])
    case (refused reply)
    then show ?thesis using assms(5) w1 x by (simp add: add_accepted [OF acc] dial on_daemon_def)
  next
    case (given reply d s')
    have snat: "\<not> anp_UseExternalSNAT reply"
      using given(1) by (auto simp: AddNetwork_def Let_def split: prod.splits option.splits outcome.splits)
    have a: "on_daemon (AddNetwork strerror ord now (add_request args ka)) w1 = (Ok reply, (fst w1, s'))"
      using given(1) w1 by (simp add: on_daemon_def)
    obtain vpn where vpn: "GetVPNNet (anp_IPv4Addr reply) = Some vpn"
      using assms(5) given(2) x by (cases "GetVPNNet (anp_IPv4Addr reply)") (auto simp: add_accepted [OF acc] dial a)
    obtain y w3 where y: "setup_pod env args conf ka reply vpn (fst w1, s') = (y, w3)" by (cases "setup_pod env args conf ka reply vpn (fst w1, s')") blast
    have w3: "snd w3 = s'"
      using local_results(2) [OF assms(1) y] .
    have yok: "y = Ok ()"
      using assms(5) given(2) x vpn
      by (cases y) (auto simp: add_accepted [OF acc] dial a y)
    then have print: "pe_PrintResult env (host_net (anp_IPv4Addr reply)) (nc_CNIVersion conf) (fst w3, s') = (Ok (), (n1, s1))"
      using assms(5) given(2) x vpn w3 by (cases w3) (simp add: add_accepted [OF acc] dial a y)
    have s1: "s1 = s'"
      using local_results(3) [OF assms(1) print] by simp
    let ?del = "del_request '''' ''PodDeleted'' ka"
    obtain s2 where del: "DelNetwork strerror ord' now' id ?del s'
        = (Ok \<lparr> dnp_Success = True, dnp_IPv4Addr = anp_IPv4Addr reply, dnp_DeviceNumber = to_int32 d, dnp_Message = '''' \<rparr>, s2)"
      and s2: "pod_ip (dataStore s2) = pod_ip (dataStore s)"
      by (rule DelNetwork_after_add [OF given(3) given(4,5) [simplified]])
    obtain c0 where c0: "pe_Unmarshal ?env (ca_StdinData args) = Ok c0" "pe_LoadArgs ?env (ca_Args args) = Ok ka"
      using acc by (auto simp: accepted_def Let_def split: outcome.splits if_splits)
    have "del ?env args (n1, s1) = pe_TeardownNS env (host_net (anp_IPv4Addr reply)) (to_int32 d) (n2, s2)"
      using assms(6) given(8) s1 by (simp add: del_accepted [OF c0] on_daemon_def del)
    moreover have "pe_SetupNS env (generateHostVethName (nc_VethPrefix conf) (ka_K8S_POD_NAMESPACE ka) (ka_K8S_POD_NAME ka))
        (ca_IfName args) (ca_Netns args) (host_net (anp_IPv4Addr reply)) (to_int32 d) subnets vpn False (fst w1, s') = (Ok (), (fst w3, s'))"
      using y yok w3 given(6,7) snat by (cases w3) (simp add: setup_pod_def)
    moreover have "pe_Dial env (n, s) = (Ok (), (fst w1, s))" using dial x w1 by (cases w1) simp
    ultimately show ?thesis
      using acc given(1,2,5) print s1 s2 by (intro that [of conf ka "fst w1" reply d vpn "fst w3" s2]) simp_all
  qed
qed

text \<open>A failure after the daemon has given an address gives it back.\<close>

lemma failed_after_given:
  assumes "local_env env" and "\<And>a v w. fst (pe_PrintResult env a v w) = Ok ()"
    and acc: "accepted (with_daemon env strerror ord now ord' now') args = Some (conf, ka)" and dial: "pe_Dial env (n, s) = (Ok (), w1)"
    and a: "on_daemon (AddNetwork strerror ord now (add_request args ka)) w1 = (Ok reply, (fst w1, s1))" and "anp_Success reply"
    and del: "DelNetwork strerror ord' now' id (del_request (anp_IPv4Addr reply) ''SetupNSFailed'' ka) s1 = (Ok gone, s2)" and "dnp_Success gone"
    and add: "add (with_daemon env strerror ord now ord' now') args (n, s) = (Err err, w')"
  shows "snd w' = s2"
proof (cases "GetVPNNet (anp_IPv4Addr reply)")
  case None
  then show ?thesis using add assms(6) by (simp add: add_accepted [OF acc] dial a)
next
  case (Some vpn)
  let ?env = "with_daemon env strerror ord now ord' now'"
  obtain y w3 where y: "setup_pod env args conf ka reply vpn (fst w1, s1) = (y, w3)" by (cases "setup_pod env args conf ka reply vpn (fst w1, s1)") blast
  have w3: "snd w3 = s1" using local_results(2) [OF assms(1) y] by simp
  show ?thesis
  proof (cases y)
    case (Ok u)
    then show ?thesis
      using assms(2) [of "host_net (anp_IPv4Addr reply)" "nc_CNIVersion conf" w3] add assms(6) Some
      by (simp add: add_accepted [OF acc] dial a y)
  next
    case (Err e)
    then have "give_back ?env ka reply e w3 = (Err err, w')"
      using add assms(6) Some by (simp add: add_accepted [OF acc] dial a y)
    then show ?thesis using w3 assms(8) by (auto simp: give_back_def on_daemon_def del)
  next
    case Panic
    then show ?thesis using add assms(6) Some by (simp add: add_accepted [OF acc] dial a y)
  qed
qed

section \<open>Properties\<close>


text \<open>C9: an addition that succeeds has built the pod's network with the address the daemon now
  records for the pod, and deleting the pod takes that network down, with that address and
  device number, and restores the owners there were before.\<close>

theorem add_then_del:
  assumes "local_env env" and "exclusive (dataStore s)" and "\<not> supportVPNTraffic s" and "vpcSubnets s = Some subnets"
    and "add (with_daemon env strerror ord now ord' now') args (n, s) = (Ok (), (n1, s1))"
    and "pe_Dial env (n1, s1) = (Ok (), (n2, s1))"
  shows "\<exists>conf ka ip d vpn m m' s2. accepted env args = Some (conf, ka)
    \<and> pod_ip (dataStore s1) = (pod_ip (dataStore s))(pod_key_of (add_pod (add_request args ka)) \<mapsto> \<lparr> pi_IP = ip, pi_DeviceNumber = d \<rparr>)
    \<and> pe_SetupNS env (generateHostVethName (nc_VethPrefix conf) (ka_K8S_POD_NAMESPACE ka) (ka_K8S_POD_NAME ka))
        (ca_IfName args) (ca_Netns args) (host_net ip) (to_int32 d) subnets vpn False (m, s1) = (Ok (), (m', s1))
    \<and> del (with_daemon env strerror ord now ord' now') args (n1, s1) = pe_TeardownNS env (host_net ip) (to_int32 d) (n2, s2)
    \<and> pod_ip (dataStore s2) = pod_ip (dataStore s)"
proof (rule add_then_del_calls [OF assms])
  fix conf ka reply d vpn m m' s2
  assume "accepted env args = Some (conf, ka)"
    "pod_ip (dataStore s1) = (pod_ip (dataStore s))(args_key ka \<mapsto> \<lparr> pi_IP = anp_IPv4Addr reply, pi_DeviceNumber = d \<rparr>)"
    "pe_SetupNS env (generateHostVethName (nc_VethPrefix conf) (ka_K8S_POD_NAMESPACE ka) (ka_K8S_POD_NAME ka))
        (ca_IfName args) (ca_Netns args) (host_net (anp_IPv4Addr reply)) (to_int32 d) subnets vpn False (m, s1) = (Ok (), (m', s1))"
    "del (with_daemon env strerror ord now ord' now') args (n1, s1) = pe_TeardownNS env (host_net (anp_IPv4Addr reply)) (to_int32 d) (n2, s2)"
    "pod_ip (dataStore s2) = pod_ip (dataStore s)"
  then show ?thesis
    by (intro exI [of _ conf] exI [of _ ka] exI [of _ "anp_IPv4Addr reply"] exI [of _ d] exI [of _ vpn] exI [of _ m] exI [of _ m'] exI [of _ s2])
      simp
qed

section \<open>Witnesses\<close>

text \<open>A node whose network state counts the links set up; \<open>SetupNS\<close> fails or succeeds.\<close>

definition sample_node :: "unit go_result \<Rightarrow> (nat \<times> nat ipamd) plugin_env" where
  "sample_node r = \<lparr>
     pe_Unmarshal = (\<lambda>_. Ok \<lparr> nc_CNIVersion = ''0.3.1'', nc_Name = ''hostnic'', nc_Type = ''hostnic'', nc_VethPrefix = ''nic'' \<rparr>),
     pe_LoadArgs = (\<lambda>_. Ok \<lparr> ka_K8S_POD_NAME = ''q'', ka_K8S_POD_NAMESPACE = ''default'', ka_K8S_POD_INFRA_CONTAINER_ID = ''c'' \<rparr>),
     pe_Dial = (\<lambda>w. (Ok (), w)), pe_AddNetwork = (\<lambda>_ w. (Panic, w)), pe_DelNetwork = (\<lambda>_ w. (Panic, w)),
     pe_SetupNS = (\<lambda>_ _ _ _ _ _ _ _ w. (r, (Suc (fst w), snd w))),
     pe_TeardownNS = (\<lambda>_ _ w. (Ok (), (fst w - 1, snd w))), pe_PrintResult = (\<lambda>_ _ w. (Ok (), w)) \<rparr>"

lemma sample_node_facts:
  "local_env (sample_node r)" "fst (pe_PrintResult (sample_node r) a v w) = Ok ()" "pe_Dial (sample_node r) w = (Ok (), w)"
  by (simp_all add: local_env_def node_only_def sample_node_def)

lemma sample_node_accepted:
  "accepted (sample_node r) sample_args = Some (\<lparr> nc_CNIVersion = ''0.3.1'', nc_Name = ''hostnic'', nc_Type = ''hostnic'', nc_VethPrefix = ''nic'' \<rparr>,
     \<lparr> ka_K8S_POD_NAME = ''q'', ka_K8S_POD_NAMESPACE = ''default'', ka_K8S_POD_INFRA_CONTAINER_ID = ''c'' \<rparr>)"
  by (simp add: accepted_def sample_node_def Let_def)

definition sample_add_run :: "unit go_result \<Rightarrow> unit go_result \<times> (nat \<times> nat ipamd)" where
  "sample_add_run r = add (with_daemon (sample_node r) (\<lambda>_. '''') sample_order (2 * minute) sample_order (3 * minute)) sample_args (0, sample_ipam)"

abbreviation sample_ka :: k8s_args where
  "sample_ka \<equiv> \<lparr> ka_K8S_POD_NAME = ''q'', ka_K8S_POD_NAMESPACE = ''default'', ka_K8S_POD_INFRA_CONTAINER_ID = ''c'' \<rparr>"

lemma sample_calls:
  obtains reply s1 s2 dr where "AddNetwork (\<lambda>_. '''') sample_order (2 * minute) (add_request sample_args sample_ka) sample_ipam = (Ok reply, s1)"
    "anp_Success reply" "GetVPNNet (anp_IPv4Addr reply) = Some (ip_string [10, 0, 255, 254] @ ''/32'')"
    "DelNetwork (\<lambda>_. '''') sample_order (3 * minute) id (del_request (anp_IPv4Addr reply) ''SetupNSFailed'' sample_ka) s1 = (Ok dr, s2)"
proof -
  let ?a = "AddNetwork (\<lambda>_. '''') sample_order (2 * minute) (add_request sample_args sample_ka) sample_ipam"
  have "case fst ?a of Ok reply \<Rightarrow> anp_Success reply \<and> anp_IPv4Addr reply = ip_string [10, 0, 0, 3] | _ \<Rightarrow> False" by code_simp
  then obtain reply where "fst ?a = Ok reply" and r: "anp_Success reply" "anp_IPv4Addr reply = ip_string [10, 0, 0, 3]"
    by (cases "fst ?a") auto
  then have a: "?a = (Ok reply, snd ?a)" by (simp add: prod_eq_iff)
  let ?d = "DelNetwork (\<lambda>_. '''') sample_order (3 * minute) id (del_request (ip_string [10, 0, 0, 3]) ''SetupNSFailed'' sample_ka) (snd ?a)"
  have "case fst ?d of Ok dr \<Rightarrow> True | _ \<Rightarrow> False" by code_simp
  then obtain dr where "?d = (Ok dr, snd ?d)" by (cases "fst ?d") (auto simp: prod_eq_iff)
  with a r that show ?thesis by (simp add: GetVPNNet_dotted)
qed


lemma add_then_del_witness:
  "\<exists>s1 ip d s2. sample_add_run (Ok ()) = (Ok (), (1, s1))
    \<and> pod_ip (dataStore s1) = (pod_ip sample_store)(args_key sample_ka \<mapsto> \<lparr> pi_IP = ip, pi_DeviceNumber = d \<rparr>)
    \<and> del (with_daemon (sample_node (Ok ())) (\<lambda>_. '''') sample_order (2 * minute) sample_order (3 * minute)) sample_args (1, s1)
      = (Ok (), (0, s2)) \<and> pod_ip (dataStore s2) = pod_ip sample_store"
proof -
  obtain reply s1 s2 dr where c: "AddNetwork (\<lambda>_. '''') sample_order (2 * minute) (add_request sample_args sample_ka) sample_ipam = (Ok reply, s1)"
    "anp_Success reply" "GetVPNNet (anp_IPv4Addr reply) = Some (ip_string [10, 0, 255, 254] @ ''/32'')"
    by (rule sample_calls)
  have run: "sample_add_run (Ok ()) = (Ok (), (1, s1))"
    unfolding sample_add_run_def
    by (simp add: add_accepted [of _ _ "\<lparr> nc_CNIVersion = ''0.3.1'', nc_Name = ''hostnic'', nc_Type = ''hostnic'', nc_VethPrefix = ''nic'' \<rparr>" sample_ka]
        sample_node_accepted sample_node_facts on_daemon_def c)
      (simp add: sample_node_def setup_pod_def)
  have ex: "exclusive (dataStore sample_ipam)" by (simp add: sample_ipam_facts sample_exclusive)
  from add_then_del [OF sample_node_facts(1) ex sample_ipam_facts(2,3) run [unfolded sample_add_run_def] sample_node_facts(3)] run
  obtain ip d s2 where "pod_ip (dataStore s1) = (pod_ip sample_store)(args_key sample_ka \<mapsto> \<lparr> pi_IP = ip, pi_DeviceNumber = d \<rparr>)"
    "del (with_daemon (sample_node (Ok ())) (\<lambda>_. '''') sample_order (2 * minute) sample_order (3 * minute)) sample_args (1, s1)
      = pe_TeardownNS (sample_node (Ok ())) (host_net ip) (to_int32 d) (1, s2)" "pod_ip (dataStore s2) = pod_ip sample_store"
    by (auto simp: sample_node_accepted sample_ipam_facts)
  moreover have "pe_TeardownNS (sample_node (Ok ())) (host_net ip) (to_int32 d) (1, s2) = (Ok (), (0, s2))"
    by (simp add: sample_node_def)
  ultimately show ?thesis using run by auto
qed

end
