(* ===== verification/PodNetwork.thy ===== *)
theory PodNetwork
  imports IpRules
begin

text \<open>
  \<^verbatim>\<open>pkg/driver/driver.go\<close>: wiring a pod.  A veth pair is made inside the pod's namespace and
  its host end moved out; the host gets a route to the pod, a rule for traffic to it and, for a
  NIC other than the primary, the rules for traffic from it.  Taking the pod down undoes this.

  Parameters: \<open>withNS\<close>, which runs a function inside a namespace (\<^verbatim>\<open>ns.WithNetNSPath\<close>; the
  function is given the descriptor of the host's namespace), and \<open>addDefaultRoute\<close>
  (\<^verbatim>\<open>ip.AddDefaultRoute\<close>).
\<close>

definition toContainerRulePriority :: int where "toContainerRulePriority = 512"
definition fromContainerRulePriority :: int where "fromContainerRulePriority = 1536"
definition vethMTU :: int where "vethMTU = 9001"

section \<open>Inside the pod's namespace\<close>

definition pod_veth :: "string \<Rightarrow> string \<Rightarrow> link" where
  "pod_veth contVethName hostVethName = (NewLink contVethName)\<lparr> link_Flags := FlagUp, link_MTU := vethMTU,
     link_TxQLen := -1, link_Peer := Some hostVethName \<rparr>"

definition set_up_link :: "'n netlink \<Rightarrow> string \<Rightarrow> ('n, link) world_call" where
  "set_up_link api name n =
     on_result (nl_LinkByName api name n)
       (\<lambda>l n1. on_result (nl_LinkSetUp api l n1)
          (\<lambda>_ n2. (Ok l, n2))
          (\<lambda>err n2. (Err (Wrapped (''setup NS network: failed to set link '' @ quoted name @ '' up'') err), n2)))
       (\<lambda>err n1. (Err (Wrapped (''setup NS network: failed to find link '' @ quoted name) err), n1))"

definition wrap_err :: "string \<Rightarrow> unit go_result \<times> 'n \<Rightarrow> unit go_result \<times> 'n" where
  "wrap_err msg r = on_result r (\<lambda>_ n. (Ok (), n)) (\<lambda>err n. (Err (Wrapped msg err), n))"

definition dummy_gateway :: "byte list" where
  "dummy_gateway = IPv4 169 254 1 1"

definition run_in_ns ::
  "(byte list \<Rightarrow> link \<Rightarrow> ('n, unit) world_call) \<Rightarrow> 'n netlink \<Rightarrow> string \<Rightarrow> string \<Rightarrow> ip_net \<Rightarrow> int \<Rightarrow> ('n, unit) world_call" where
  "run_in_ns addDefaultRoute api contVethName hostVethName addr hostNS n =
     check (nl_LinkAdd api (pod_veth contVethName hostVethName) n) (\<lambda>_ n1.
     check (set_up_link api hostVethName n1) (\<lambda>hostVeth n2.
     check (set_up_link api contVethName n2) (\<lambda>contVeth n3.
     let gwNet = \<lparr> net_IP = dummy_gateway, net_Mask = CIDRMask 32 32 \<rparr>
     in check (wrap_err ''setup NS network: failed to add default gateway''
                (nl_RouteReplace api (empty_route\<lparr> route_LinkIndex := link_Index contVeth, route_Scope := SCOPE_LINK,
                   route_Dst := Some gwNet \<rparr>) n3)) (\<lambda>_ n4.
        check (wrap_err ''setup NS network: failed to add default route'' (addDefaultRoute (net_IP gwNet) contVeth n4)) (\<lambda>_ n5.
        check (wrap_err (''setup NS network: failed to add IP addr '' @ ipnet_string addr @ '' to '' @ quoted contVethName)
                (nl_AddrAdd api contVeth \<lparr> addr_IPNet = addr, addr_Label = '''' \<rparr> n5)) (\<lambda>_ n6.
        check (wrap_err ''setup NS network: failed to add static ARP''
                (nl_NeighAdd api \<lparr> neigh_LinkIndex = link_Index contVeth, neigh_State = NUD_PERMANENT,
                   neigh_IP = net_IP gwNet, neigh_HardwareAddr = link_HardwareAddr hostVeth \<rparr> n6)) (\<lambda>_ n7.
        wrap_err ''setup NS network: failed to move veth to host netns'' (nl_LinkSetNsFd api hostVeth hostNS n7))))))))"

section \<open>On the host\<close>

definition container_rule :: "bool \<Rightarrow> ip_net \<Rightarrow> int \<Rightarrow> int \<Rightarrow> rule" where
  "container_rule isToContainer addr priority table =
     (if isToContainer then NewRule\<lparr> rule_Dst := Some addr \<rparr> else NewRule\<lparr> rule_Src := Some addr \<rparr>)
       \<lparr> rule_Table := table, rule_Priority := priority \<rparr>"

definition addContainerRule :: "'n netlink \<Rightarrow> bool \<Rightarrow> ip_net \<Rightarrow> int \<Rightarrow> int \<Rightarrow> ('n, unit) world_call" where
  "addContainerRule api isToContainer addr priority table n =
     (let r = container_rule isToContainer addr priority table;
          add = (\<lambda>n1. wrap_err (''addContainerRule: failed to add container rule for '' @ ipnet_string addr) (nl_RuleAdd api r n1))
      in on_result (nl_RuleDel api r n)
           (\<lambda>_ n1. add n1)
           (\<lambda>err n1. if ContainsNoSuchRule err then add n1
              else (Err (Wrapped (''addContainerRule: failed to delete old container rule for '' @ ipnet_string addr) err), n1)))"

definition host_route :: "int \<Rightarrow> ip_net \<Rightarrow> route" where
  "host_route linkIndex addr = empty_route\<lparr> route_LinkIndex := linkIndex, route_Scope := SCOPE_LINK,
     route_Dst := Some \<lparr> net_IP = net_IP addr, net_Mask = CIDRMask 32 32 \<rparr> \<rparr>"

text \<open>
  The rules for traffic from the pod.  The loop over the networks is the one that rebuilds a
  pod's rules in \<^verbatim>\<open>networkutil.go\<close>: the same rule, priority, tests and message.
\<close>

definition add_from_rules :: "'n netlink \<Rightarrow> ip_net \<Rightarrow> int \<Rightarrow> string list \<Rightarrow> bool \<Rightarrow> string \<Rightarrow> ('n, unit) world_call" where
  "add_from_rules api addr table vpcCIDRs useExternalSNAT tunnelNet n =
     (if 0 < table then
        (if useExternalSNAT then
           wrap_err ''add NS network: failed to add fromContainer rule''
             (addContainerRule api False addr fromContainerRulePriority table n)
         else rebuild_loop api addr table (if tunnelNet \<noteq> '''' then vpcCIDRs @ [tunnelNet] else vpcCIDRs) n)
      else (Ok (), n))"

definition wire_host ::
  "'n netlink \<Rightarrow> string \<Rightarrow> ip_net \<Rightarrow> int \<Rightarrow> string list \<Rightarrow> bool \<Rightarrow> string \<Rightarrow> ('n, unit) world_call" where
  "wire_host api hostVethName addr table vpcCIDRs useExternalSNAT tunnelNet n =
     on_result (nl_LinkByName api hostVethName n)
       (\<lambda>hostVeth n1.
          check (wrap_err (''setupNS network: failed to set link '' @ quoted hostVethName @ '' up'') (nl_LinkSetUp api hostVeth n1)) (\<lambda>_ n2.
          check (wrap_err (''setupNS: unable to add or replace route entry for '' @ ip_string (net_IP addr))
                  (nl_RouteReplace api (host_route (link_Index hostVeth) addr) n2)) (\<lambda>_ n3.
          check (wrap_err ''setupNS network: failed to add toContainer''
                  (addContainerRule api True addr toContainerRulePriority RT_TABLE_MAIN n3)) (\<lambda>_ n4.
            add_from_rules api addr table vpcCIDRs useExternalSNAT tunnelNet n4))))
       (\<lambda>err n1. (Err (Wrapped (''setupNS network: failed to find link '' @ quoted hostVethName) err), n1))"

definition setupNS ::
  "(byte list \<Rightarrow> link \<Rightarrow> ('n, unit) world_call) \<Rightarrow> (string \<Rightarrow> (int \<Rightarrow> ('n, unit) world_call) \<Rightarrow> ('n, unit) world_call)
   \<Rightarrow> 'n netlink \<Rightarrow> 'n netlink \<Rightarrow> string \<Rightarrow> string \<Rightarrow> string \<Rightarrow> ip_net \<Rightarrow> int \<Rightarrow> string list \<Rightarrow> bool \<Rightarrow> string \<Rightarrow> ('n, unit) world_call" where
  "setupNS addDefaultRoute withNS api containerApi hostVethName contVethName netnsPath addr table vpcCIDRs useExternalSNAT tunnelNet n =
     (let wire = (\<lambda>n1. check (wrap_err ''setupNS network: failed to setup NS network''
                   (withNS netnsPath (run_in_ns addDefaultRoute containerApi contVethName hostVethName addr) n1))
                   (\<lambda>_ n2. wire_host api hostVethName addr table vpcCIDRs useExternalSNAT tunnelNet n2))
      in on_result (nl_LinkByName api hostVethName n)
           (\<lambda>oldHostVeth n1. check (wrap_err (''setupNS network: failed to delete old hostVeth '' @ quoted hostVethName)
              (nl_LinkDel api oldHostVeth n1)) (\<lambda>_ n2. wire n2))
           (\<lambda>_ n1. wire n1))"

definition SetupNS ::
  "(byte list \<Rightarrow> link \<Rightarrow> ('n, unit) world_call) \<Rightarrow> (string \<Rightarrow> (int \<Rightarrow> ('n, unit) world_call) \<Rightarrow> ('n, unit) world_call)
   \<Rightarrow> 'n netlink \<Rightarrow> 'n netlink \<Rightarrow> string \<Rightarrow> string \<Rightarrow> string \<Rightarrow> ip_net \<Rightarrow> int \<Rightarrow> string list \<Rightarrow> string \<Rightarrow> bool \<Rightarrow> ('n, unit) world_call" where
  "SetupNS addDefaultRoute withNS api containerApi hostVethName contVethName netnsPath addr table vpcCIDRs tunnelNet useExternalSNAT =
     setupNS addDefaultRoute withNS api containerApi hostVethName contVethName netnsPath addr table vpcCIDRs useExternalSNAT tunnelNet"

text \<open>Taking a pod down; failures on the rule to the pod and on the route are only logged.\<close>

definition tearDownNS :: "'n netlink \<Rightarrow> (ip_net \<Rightarrow> ('n, unit) world_call) \<Rightarrow> ip_net \<Rightarrow> int \<Rightarrow> ('n, unit) world_call" where
  "tearDownNS api deleteRuleListBySrc addr table n =
     (let toContainerRule = NewRule\<lparr> rule_Dst := Some addr, rule_Priority := toContainerRulePriority \<rparr>;
          route = (\<lambda>n2. on_result (nl_RouteDel api (host_route 0 addr) n2) (\<lambda>_ n3. (Ok (), n3)) (\<lambda>_ n3. (Ok (), n3)));
          rest = (\<lambda>n1. if 0 < table
            then check (wrap_err (''delete NS network: failed to delete fromContainer rule for '' @ ipnet_string addr)
                   (deleteRuleListBySrc addr n1)) (\<lambda>_ n2. route n2)
            else route n1)
      in on_result (nl_RuleDel api toContainerRule n) (\<lambda>_ n1. rest n1) (\<lambda>_ n1. rest n1))"

definition TeardownNS :: "'n netlink \<Rightarrow> (ip_net \<Rightarrow> ('n, unit) world_call) \<Rightarrow> ip_net \<Rightarrow> int \<Rightarrow> ('n, unit) world_call" where
  "TeardownNS api deleteRuleListBySrc addr table = tearDownNS api deleteRuleListBySrc addr table"

section \<open>Effect on the tables\<close>

lemma wrap_err_Ok: "wrap_err msg r = (Ok (), n) \<longleftrightarrow> r = (Ok (), n)"
  by (cases r; cases "fst r") (auto simp: wrap_err_def)

text \<open>The rules for a pod: one to it, and those from it.\<close>

definition to_rule :: "ip_net \<Rightarrow> rule" where
  "to_rule addr = container_rule True addr toContainerRulePriority RT_TABLE_MAIN"

definition from_rules :: "ip_net \<Rightarrow> int \<Rightarrow> string list \<Rightarrow> bool \<Rightarrow> string \<Rightarrow> rule list" where
  "from_rules addr table vpcCIDRs useExternalSNAT tunnelNet =
     (if 0 < table then
        (if useExternalSNAT then [container_rule False addr fromContainerRulePriority table]
         else List.map (pod_rule addr table) (if tunnelNet \<noteq> '''' then vpcCIDRs @ [tunnelNet] else vpcCIDRs))
      else [])"

lemma from_rules_src: "r \<in> set (from_rules addr table cidrs ext tunnel) \<Longrightarrow> from_src addr r"
  by (auto simp: from_rules_def from_src_def container_rule_def pod_rule_def ip_equal_def split: if_splits)

lemma same_keys: "rule_key (NewRule\<lparr> rule_Dst := Some addr, rule_Priority := p \<rparr>) = rule_key (to_rule addr)"
  "route_key (host_route i addr) = route_key (host_route j addr)"
  by (simp_all add: rule_key_def to_rule_def container_rule_def NewRule_def route_key_def host_route_def empty_route_def)

context netlink_tables
begin

lemma addContainerRule_Ok:
  assumes "inv n" and "addContainerRule api to addr p tbl n = (Ok (), n')"
  shows "inv n' \<and> routes n' = routes n \<and> rules n' = (rules n)(rule_key (container_rule to addr p tbl) \<mapsto> container_rule to addr p tbl)"
proof -
  let ?r = "container_rule to addr p tbl"
  obtain x n1 where d: "nl_RuleDel api ?r n = (x, n1)" by (cases "nl_RuleDel api ?r n")
  have "(x = Ok () \<or> x = Err (ErrnoValue ENOENT)) \<and> nl_RuleAdd api ?r n1 = (Ok (), n')"
    using assms(2) d by (cases x) (auto simp: addContainerRule_def Let_def wrap_err_Ok rule_errno_defs split: if_splits)
  with rule_gone [OF assms(1) d] rule_add_Ok [of n1 ?r n'] show ?thesis by auto
qed

lemma add_from_rules_Ok:
  assumes "inv n" and "add_from_rules api addr tbl cidrs ext tunnel n = (Ok (), n')"
  shows "inv n' \<and> routes n' = routes n \<and> rules n' = with_rules (from_rules addr tbl cidrs ext tunnel) (rules n)"
proof (cases "0 < tbl \<and> \<not> ext")
  case True
  let ?cs = "if tunnel \<noteq> '''' then cidrs @ [tunnel] else cidrs"
  from True assms(2) have "rebuild_loop api addr tbl ?cs n = (Ok (), n')"
    by (simp only: add_from_rules_def if_True if_False simp_thms)
  from rebuild_loop_Ok [OF assms(1) this] True show ?thesis by (simp only: from_rules_def if_True if_False simp_thms)
next
  case False
  with assms addContainerRule_Ok [OF assms(1), of False addr fromContainerRulePriority tbl n'] show ?thesis
    by (auto simp: add_from_rules_def from_rules_def wrap_err_Ok split: if_splits)
qed

lemma wire_host_Ok:
  assumes "inv n" and "wire_host api hv addr tbl cidrs ext tunnel n = (Ok (), n')"
  obtains i where "inv n'" "routes n' = (routes n)(route_key (host_route i addr) \<mapsto> host_route i addr)"
    "rules n' = with_rules (to_rule addr # from_rules addr tbl cidrs ext tunnel) (rules n)"
proof -
  obtain x n1 where l: "nl_LinkByName api hv n = (x, n1)" by (cases "nl_LinkByName api hv n")
  with assms(2) obtain v where x: "x = Ok v" by (cases x) (auto simp: wire_host_def)
  from assms(2) l x obtain n2 n3 n4 where s: "nl_LinkSetUp api v n1 = (Ok (), n2)"
    and r: "nl_RouteReplace api (host_route (link_Index v) addr) n2 = (Ok (), n3)"
    and t: "addContainerRule api True addr toContainerRulePriority RT_TABLE_MAIN n3 = (Ok (), n4)"
    and f: "add_from_rules api addr tbl cidrs ext tunnel n4 = (Ok (), n')"
    by (auto simp only: wire_host_def on_result.simps wrap_err_Ok elim!: check_unit_elim)
  from links [OF assms(1) l] have n1: "inv n1" "rules n1 = rules n" "routes n1 = routes n" by auto
  from link_ops [OF n1(1), of v "Ok ()" n2] s n1 have n2: "inv n2" "rules n2 = rules n" "routes n2 = routes n" by auto
  from route_replace [OF n2(1) r] n2 have n3: "inv n3" "rules n3 = rules n"
    "routes n3 = (routes n)(route_key (host_route (link_Index v) addr) \<mapsto> host_route (link_Index v) addr)"
    by (auto simp: changes_def is_err_def)
  from addContainerRule_Ok [OF n3(1) t] n3 have n4: "inv n4" "rules n4 = (rules n)(rule_key (to_rule addr) \<mapsto> to_rule addr)"
    "routes n4 = routes n3" by (auto simp: to_rule_def)
  from add_from_rules_Ok [OF n4(1) f] n4 n3 show thesis by (intro that [of "link_Index v"]) simp_all
qed

lemma setupNS_Ok:
  assumes "inv n" and "setupNS dr withNS api capi hv cv path addr tbl cidrs ext tunnel n = (Ok (), n')"
    and "\<And>m m'. inv m \<Longrightarrow> withNS path (run_in_ns dr capi cv hv addr) m = (Ok (), m') \<Longrightarrow> inv m' \<and> rules m' = rules m \<and> routes m' = routes m"
  obtains i where "inv n'" "routes n' = (routes n)(route_key (host_route i addr) \<mapsto> host_route i addr)"
    "rules n' = with_rules (to_rule addr # from_rules addr tbl cidrs ext tunnel) (rules n)"
proof -
  obtain x n1 where l: "nl_LinkByName api hv n = (x, n1)" by (cases "nl_LinkByName api hv n")
  from links [OF assms(1) l] have n1: "inv n1" "rules n1 = rules n" "routes n1 = routes n" by auto
  have "\<exists>n2 n3. inv n2 \<and> rules n2 = rules n \<and> routes n2 = routes n \<and> withNS path (run_in_ns dr capi cv hv addr) n2 = (Ok (), n3)
      \<and> wire_host api hv addr tbl cidrs ext tunnel n3 = (Ok (), n')"
  proof (cases x)
    case (Ok v)
    with assms(2) l obtain n2 n3 where d: "nl_LinkDel api v n1 = (Ok (), n2)"
      and w: "withNS path (run_in_ns dr capi cv hv addr) n2 = (Ok (), n3)" "wire_host api hv addr tbl cidrs ext tunnel n3 = (Ok (), n')"
      by (auto simp only: setupNS_def Let_def on_result.simps wrap_err_Ok elim!: check_unit_elim)
    from link_ops [OF n1(1), of v "Ok ()" n2] d n1 w show ?thesis by auto
  next
    case (Err e)
    with assms(2) l obtain n3 where "withNS path (run_in_ns dr capi cv hv addr) n1 = (Ok (), n3)"
      "wire_host api hv addr tbl cidrs ext tunnel n3 = (Ok (), n')"
      by (auto simp only: setupNS_def Let_def on_result.simps wrap_err_Ok elim!: check_unit_elim)
    with n1 show ?thesis by blast
  next
    case Panic
    with assms(2) l show ?thesis by (simp add: setupNS_def)
  qed
  then obtain n2 n3 where n2: "inv n2" "rules n2 = rules n" "routes n2 = routes n"
    and w: "withNS path (run_in_ns dr capi cv hv addr) n2 = (Ok (), n3)" "wire_host api hv addr tbl cidrs ext tunnel n3 = (Ok (), n')" by blast
  from assms(3) [OF n2(1) w(1)] n2 have n3: "inv n3" "rules n3 = rules n" "routes n3 = routes n" by auto
  from wire_host_Ok [OF n3(1) w(2)] n3 that show thesis by metis
qed

end

text \<open>A network whose deletions fail only for what is not there.\<close>

definition deletes :: "'n netlink \<Rightarrow> ('n \<Rightarrow> bool) \<Rightarrow> ('n \<Rightarrow> string \<Rightarrow> rule option) \<Rightarrow> ('n \<Rightarrow> string \<Rightarrow> route option) \<Rightarrow> bool" where
  "deletes api ok rules routes \<longleftrightarrow>
     (\<forall>n r. ok n \<longrightarrow> fst (nl_RuleDel api r n) = Ok () \<or> rules n (rule_key r) = None)
     \<and> (\<forall>n r. ok n \<longrightarrow> fst (nl_RouteDel api r n) = Ok () \<or> routes n (route_key r) = None)"

context netlink_tables
begin

lemma deletes_rule:
  assumes "deletes api inv rules routes" and "inv n" and "nl_RuleDel api r n = (x, n')"
  shows "x \<noteq> Panic" "inv n'" "routes n' = routes n" "rules n' = (rules n)(rule_key r := None)"
proof -
  from rule_del [OF assms(2,3)] have c: "changes x (rules n) (rules n') ((rules n)(rule_key r := None))" and i: "inv n'" "routes n' = routes n" by auto
  from assms have "x = Ok () \<or> rules n (rule_key r) = None" unfolding deletes_def by (metis fst_conv)
  with c i show "x \<noteq> Panic" "inv n'" "routes n' = routes n" "rules n' = (rules n)(rule_key r := None)"
    by (cases rule: changes_cases [OF c]; simp add: fun_upd_idem)+
qed

lemma deletes_route:
  assumes "deletes api inv rules routes" and "inv n" and "nl_RouteDel api r n = (x, n')"
  shows "x \<noteq> Panic" "inv n'" "rules n' = rules n" "routes n' = (routes n)(route_key r := None)"
proof -
  from route_del [OF assms(2,3)] have c: "changes x (routes n) (routes n') ((routes n)(route_key r := None))" and i: "inv n'" "rules n' = rules n" by auto
  from assms have "x = Ok () \<or> routes n (route_key r) = None" unfolding deletes_def by (metis fst_conv)
  with c i show "x \<noteq> Panic" "inv n'" "rules n' = rules n" "routes n' = (routes n)(route_key r := None)"
    by (cases rule: changes_cases [OF c]; simp add: fun_upd_idem)+
qed

lemma tearDownNS_Ok:
  assumes "deletes api inv rules routes" and "inv n" and "tearDownNS api (DeleteRuleListBySrc api) addr tbl n = (Ok (), n')"
  shows "inv n'" "routes n' = (routes n)(route_key (host_route i addr) := None)"
    "rules n' = (let m = (rules n)(rule_key (to_rule addr) := None) in if 0 < tbl then without_src addr m else m)"
proof -
  let ?to = "NewRule\<lparr> rule_Dst := Some addr, rule_Priority := toContainerRulePriority \<rparr>"
  obtain x n1 where d: "nl_RuleDel api ?to n = (x, n1)" by (cases "nl_RuleDel api ?to n")
  from deletes_rule [OF assms(1,2) d] have n1: "x \<noteq> Panic" "inv n1" "routes n1 = routes n"
    "rules n1 = (rules n)(rule_key (to_rule addr) := None)" by (simp_all add: same_keys)
  obtain n2 where n2: "inv n2" "routes n2 = routes n1" "rules n2 = (if 0 < tbl then without_src addr (rules n1) else rules n1)"
    and r: "on_result (nl_RouteDel api (host_route 0 addr) n2) (\<lambda>_ n3. (Ok (), n3)) (\<lambda>_ n3. (Ok (), n3)) = (Ok () :: unit go_result, n')"
  proof (cases "0 < tbl")
    case True
    with assms(3) d n1(1) have "check (wrap_err (''delete NS network: failed to delete fromContainer rule for '' @ ipnet_string addr)
          (DeleteRuleListBySrc api addr n1))
        (\<lambda>_ n2. on_result (nl_RouteDel api (host_route 0 addr) n2) (\<lambda>_ n3. (Ok (), n3)) (\<lambda>_ n3. (Ok (), n3))) = (Ok (), n')"
      by (cases x) (simp_all only: tearDownNS_def Let_def on_result.simps if_True simp_thms)
    then obtain n2 where w: "wrap_err (''delete NS network: failed to delete fromContainer rule for '' @ ipnet_string addr)
          (DeleteRuleListBySrc api addr n1) = (Ok (), n2)"
      and "on_result (nl_RouteDel api (host_route 0 addr) n2) (\<lambda>_ n3. (Ok (), n3)) (\<lambda>_ n3. (Ok (), n3)) = (Ok () :: unit go_result, n')"
      by (rule check_unit_elim)
    with w [unfolded wrap_err_Ok] delete_by_src [OF n1(2)] True that show thesis by auto
  next
    case False
    with assms(3) d n1 that [of n1] show thesis by (cases x) (auto simp: tearDownNS_def Let_def)
  qed
  obtain y n3 where rd: "nl_RouteDel api (host_route 0 addr) n2 = (y, n3)" by (cases "nl_RouteDel api (host_route 0 addr) n2")
  with r have "n3 = n'" by (cases y) auto
  with deletes_route [OF assms(1) n2(1) rd] n2 n1 show "inv n'" "routes n' = (routes n)(route_key (host_route i addr) := None)"
    "rules n' = (let m = (rules n)(rule_key (to_rule addr) := None) in if 0 < tbl then without_src addr m else m)"
    by (simp_all add: Let_def same_keys(2) [where i = i and j = 0])
qed

end

text \<open>The rules a pod brings are all found again.\<close>

lemma pod_rules_removed:
  assumes "\<And>k r. m k = Some r \<Longrightarrow> k \<in> rule_key ` set (from_rules addr tbl cidrs ext tunnel) \<Longrightarrow> from_src addr r"
  shows "(let m' = (with_rules (to_rule addr # from_rules addr tbl cidrs ext tunnel) m)(rule_key (to_rule addr) := None)
          in if 0 < tbl then without_src addr m' else m')
       = (let m' = m(rule_key (to_rule addr) := None) in if 0 < tbl then without_src addr m' else m')"
proof (cases "0 < tbl")
  case True
  let ?from = "from_rules addr tbl cidrs ext tunnel"
  have "without_src addr ((with_rules (to_rule addr # ?from) m)(rule_key (to_rule addr) := None)) k
      = without_src addr (m(rule_key (to_rule addr) := None)) k" for k
  proof (cases "k \<in> rule_key ` set ?from")
    case True
    moreover have "\<exists>r \<in> set ?from. with_rules ?from m' k = Some r" if "k \<in> rule_key ` set ?from" for m'
    proof -
      have "k \<in> rule_key ` set rs \<Longrightarrow> \<exists>r \<in> set rs. with_rules rs m' k = Some r" for rs m'
      proof (induction rs arbitrary: m')
        case (Cons q rs)
        then show ?case
          by (cases "k \<in> rule_key ` set rs") (auto simp: with_rules_other)
      qed simp
      with that show ?thesis by blast
    qed
    ultimately obtain r where r: "r \<in> set ?from" "with_rules ?from (m(rule_key (to_rule addr) \<mapsto> to_rule addr)) k = Some r" by metis
    from from_rules_src [OF r(1)] r(2) have "without_src addr ((with_rules (to_rule addr # ?from) m)(rule_key (to_rule addr) := None)) k = None"
      by (simp add: without_src_def)
    moreover have "without_src addr (m(rule_key (to_rule addr) := None)) k = None"
      using assms [OF _ True] by (cases "m k") (simp_all add: without_src_def)
    ultimately show ?thesis by simp
  next
    case False
    then show ?thesis by (auto simp: without_src_def with_rules_other split: option.splits)
  qed
  with True show ?thesis by (auto simp: Let_def)
next
  case False
  then show ?thesis by (simp add: from_rules_def)
qed

text \<open>The two together.\<close>

lemma teardown_after_setup:
  assumes "netlink_tables api ok rules routes" and "deletes api ok rules routes" and "ok n"
    and "SetupNS dr withNS api capi hv cv path addr tbl cidrs tunnel ext n = (Ok (), n1)"
    and "\<And>m m'. ok m \<Longrightarrow> withNS path (run_in_ns dr capi cv hv addr) m = (Ok (), m') \<Longrightarrow> ok m' \<and> rules m' = rules m \<and> routes m' = routes m"
    and "\<And>k r. rules n k = Some r \<Longrightarrow> k \<in> rule_key ` set (from_rules addr tbl cidrs ext tunnel) \<Longrightarrow> from_src addr r"
    and "TeardownNS api (DeleteRuleListBySrc api) addr tbl n1 = (Ok (), n2)"
  shows "routes n2 = (routes n)(route_key (host_route 0 addr) := None)
    \<and> rules n2 = (let m = (rules n)(rule_key (to_rule addr) := None) in if 0 < tbl then without_src addr m else m)"
proof -
  obtain i where s: "ok n1" "routes n1 = (routes n)(route_key (host_route i addr) \<mapsto> host_route i addr)"
    "rules n1 = with_rules (to_rule addr # from_rules addr tbl cidrs ext tunnel) (rules n)"
    by (rule netlink_tables.setupNS_Ok [OF assms(1,3) assms(4) [unfolded SetupNS_def] assms(5)])
  note t = netlink_tables.tearDownNS_Ok [OF assms(1,2) s(1) assms(7) [unfolded TeardownNS_def]]
  have "rules n2 = (let m = (rules n)(rule_key (to_rule addr) := None) in if 0 < tbl then without_src addr m else m)"
  proof -
    have "rules n2 = (let m = (with_rules (to_rule addr # from_rules addr tbl cidrs ext tunnel) (rules n))(rule_key (to_rule addr) := None)
        in if 0 < tbl then without_src addr m else m)"
      using t(3) by (simp only: s(3))
    also have "\<dots> = (let m = (rules n)(rule_key (to_rule addr) := None) in if 0 < tbl then without_src addr m else m)"
      by (rule pod_rules_removed [OF assms(6)])
    finally show ?thesis .
  qed
  then show ?thesis using t(2) [of i] s(2) by (simp add: same_keys(2) [where i = 0 and j = i])
qed

section \<open>Properties\<close>



section \<open>Witnesses\<close>

lemma fake_deletes: "deletes (fake_api ord) fake_ok fake_rules fake_routes"
  by (simp add: deletes_def fake_api_def fake_RuleDel_def fake_RouteDel_def Let_def)

lemma fake_rebuild_Ok: "\<exists>f'. rebuild_loop (fake_api ord) src tbl cs f = (Ok (), f')"
  by (induction cs arbitrary: f) (simp_all add: Let_def, subst fake_rules_Ok, simp)

text \<open>A pod's namespace on which every call succeeds; afterwards the host has the link \<open>hv\<close>.\<close>

definition quiet_netlink :: "fake_netlink netlink" where
  "quiet_netlink = (fake_api no_order)
     \<lparr> nl_LinkByName := (\<lambda>s n. (Ok (NewLink s), n)), nl_LinkSetNsFd := (\<lambda>l fd n. (Ok (), n)), nl_AddrAdd := (\<lambda>l a n. (Ok (), n)),
       nl_LinkAdd := (\<lambda>l n. (Ok (), n)), nl_LinkSetUp := (\<lambda>l n. (Ok (), n)), nl_RouteReplace := (\<lambda>r n. (Ok (), n)),
       nl_NeighAdd := (\<lambda>x n. (Ok (), n)) \<rparr>"

definition sample_withNS :: "string \<Rightarrow> string \<Rightarrow> (int \<Rightarrow> (fake_netlink, unit) world_call) \<Rightarrow> (fake_netlink, unit) world_call" where
  "sample_withNS hv path f n = check (f 5 n) (\<lambda>_ n1. fake_LinkAdd (NewLink hv) n1)"

abbreviation sample_SetupNS :: "fake_netlink \<Rightarrow> unit go_result \<times> fake_netlink" where
  "sample_SetupNS \<equiv> SetupNS (\<lambda>gw l n. (Ok (), n)) (sample_withNS ''nic1'')
     (fake_api no_order) quiet_netlink
     ''nic1'' ''eth0'' ''/proc/1/ns/net'' sample_src 3 [''192.168.0.0/16''] ''10.0.255.254/32'' False"

abbreviation sample_TeardownNS :: "fake_netlink \<Rightarrow> unit go_result \<times> fake_netlink" where
  "sample_TeardownNS \<equiv> TeardownNS (fake_api no_order)
     (DeleteRuleListBySrc (fake_api no_order)) sample_src 3"

lemma sample_run_in_ns:
  "run_in_ns (\<lambda>gw l n. (Ok (), n)) quiet_netlink cv hv addr fd n = (Ok (), n)"
  by (simp add: run_in_ns_def quiet_netlink_def set_up_link_def wrap_err_def Let_def)

lemma sample_withNS_frame:
  "sample_withNS link path (run_in_ns (\<lambda>gw l n. (Ok (), n)) quiet_netlink cv hv addr) m = (r, m') \<Longrightarrow>
   fake_ok m \<Longrightarrow> fake_ok m' \<and> fake_rules m' = fake_rules m \<and> fake_routes m' = fake_routes m"
  by (auto simp: sample_withNS_def sample_run_in_ns fake_LinkAdd_def NewLink_def fake_ok_def)

lemma fake_add_rule_Ok: "\<exists>f'. addContainerRule (fake_api ord) to addr p tbl f = (Ok (), f')"
  by (simp add: addContainerRule_def Let_def wrap_err_def, subst fake_rules_Ok, simp, subst fake_rules_Ok, simp)

lemma fake_from_rules_Ok: "\<exists>f'. add_from_rules (fake_api ord) addr tbl cidrs ext tunnel f = (Ok (), f')"
proof -
  obtain f1 where "addContainerRule (fake_api ord) False addr fromContainerRulePriority tbl f = (Ok (), f1)" using fake_add_rule_Ok by blast
  moreover obtain f2 where "rebuild_loop (fake_api ord) addr tbl (if tunnel \<noteq> '''' then cidrs @ [tunnel] else cidrs) f = (Ok (), f2)"
    using fake_rebuild_Ok by blast
  ultimately show ?thesis by (simp add: add_from_rules_def wrap_err_def)
qed

text \<open>With such a namespace, setting a pod up in the memory network succeeds.\<close>

lemma fake_SetupNS_Ok:
  assumes "fake_LinkByName hv f = (Err e, f)"
  shows "\<exists>f'. SetupNS (\<lambda>gw l n. (Ok (), n)) (sample_withNS hv) (fake_api no_order) quiet_netlink hv cv path addr tbl cidrs tunnel ext f = (Ok (), f')"
proof -
  let ?api = "fake_api no_order"
  have calls: "nl_LinkByName ?api = fake_LinkByName" "nl_LinkSetUp ?api = fake_LinkSetUp" "nl_RouteReplace ?api = fake_RouteReplace"
    by (simp_all add: fake_api_def)
  obtain f0 where f0: "fake_LinkAdd (NewLink hv) f = (Ok (), f0)" "fake_LinkByName hv f0 = (Ok (NewLink hv), f0)"
    by (simp add: fake_LinkAdd_def fake_LinkByName_def NewLink_def Let_def)
  then obtain f1 where f1: "fake_LinkSetUp (NewLink hv) f0 = (Ok (), f1)"
    by (auto simp: fake_LinkSetUp_def fake_set_link_def fake_LinkByName_def NewLink_def split: option.splits)
  obtain f2 where f2: "fake_RouteReplace (host_route (link_Index (NewLink hv)) addr) f1 = (Ok (), f2)"
    by (simp add: fake_RouteReplace_def)
  obtain f3 where f3: "addContainerRule ?api True addr toContainerRulePriority RT_TABLE_MAIN f2 = (Ok (), f3)"
    using fake_add_rule_Ok by blast
  obtain f4 where f4: "add_from_rules ?api addr tbl cidrs ext tunnel f3 = (Ok (), f4)" using fake_from_rules_Ok by blast
  have w: "wire_host ?api hv addr tbl cidrs ext tunnel f0 = (Ok (), f4)"
    by (simp only: wire_host_def calls f0(2) on_result.simps f1 f2 f3 f4 wrap_err_def check_simps)
  have "SetupNS (\<lambda>gw l n. (Ok (), n)) (sample_withNS hv) ?api quiet_netlink hv cv path addr tbl cidrs tunnel ext f = (Ok (), f4)"
    unfolding SetupNS_def setupNS_def Let_def calls assms on_result.simps sample_withNS_def sample_run_in_ns check_simps f0(1) wrap_err_def
    by (rule w)
  then show ?thesis by blast
qed

lemma sample_SetupNS_Ok: "\<exists>f'. sample_SetupNS NewFakeNetlink = (Ok (), f')"
proof (rule fake_SetupNS_Ok)
  show "fake_LinkByName ''nic1'' NewFakeNetlink = (Err (ErrorString ''Netlink nic1 not found''), NewFakeNetlink)" by code_simp
qed

lemma fake_TeardownNS_Ok: "\<exists>f2. TeardownNS (fake_api ord) (DeleteRuleListBySrc (fake_api ord)) addr tbl f = (Ok (), f2)"
proof -
  have "\<exists>f'. DeleteRuleListBySrc (fake_api ord) src f = (Ok (), f')" for ord src f
  proof -
    have "nl_RuleList (fake_api ord) f = (Ok (List.map snd (go_range (order_rules ord) (fake_Rules f))), f)"
      by (simp add: fake_api_def fake_RuleList_def)
    with fake_loops_Ok(1) show ?thesis by (simp add: DeleteRuleListBySrc_def GetRuleList_def GetRuleListBySrc_filter)
  qed
  then obtain g where g: "DeleteRuleListBySrc (fake_api ord) src f = (Ok (), g ord src f)" for ord src f by metis
  have "nl_RouteDel (fake_api ord) r f = (Ok (), snd (fake_RouteDel r f))" for ord r f by (simp add: fake_api_def fake_RouteDel_def)
  then show ?thesis
    by (simp add: TeardownNS_def tearDownNS_def Let_def, subst fake_rules_Ok, simp add: g wrap_err_def)
qed

lemma NewFakeNetlink_tables: "fake_rules NewFakeNetlink = Map.empty" "fake_routes NewFakeNetlink = Map.empty"
  by (simp_all add: NewFakeNetlink_def fake_LinkAdd_def NewLink_def)



end
