(* ===== verification/NodeCycle.thy ===== *)
theory NodeCycle
  imports PluginSystem PodNetwork
begin

text \<open>
  The whole of a pod's life on the node: \<^verbatim>\<open>cmdAdd\<close> and \<^verbatim>\<open>cmdDel\<close> of \<^verbatim>\<open>cmd/hostnic/hostnic.go\<close> call the plugin
  with the driver of \<^verbatim>\<open>pkg/driver\<close>, which works on the node's rules and routes, and with the daemon as the
  backend.  A world is the node's network and the daemon.
\<close>

text \<open>A call on the node's network, made by the plugin.\<close>

definition on_host :: "('n, 'a) world_call \<Rightarrow> ('n \<times> 'w ipamd, 'a) world_call" where
  "on_host op ns = (case op (fst ns) of (r, n') \<Rightarrow> (r, (n', snd ns)))"

text \<open>\<^verbatim>\<open>driver.New()\<close>: the calls of \<open>base\<close> with the driver's two put in.\<close>

definition with_driver ::
  "('n \<times> 'w ipamd) plugin_env \<Rightarrow> (byte list \<Rightarrow> link \<Rightarrow> ('n, unit) world_call)
   \<Rightarrow> (string \<Rightarrow> (int \<Rightarrow> ('n, unit) world_call) \<Rightarrow> ('n, unit) world_call) \<Rightarrow> 'n netlink \<Rightarrow> 'n netlink \<Rightarrow> ('n \<times> 'w ipamd) plugin_env" where
  "with_driver base addDefaultRoute withNS api containerApi = base\<lparr>
     pe_SetupNS := (\<lambda>hv cv path addr table cidrs tunnel snat.
       on_host (SetupNS addDefaultRoute withNS api containerApi hv cv path addr table cidrs tunnel snat)),
     pe_TeardownNS := (\<lambda>addr table. on_host (TeardownNS api (DeleteRuleListBySrc api) addr table)) \<rparr>"

definition cmdAdd ::
  "('n \<times> 'w ipamd) plugin_env \<Rightarrow> (byte list \<Rightarrow> link \<Rightarrow> ('n, unit) world_call)
   \<Rightarrow> (string \<Rightarrow> (int \<Rightarrow> ('n, unit) world_call) \<Rightarrow> ('n, unit) world_call) \<Rightarrow> 'n netlink \<Rightarrow> 'n netlink
   \<Rightarrow> (errno \<Rightarrow> string) \<Rightarrow> go_order \<Rightarrow> time \<Rightarrow> go_order \<Rightarrow> time \<Rightarrow> cmd_args \<Rightarrow> ('n \<times> 'w ipamd, unit) world_call" where
  "cmdAdd base addDefaultRoute withNS api containerApi strerror ord now ord' now' args =
     add (with_daemon (with_driver base addDefaultRoute withNS api containerApi) strerror ord now ord' now') args"

definition cmdDel ::
  "('n \<times> 'w ipamd) plugin_env \<Rightarrow> (byte list \<Rightarrow> link \<Rightarrow> ('n, unit) world_call)
   \<Rightarrow> (string \<Rightarrow> (int \<Rightarrow> ('n, unit) world_call) \<Rightarrow> ('n, unit) world_call) \<Rightarrow> 'n netlink \<Rightarrow> 'n netlink
   \<Rightarrow> (errno \<Rightarrow> string) \<Rightarrow> go_order \<Rightarrow> time \<Rightarrow> go_order \<Rightarrow> time \<Rightarrow> cmd_args \<Rightarrow> ('n \<times> 'w ipamd, unit) world_call" where
  "cmdDel base addDefaultRoute withNS api containerApi strerror ord now ord' now' args =
     del (with_daemon (with_driver base addDefaultRoute withNS api containerApi) strerror ord now ord' now') args"

section \<open>What the other calls and the tables must be\<close>

text \<open>Dialling the daemon and printing the result change neither the daemon nor the tables of the node.\<close>

definition passes ::
  "('n \<Rightarrow> bool) \<Rightarrow> ('n \<Rightarrow> string \<Rightarrow> rule option) \<Rightarrow> ('n \<Rightarrow> string \<Rightarrow> route option) \<Rightarrow> ('n \<times> 'w ipamd, 'a) world_call \<Rightarrow> bool" where
  "passes ok rules routes op \<longleftrightarrow>
     (\<forall>n s. case snd (op (n, s)) of (n', s') \<Rightarrow> s' = s \<and> (ok n \<longrightarrow> ok n' \<and> rules n' = rules n \<and> routes n' = routes n))"

lemma passesD:
  assumes "passes ok rules routes op" and "op (n, s) = (r, (n', s'))"
  shows "s' = s" and "ok n \<Longrightarrow> ok n' \<and> rules n' = rules n \<and> routes n' = routes n"
proof -
  have "case snd (op (n, s)) of (n', s') \<Rightarrow> s' = s \<and> (ok n \<longrightarrow> ok n' \<and> rules n' = rules n \<and> routes n' = routes n)"
    by (rule assms(1) [unfolded passes_def, THEN spec, THEN spec])
  then show "s' = s" and "ok n \<Longrightarrow> ok n' \<and> rules n' = rules n \<and> routes n' = routes n" by (simp_all add: assms(2))
qed

text \<open>Nothing on the node is left of an address: no route to it, no rule to it or from it.\<close>

definition no_trace :: "(string \<Rightarrow> rule option) \<Rightarrow> (string \<Rightarrow> route option) \<Rightarrow> ip_net \<Rightarrow> bool" where
  "no_trace rs ts addr \<longleftrightarrow> ts (route_key (host_route 0 addr)) = None \<and> rs (rule_key (to_rule addr)) = None
     \<and> (\<forall>q. rule_Src q = Some addr \<longrightarrow> rs (rule_key q) = None) \<and> (\<forall>k r. rs k = Some r \<longrightarrow> \<not> from_src addr r)"

lemma no_trace_tables:
  assumes "no_trace rs ts addr"
  shows "ts(route_key (host_route 0 addr) := None) = ts"
    and "(let m = rs(rule_key (to_rule addr) := None) in if 0 < tbl then without_src addr m else m) = rs"
    and "k \<in> rule_key ` set (from_rules addr tbl cidrs snat tunnel) \<Longrightarrow> rs k = None"
proof -
  from assms have t: "ts (route_key (host_route 0 addr)) = None" "rs (rule_key (to_rule addr)) = None"
    "\<And>q. rule_Src q = Some addr \<Longrightarrow> rs (rule_key q) = None" "\<And>k r. rs k = Some r \<Longrightarrow> \<not> from_src addr r"
    unfolding no_trace_def by blast+
  show "ts(route_key (host_route 0 addr) := None) = ts" using t(1) by auto
  have "rs(rule_key (to_rule addr) := None) = rs" using t(2) by auto
  moreover have "without_src addr rs = rs" using t(4) by (auto simp: without_src_def split: option.splits)
  ultimately show "(let m = rs(rule_key (to_rule addr) := None) in if 0 < tbl then without_src addr m else m) = rs" by simp
  show "rs k = None" if "k \<in> rule_key ` set (from_rules addr tbl cidrs snat tunnel)"
    using that t(3) by (auto simp: from_rules_def container_rule_def pod_rule_def split: if_splits)
qed

text \<open>The address of a reply was free in the store.\<close>

lemma replied_address:
  assumes "exclusive (dataStore s)" and "AddNetwork strerror ord now req s = (Ok reply, s')" and "anp_Success reply"
  obtains nk a where "lookup_addr (dataStore s) nk (anp_IPv4Addr reply) = Some a" "\<not> addr_Assigned a"
proof -
  obtain r ds where a: "AssignPodIPv4Address ord now (add_pod req) (dataStore s) = (r, ds)" by (rule prod.exhaust)
  from assms(2,3) obtain d where r: "r = Ok (anp_IPv4Addr reply, d)"
    by (auto simp: AddNetwork_def store_eq(1) [OF a] split: option.splits outcome.splits)
  have pod: "pod_IP (add_pod req) = ''''" by (simp add: add_pod_def)
  have fresh: "pod_ip (dataStore s) (pod_key_of (add_pod req)) = None"
    using Assign_again [OF pod, of "dataStore s" ord now] a r by (cases "pod_ip (dataStore s) (pod_key_of (add_pod req))") simp_all
  from assms(1) pod fresh show thesis
  proof (cases rule: cni_assign_cases [where now = now and ord = ord])
    case (taken nk nic ip x)
    with a r have "lookup_addr (dataStore s) nk (anp_IPv4Addr reply) = Some x" "\<not> addr_Assigned x"
      by (auto simp: available_def lookup_addr_known)
    then show thesis by (rule that)
  qed (use a r in simp)
qed

text \<open>Setting a pod up and taking it down, with calls in between that leave the tables alone.\<close>

lemma network_cycle:
  assumes "netlink_tables api ok rules routes" and "deletes api ok rules routes" and "ok m"
    and "SetupNS dr withNS api capi hv cv path addr tbl cidrs vpn False m = (Ok (), m')"
    and "\<And>x x'. ok x \<Longrightarrow> withNS path (run_in_ns dr capi cv hv addr) x = (Ok (), x') \<Longrightarrow> ok x' \<and> rules x' = rules x \<and> routes x' = routes x"
    and "ok m' \<Longrightarrow> ok n \<and> rules n = rules m' \<and> routes n = routes m'"
    and "TeardownNS api (DeleteRuleListBySrc api) addr tbl n = (Ok (), n')"
    and clean: "no_trace (rules m) (routes m) addr"
  shows "rules n' = rules m \<and> routes n' = routes m"
proof -
  obtain i where w: "ok m'" "routes m' = (routes m)(route_key (host_route i addr) \<mapsto> host_route i addr)"
    "rules m' = with_rules (to_rule addr # from_rules addr tbl cidrs False vpn) (rules m)"
    by (rule netlink_tables.setupNS_Ok [OF assms(1,3) assms(4) [unfolded SetupNS_def] assms(5)])
  have n: "ok n" "rules n = rules m'" "routes n = routes m'" using assms(6) [OF w(1)] by simp_all
  note t = netlink_tables.tearDownNS_Ok [OF assms(1,2) n(1) assms(7) [unfolded TeardownNS_def]]
  have "routes n' = (routes m)(route_key (host_route 0 addr) := None)"
    using t(2) [of i] w(2) n(3) by (simp add: same_keys(2) [where i = 0 and j = i])
  then have rt: "routes n' = routes m" using no_trace_tables(1) [OF clean] by simp
  have "rules n' = (let t = (with_rules (to_rule addr # from_rules addr tbl cidrs False vpn) (rules m))(rule_key (to_rule addr) := None)
      in if 0 < tbl then without_src addr t else t)"
    using t(3) by (simp only: n(2) w(3))
  also have "\<dots> = (let t = (rules m)(rule_key (to_rule addr) := None) in if 0 < tbl then without_src addr t else t)"
    by (rule pod_rules_removed) (use no_trace_tables(3) [OF clean] in auto)
  also have "\<dots> = rules m" by (rule no_trace_tables(2) [OF clean])
  finally show ?thesis using rt by simp
qed

lemma del_dials: "del env args w = (Ok (), w') \<Longrightarrow> \<exists>w1. pe_Dial env w = (Ok (), w1)"
  by (cases "pe_Unmarshal env (ca_StdinData args)"; cases "pe_LoadArgs env (ca_Args args)";
      cases "pe_Dial env w"; cases "fst (pe_Dial env w)") (simp_all add: del_def)

section \<open>Property\<close>


section \<open>Witness\<close>

text \<open>A node with an empty network in memory and the daemon of \<open>sample_ipam\<close>, whose free address is 10.0.0.3.\<close>

definition cycle_base :: "(fake_netlink \<times> nat ipamd) plugin_env" where
  "cycle_base = \<lparr>
     pe_Unmarshal = (\<lambda>_. Ok \<lparr> nc_CNIVersion = ''0.3.1'', nc_Name = ''hostnic'', nc_Type = ''hostnic'', nc_VethPrefix = ''nic'' \<rparr>),
     pe_LoadArgs = (\<lambda>_. Ok sample_ka), pe_Dial = (\<lambda>w. (Ok (), w)),
     pe_AddNetwork = (\<lambda>_ w. (Panic, w)), pe_DelNetwork = (\<lambda>_ w. (Panic, w)),
     pe_SetupNS = (\<lambda>_ _ _ _ _ _ _ _ w. (Panic, w)), pe_TeardownNS = (\<lambda>_ _ w. (Panic, w)),
     pe_PrintResult = (\<lambda>_ _ w. (Ok (), w)) \<rparr>"

abbreviation sample_veth :: string where
  "sample_veth \<equiv> generateHostVethName ''nic'' ''default'' ''q''"

abbreviation sample_cmdAdd :: "fake_netlink \<times> nat ipamd \<Rightarrow> unit go_result \<times> (fake_netlink \<times> nat ipamd)" where
  "sample_cmdAdd \<equiv> cmdAdd cycle_base (\<lambda>gw l n. (Ok (), n)) (sample_withNS sample_veth) (fake_api no_order) quiet_netlink
     (\<lambda>_. '''') sample_order (2 * minute) sample_order (3 * minute) sample_args"

abbreviation sample_cmdDel :: "fake_netlink \<times> nat ipamd \<Rightarrow> unit go_result \<times> (fake_netlink \<times> nat ipamd)" where
  "sample_cmdDel \<equiv> cmdDel cycle_base (\<lambda>gw l n. (Ok (), n)) (sample_withNS sample_veth) (fake_api no_order) quiet_netlink
     (\<lambda>_. '''') sample_order (2 * minute) sample_order (3 * minute) sample_args"

abbreviation cycle_env :: "(fake_netlink \<times> nat ipamd) plugin_env" where
  "cycle_env \<equiv> with_driver cycle_base (\<lambda>gw l n. (Ok (), n)) (sample_withNS sample_veth) (fake_api no_order) quiet_netlink"

lemma cycle_env_calls:
  "pe_Dial cycle_env w = (Ok (), w)" "pe_PrintResult cycle_env a v w = (Ok (), w)" "local_env cycle_env"
  by (simp_all add: with_driver_def cycle_base_def local_env_def node_only_def on_host_def split: prod.split)

lemma cycle_accepted: "accepted cycle_env sample_args
    = Some (\<lparr> nc_CNIVersion = ''0.3.1'', nc_Name = ''hostnic'', nc_Type = ''hostnic'', nc_VethPrefix = ''nic'' \<rparr>, sample_ka)"
  by (simp add: accepted_def with_driver_def cycle_base_def Let_def)

lemma cycle_setup: "\<exists>n'. pe_SetupNS cycle_env sample_veth cv path addr tbl cidrs vpn snat (NewFakeNetlink, s) = (Ok (), (n', s))"
proof -
  have "fake_LinkByName sample_veth NewFakeNetlink = (Err (ErrorString (''Netlink '' @ sample_veth @ '' not found'')), NewFakeNetlink)"
    by (simp add: fake_LinkByName_def NewFakeNetlink_def fake_LinkAdd_def NewLink_def Let_def generateHostVethName_def)
  then obtain n' where "SetupNS (\<lambda>gw l n. (Ok (), n)) (sample_withNS sample_veth) (fake_api no_order) quiet_netlink
      sample_veth cv path addr tbl cidrs vpn snat NewFakeNetlink = (Ok (), n')"
    using fake_SetupNS_Ok by blast
  then show ?thesis by (simp add: with_driver_def on_host_def)
qed

lemma cycle_teardown: "\<exists>n'. pe_TeardownNS cycle_env addr tbl (n, s) = (Ok (), (n', s))"
  using fake_TeardownNS_Ok [of no_order addr tbl n] by (auto simp: with_driver_def on_host_def)

lemma sample_cmdAdd_Ok: "\<exists>n1 s1. sample_cmdAdd (NewFakeNetlink, sample_ipam) = (Ok (), (n1, s1))"
proof -
  obtain reply s1 s2 dr where c: "AddNetwork (\<lambda>_. '''') sample_order (2 * minute) (add_request sample_args sample_ka) sample_ipam = (Ok reply, s1)"
    "anp_Success reply" "GetVPNNet (anp_IPv4Addr reply) = Some (ip_string [10, 0, 255, 254] @ ''/32'')"
    by (rule sample_calls)
  obtain n' where n': "pe_SetupNS cycle_env sample_veth (ca_IfName sample_args) (ca_Netns sample_args) (host_net (anp_IPv4Addr reply))
      (anp_DeviceNumber reply) (anp_VPCcidrs reply) (ip_string [10, 0, 255, 254] @ ''/32'') (anp_UseExternalSNAT reply) (NewFakeNetlink, s1) = (Ok (), (n', s1))"
    using cycle_setup by blast
  have "accepted (with_daemon cycle_env (\<lambda>_. '''') sample_order (2 * minute) sample_order (3 * minute)) sample_args
      = Some (\<lparr> nc_CNIVersion = ''0.3.1'', nc_Name = ''hostnic'', nc_Type = ''hostnic'', nc_VethPrefix = ''nic'' \<rparr>, sample_ka)"
    by (simp add: cycle_accepted)
  from add_accepted [OF this, of "(NewFakeNetlink, sample_ipam)"]
  have "sample_cmdAdd (NewFakeNetlink, sample_ipam) = (Ok (), (n', s1))"
    by (simp add: cmdAdd_def cycle_env_calls on_daemon_def c setup_pod_def n' cong: if_cong)
  then show ?thesis by blast
qed


end
