(* ===== verification/NicCloud.thy ===== *)
theory NicCloud
  imports VxnetCloud
begin

text \<open>
  The contract between the daemon and the cloud about NICs.  \<open>book w\<close> maps the ID of every NIC the
  cloud has to the address it gave it.  No two NICs have the same address; creating a NIC enters it
  with a new address, deleting one takes out no other.  (That the ID of a new NIC is new is not part of
  the contract: in the cloud in memory IDs are random.)  The calls about vxnets and the VPC change no NIC.
\<close>

locale nic_cloud =
  fixes api :: "'w cloud_api" and ok :: "'w \<Rightarrow> bool" and book :: "'w \<Rightarrow> string \<Rightarrow> string option"
  assumes book_inj: "ok w \<Longrightarrow> book w i = Some ip \<Longrightarrow> book w j = Some ip \<Longrightarrow> i = j"
    and book_nonempty: "ok w \<Longrightarrow> book w i \<noteq> Some ''''"
    and create_ok: "ok w \<Longrightarrow> api_CreateNic api v (m, w) = (r, (m', w')) \<Longrightarrow> ok w'"
    and create_enters: "ok w \<Longrightarrow> api_CreateNic api v (m, w) = (Ok nic, (m', w')) \<Longrightarrow>
      hn_Address nic \<notin> ran (book w) \<and> book w' = (book w)(hn_ID nic \<mapsto> hn_Address nic)"
    and delete_takes: "ok w \<Longrightarrow> api_DeleteNic api i (m, w) = (x, (m', w')) \<Longrightarrow>
      ok w' \<and> (\<forall>j. j \<noteq> i \<longrightarrow> book w' j = book w j)"
    and attached_listed: "ok w \<Longrightarrow> api_GetAttachedNICs api v (m, w) = (y, (m', w')) \<Longrightarrow>
      ok w' \<and> book w' = book w \<and> (\<forall>nics nic. y = Ok nics \<longrightarrow> nic \<in> set nics \<longrightarrow> book w (hn_ID nic) = Some (hn_Address nic))"
    and primary_leaves: "leaves ok book (api_GetPrimaryNIC api)"
    and vxnet_leaves: "leaves ok book (api_GetVxNet api v)"
    and named_leaves: "leaves ok book (api_GetVxNetByName api v)"
    and create_vxnet_leaves: "leaves ok book (api_CreateVxNet api v)"
    and node_vpc_leaves: "leaves ok book (api_GetNodeVPC api)"
    and vpc_vxnets_leaves: "leaves ok book (api_GetVPCVxNets api v)"
    and join_leaves: "leaves ok book (api_JoinVPC api net v rid)"
    and leave_leaves: "leaves ok book (api_LeaveVPC api v rid)"
begin

text \<open>Calls made from the daemon's state.\<close>

lemma ext_create:
  assumes "ok (ip_ext s)" and "ext (api_CreateNic api v) s = (r, s')"
  shows "ok (ip_ext s')" and "r = Ok nic \<Longrightarrow> book (ip_ext s') = (book (ip_ext s))(hn_ID nic \<mapsto> hn_Address nic)"
  using create_ok [OF assms(1) ext_result [OF assms(2)]] create_enters [OF assms(1), of v "ip_mem s" nic "ip_mem s'" "ip_ext s'"]
    ext_result [OF assms(2)] by auto

lemma ext_delete:
  assumes "ok (ip_ext s)" and "ext (api_DeleteNic api i) s = (r, s')"
  shows "ok (ip_ext s')" and "j \<noteq> i \<Longrightarrow> book (ip_ext s') j = book (ip_ext s) j"
  using delete_takes [OF assms(1) ext_result [OF assms(2)]] by auto

lemma ext_attached:
  assumes "ok (ip_ext s)" and "ext (api_GetAttachedNICs api v) s = (r, s')"
  shows "ok (ip_ext s')" and "book (ip_ext s') = book (ip_ext s)"
    and "r = Ok nics \<Longrightarrow> nic \<in> set nics \<Longrightarrow> book (ip_ext s') (hn_ID nic) = Some (hn_Address nic)"
  using attached_listed [OF assms(1) ext_result [OF assms(2)]] by auto

end

text \<open>A cloud whose NICs have IPv4 addresses, written as \<^verbatim>\<open>net.IP\<close> writes them.\<close>

definition ipv4_text :: "string \<Rightarrow> bool" where
  "ipv4_text t = (case To4 (ParseIP t) of None \<Rightarrow> False | Some q \<Rightarrow> t = ip_string q)"

lemma To4_bytes:
  assumes "To4 ip = Some q"
  obtains a b c d where "q = [a, b, c, d]"
proof -
  have "length q = 4" using assms by (auto simp: To4_def split: if_splits)
  then show ?thesis by (auto simp: length_Suc_conv eval_nat_numeral intro: that)
qed

lemma ipv4_text_iff: "ipv4_text t \<longleftrightarrow> (\<exists>a b c d. t = ip_string [a, b, c, d])"
proof
  show "ipv4_text t \<Longrightarrow> \<exists>a b c d. t = ip_string [a, b, c, d]"
    by (auto simp: ipv4_text_def split: option.splits elim!: To4_bytes)
qed (auto simp: ipv4_text_def ParseIP_ip_string To4_IPv4)

lemma ip_string_nonempty: "ip_string [a, b, c, d] \<noteq> ''''"
  by (simp add: ip_string_v4)

locale ipv4_cloud = nic_cloud api ok book for api :: "'w cloud_api" and ok and book +
  assumes book_ipv4: "ok w \<Longrightarrow> book w i = Some ip \<Longrightarrow> ipv4_text ip"

end
