(* ===== verification/PoolManager.thy ===== *)
theory PoolManager
  imports Ipamd DataStoreThms
begin

text \<open>
  \<^verbatim>\<open>pkg/ipam/pool_manager.go\<close>: the loop that keeps between \<open>poolSize\<close> and
  \<open>maxPoolSize\<close> free addresses on the node, one NIC at a time.  A round of the loop is
  \<open>reconcile_round\<close>; \<open>env\<close> is what the other goroutines do while it sleeps.
\<close>

definition defaultSleepDuration :: duration where "defaultSleepDuration = 10 * second"

definition nodeIPPoolTooLow :: "'w ipamd \<Rightarrow> bool" where
  "nodeIPPoolTooLow s = (case GetStats (dataStore s) of (tot, used) \<Rightarrow> tot - used < poolSize s)"

definition nodeIPPoolTooHigh :: "'w ipamd \<Rightarrow> bool" where
  "nodeIPPoolTooHigh s = (case GetStats (dataStore s) of (tot, used) \<Rightarrow> maxPoolSize s < tot - used)"

text \<open>Errors are logged and dropped; only a panic is not.\<close>

definition drop_error :: "'a go_result \<times> 's \<Rightarrow> unit go_result \<times> 's" where
  "drop_error r = on_result r (\<lambda>_ s. (Ok (), s)) (\<lambda>_ s. (Ok (), s))"

definition tryAllocateNIC ::
  "'w cloud_api \<Rightarrow> ('w, 'r) network_api \<Rightarrow> ('w, link list) ext_call \<Rightarrow> (errno \<Rightarrow> string) \<Rightarrow> time \<Rightarrow> 'w ipamd \<Rightarrow> unit go_result \<times> 'w ipamd" where
  "tryAllocateNIC api napi linkList strerror now s =
     (case own_vxnet s of
        None \<Rightarrow> (Panic, s)
      | Some v \<Rightarrow>
          on_result (ext (api_CreateNic api (vx_ID v)) s)
            (\<lambda>nic s1. drop_error (setupNic napi linkList strerror now nic s1))
            (\<lambda>_ s1. (Ok (), s1)))"

definition increaseIPPool ::
  "'w cloud_api \<Rightarrow> ('w, 'r) network_api \<Rightarrow> ('w, link list) ext_call \<Rightarrow> (errno \<Rightarrow> string) \<Rightarrow> time \<Rightarrow> 'w ipamd \<Rightarrow> unit go_result \<times> 'w ipamd" where
  "increaseIPPool api napi linkList strerror now s = tryAllocateNIC api napi linkList strerror now s"

definition decreaseIPPool :: "'w cloud_api \<Rightarrow> go_order \<Rightarrow> (string \<Rightarrow> time \<times> time) \<Rightarrow> 'w ipamd \<Rightarrow> unit go_result \<times> 'w ipamd" where
  "decreaseIPPool api ord clk s =
     check (store (RemoveUnusedNICFromStore ord clk) s) (\<lambda>nicid s1.
       if nicid \<noteq> '''' then drop_error (ext (api_DeleteNic api nicid) s1) else (Ok (), s1))"

definition updateIPPoolIfRequired ::
  "'w cloud_api \<Rightarrow> ('w, 'r) network_api \<Rightarrow> ('w, link list) ext_call \<Rightarrow> (errno \<Rightarrow> string) \<Rightarrow> go_order
   \<Rightarrow> (string \<Rightarrow> time \<times> time) \<Rightarrow> time \<Rightarrow> 'w ipamd \<Rightarrow> unit go_result \<times> 'w ipamd" where
  "updateIPPoolIfRequired api napi linkList strerror ord clk now s =
     (if nodeIPPoolTooLow s then increaseIPPool api napi linkList strerror now s
      else if nodeIPPoolTooHigh s then decreaseIPPool api ord clk s
      else (Ok (), s))"

definition nodeIPPoolReconcile :: "'w ipamd \<Rightarrow> 'w ipamd" where
  "nodeIPPoolReconcile s = s"

definition reconcile_round ::
  "'w cloud_api \<Rightarrow> ('w, 'r) network_api \<Rightarrow> ('w, link list) ext_call \<Rightarrow> (errno \<Rightarrow> string) \<Rightarrow> go_order
   \<Rightarrow> (string \<Rightarrow> time \<times> time) \<Rightarrow> time \<Rightarrow> (duration \<Rightarrow> 'w ipamd \<Rightarrow> 'w ipamd) \<Rightarrow> 'w ipamd \<Rightarrow> unit go_result \<times> 'w ipamd" where
  "reconcile_round api napi linkList strerror ord clk now env s =
     check (updateIPPoolIfRequired api napi linkList strerror ord clk now (env defaultSleepDuration s)) (\<lambda>_ s1.
       (Ok (), nodeIPPoolReconcile (env defaultSleepDuration s1)))"

section \<open>What a new NIC does to the store\<close>

definition free_ips :: "data_store \<Rightarrow> int" where
  "free_ips ds = ds_total ds - ds_assigned ds"

abbreviation nic_ids :: "data_store \<Rightarrow> string set" where
  "nic_ids ds \<equiv> fst ` set (ds_nicIPPools ds)"

text \<open>A NIC the cloud created well: it is not the primary one and not in the store yet.\<close>

definition fresh_nic :: "data_store \<Rightarrow> host_nic \<Rightarrow> bool" where
  "fresh_nic ds nic \<longleftrightarrow> \<not> hn_IsPrimary nic \<and> hn_ID nic \<notin> nic_ids ds"

text \<open>
  The NIC with its device number, and the state in which it is known: the number the cloud gave,
  or, as with every NIC the cloud client has just created, the index of the link with its address.
\<close>

definition device_ready :: "('w, link list) ext_call \<Rightarrow> host_nic \<Rightarrow> 'w ipamd \<Rightarrow> (host_nic \<times> 'w ipamd) option" where
  "device_ready linkList nic s =
     (if 0 < hn_DeviceNumber nic then Some (nic, s)
      else case LinkByMacAddr (hn_HardwareAddr nic) (ext linkList s) of
        (Ok l, s1) \<Rightarrow> if 0 < link_Index l then Some (nic\<lparr> hn_DeviceNumber := link_Index l \<rparr>, s1) else None
      | _ \<Rightarrow> None)"

lemma device_ready_setup:
  assumes "device_ready linkList nic s = Some (nic1, s1)"
  shows "setupNic napi linkList strerror now nic s = setup_known_nic napi strerror now nic1 s1"
    "0 < hn_DeviceNumber nic1" "hn_ID nic1 = hn_ID nic" "hn_IsPrimary nic1 = hn_IsPrimary nic"
    "dataStore s1 = dataStore s" "own_vxnet s1 = own_vxnet s" "poolSize s1 = poolSize s" "maxPoolSize s1 = maxPoolSize s"
proof -
  obtain r s2 where e: "ext linkList s = (r, s2)" by fastforce
  have f: "dataStore s2 = dataStore s" "own_vxnet s2 = own_vxnet s" "poolSize s2 = poolSize s" "maxPoolSize s2 = maxPoolSize s"
    using ext_fields [of linkList s] e by simp_all
  show "setupNic napi linkList strerror now nic s = setup_known_nic napi strerror now nic1 s1"
    "0 < hn_DeviceNumber nic1" "hn_ID nic1 = hn_ID nic" "hn_IsPrimary nic1 = hn_IsPrimary nic"
    "dataStore s1 = dataStore s" "own_vxnet s1 = own_vxnet s" "poolSize s1 = poolSize s" "maxPoolSize s1 = maxPoolSize s"
    using assms f by (cases r; auto simp: device_ready_def LinkByMacAddr_def e setupNic_def split: if_splits outcome.splits)+
qed

lemma drop_error_simps [simp]: "snd (drop_error r) = snd r" "fst (drop_error r) = (case fst r of Panic \<Rightarrow> Panic | _ \<Rightarrow> Ok ())"
  by (cases r; cases "fst r"; simp add: drop_error_def)+

lemma add_nic_and_address:
  assumes "n \<notin> nic_ids ds" and "0 < d"
  obtains ds1 ds2 where "AddNIC n d p now ds = (Ok (), ds1)" "free_ips ds1 = free_ips ds" "AddIPv4AddressFromStore n ip ds1 = (Ok (), ds2)"
    "free_ips ds2 = free_ips ds + 1" "ds_total ds2 = ds_total ds + 1" "ds_assigned ds2 = ds_assigned ds"
    "nic_ids ds2 = insert n (nic_ids ds)"
    "lookup_addr ds2 n ip = Some \<lparr> addr_Address = ip, addr_Assigned = False, addr_UnassignedTime = time_zero \<rparr>"
    "nic_ids ds1 = insert n (nic_ids ds)"
    "\<And>ip. lookup_addr ds1 n ip = None" "ds_total ds1 = ds_total ds"
proof -
  have none: "map_of (ds_nicIPPools ds) n = None" using assms(1) by (simp add: map_of_eq_None_iff)
  let ?ds1 = "snd (AddNIC n d p now ds)"
  let ?ds2 = "snd (AddIPv4AddressFromStore n ip ?ds1)"
  have 1: "AddNIC n d p now ds = (Ok (), ?ds1)" using none assms(2) by (simp add: AddNIC_def Let_def)
  have 2: "AddIPv4AddressFromStore n ip ?ds1 = (Ok (), ?ds2)"
    using none assms(2) by (simp add: AddNIC_def AddIPv4AddressFromStore_def Let_def)
  have l: "lookup_addr ?ds1 n ip = None" for ip
    using none by (simp add: AddNIC_views lookup_addr_def)
  have keys: "fst ` set (gm_put n v m) = insert n (fst ` set m)" for v :: nic_ip_pool and m
    by (induction m) auto
  have adj: "fst ` set (gm_adjust k f m) = fst ` set m" for k f and m :: "(string, nic_ip_pool) gomap"
    by (metis gm_keys_adjust set_map)
  show ?thesis
    by (rule that [OF 1 _ 2])
      (use none assms(2) l in \<open>simp_all add: AddNIC_def AddIPv4AddressFromStore_def Let_def free_ips_def keys adj lookup_addr_def\<close>)
qed

text \<open>
  Setting such a NIC up: the NIC is in the store afterwards whether or not its network could be
  configured, its address only if it could.
\<close>

lemma setup_known_fresh:
  assumes "fresh_nic (dataStore s) nic" and "0 < hn_DeviceNumber nic"
    and "Option.bind (own_vxnet s) (\<lambda>v. net_text (ip_mem s) (vx_Network v)) = Some subnet"
  shows "case setup_known_nic napi strerror now nic s of (r, s') \<Rightarrow>
    r = fst (net_SetupNICNetwork napi (hn_Address nic) (hn_HardwareAddr nic) (hn_DeviceNumber nic) subnet (ip_mem s, ip_ext s))
    \<and> nic_ids (dataStore s') = insert (hn_ID nic) (nic_ids (dataStore s))
    \<and> (ip_mem s', ip_ext s')
      = snd (net_SetupNICNetwork napi (hn_Address nic) (hn_HardwareAddr nic) (hn_DeviceNumber nic) subnet (ip_mem s, ip_ext s))
    \<and> own_vxnet s' = own_vxnet s \<and> poolSize s' = poolSize s \<and> maxPoolSize s' = maxPoolSize s
    \<and> free_ips (dataStore s') = free_ips (dataStore s) + (if r = Ok () then 1 else 0)"
proof -
  from assms(1,2) have n: "hn_ID nic \<notin> nic_ids (dataStore s)" "0 < hn_DeviceNumber nic" "\<not> hn_IsPrimary nic"
    by (simp_all add: fresh_nic_def)
  obtain ds1 ds2 where a: "AddNIC (hn_ID nic) (hn_DeviceNumber nic) False now (dataStore s) = (Ok (), ds1)"
    "free_ips ds1 = free_ips (dataStore s)" "AddIPv4AddressFromStore (hn_ID nic) (hn_Address nic) ds1 = (Ok (), ds2)"
    "free_ips ds2 = free_ips (dataStore s) + 1"
    "nic_ids ds2 = insert (hn_ID nic) (nic_ids (dataStore s))"
    "nic_ids ds1 = insert (hn_ID nic) (nic_ids (dataStore s))"
    by (rule add_nic_and_address [OF n(1,2), of False now "hn_Address nic"])
  let ?s1 = "s\<lparr> dataStore := ds1 \<rparr>"
  have s1: "store (AddNIC (hn_ID nic) (hn_DeviceNumber nic) False now) s = (Ok (), ?s1)"
    using a(1) by (simp add: store_def)
  obtain r s2 where r: "ext (net_SetupNICNetwork napi (hn_Address nic) (hn_HardwareAddr nic) (hn_DeviceNumber nic) subnet) ?s1 = (r, s2)"
    by fastforce
  have s2: "dataStore s2 = ds1" "own_vxnet s2 = own_vxnet s" "poolSize s2 = poolSize s" "maxPoolSize s2 = maxPoolSize s"
    using ext_fields [of "net_SetupNICNetwork napi (hn_Address nic) (hn_HardwareAddr nic) (hn_DeviceNumber nic) subnet" ?s1] r
    by simp_all
  then have s3: "store (AddIPv4AddressFromStore (hn_ID nic) (hn_Address nic)) s2 = (Ok (), s2\<lparr> dataStore := ds2 \<rparr>)"
    using a(3) by (simp add: store_def)
  have eq: "setup_known_nic napi strerror now nic s = check (r, s2) (\<lambda>_ s2. on_result (store (AddIPv4AddressFromStore (hn_ID nic) (hn_Address nic)) s2)
      (\<lambda>_ s3. (Ok (), s3)) (\<lambda>_ s3. (Ok (), s3)))"
    using n assms(3) by (simp add: setup_known_nic_def Let_def s1 r)
  have rn: "fst (net_SetupNICNetwork napi (hn_Address nic) (hn_HardwareAddr nic) (hn_DeviceNumber nic) subnet (ip_mem s, ip_ext s)) = r"
    and mn: "snd (net_SetupNICNetwork napi (hn_Address nic) (hn_HardwareAddr nic) (hn_DeviceNumber nic) subnet (ip_mem s, ip_ext s))
      = (ip_mem s2, ip_ext s2)"
    using r by (auto simp: ext_def split: prod.splits)
  show ?thesis
    unfolding eq rn mn by (cases r) (simp_all add: s2 s3 a)
qed

lemma setup_fresh_nic:
  assumes "fresh_nic (dataStore s) nic" and "device_ready linkList nic s = Some (nic1, s1)"
    and "Option.bind (own_vxnet s) (\<lambda>v. net_text (ip_mem s1) (vx_Network v)) = Some subnet"
  shows "case setupNic napi linkList strerror now nic s of (r, s') \<Rightarrow>
    r = fst (net_SetupNICNetwork napi (hn_Address nic1) (hn_HardwareAddr nic1) (hn_DeviceNumber nic1) subnet (ip_mem s1, ip_ext s1))
    \<and> nic_ids (dataStore s') = insert (hn_ID nic) (nic_ids (dataStore s))
    \<and> (ip_mem s', ip_ext s')
      = snd (net_SetupNICNetwork napi (hn_Address nic1) (hn_HardwareAddr nic1) (hn_DeviceNumber nic1) subnet (ip_mem s1, ip_ext s1))
    \<and> own_vxnet s' = own_vxnet s \<and> poolSize s' = poolSize s \<and> maxPoolSize s' = maxPoolSize s
    \<and> free_ips (dataStore s') = free_ips (dataStore s) + (if r = Ok () then 1 else 0)"
proof -
  note d = device_ready_setup [OF assms(2)]
  have "fresh_nic (dataStore s1) nic1" using assms(1) d by (simp add: fresh_nic_def)
  from setup_known_fresh [OF this d(2), of subnet napi strerror now] assms(3) d(6) show ?thesis
    unfolding d(1) d(3) d(5) d(6) d(7) d(8) by simp
qed

section \<open>Rounds\<close>

fun rounds ::
  "'w cloud_api \<Rightarrow> ('w, 'r) network_api \<Rightarrow> ('w, link list) ext_call \<Rightarrow> (errno \<Rightarrow> string) \<Rightarrow> go_order
   \<Rightarrow> (string \<Rightarrow> time \<times> time) \<Rightarrow> time \<Rightarrow> (duration \<Rightarrow> 'w ipamd \<Rightarrow> 'w ipamd) \<Rightarrow> nat \<Rightarrow> 'w ipamd \<Rightarrow> unit go_result \<times> 'w ipamd" where
  "rounds api napi linkList strerror ord clk now env 0 s = (Ok (), s)"
| "rounds api napi linkList strerror ord clk now env (Suc n) s =
     check (reconcile_round api napi linkList strerror ord clk now env s) (\<lambda>_ s1.
       rounds api napi linkList strerror ord clk now env n s1)"

text \<open>
  \<open>supplies\<close>: in every state of \<open>I\<close> the cloud creates a fresh NIC whose link is found if it must be,
  its network is set up with success (\<open>ok\<close>) or with an error (\<open>\<not> ok\<close>), and the state is one of \<open>I\<close> again.
  \<open>quiet\<close>: while the loop sleeps nobody changes the store.
\<close>

definition supplies ::
  "'w cloud_api \<Rightarrow> ('w, 'r) network_api \<Rightarrow> ('w, link list) ext_call \<Rightarrow> (errno \<Rightarrow> string) \<Rightarrow> time \<Rightarrow> bool \<Rightarrow> ('w ipamd \<Rightarrow> bool) \<Rightarrow> bool" where
  "supplies api napi linkList strerror now ok I \<longleftrightarrow>
     (\<forall>s. I s \<longrightarrow> (\<exists>v nic s1 nic2 s2 subnet. own_vxnet s = Some v \<and> ext (api_CreateNic api (vx_ID v)) s = (Ok nic, s1)
        \<and> fresh_nic (dataStore s) nic \<and> device_ready linkList nic s1 = Some (nic2, s2)
        \<and> net_text (ip_mem s2) (vx_Network v) = Some subnet
        \<and> fst (setupNic napi linkList strerror now nic s1) \<noteq> Panic
        \<and> (fst (setupNic napi linkList strerror now nic s1) = Ok () \<longleftrightarrow> ok)
        \<and> I (snd (setupNic napi linkList strerror now nic s1))))"

definition quiet :: "(duration \<Rightarrow> 'w ipamd \<Rightarrow> 'w ipamd) \<Rightarrow> ('w ipamd \<Rightarrow> bool) \<Rightarrow> bool" where
  "quiet env I \<longleftrightarrow> (\<forall>d s. I s \<longrightarrow> I (env d s) \<and> dataStore (env d s) = dataStore s
     \<and> poolSize (env d s) = poolSize s \<and> maxPoolSize (env d s) = maxPoolSize s)"

lemma too_low_iff: "nodeIPPoolTooLow s \<longleftrightarrow> free_ips (dataStore s) < poolSize s"
  and too_high_iff: "nodeIPPoolTooHigh s \<longleftrightarrow> maxPoolSize s < free_ips (dataStore s)"
  by (simp_all add: nodeIPPoolTooLow_def nodeIPPoolTooHigh_def GetStats_def free_ips_def)

text \<open>One round below the lower bound: one more NIC, and one more free address if it was set up.\<close>

lemma round_low:
  assumes "supplies api napi linkList strerror now ok I" and "quiet env I" and "I s"
    and "free_ips (dataStore s) < poolSize s"
  obtains s' n where "reconcile_round api napi linkList strerror ord clk now env s = (Ok (), s')" "I s'"
    "free_ips (dataStore s') = free_ips (dataStore s) + (if ok then 1 else 0)"
    "nic_ids (dataStore s') = insert n (nic_ids (dataStore s))" "n \<notin> nic_ids (dataStore s)"
    "poolSize s' = poolSize s" "maxPoolSize s' = maxPoolSize s"
proof -
  let ?s = "env defaultSleepDuration s"
  have e: "I ?s" "dataStore ?s = dataStore s" "poolSize ?s = poolSize s" "maxPoolSize ?s = maxPoolSize s"
    using assms(2,3) by (simp_all add: quiet_def)
  obtain v nic s1 nic2 s2 subnet where v: "own_vxnet ?s = Some v" and c: "ext (api_CreateNic api (vx_ID v)) ?s = (Ok nic, s1)"
    and f: "fresh_nic (dataStore ?s) nic" and d: "device_ready linkList nic s1 = Some (nic2, s2)"
    and t: "net_text (ip_mem s2) (vx_Network v) = Some subnet"
    and ok: "fst (setupNic napi linkList strerror now nic s1) \<noteq> Panic"
      "fst (setupNic napi linkList strerror now nic s1) = Ok () \<longleftrightarrow> ok" "I (snd (setupNic napi linkList strerror now nic s1))"
    using assms(1) e(1) unfolding supplies_def by metis
  have s1: "dataStore s1 = dataStore s" "own_vxnet s1 = Some v" "poolSize s1 = poolSize s" "maxPoolSize s1 = maxPoolSize s"
    using ext_fields [of "api_CreateNic api (vx_ID v)" ?s] c v e by simp_all
  let ?u = "setupNic napi linkList strerror now nic s1"
  have u: "nic_ids (dataStore (snd ?u)) = insert (hn_ID nic) (nic_ids (dataStore s))"
    "poolSize (snd ?u) = poolSize s" "maxPoolSize (snd ?u) = maxPoolSize s"
    "free_ips (dataStore (snd ?u)) = free_ips (dataStore s) + (if ok then 1 else 0)"
    using setup_fresh_nic [OF _ d, of subnet napi strerror now] f s1 t e(2) ok(2) by (auto split: prod.splits)
  have "drop_error ?u = (Ok (), snd ?u)"
    using ok(1) by (simp add: prod_eq_iff split: outcome.split)
  then have "updateIPPoolIfRequired api napi linkList strerror ord clk now ?s = (Ok (), snd ?u)"
    using assms(4) e v c by (simp add: updateIPPoolIfRequired_def too_low_iff increaseIPPool_def tryAllocateNIC_def)
  then have "reconcile_round api napi linkList strerror ord clk now env s = (Ok (), env defaultSleepDuration (snd ?u))"
    by (simp add: reconcile_round_def nodeIPPoolReconcile_def)
  moreover have "I (env defaultSleepDuration (snd ?u))" "dataStore (env defaultSleepDuration (snd ?u)) = dataStore (snd ?u)"
    "poolSize (env defaultSleepDuration (snd ?u)) = poolSize (snd ?u)"
    "maxPoolSize (env defaultSleepDuration (snd ?u)) = maxPoolSize (snd ?u)"
    using assms(2) ok(3) by (simp_all add: quiet_def)
  ultimately show ?thesis
    using u f e(2) by (intro that [of "env defaultSleepDuration (snd ?u)" "hn_ID nic"]) (simp_all add: fresh_nic_def)
qed

lemma round_enough:
  assumes "quiet env I" and "I s" and "poolSize s \<le> free_ips (dataStore s)" and "free_ips (dataStore s) \<le> maxPoolSize s"
  obtains s' where "reconcile_round api napi linkList strerror ord clk now env s = (Ok (), s')" "I s'" "dataStore s' = dataStore s"
    "poolSize s' = poolSize s" "maxPoolSize s' = maxPoolSize s"
proof -
  let ?s = "env defaultSleepDuration s"
  have e: "I ?s" "dataStore ?s = dataStore s" "poolSize ?s = poolSize s" "maxPoolSize ?s = maxPoolSize s"
    using assms(1,2) by (simp_all add: quiet_def)
  then have "updateIPPoolIfRequired api napi linkList strerror ord clk now ?s = (Ok (), ?s)"
    using assms(3,4) by (simp add: updateIPPoolIfRequired_def too_low_iff too_high_iff)
  then have "reconcile_round api napi linkList strerror ord clk now env s = (Ok (), env defaultSleepDuration ?s)"
    by (simp add: reconcile_round_def nodeIPPoolReconcile_def)
  moreover have "I (env defaultSleepDuration ?s) \<and> dataStore (env defaultSleepDuration ?s) = dataStore s
      \<and> poolSize (env defaultSleepDuration ?s) = poolSize s \<and> maxPoolSize (env defaultSleepDuration ?s) = maxPoolSize s"
    using assms(1) e by (simp add: quiet_def)
  ultimately show ?thesis by (intro that [of "env defaultSleepDuration ?s"]) auto
qed

section \<open>Properties\<close>

text \<open>C13: the pool fills and then rests: while the cloud supplies fresh NICs and the node is
  otherwise quiet, after \<open>n\<close> rounds the number of free addresses is \<open>n\<close> more than at the start
  but never above the lower bound, and from the bound on the store does not change.\<close>

theorem pool_fills_to_bound:
  assumes "supplies api napi linkList strerror now True I" and "quiet env I" and "I s"
    and "free_ips (dataStore s) \<le> poolSize s" and "poolSize s \<le> maxPoolSize s"
  shows "\<exists>s'. rounds api napi linkList strerror ord clk now env n s = (Ok (), s')
    \<and> free_ips (dataStore s') = min (poolSize s) (free_ips (dataStore s) + int n)
    \<and> (free_ips (dataStore s) = poolSize s \<longrightarrow> dataStore s' = dataStore s)"
  using assms(3-5)
proof (induction n arbitrary: s)
  case (Suc n)
  show ?case
  proof (cases "free_ips (dataStore s) < poolSize s")
    case True
    obtain s1 where "reconcile_round api napi linkList strerror ord clk now env s = (Ok (), s1)" "I s1"
      "free_ips (dataStore s1) = free_ips (dataStore s) + 1" "poolSize s1 = poolSize s" "maxPoolSize s1 = maxPoolSize s"
      by (rule round_low [OF assms(1,2) Suc.prems(1) True, where ord = ord and clk = clk]) auto
    with Suc.IH [of s1] Suc.prems True show ?thesis by auto
  next
    case False
    obtain s1 where "reconcile_round api napi linkList strerror ord clk now env s = (Ok (), s1)" "I s1"
      "dataStore s1 = dataStore s" "poolSize s1 = poolSize s" "maxPoolSize s1 = maxPoolSize s"
      by (rule round_enough [OF assms(2) Suc.prems(1), where api = api and napi = napi and linkList = linkList and strerror = strerror
            and ord = ord and clk = clk and now = now]) (use False Suc.prems in auto)
    with Suc.IH [of s1] Suc.prems False show ?thesis by auto
  qed
qed simp

text \<open>C24: a NIC whose network cannot be set up is kept and never counted: while the cloud creates
  NICs and setting each up fails, the pool never grows and every round adds one more NIC,
  without bound.\<close>

theorem pool_leaks_failed_nics:
  assumes "supplies api napi linkList strerror now False I" and "quiet env I" and "I s"
    and "free_ips (dataStore s) < poolSize s"
  shows "\<exists>s'. rounds api napi linkList strerror ord clk now env n s = (Ok (), s')
    \<and> free_ips (dataStore s') = free_ips (dataStore s)
    \<and> card (nic_ids (dataStore s')) = card (nic_ids (dataStore s)) + n"
  using assms(3,4)
proof (induction n arbitrary: s)
  case (Suc n)
  obtain s1 m where "reconcile_round api napi linkList strerror ord clk now env s = (Ok (), s1)" "I s1"
    "free_ips (dataStore s1) = free_ips (dataStore s)" "poolSize s1 = poolSize s"
    "nic_ids (dataStore s1) = insert m (nic_ids (dataStore s))" "m \<notin> nic_ids (dataStore s)"
    by (rule round_low [OF assms(1,2) Suc.prems, where ord = ord and clk = clk]) auto
  with Suc.IH [of s1] Suc.prems show ?case by auto
qed simp

section \<open>Witnesses\<close>

text \<open>
  A cloud that numbers its NICs and, like the cloud client, gives them no device number, on the
  network of \<open>sample_net\<close>; the link of every NIC has index 3.
\<close>

definition numbering_mac :: string where "numbering_mac = ''52:54:00:00:00:01''"

definition numbering_links :: "(nat, link list) ext_call" where
  "numbering_links mw = (Ok [\<lparr> link_Name = ''eth1'', link_Index = 3, link_HardwareAddr = [0x52, 0x54, 0, 0, 0, 1], link_MTU = 1500,
     link_TxQLen = 0, link_Flags = 1, link_OperState = 6, link_NetNsID = 0, link_Peer = None \<rparr>], mw)"

definition numbering_cloud :: "nat cloud_api" where
  "numbering_cloud = (sample_cloud [sample_vxnet])\<lparr> api_CreateNic := (\<lambda>v (m, w).
     (Ok \<lparr> hn_ID = dec_nat w, hn_VxNet = None, hn_HardwareAddr = numbering_mac, hn_Address = dec_nat w, hn_DeviceNumber = 0,
           hn_IsPrimary = False \<rparr>, (m, Suc w))) \<rparr>"

definition numbered :: "nat ipamd \<Rightarrow> bool" where
  "numbered s \<longleftrightarrow> own_vxnet s = Some sample_vxnet \<and> (\<forall>n \<in> nic_ids (dataStore s). \<exists>k < ip_ext s. n = dec_nat k)"

lemma numbering_supplies_any:
  assumes "\<And>i m t sc mw. net_SetupNICNetwork N i m t sc mw = (if c then Ok () else Err (ErrorString ''no link''), mw)"
  shows "supplies numbering_cloud N numbering_links (\<lambda>_. '''') now c numbered"
  unfolding supplies_def
proof (intro allI impI)
  fix s assume s: "numbered s"
  let ?nic = "\<lparr> hn_ID = dec_nat (ip_ext s), hn_VxNet = None, hn_HardwareAddr = numbering_mac, hn_Address = dec_nat (ip_ext s),
    hn_DeviceNumber = 0, hn_IsPrimary = False \<rparr>"
  let ?s1 = "s\<lparr> ip_ext := Suc (ip_ext s) \<rparr>"
  have c: "ext (api_CreateNic numbering_cloud (vx_ID sample_vxnet)) s = (Ok ?nic, ?s1)"
    by (simp add: numbering_cloud_def ext_def)
  have f: "fresh_nic (dataStore s) ?nic"
    using s by (auto simp: fresh_nic_def numbered_def)
  let ?nic2 = "?nic\<lparr> hn_DeviceNumber := 3 \<rparr>"
  have d: "device_ready numbering_links ?nic ?s1 = Some (?nic2, ?s1)"
  proof -
    have "mac_string [0x52, 0x54, 0, 0, 0, 1] = numbering_mac" by code_simp
    then show ?thesis by (simp add: device_ready_def LinkByMacAddr_def ext_def numbering_links_def)
  qed
  obtain subnet where t: "net_text (ip_mem ?s1) (vx_Network sample_vxnet) = Some subnet"
    by (simp add: net_text_def sample_vxnet_def)
  have v: "own_vxnet s = Some sample_vxnet" using s by (simp add: numbered_def)
  have u: "case setupNic N numbering_links (\<lambda>_. '''') now ?nic ?s1 of (r, s') \<Rightarrow>
      r = (if c then Ok () else Err (ErrorString ''no link'')) \<and> nic_ids (dataStore s') = insert (dec_nat (ip_ext s)) (nic_ids (dataStore s))
      \<and> ip_ext s' = Suc (ip_ext s) \<and> own_vxnet s' = Some sample_vxnet"
  proof -
    have "fresh_nic (dataStore ?s1) ?nic" "Option.bind (own_vxnet ?s1) (\<lambda>v. net_text (ip_mem ?s1) (vx_Network v)) = Some subnet"
      using f t v by simp_all
    note setup_fresh_nic [OF this(1) d this(2), of N "\<lambda>_. ''''" now]
    moreover obtain r s' where "setupNic N numbering_links (\<lambda>_. '''') now ?nic ?s1 = (r, s')" by fastforce
    ultimately show ?thesis using v assms by simp
  qed
  have "numbered (snd (setupNic N numbering_links (\<lambda>_. '''') now ?nic ?s1))"
  proof -
    obtain r s' where e: "setupNic N numbering_links (\<lambda>_. '''') now ?nic ?s1 = (r, s')" by fastforce
    with u have "nic_ids (dataStore s') = insert (dec_nat (ip_ext s)) (nic_ids (dataStore s))" "ip_ext s' = Suc (ip_ext s)"
      "own_vxnet s' = Some sample_vxnet" by simp_all
    moreover have "\<exists>k < Suc (ip_ext s). n = dec_nat k" if "n \<in> insert (dec_nat (ip_ext s)) (nic_ids (dataStore s))" for n
      using that s unfolding numbered_def by (meson insertE lessI less_SucI)
    ultimately show ?thesis unfolding e numbered_def by simp
  qed
  moreover have "fst (setupNic N numbering_links (\<lambda>_. '''') now ?nic ?s1) = (if c then Ok () else Err (ErrorString ''no link''))"
    using u by (simp split: prod.splits)
  then have "fst (setupNic N numbering_links (\<lambda>_. '''') now ?nic ?s1) \<noteq> Panic"
    "fst (setupNic N numbering_links (\<lambda>_. '''') now ?nic ?s1) = Ok () \<longleftrightarrow> c"
    by simp_all
  ultimately show "\<exists>v nic s1 nic2 s2 subnet. own_vxnet s = Some v \<and> ext (api_CreateNic numbering_cloud (vx_ID v)) s = (Ok nic, s1)
        \<and> fresh_nic (dataStore s) nic \<and> device_ready numbering_links nic s1 = Some (nic2, s2)
        \<and> net_text (ip_mem s2) (vx_Network v) = Some subnet
        \<and> fst (setupNic N numbering_links (\<lambda>_. '''') now nic s1) \<noteq> Panic
        \<and> (fst (setupNic N numbering_links (\<lambda>_. '''') now nic s1) = Ok () \<longleftrightarrow> c)
        \<and> numbered (snd (setupNic N numbering_links (\<lambda>_. '''') now nic s1))"
    using v c f d t by (intro exI [of _ sample_vxnet] exI [of _ ?nic] exI [of _ ?nic2] exI [of _ ?s1] exI [of _ subnet] conjI)
qed

lemma numbering_supplies:
  "supplies numbering_cloud (sample_net b c) numbering_links (\<lambda>_. '''') now c numbered"
  by (rule numbering_supplies_any) (simp add: sample_net_def)

definition empty_pool :: "nat ipamd" where
  "empty_pool = (sample_ipamd sample_mem [sample_vxnet])\<lparr> own_vxnet := Some sample_vxnet \<rparr>"

lemma empty_pool_facts: "numbered empty_pool" "free_ips (dataStore empty_pool) = 0" "poolSize empty_pool = 3"
  "maxPoolSize empty_pool = 10" "quiet (\<lambda>_ s. s) numbered" "nic_ids (dataStore empty_pool) = {}"
  by (simp_all add: numbered_def empty_pool_def sample_ipamd_def NewIpamD_def NewDataStore_def free_ips_def quiet_def
      defaultPoolSize_def defaultMaxPoolSize_def)

lemma pool_fills_to_bound_witness:
  "\<exists>s'. rounds numbering_cloud (sample_net True True) numbering_links (\<lambda>_. '''') sample_order (\<lambda>_. (0, 0)) 0 (\<lambda>_ s. s) 5 empty_pool
      = (Ok (), s') \<and> free_ips (dataStore s') = 3"
  using pool_fills_to_bound [OF numbering_supplies empty_pool_facts(5,1), of True sample_order "\<lambda>_. (0, 0)" 0 5]
  by (auto simp: empty_pool_facts)

lemma pool_leaks_failed_nics_witness:
  "\<exists>s'. rounds numbering_cloud (sample_net True False) numbering_links (\<lambda>_. '''') sample_order (\<lambda>_. (0, 0)) 0 (\<lambda>_ s. s) 100 empty_pool
      = (Ok (), s') \<and> free_ips (dataStore s') = 0 \<and> card (nic_ids (dataStore s')) = 100"
  using pool_leaks_failed_nics [OF numbering_supplies empty_pool_facts(5,1), of True sample_order "\<lambda>_. (0, 0)" 0 100]
  by (auto simp: empty_pool_facts)

end
