(* ===== verification/DaemonSystem.thy ===== *)
theory DaemonSystem
  imports NicCloud PoolManager Handlers
begin

text \<open>
  The running daemon as a system of goroutines.  The pool manager of \<^verbatim>\<open>pool_manager.go\<close> is cut
  into its atomic steps, one call of the data store (which locks) or of the outside world each; \<open>mgr\<close> is
  where it stands.  Between any two of its steps the gRPC handlers may serve requests, each with one call
  of the data store or, for a deletion, with two that others may come between.

  \<open>mgr_steps_are_code\<close> shows that a round without interruption is \<^verbatim>\<open>updateIPPoolIfRequired\<close> as the code
  has it.
\<close>

section \<open>The pool manager, step by step\<close>

datatype mgr =
    CheckLow
  | CheckHigh
  | Create string
  | Number host_nic
  | Register host_nic
  | Wire host_nic
  | Offer host_nic
  | Shrink
  | Delete string
  | Rest

fun mgr_step ::
  "'w cloud_api \<Rightarrow> ('w, 'r) network_api \<Rightarrow> ('w, link list) ext_call \<Rightarrow> (errno \<Rightarrow> string) \<Rightarrow> go_order
   \<Rightarrow> (string \<Rightarrow> time \<times> time) \<Rightarrow> time \<Rightarrow> mgr \<Rightarrow> 'w ipamd \<Rightarrow> mgr go_result \<times> 'w ipamd" where
  "mgr_step api napi linkList strerror ord clk now CheckLow s =
     (if nodeIPPoolTooLow s
      then (case own_vxnet s of None \<Rightarrow> (Panic, s) | Some v \<Rightarrow> (Ok (Create (vx_ID v)), s))
      else (Ok CheckHigh, s))"
| "mgr_step api napi linkList strerror ord clk now CheckHigh s =
     (Ok (if nodeIPPoolTooHigh s then Shrink else Rest), s)"
| "mgr_step api napi linkList strerror ord clk now (Create v) s =
     on_result (ext (api_CreateNic api v) s) (\<lambda>nic s1. (Ok (Number nic), s1)) (\<lambda>_ s1. (Ok Rest, s1))"
| "mgr_step api napi linkList strerror ord clk now (Number nic) s =
     (if hn_DeviceNumber nic \<le> 0
      then on_result (LinkByMacAddr (hn_HardwareAddr nic) (ext linkList s))
             (\<lambda>l s1. (Ok (Register (nic\<lparr> hn_DeviceNumber := link_Index l \<rparr>)), s1)) (\<lambda>_ s1. (Ok Rest, s1))
      else (Ok (Register nic), s))"
| "mgr_step api napi linkList strerror ord clk now (Register nic) s =
     (let goon = (if hn_IsPrimary nic then Rest else Wire nic)
      in on_result (store (AddNIC (hn_ID nic) (hn_DeviceNumber nic) (hn_IsPrimary nic) now) s)
           (\<lambda>_ s1. (Ok goon, s1))
           (\<lambda>err s1. (Ok (if is_duplicate_nic strerror err then goon else Rest), s1)))"
| "mgr_step api napi linkList strerror ord clk now (Wire nic) s =
     (case Option.bind (own_vxnet s) (\<lambda>v. net_text (ip_mem s) (vx_Network v)) of
        None \<Rightarrow> (Panic, s)
      | Some subnet \<Rightarrow>
          on_result (ext (net_SetupNICNetwork napi (hn_Address nic) (hn_HardwareAddr nic) (hn_DeviceNumber nic) subnet) s)
            (\<lambda>_ s1. (Ok (Offer nic), s1)) (\<lambda>_ s1. (Ok Rest, s1)))"
| "mgr_step api napi linkList strerror ord clk now (Offer nic) s =
     on_result (store (AddIPv4AddressFromStore (hn_ID nic) (hn_Address nic)) s)
       (\<lambda>_ s1. (Ok Rest, s1)) (\<lambda>_ s1. (Ok Rest, s1))"
| "mgr_step api napi linkList strerror ord clk now Shrink s =
     check (store (RemoveUnusedNICFromStore ord clk) s)
       (\<lambda>nicid s1. (Ok (if nicid \<noteq> '''' then Delete nicid else Rest), s1))"
| "mgr_step api napi linkList strerror ord clk now (Delete nicid) s =
     on_result (ext (api_DeleteNic api nicid) s) (\<lambda>_ s1. (Ok Rest, s1)) (\<lambda>_ s1. (Ok Rest, s1))"
| "mgr_step api napi linkList strerror ord clk now Rest s = (Ok CheckLow, s)"

text \<open>At most \<open>n\<close> steps, up to the rest.\<close>

fun mgr_run ::
  "'w cloud_api \<Rightarrow> ('w, 'r) network_api \<Rightarrow> ('w, link list) ext_call \<Rightarrow> (errno \<Rightarrow> string) \<Rightarrow> go_order
   \<Rightarrow> (string \<Rightarrow> time \<times> time) \<Rightarrow> time \<Rightarrow> nat \<Rightarrow> mgr \<Rightarrow> 'w ipamd \<Rightarrow> mgr go_result \<times> 'w ipamd" where
  "mgr_run api napi linkList strerror ord clk now 0 pc s = (Ok pc, s)"
| "mgr_run api napi linkList strerror ord clk now (Suc n) pc s =
     (if pc = Rest then (Ok Rest, s)
      else check (mgr_step api napi linkList strerror ord clk now pc s) (\<lambda>pc' s'.
             mgr_run api napi linkList strerror ord clk now n pc' s'))"

text \<open>What is left of the round when the manager stands at a step, in the code's own terms.\<close>

definition finished :: "unit go_result \<times> 'w ipamd \<Rightarrow> mgr go_result \<times> 'w ipamd" where
  "finished = apfst (map_outcome id (\<lambda>_. Rest))"

lemma finished_simps [simp]: "finished (Ok u, s) = (Ok Rest, s)" "finished (Err e, s) = (Err e, s)" "finished (Panic, s) = (Panic, s)"
  by (simp_all add: finished_def)

lemma finished_on_result: "finished (on_result r f g) = on_result r (\<lambda>x s. finished (f x s)) (\<lambda>e s. finished (g e s))"
  by (cases r; cases "fst r") auto

lemma finished_drop_error: "finished (drop_error r) = on_result r (\<lambda>_ s. (Ok Rest, s)) (\<lambda>_ s. (Ok Rest, s))"
  by (cases r; cases "fst r") (auto simp: drop_error_def)

lemma run_rest [simp]: "mgr_run api napi linkList strerror ord clk now n Rest s = (Ok Rest, s)"
  by (cases n) simp_all

lemma on_result_nested:
  "on_result (on_result r f g) f' g' = on_result r (\<lambda>x s. on_result (f x s) f' g') (\<lambda>e s. on_result (g e s) f' g')"
  by (cases r; cases "fst r") auto

lemma run_unfold:
  "pc \<noteq> Rest \<Longrightarrow> mgr_run api napi linkList strerror ord clk now (numeral k) pc s =
     check (mgr_step api napi linkList strerror ord clk now pc s) (\<lambda>pc' s'.
             mgr_run api napi linkList strerror ord clk now (pred_numeral k) pc' s')"
  by (simp add: numeral_eq_Suc)

lemma run_offer:
  "mgr_run api napi linkList strerror ord clk now (Suc 0) (Offer nic) s =
     finished (drop_error (on_result (store (AddIPv4AddressFromStore (hn_ID nic) (hn_Address nic)) s)
       (\<lambda>_ s3. (Ok (), s3)) (\<lambda>_ s3. (Ok (), s3))))"
  by (simp add: check_def finished_drop_error on_result_nested)

lemma run_wire:
  "mgr_run api napi linkList strerror ord clk now 2 (Wire nic) s =
     finished (drop_error (case Option.bind (own_vxnet s) (\<lambda>v. net_text (ip_mem s) (vx_Network v)) of
        None \<Rightarrow> (Panic, s)
      | Some subnet \<Rightarrow>
          check (ext (net_SetupNICNetwork napi (hn_Address nic) (hn_HardwareAddr nic) (hn_DeviceNumber nic) subnet) s)
            (\<lambda>_ s2. on_result (store (AddIPv4AddressFromStore (hn_ID nic) (hn_Address nic)) s2)
               (\<lambda>_ s3. (Ok (), s3)) (\<lambda>_ s3. (Ok (), s3)))))"
  by (simp add: run_unfold check_def on_result_nested drop_error_def finished_on_result split: option.split)

lemma run_register:
  "mgr_run api napi linkList strerror ord clk now 3 (Register nic) s =
     finished (drop_error (setup_known_nic napi strerror now nic s))"
proof -
  obtain r s1 where a: "store (AddNIC (hn_ID nic) (hn_DeviceNumber nic) (hn_IsPrimary nic) now) s = (r, s1)" by (rule prod.exhaust)
  show ?thesis
    by (cases r) (simp_all add: run_unfold a setup_known_nic_def Let_def run_wire del: mgr_step.simps(6), simp_all add: drop_error_def)
qed

lemma run_number:
  "mgr_run api napi linkList strerror ord clk now 4 (Number nic) s =
     finished (drop_error (setupNic napi linkList strerror now nic s))"
proof (cases "hn_DeviceNumber nic \<le> 0")
  case True
  obtain r s1 where l: "LinkByMacAddr (hn_HardwareAddr nic) (ext linkList s) = (r, s1)" by (rule prod.exhaust)
  with True show ?thesis
    by (cases r) (simp_all add: run_unfold setupNic_def run_register del: mgr_step.simps(5), simp_all add: drop_error_def)
qed (simp add: run_unfold setupNic_def run_register del: mgr_step.simps(5))

lemma run_create:
  assumes "own_vxnet s = Some v"
  shows "mgr_run api napi linkList strerror ord clk now 5 (Create (vx_ID v)) s = finished (tryAllocateNIC api napi linkList strerror now s)"
proof -
  obtain r s1 where c: "ext (api_CreateNic api (vx_ID v)) s = (r, s1)" by (rule prod.exhaust)
  show ?thesis
    by (cases r) (simp_all add: run_unfold c assms tryAllocateNIC_def run_number del: mgr_step.simps(4))
qed

lemma run_shrink: "mgr_run api napi linkList strerror ord clk now 4 Shrink s = finished (decreaseIPPool api ord clk s)"
proof -
  obtain r s1 where c: "store (RemoveUnusedNICFromStore ord clk) s = (r, s1)" by (rule prod.exhaust)
  show ?thesis
    by (cases r) (simp_all add: run_unfold c decreaseIPPool_def drop_error_def finished_on_result check_def on_result_nested)
qed


section \<open>The system\<close>

text \<open>
  \<open>book\<close> is what the cloud has (\<open>nic_cloud\<close>).  \<open>manage\<close>: the pool manager makes a step; the NICs the cloud had
  before a creation are still there after it (the ID of a new NIC is new).  \<open>serve\<close>: a request for an address is
  answered.  \<open>release\<close>: one of the two calls by which a deletion may release an address.  \<open>outside\<close>: the
  world goes on and leaves the NICs of the node alone.
\<close>

inductive daemon_step ::
  "'w cloud_api \<Rightarrow> ('w, 'r) network_api \<Rightarrow> ('w, link list) ext_call \<Rightarrow> (errno \<Rightarrow> string) \<Rightarrow> ('w \<Rightarrow> bool)
   \<Rightarrow> ('w \<Rightarrow> string \<Rightarrow> string option) \<Rightarrow> mgr \<times> 'w ipamd \<Rightarrow> mgr \<times> 'w ipamd \<Rightarrow> bool"
  for api napi linkList strerror ok book where
  manage: "mgr_step api napi linkList strerror ord clk now pc s = (Ok pc', s') \<Longrightarrow>
    (\<And>v. pc = Create v \<Longrightarrow> book (ip_ext s) \<subseteq>\<^sub>m book (ip_ext s')) \<Longrightarrow>
    daemon_step api napi linkList strerror ok book (pc, s) (pc', s')"
| serve: "AddNetwork strerror ord now req s = (Ok reply, s') \<Longrightarrow>
    daemon_step api napi linkList strerror ok book (pc, s) (pc, s')"
| release: "store (UnassignPodIPv4Address ord now pod) s = (r, s') \<Longrightarrow>
    daemon_step api napi linkList strerror ok book (pc, s) (pc, s')"
| outside: "ok w \<Longrightarrow> book w = book (ip_ext s) \<Longrightarrow>
    daemon_step api napi linkList strerror ok book (pc, s) (pc, s\<lparr> ip_mem := m, ip_ext := w \<rparr>)"

inductive_cases daemon_step_elim [consumes 1, case_names manage serve release outside]:
  "daemon_step api napi linkList strerror ok book (pc, s) (pc', s')"

section \<open>The NICs of the store are the cloud's\<close>

definition backed :: "('w \<Rightarrow> string \<Rightarrow> string option) \<Rightarrow> 'w \<Rightarrow> data_store \<Rightarrow> bool" where
  "backed book w ds \<longleftrightarrow>
     (\<forall>nk. nic_dev ds nk \<noteq> None \<longrightarrow> book w nk \<noteq> None)
   \<and> (\<forall>nk ip. lookup_addr ds nk ip \<noteq> None \<longrightarrow> book w nk = Some ip)"

text \<open>What the manager carries from one step to the next: a NIC of the cloud, or one that is out of the store.\<close>

fun in_flight :: "('w \<Rightarrow> string \<Rightarrow> string option) \<Rightarrow> 'w \<Rightarrow> data_store \<Rightarrow> mgr \<Rightarrow> bool" where
  "in_flight book w ds (Number nic) = (book w (hn_ID nic) = Some (hn_Address nic))"
| "in_flight book w ds (Register nic) = (book w (hn_ID nic) = Some (hn_Address nic))"
| "in_flight book w ds (Wire nic) = (book w (hn_ID nic) = Some (hn_Address nic))"
| "in_flight book w ds (Offer nic) = (book w (hn_ID nic) = Some (hn_Address nic))"
| "in_flight book w ds (Delete i) = (nic_dev ds i = None)"
| "in_flight book w ds _ = True"

definition safe :: "('w \<Rightarrow> bool) \<Rightarrow> ('w \<Rightarrow> string \<Rightarrow> string option) \<Rightarrow> mgr \<times> 'w ipamd \<Rightarrow> bool" where
  "safe ok book ps \<longleftrightarrow> (case ps of (pc, s) \<Rightarrow>
     ok (ip_ext s) \<and> exclusive (dataStore s) \<and> backed book (ip_ext s) (dataStore s)
     \<and> in_flight book (ip_ext s) (dataStore s) pc)"

lemma backedI:
  assumes "\<And>nk d. nic_dev ds nk = Some d \<Longrightarrow> \<exists>ip. book w nk = Some ip"
    and "\<And>nk ip a. lookup_addr ds nk ip = Some a \<Longrightarrow> book w nk = Some ip"
  shows "backed book w ds"
  using assms unfolding backed_def by blast

lemma backedD:
  assumes "backed book w ds"
  shows "nic_dev ds nk = Some d \<Longrightarrow> \<exists>ip. book w nk = Some ip" and "lookup_addr ds nk ip = Some a \<Longrightarrow> book w nk = Some ip"
  using assms unfolding backed_def by blast+

lemma lookup_nic_dev: "nic_dev ds nk = None \<Longrightarrow> lookup_addr ds nk ip = None"
  by (cases "map_of (ds_nicIPPools ds) nk") (auto simp: nic_dev_def lookup_addr_def)

text \<open>The store may lose NICs, the cloud may gain them.\<close>

lemma backed_mono:
  assumes "backed book w ds" and "\<And>nk. nic_dev ds' nk \<noteq> None \<Longrightarrow> nic_dev ds nk \<noteq> None"
    and "\<And>nk ip. lookup_addr ds' nk ip \<noteq> None \<Longrightarrow> lookup_addr ds nk ip \<noteq> None"
    and "\<And>nk. nic_dev ds' nk \<noteq> None \<Longrightarrow> book w' nk = book w nk"
  shows "backed book w' ds'"
proof (rule backedI)
  show "\<exists>ip. book w' nk = Some ip" if "nic_dev ds' nk = Some d" for nk d
    using assms(2,4) [of nk] that backedD(1) [OF assms(1), of nk] by auto
  show "book w' nk = Some ip" if "lookup_addr ds' nk ip = Some a" for nk ip a
    using assms(3) [of nk ip] assms(4) [of nk] that lookup_nic_dev [of ds' nk ip] backedD(2) [OF assms(1), of nk ip]
    by (cases "nic_dev ds' nk") auto
qed

lemma backed_AddNIC:
  assumes "backed book w ds" and "book w n = Some ip"
  shows "backed book w (snd (AddNIC n d p now ds))"
  using backedD [OF assms(1)] assms(2) by (intro backedI) (auto simp: views split: if_splits)

lemma backed_AddIP:
  assumes "backed book w ds" and "book w n = Some ip"
  shows "backed book w (snd (AddIPv4AddressFromStore n ip ds))"
  using backedD [OF assms(1)] assms(2) by (intro backedI) (auto simp: views split: if_splits)

lemma legal_offer:
  assumes "\<And>i j ip. book w i = Some ip \<Longrightarrow> book w j = Some ip \<Longrightarrow> i = j" and "\<And>i. book w i \<noteq> Some ''''"
    and "ds_ok ds" and "backed book w ds" and "book w n = Some ip"
  shows "ds_legal ds (OpAddIP n ip)"
proof -
  have "nk = n" if "(nk, nic) \<in> set (ds_nicIPPools ds)" "ip \<in> set (gm_keys (nic_IPv4Addresses nic))" for nk nic
  proof -
    from that(1) assms(3) have "map_of (ds_nicIPPools ds) nk = Some nic" by (simp add: store_rules)
    with that(2) obtain a where "lookup_addr ds nk ip = Some a"
      by (cases "map_of (nic_IPv4Addresses nic) ip") (auto simp: lookup_addr_known map_of_eq_None_iff)
    with backedD(2) [OF assms(4)] assms(1,5) show ?thesis by blast
  qed
  with assms(2,5) show ?thesis by auto
qed

text \<open>The calls of the handlers change no NIC and no set of addresses.\<close>

lemma handler_calls_keep:
  assumes "ds_ok ds"
  shows "nic_dev (snd (AssignPodIPv4Address ord now pod ds)) = nic_dev ds"
    and "lookup_addr (snd (AssignPodIPv4Address ord now pod ds)) nk ip \<noteq> None \<Longrightarrow> lookup_addr ds nk ip \<noteq> None"
    and "nic_dev (snd (UnassignPodIPv4Address ord now pod ds)) = nic_dev ds"
    and "lookup_addr (snd (UnassignPodIPv4Address ord now pod ds)) nk ip \<noteq> None \<Longrightarrow> lookup_addr ds nk ip \<noteq> None"
proof -
  have "nic_dev (snd (AssignPodIPv4Address ord now pod ds)) = nic_dev ds
      \<and> (lookup_addr (snd (AssignPodIPv4Address ord now pod ds)) nk ip \<noteq> None \<longrightarrow> lookup_addr ds nk ip \<noteq> None)"
    using assms
  proof (cases rule: AssignPod_cases [of ds pod ord now])
    case (taken nk' nic ak a)
    with take_address_views [OF taken(2,3), of pod] show ?thesis by (auto simp: lookup_addr_known)
  qed simp_all
  moreover have "nic_dev (snd (UnassignPodIPv4Address ord now pod ds)) = nic_dev ds
      \<and> (lookup_addr (snd (UnassignPodIPv4Address ord now pod ds)) nk ip \<noteq> None \<longrightarrow> lookup_addr ds nk ip \<noteq> None)"
    using assms
  proof (cases rule: UnassignPod_cases [of ds pod ord now])
    case (freed e nk' nic a)
    with release_address_views [OF freed(2,3), of "pod_key_of pod" now] show ?thesis by (auto simp: lookup_addr_known)
  qed simp_all
  ultimately show "nic_dev (snd (AssignPodIPv4Address ord now pod ds)) = nic_dev ds"
    and "lookup_addr (snd (AssignPodIPv4Address ord now pod ds)) nk ip \<noteq> None \<Longrightarrow> lookup_addr ds nk ip \<noteq> None"
    and "nic_dev (snd (UnassignPodIPv4Address ord now pod ds)) = nic_dev ds"
    and "lookup_addr (snd (UnassignPodIPv4Address ord now pod ds)) nk ip \<noteq> None \<Longrightarrow> lookup_addr ds nk ip \<noteq> None"
    by blast+
qed

lemma RemoveUnused_effect:
  assumes "ds_ok ds" and "RemoveUnusedNICFromStore ord clk ds = (Ok nk, ds')" 
  shows "nk \<noteq> '''' \<Longrightarrow> nic_dev ds' nk = None" and "nic_dev ds' j \<noteq> None \<Longrightarrow> nic_dev ds j \<noteq> None"
    and "lookup_addr ds' j ip \<noteq> None \<Longrightarrow> lookup_addr ds j ip \<noteq> None"
  using assms(1)
  by (cases rule: RemoveUnused_cases [of ds clk ord]; use assms(2) in \<open>auto simp: remove_nic_views split: if_splits\<close>)+

lemma in_flight_mono:
  assumes "in_flight book w ds pc" and "nic_dev ds' = nic_dev ds" and "book w' = book w"
  shows "in_flight book w' ds' pc"
  using assms by (cases pc) simp_all

lemma safe_store_call:
  assumes "safe ok book (pc, s)" and "ip_ext s' = ip_ext s" and "exclusive (dataStore s')"
    and "nic_dev (dataStore s') = nic_dev (dataStore s)"
    and "\<And>nk ip. lookup_addr (dataStore s') nk ip \<noteq> None \<Longrightarrow> lookup_addr (dataStore s) nk ip \<noteq> None"
  shows "safe ok book (pc, s')"
proof -
  from assms(1) have s: "backed book (ip_ext s) (dataStore s)" "in_flight book (ip_ext s) (dataStore s) pc" "ok (ip_ext s)"
    by (simp_all add: safe_def)
  have "backed book (ip_ext s) (dataStore s')"
    using assms(4,5) by (intro backed_mono [OF s(1)]) simp_all
  with assms(2,3) s(3) in_flight_mono [OF s(2) assms(4)] show ?thesis by (simp add: safe_def)
qed

lemma safe_ds: "safe ok book (pc, s) \<Longrightarrow> exclusive (dataStore s) \<and> ds_ok (dataStore s)"
  by (auto simp: safe_def exclusive_ok)

lemma AddNetwork_store:
  assumes "AddNetwork strerror ord now req s = (r, s')"
  shows "dataStore s' = snd (AssignPodIPv4Address ord now (add_pod req) (dataStore s))" and "ip_ext s' = ip_ext s"
proof -
  have "reply_subnets t = Some (subnets, t') \<Longrightarrow> dataStore t' = dataStore t \<and> ip_ext t' = ip_ext t" for t t' :: "'a ipamd" and subnets
    by (auto simp: reply_subnets_def bind_eq_Some_conv split: option.splits if_splits)
  moreover obtain x t where t: "store (AssignPodIPv4Address ord now (add_pod req)) s = (x, t)" by (rule prod.exhaust)
  moreover have "dataStore t = snd (AssignPodIPv4Address ord now (add_pod req) (dataStore s))" "ip_ext t = ip_ext s"
    using t by (auto simp: store_def split: prod.splits)
  ultimately show "dataStore s' = snd (AssignPodIPv4Address ord now (add_pod req) (dataStore s))" "ip_ext s' = ip_ext s"
    using assms by (auto simp: AddNetwork_def split: option.splits outcome.splits)
qed

lemma safe_serve:
  assumes "safe ok book (pc, s)" and "AddNetwork strerror ord now req s = (r, s')"
  shows "safe ok book (pc, s')"
proof -
  note st = AddNetwork_store [OF assms(2)] and ds = safe_ds [OF assms(1)]
  show ?thesis
    using st handler_calls_keep(1,2) [of "dataStore s" ord now "add_pod req"] Assign_exclusive [of "dataStore s" ord now "add_pod req"] ds
    by (intro safe_store_call [OF assms(1)]) simp_all
qed

lemma safe_release:
  assumes "safe ok book (pc, s)" and "store (UnassignPodIPv4Address ord now pod) s = (r, s')"
  shows "safe ok book (pc, s')"
proof -
  have st: "dataStore s' = snd (UnassignPodIPv4Address ord now pod (dataStore s))" "ip_ext s' = ip_ext s"
    using assms(2) by (auto simp: store_def split: prod.splits)
  show ?thesis
    using st handler_calls_keep(3,4) [of "dataStore s" ord now pod] Unassign_exclusive [of "dataStore s" ord now pod] safe_ds [OF assms(1)]
    by (intro safe_store_call [OF assms(1)]) simp_all
qed

lemma safe_outside:
  "safe ok book (pc, s) \<Longrightarrow> ok w \<Longrightarrow> book w = book (ip_ext s) \<Longrightarrow> safe ok book (pc, s\<lparr> ip_mem := m, ip_ext := w \<rparr>)"
  using in_flight_mono [of book "ip_ext s" "dataStore s" pc "dataStore s" w] by (auto simp: safe_def backed_def)

text \<open>A step of the manager that leaves the store and the NICs of the cloud alone.\<close>

lemma safe_move:
  "safe ok book (pc, s) \<Longrightarrow> dataStore s' = dataStore s \<Longrightarrow> ok (ip_ext s') \<Longrightarrow> book (ip_ext s') = book (ip_ext s) \<Longrightarrow>
   in_flight book (ip_ext s) (dataStore s) pc' \<Longrightarrow> safe ok book (pc', s')"
  using in_flight_mono [of book "ip_ext s" "dataStore s" pc' "dataStore s'" "ip_ext s'"] by (auto simp: safe_def backed_def)

context nic_cloud
begin

lemma safe_manage:
  assumes net: "\<And>i m d c. leaves ok book (net_SetupNICNetwork napi i m d c)" and links: "leaves ok book linkList"
    and safe: "safe ok book (pc, s)" and step: "mgr_step api napi linkList strerror ord clk now pc s = (Ok pc', s')"
    and kept: "\<And>v. pc = Create v \<Longrightarrow> book (ip_ext s) \<subseteq>\<^sub>m book (ip_ext s')"
  shows "safe ok book (pc', s')"
proof -
  from safe have s: "ok (ip_ext s)" "exclusive (dataStore s)" "backed book (ip_ext s) (dataStore s)"
    "in_flight book (ip_ext s) (dataStore s) pc" by (simp_all add: safe_def)
  show ?thesis
  proof (cases pc)
    case CheckLow
    with step safe show ?thesis by (auto simp: safe_def split: if_splits option.splits)
  next
    case CheckHigh
    with step safe show ?thesis by (auto simp: safe_def split: if_splits)
  next
    case (Create v)
    obtain r s1 where c: "ext (api_CreateNic api v) s = (r, s1)" by (rule prod.exhaust)
    have s': "s' = s1" "pc' = (case r of Ok nic \<Rightarrow> Number nic | _ \<Rightarrow> Rest)" using step Create c by (cases r; simp)+
    note ec = ext_create [OF s(1) c]
    have ds: "dataStore s1 = dataStore s" using ext_fields(1) [of "api_CreateNic api v" s] c by simp
    have "book (ip_ext s1) nk = book (ip_ext s) nk" if "nic_dev (dataStore s) nk \<noteq> None" for nk
      using kept [OF Create] backedD(1) [OF s(3), of nk] that s'(1) by (force simp: map_le_def)
    with s(3) ds have "backed book (ip_ext s1) (dataStore s1)" by (intro backed_mono [OF s(3)]) simp_all
    moreover have "in_flight book (ip_ext s1) (dataStore s1) pc'" using ec(2) s'(2) by (cases r) simp_all
    ultimately show ?thesis using s' ec(1) s(2) ds by (simp add: safe_def)
  next
    case (Number nic)
    obtain r s1 where l: "ext linkList s = (r, s1)" by (rule prod.exhaust)
    have "dataStore s1 = dataStore s" using ext_fields(1) [of linkList s] l by simp
    note same = this ext_leaves [OF links s(1) l]
    show ?thesis
    proof (cases "hn_DeviceNumber nic \<le> 0")
      case True
      have "\<exists>x. LinkByMacAddr (hn_HardwareAddr nic) (r, s1) = (x, s1)" by (cases r) (simp_all add: LinkByMacAddr_def)
      then obtain x where "LinkByMacAddr (hn_HardwareAddr nic) (r, s1) = (x, s1)" ..
      with step Number l True have "s' = s1" "pc' = Rest \<or> (\<exists>i. pc' = Register (nic\<lparr> hn_DeviceNumber := i \<rparr>))"
        by (cases x; auto)+
      with same s(4) Number show ?thesis by (auto intro!: safe_move [OF safe])
    qed (use step Number safe in \<open>auto simp: safe_def\<close>)
  next
    case (Register nic)
    obtain r s1 where a: "store (AddNIC (hn_ID nic) (hn_DeviceNumber nic) (hn_IsPrimary nic) now) s = (r, s1)" by (rule prod.exhaust)
    then have s1: "dataStore s1 = snd (AddNIC (hn_ID nic) (hn_DeviceNumber nic) (hn_IsPrimary nic) now (dataStore s))" "ip_ext s1 = ip_ext s"
      by (auto simp: store_def split: prod.splits)
    have "s' = s1" "pc' = Rest \<or> pc' = Wire nic" using step Register a by (cases r; auto simp: Let_def split: if_splits)+
    with s s1 Register AddNIC_exclusive [OF s(2)] backed_AddNIC [OF s(3)] show ?thesis by (auto simp: safe_def)
  next
    case (Wire nic)
    then obtain subnet where n: "Option.bind (own_vxnet s) (\<lambda>v. net_text (ip_mem s) (vx_Network v)) = Some subnet"
      using step by (cases "Option.bind (own_vxnet s) (\<lambda>v. net_text (ip_mem s) (vx_Network v))") auto
    let ?op = "net_SetupNICNetwork napi (hn_Address nic) (hn_HardwareAddr nic) (hn_DeviceNumber nic) subnet"
    obtain r s1 where e: "ext ?op s = (r, s1)" by (rule prod.exhaust)
    have "dataStore s1 = dataStore s" using ext_fields(1) [of ?op s] e by simp
    moreover have "s' = s1" "pc' = Rest \<or> pc' = Offer nic" using step Wire n e by (cases r; auto)+
    ultimately show ?thesis using ext_leaves [OF net s(1) e] s(4) Wire by (auto intro!: safe_move [OF safe])
  next
    case (Offer nic)
    obtain r s1 where a: "store (AddIPv4AddressFromStore (hn_ID nic) (hn_Address nic)) s = (r, s1)" by (rule prod.exhaust)
    then have s1: "dataStore s1 = snd (AddIPv4AddressFromStore (hn_ID nic) (hn_Address nic) (dataStore s))" "ip_ext s1 = ip_ext s"
      by (auto simp: store_def split: prod.splits)
    have "s' = s1" "pc' = Rest" using step Offer a by (cases r; simp)+
    moreover have "ds_legal (dataStore s) (OpAddIP (hn_ID nic) (hn_Address nic))"
      using legal_offer [OF _ _ exclusive_ok [OF s(2)] s(3), of "hn_ID nic" "hn_Address nic"] book_inj [OF s(1)] book_nonempty [OF s(1)]
        s(4) Offer by simp
    ultimately show ?thesis using s s1 Offer AddIP_exclusive [OF s(2)] backed_AddIP [OF s(3)] by (auto simp: safe_def)
  next
    case Shrink
    obtain r s1 where a: "store (RemoveUnusedNICFromStore ord clk) s = (r, s1)" by (rule prod.exhaust)
    then have s1: "RemoveUnusedNICFromStore ord clk (dataStore s) = (r, dataStore s1)" "ip_ext s1 = ip_ext s"
      by (auto simp: store_def split: prod.splits)
    with step Shrink a obtain nk where r: "r = Ok nk" "s' = s1" "pc' = (if nk \<noteq> '''' then Delete nk else Rest)" by (cases r) auto
    note eff = RemoveUnused_effect [OF exclusive_ok [OF s(2)] s1(1) [unfolded r(1)]]
    have "backed book (ip_ext s) (dataStore s1)" using eff(2,3) by (intro backed_mono [OF s(3)]) auto
    moreover have "exclusive (dataStore s1)" using RemoveUnused_exclusive [OF s(2), of ord clk] s1(1) by simp
    ultimately show ?thesis using r s s1 eff(1) by (auto simp: safe_def)
  next
    case (Delete i)
    obtain r s1 where d: "ext (api_DeleteNic api i) s = (r, s1)" by (rule prod.exhaust)
    have ds: "dataStore s1 = dataStore s" using ext_fields(1) [of "api_DeleteNic api i" s] d by simp
    have "s' = s1" "pc' = Rest" using step Delete d by (cases r; simp)+
    moreover have "book (ip_ext s1) nk = book (ip_ext s) nk" if "nic_dev (dataStore s) nk \<noteq> None" for nk
      using ext_delete(2) [OF s(1) d, of nk] s(4) Delete that by (cases "nk = i") auto
    then have "backed book (ip_ext s1) (dataStore s1)" using ds by (intro backed_mono [OF s(3)]) simp_all
    ultimately show ?thesis using ext_delete(1) [OF s(1) d] ds s(2) by (simp add: safe_def)
  next
    case Rest
    with step safe show ?thesis by (auto simp: safe_def)
  qed
qed

lemma safe_step:
  assumes "\<And>i m d c. leaves ok book (net_SetupNICNetwork napi i m d c)" and "leaves ok book linkList"
    and "safe ok book ps" and "daemon_step api napi linkList strerror ok book ps ps'"
  shows "safe ok book ps'"
  using assms(4,3)
proof cases
  case (manage ord clk now pc s pc' s')
  with safe_manage [OF assms(1,2)] assms(3) show ?thesis by blast
qed (auto intro: safe_serve safe_release safe_outside)

lemma safe_run:
  assumes "\<And>i m d c. leaves ok book (net_SetupNICNetwork napi i m d c)" and "leaves ok book linkList"
    and "(daemon_step api napi linkList strerror ok book)\<^sup>*\<^sup>* ps ps'" and "safe ok book ps"
  shows "safe ok book ps'"
  using assms(3,4) by (induction rule: rtranclp_induct) (auto intro: safe_step [OF assms(1,2)])

end

end
