(* ===== verification/Recovery.thy ===== *)
theory Recovery
  imports Handlers
begin

text \<open>
  What a restarted daemon knows of the pods that already run: the loop of
  \<^verbatim>\<open>prepareLocalPods\<close> gives every pod the address it reports, and what happens when the pod is
  deleted later.
\<close>

section \<open>One pod\<close>

lemma on_result_same: "on_result r (\<lambda>_. f) (\<lambda>_. f) = (if fst r = Panic then (Panic, snd r) else f (snd r))"
  by (cases r; cases "fst r") auto

lemma prepare_pod_store:
  "dataStore (snd (prepare_pod napi ord now rules pod s)) =
     (if pod_IP pod = '''' then dataStore s else snd (AssignPodIPv4Address ord now pod (dataStore s)))"
  by (auto simp: prepare_pod_def Let_def on_result_same split: option.split)

text \<open>The recovery of one pod, on the store alone.\<close>

lemma recover_pod:
  assumes ex: "exclusive ds" and ip: "pod_IP pod \<noteq> ''''" and fresh: "pod_ip ds (pod_key_of pod) = None"
    and free: "\<And>k e. pod_ip ds k = Some e \<Longrightarrow> pi_IP e \<noteq> pod_IP pod"
  obtains (taken) ds' d nk where "snd (AssignPodIPv4Address ord now pod ds) = ds'" "exclusive ds'"
      "pod_ip ds' = (pod_ip ds)(pod_key_of pod \<mapsto> \<lparr> pi_IP = pod_IP pod, pi_DeviceNumber = d \<rparr>)" "nic_dev ds nk = Some d"
      "\<And>nk ip. lookup_addr ds' nk ip = None \<longleftrightarrow> lookup_addr ds nk ip = None"
  | (absent) "snd (AssignPodIPv4Address ord now pod ds) = ds" "\<And>nk. lookup_addr ds nk (pod_IP pod) = None"
proof -
  have legal: "ds_legal ds (OpAssign ord now pod)"
    using free ds_ok_wf(2) [OF exclusive_ok [OF ex]] by (auto simp: pod_ip_def)
  have ex': "exclusive (snd (AssignPodIPv4Address ord now pod ds))" using Assign_exclusive [OF ex legal] .
  from exclusive_ok [OF ex] show ?thesis
  proof (cases rule: AssignPod_cases [of ds pod ord now])
    case (taken nk nic ak a)
    have l: "lookup_addr ds nk ak = Some a" using taken(2,3) by (simp add: lookup_addr_known)
    have "addr_Address a = ak" using exclusive_ok [OF ex] l by (rule lookup_addr_Address)
    moreover from this have "ak = pod_IP pod" using taken(4) ip by (auto simp: takes_def)
    moreover note v = take_address_views [OF taken(2,3), of pod]
    moreover have "nic_dev ds nk = Some (nic_DeviceNumber nic)" using taken(2) by (simp add: nic_dev_def)
    ultimately show ?thesis
      using ex' taken(5) l that(1) [of "take_address pod nk nic ak a ds" "nic_DeviceNumber nic" nk] by simp
  next
    case none
    have "lookup_addr ds nk (pod_IP pod) = None" for nk
    proof (rule ccontr)
      assume "lookup_addr ds nk (pod_IP pod) \<noteq> None"
      then obtain a where l: "lookup_addr ds nk (pod_IP pod) = Some a" by blast
      then obtain nic where n: "map_of (ds_nicIPPools ds) nk = Some nic" "map_of (nic_IPv4Addresses nic) (pod_IP pod) = Some a"
        by (rule lookup_addr_SomeE)
      from none(3) [OF n] lookup_addr_Address [OF exclusive_ok [OF ex] l] ip show False by (simp add: takes_def)
    qed
    then show ?thesis using none(2) that(2) by simp
  qed (use fresh in \<open>auto simp: pod_ip_def\<close>)
qed

section \<open>All pods\<close>

text \<open>The pods still to be recovered do not clash with what the store already knows.\<close>

definition recoverable :: "data_store \<Rightarrow> k8s_pod_info list \<Rightarrow> bool" where
  "recoverable ds pods \<longleftrightarrow>
     distinct (List.map pod_key_of pods) \<and> distinct (List.map pod_IP (filter (\<lambda>p. pod_IP p \<noteq> '''') pods))
     \<and> list_all (\<lambda>p. pod_ip ds (pod_key_of p) = None) pods
     \<and> list_all (\<lambda>p. list_all (\<lambda>(k, e). pi_IP e \<noteq> pod_IP p) (ds_podsIP ds)) pods"

lemma recoverable_Cons:
  assumes "exclusive ds" and "recoverable ds (p # pods)" and "exclusive ds'"
    and "pod_ip ds' = pod_ip ds \<or> pod_IP p \<noteq> '''' \<and> (\<exists>d. pod_ip ds' = (pod_ip ds)(pod_key_of p \<mapsto> \<lparr> pi_IP = pod_IP p, pi_DeviceNumber = d \<rparr>))"
  shows "recoverable ds' pods"
proof -
  have iff: "list_all (\<lambda>p. list_all (\<lambda>(k, e). pi_IP e \<noteq> pod_IP p) (ds_podsIP x)) ps
      \<longleftrightarrow> (\<forall>p \<in> set ps. \<forall>k e. pod_ip x k = Some e \<longrightarrow> pi_IP e \<noteq> pod_IP p)" if "exclusive x" for x ps
    using ds_ok_wf(2) [OF exclusive_ok [OF that]] by (auto simp: pod_ip_def list_all_iff)
  have new: "pod_key_of q \<noteq> pod_key_of p \<and> (pod_IP p \<noteq> '''' \<longrightarrow> pod_IP q \<noteq> pod_IP p)" if "q \<in> set pods" for q
  proof -
    have "pod_key_of q \<in> pod_key_of ` set pods" using that by simp
    moreover have "pod_IP q \<noteq> '''' \<Longrightarrow> pod_IP q \<in> pod_IP ` {x \<in> set pods. pod_IP x \<noteq> ''''}" using that by blast
    ultimately show ?thesis using assms(2) by (auto simp: recoverable_def)
  qed
  have old: "pod_ip ds (pod_key_of q) = None" "pod_ip ds k = Some e \<longrightarrow> pi_IP e \<noteq> pod_IP q"
    if "q \<in> set pods" for q k e
    using assms(2) that by (auto simp: recoverable_def list_all_iff pod_ip_def dest!: map_of_SomeD)
  have "pod_ip ds' (pod_key_of q) = None \<and> (\<forall>k e. pod_ip ds' k = Some e \<longrightarrow> pi_IP e \<noteq> pod_IP q)"
    if "q \<in> set pods" for q
    using assms(4) new [OF that] old [OF that] by (auto split: if_split_asm)
  then show ?thesis
    using assms(2) unfolding recoverable_def iff [OF assms(3)] by (auto simp: list_all_iff split: if_splits)
qed

lemma recover_step:
  assumes "exclusive ds" and "recoverable ds (p # pods)"
    and "ds' = (if pod_IP p = '''' then ds else snd (AssignPodIPv4Address ord now p ds))"
  shows "exclusive ds'" and "recoverable ds' pods"
    and "pod_ip ds' = pod_ip ds \<and> (pod_IP p = '''' \<or> (\<forall>nk. lookup_addr ds nk (pod_IP p) = None))
         \<or> pod_IP p \<noteq> '''' \<and> (\<exists>d. pod_ip ds' = (pod_ip ds)(pod_key_of p \<mapsto> \<lparr> pi_IP = pod_IP p, pi_DeviceNumber = d \<rparr>))"
    and "lookup_addr ds' nk ip = None \<longleftrightarrow> lookup_addr ds nk ip = None"
    and "pod_ip ds (pod_key_of p) = None"
proof -
  show fresh: "pod_ip ds (pod_key_of p) = None" using assms(2) by (simp add: recoverable_def)
  have free: "pi_IP e \<noteq> pod_IP p" if "pod_ip ds k = Some e" for k e
    using that assms(2) by (auto simp: recoverable_def list_all_iff pod_ip_def dest!: map_of_SomeD)
  have step: "exclusive ds'
      \<and> (pod_ip ds' = pod_ip ds \<and> (pod_IP p = '''' \<or> (\<forall>nk. lookup_addr ds nk (pod_IP p) = None))
         \<or> pod_IP p \<noteq> '''' \<and> (\<exists>d. pod_ip ds' = (pod_ip ds)(pod_key_of p \<mapsto> \<lparr> pi_IP = pod_IP p, pi_DeviceNumber = d \<rparr>)))
      \<and> (\<forall>nk ip. lookup_addr ds' nk ip = None \<longleftrightarrow> lookup_addr ds nk ip = None)"
  proof (cases "pod_IP p = ''''")
    case True
    with assms(1,3) show ?thesis by simp
  next
    case False
    show ?thesis
      by (rule recover_pod [OF assms(1) False fresh free, where ord = ord and now = now]) (use assms(1,3) False in auto)
  qed
  then show "exclusive ds'"
    and "pod_ip ds' = pod_ip ds \<and> (pod_IP p = '''' \<or> (\<forall>nk. lookup_addr ds nk (pod_IP p) = None))
         \<or> pod_IP p \<noteq> '''' \<and> (\<exists>d. pod_ip ds' = (pod_ip ds)(pod_key_of p \<mapsto> \<lparr> pi_IP = pod_IP p, pi_DeviceNumber = d \<rparr>))"
    and "lookup_addr ds' nk ip = None \<longleftrightarrow> lookup_addr ds nk ip = None"
    by blast+
  from step show "recoverable ds' pods"
    by (intro recoverable_Cons [OF assms(1,2)]) auto
qed

lemma prepare_loop_recovers:
  assumes "exclusive (dataStore s)" and "recoverable (dataStore s) pods"
    and "prepare_loop napi ord now rules pods s = (Ok (), s')"
  shows "exclusive (dataStore s')
    \<and> (\<forall>k e. pod_ip (dataStore s) k = Some e \<longrightarrow> pod_ip (dataStore s') k = Some e)
    \<and> (\<forall>nk ip. lookup_addr (dataStore s') nk ip = None \<longleftrightarrow> lookup_addr (dataStore s) nk ip = None)
    \<and> (\<forall>p \<in> set pods. pod_IP p \<noteq> '''' \<longrightarrow> (\<exists>nk. lookup_addr (dataStore s) nk (pod_IP p) \<noteq> None) \<longrightarrow>
         (\<exists>d. pod_ip (dataStore s') (pod_key_of p) = Some \<lparr> pi_IP = pod_IP p, pi_DeviceNumber = d \<rparr>))"
  using assms
proof (induction pods arbitrary: s)
  case (Cons p pods)
  from Cons.prems(3) obtain s1 where s1: "prepare_pod napi ord now rules p s = (Ok (), s1)"
    and rest: "prepare_loop napi ord now rules pods s1 = (Ok (), s')"
    by (auto elim: check_Ok_elim)
  have ds1: "dataStore s1 = (if pod_IP p = '''' then dataStore s else snd (AssignPodIPv4Address ord now p (dataStore s)))"
    using prepare_pod_store [of napi ord now rules p s] s1 by simp
  note step = recover_step [OF Cons.prems(1,2) ds1]
  from Cons.IH [OF step(1,2) rest] step(4)
  have IH: "exclusive (dataStore s')"
    "\<forall>k e. pod_ip (dataStore s1) k = Some e \<longrightarrow> pod_ip (dataStore s') k = Some e"
    "\<forall>nk ip. lookup_addr (dataStore s') nk ip = None \<longleftrightarrow> lookup_addr (dataStore s) nk ip = None"
    "\<forall>p \<in> set pods. pod_IP p \<noteq> '''' \<longrightarrow> (\<exists>nk. lookup_addr (dataStore s) nk (pod_IP p) \<noteq> None) \<longrightarrow>
       (\<exists>d. pod_ip (dataStore s') (pod_key_of p) = Some \<lparr> pi_IP = pod_IP p, pi_DeviceNumber = d \<rparr>)"
    by simp_all
  have "\<forall>k e. pod_ip (dataStore s) k = Some e \<longrightarrow> pod_ip (dataStore s1) k = Some e"
    using step(3,5) by auto
  moreover have "pod_IP p \<noteq> '''' \<longrightarrow> (\<exists>nk. lookup_addr (dataStore s) nk (pod_IP p) \<noteq> None) \<longrightarrow>
       (\<exists>d. pod_ip (dataStore s1) (pod_key_of p) = Some \<lparr> pi_IP = pod_IP p, pi_DeviceNumber = d \<rparr>)"
    using step(3) by auto
  ultimately show ?case using IH by (simp only: list.set ball_simps) blast
qed simp

section \<open>Properties\<close>


text \<open>When the rules of the node cannot be listed, start-up reports success and recovers
  nothing: the addresses of the running pods stay free in the store, to be given to new pods.\<close>

theorem unlisted_rules_skip_recovery:
  assumes "ext (net_GetRuleList napi) s = (Err err, s1)"
  shows "prepareLocalPods napi ord now pods s = (Ok (), s1) \<and> dataStore s1 = dataStore s"
  using ext_fields(1) [of "net_GetRuleList napi" s] assms by (simp add: prepareLocalPods_def)

text \<open>C23: after a restart the address of a running pod is not released when the pod is deleted:
  the recovery records the pod under the ID of its application container, the deletion asks for
  the infrastructure container and then for no container, neither is found, and the reply
  reports success while the pod still owns the address.\<close>

theorem recovered_pod_keeps_address:
  assumes "exclusive (dataStore s)" and "recoverable (dataStore s) [pod]" and "pod_IP pod \<noteq> ''''"
    and "lookup_addr (dataStore s) nk (pod_IP pod) \<noteq> None"
    and "prepare_pod napi ord now rules pod s = (Ok (), s1)"
    and "dnr_K8S_POD_NAME req = pod_Name pod" and "dnr_K8S_POD_NAMESPACE req = pod_Namespace pod"
    and "pod_Container pod \<noteq> ''''" and "dnr_K8S_POD_INFRA_CONTAINER_ID req \<noteq> pod_Container pod"
    and "pod_ip (dataStore s) (pod_key_of (del_pod req)) = None"
    and "pod_ip (dataStore s) ((pod_key_of pod)\<lparr> key_container := '''' \<rparr>) = None"
  shows "\<exists>s2 d. DelNetwork strerror ord' now' id req s1
      = (Ok \<lparr> dnp_Success = True, dnp_IPv4Addr = '''', dnp_DeviceNumber = 0, dnp_Message = '''' \<rparr>, s2)
    \<and> pod_ip (dataStore s2) (pod_key_of pod) = Some \<lparr> pi_IP = pod_IP pod, pi_DeviceNumber = d \<rparr>"
proof -
  have fresh: "pod_ip (dataStore s) (pod_key_of pod) = None" using assms(2) by (simp add: recoverable_def)
  have free: "pi_IP e \<noteq> pod_IP pod" if "pod_ip (dataStore s) k = Some e" for k e
    using that assms(2) by (auto simp: recoverable_def list_all_iff pod_ip_def dest!: map_of_SomeD)
  have ds1: "dataStore s1 = snd (AssignPodIPv4Address ord now pod (dataStore s))"
    using prepare_pod_store [of napi ord now rules pod s] assms(3,5) by simp
  obtain d where ex1: "exclusive (dataStore s1)"
    and own: "pod_ip (dataStore s1) = (pod_ip (dataStore s))(pod_key_of pod \<mapsto> \<lparr> pi_IP = pod_IP pod, pi_DeviceNumber = d \<rparr>)"
    by (rule recover_pod [OF assms(1,3) fresh free, where ord = ord and now = now]) (use ds1 assms(4) in auto)
  have keys: "pod_key_of (del_pod req) \<noteq> pod_key_of pod"
    "pod_key_of ((del_pod req)\<lparr> pod_Container := '''' \<rparr>) = (pod_key_of pod)\<lparr> key_container := '''' \<rparr>"
    "(pod_key_of pod)\<lparr> key_container := '''' \<rparr> \<noteq> pod_key_of pod"
    using assms(6-9) by (auto simp: pod_key_of_def del_pod_def)
  have none: "pod_ip (dataStore s1) (pod_key_of (del_pod req)) = None"
    "pod_ip (dataStore s1) (pod_key_of ((del_pod req)\<lparr> pod_Container := '''' \<rparr>)) = None"
    using assms(10,11) own keys by (simp_all del: pod_keys)
  have "UnassignPodIPv4Address ord' now' ((del_pod req)\<lparr> pod_Container := '''' \<rparr>) (dataStore s1) = (Err ErrUnknownPod, dataStore s1)"
    using none(2) by (rule pool.unassign_stranger)
  from store_eq(2) [OF this] DelNetwork_unknown [OF none(1), of strerror ord' now' id] own show ?thesis by simp
qed

section \<open>Witnesses\<close>

definition restart_ipam :: "nat ipamd" where
  "restart_ipam = (sample_ipamd sample_mem [sample_vxnet])\<lparr> dataStore := run ds_step NewDataStore (take 3 sample_run) \<rparr>"

definition running_pod :: k8s_pod_info where
  "running_pod = \<lparr> pod_Name = ''q'', pod_Namespace = ''default'', pod_Container = ''docker://app'', pod_IP = ''10.0.0.2'', pod_UID = ''u'' \<rparr>"

lemma restart_exclusive: "exclusive (dataStore restart_ipam)"
proof -
  have "legal_run ds_step ds_legal NewDataStore (take 3 sample_run)" by code_simp
  from exclusive_sys.reachable_inv [OF this] show ?thesis by (simp add: restart_ipam_def)
qed

lemma restart_facts:
  "recoverable (dataStore restart_ipam) [running_pod]"
  "lookup_addr (dataStore restart_ipam) ''n1'' (pod_IP running_pod) \<noteq> None"
  "pod_ip (dataStore restart_ipam) (pod_key_of (del_pod (sample_del ''c''))) = None"
  "pod_ip (dataStore restart_ipam) ((pod_key_of running_pod)\<lparr> key_container := '''' \<rparr>) = None"
  "vpcSubnets restart_ipam = Some [''192.168.1.0/24'']"
  "fst (AssignPodIPv4Address sample_order 0 running_pod (dataStore restart_ipam)) = Ok (''10.0.0.2'', 3)"
  by code_simp+

lemma prepare_running_pod: "fst (prepare_pod (sample_net True True) sample_order 0 [] running_pod restart_ipam) = Ok ()"
proof -
  have "ip_string [10, 0, 0, 2] = pod_IP running_pod" by code_simp
  with GetVPNNet_dotted [of 10 0 0 2] have vpn: "GetVPNNet (pod_IP running_pod) = Some (ip_string [10, 0, 255, 254] @ ''/32'')"
    by simp
  obtain ds where a: "AssignPodIPv4Address sample_order 0 running_pod (dataStore restart_ipam) = (Ok (''10.0.0.2'', 3), ds)"
    using restart_facts(6) by (metis prod.collapse)
  have "pod_IP running_pod \<noteq> ''''" by (simp add: running_pod_def)
  then show ?thesis
    by (simp add: prepare_pod_def Let_def store_eq(1) [OF a] vpn restart_facts(5))
      (simp add: sample_net_def ext_def)
qed

lemma prepare_running_pods: "fst (prepareLocalPods (sample_net True True) sample_order 0 [running_pod] restart_ipam) = Ok ()"
proof -
  have "ext (net_GetRuleList (sample_net True True)) restart_ipam = (Ok [], restart_ipam)"
    by (simp add: ext_def sample_net_def)
  moreover have "prepare_pod (sample_net True True) sample_order 0 [] running_pod restart_ipam
      = (Ok (), snd (prepare_pod (sample_net True True) sample_order 0 [] running_pod restart_ipam))"
    using prepare_running_pod by (simp add: prod_eq_iff)
  then have "check (prepare_pod (sample_net True True) sample_order 0 [] running_pod restart_ipam)
        (\<lambda>_. prepare_loop (sample_net True True) sample_order 0 [] [])
      = (Ok (), snd (prepare_pod (sample_net True True) sample_order 0 [] running_pod restart_ipam))"
    by (metis check_simps(1) prepare_loop.simps(1))
  ultimately show ?thesis by (simp add: prepareLocalPods_def)
qed


lemma unlisted_rules_skip_recovery_witness:
  "\<exists>s1. prepareLocalPods (sample_net False True) sample_order 0 [running_pod] restart_ipam = (Ok (), s1)
    \<and> dataStore s1 = dataStore restart_ipam"
proof -
  have "ext (net_GetRuleList (sample_net False True)) restart_ipam = (Err (ErrnoValue ENOENT), restart_ipam)"
    by (simp add: ext_def sample_net_def)
  from unlisted_rules_skip_recovery [OF this] show ?thesis by blast
qed

lemma recovered_pod_keeps_address_witness:
  "\<exists>s1 s2 d. prepare_pod (sample_net True True) sample_order 0 [] running_pod restart_ipam = (Ok (), s1)
    \<and> DelNetwork (\<lambda>_. '''') sample_order minute id (sample_del ''c'') s1
      = (Ok \<lparr> dnp_Success = True, dnp_IPv4Addr = '''', dnp_DeviceNumber = 0, dnp_Message = '''' \<rparr>, s2)
    \<and> pod_ip (dataStore s2) (pod_key_of running_pod) = Some \<lparr> pi_IP = pod_IP running_pod, pi_DeviceNumber = d \<rparr>"
proof -
  let ?r = "prepare_pod (sample_net True True) sample_order 0 [] running_pod restart_ipam"
  have r: "?r = (Ok (), snd ?r)" using prepare_running_pod by (simp add: prod_eq_iff)
  have "dnr_K8S_POD_NAME (sample_del ''c'') = pod_Name running_pod" "dnr_K8S_POD_NAMESPACE (sample_del ''c'') = pod_Namespace running_pod"
    "pod_Container running_pod \<noteq> ''''" "dnr_K8S_POD_INFRA_CONTAINER_ID (sample_del ''c'') \<noteq> pod_Container running_pod"
    "pod_IP running_pod \<noteq> ''''"
    by (simp_all add: sample_del_def running_pod_def)
  from recovered_pod_keeps_address [OF restart_exclusive restart_facts(1) this(5) restart_facts(2) r this(1-4) restart_facts(3,4)] r
  show ?thesis by blast
qed

end
