(* ===== verification/DaemonStart.thy ===== *)
theory DaemonStart
  imports DaemonSystem Recovery
begin

text \<open>
  Start-up (\<^verbatim>\<open>StartIPAMD\<close> and \<^verbatim>\<open>setup\<close> of \<^verbatim>\<open>ipam.go\<close>) establishes what the running daemon keeps: however it
  ends, every NIC and address of the store is the cloud's, and no address has two owners.
\<close>

section \<open>The parties around the daemon\<close>

text \<open>
  Only the cloud changes NICs: the calls of the API server, of the node's network and of its links and the
  sleeping leave a view \<open>v\<close> of them alone.  While start-up sleeps nobody calls the store, no request is
  served yet.
\<close>

definition bystanders ::
  "('w \<Rightarrow> bool) \<Rightarrow> ('w \<Rightarrow> 'v) \<Rightarrow> 'w k8s_api \<Rightarrow> ('w, 'r) network_api \<Rightarrow> ('w, link list) ext_call
   \<Rightarrow> (duration \<Rightarrow> 'w ipamd \<Rightarrow> 'w ipamd) \<Rightarrow> bool" where
  "bystanders ok v k8s napi linkList sleep \<longleftrightarrow>
     leaves ok v (k8s_Start k8s) \<and> leaves ok v (k8s_GetCurrentNode k8s)
     \<and> (\<forall>k x. leaves ok v (k8s_UpdateNodeAnnotation k8s k x)) \<and> leaves ok v (k8s_GetCurrentNodePods k8s)
     \<and> (\<forall>n ss m a. leaves ok v (net_SetupHostNetwork napi n ss m a))
     \<and> (\<forall>i m t sc. leaves ok v (net_SetupNICNetwork napi i m t sc))
     \<and> leaves ok v (net_GetRuleList napi) \<and> (\<forall>rs n cs f t. leaves ok v (net_UpdateRuleListBySrc napi rs n cs f t))
     \<and> leaves ok v linkList \<and> calm ok v sleep \<and> (\<forall>d s. dataStore (sleep d s) = dataStore s)"

lemma bystandersD:
  assumes "bystanders ok v k8s napi linkList sleep"
  shows "leaves ok v (k8s_Start k8s)" "leaves ok v (k8s_GetCurrentNode k8s)" "leaves ok v (k8s_UpdateNodeAnnotation k8s k x)"
    "leaves ok v (k8s_GetCurrentNodePods k8s)" "leaves ok v (net_SetupHostNetwork napi n ss m a)"
    "leaves ok v (net_SetupNICNetwork napi i m' t sc)" "leaves ok v (net_GetRuleList napi)"
    "leaves ok v (net_UpdateRuleListBySrc napi rs n' cs f t')" "leaves ok v linkList" "calm ok v sleep"
    "dataStore (sleep d s) = dataStore s"
  using assms by (simp_all add: bystanders_def)

text \<open>The API server lists no pod twice and no address twice.\<close>

definition proper_pods :: "k8s_pod_info list \<Rightarrow> bool" where
  "proper_pods pods \<longleftrightarrow> distinct (List.map pod_key_of pods) \<and> distinct (List.map pod_IP (filter (\<lambda>p. pod_IP p \<noteq> '''') pods))"

definition lists_proper_pods :: "'w k8s_api \<Rightarrow> bool" where
  "lists_proper_pods k8s \<longleftrightarrow> (\<forall>mw pods mw'. k8s_GetCurrentNodePods k8s mw = (Ok pods, mw') \<longrightarrow> proper_pods pods)"

section \<open>A daemon without pods\<close>

definition starting :: "('w \<Rightarrow> bool) \<Rightarrow> ('w \<Rightarrow> string \<Rightarrow> string option) \<Rightarrow> (string \<Rightarrow> string option) \<Rightarrow> 'w ipamd \<Rightarrow> bool" where
  "starting ok book b s \<longleftrightarrow> ok (ip_ext s) \<and> book (ip_ext s) = b \<and> exclusive (dataStore s)
     \<and> backed book (ip_ext s) (dataStore s) \<and> ds_podsIP (dataStore s) = []"

lemma backed_book: "book w' = book w \<Longrightarrow> backed book w' ds = backed book w ds"
  by (simp add: backed_def)

lemma starting_fields [simp]:
  "starting ok book b (s\<lparr> own_vpc := x1 \<rparr>) = starting ok book b s" "starting ok book b (s\<lparr> own_vxnet := x2 \<rparr>) = starting ok book b s"
  "starting ok book b (s\<lparr> NodeName := x3 \<rparr>) = starting ok book b s" "starting ok book b (s\<lparr> primaryNic := x4 \<rparr>) = starting ok book b s"
  "starting ok book b (s\<lparr> InstanceID := x5 \<rparr>) = starting ok book b s" "starting ok book b (s\<lparr> ip_mem := x6 \<rparr>) = starting ok book b s"
  "starting ok book b (parseEnv getenv s) = starting ok book b s"
  by (simp_all add: starting_def parseEnv_def Let_def)

lemma ext_starting [ends_intros]: "leaves ok book op \<Longrightarrow> starting ok book b s \<Longrightarrow> ends (starting ok book b) (ext op s)"
  using ext_leaves_snd [of ok book op s] backed_book [of book "ip_ext (snd (ext op s))" "ip_ext s"] by (simp add: ends_def starting_def)

lemma ends_case_prod [ends_intros]: "(\<And>x y. p = (x, y) \<Longrightarrow> ends I (f x y)) \<Longrightarrow> ends I (case p of (x, y) \<Rightarrow> f x y)"
  by (cases p) simp

lemma ends_Do:
  assumes "I s" and "\<And>s. I s \<Longrightarrow> ends I (f s)" and "\<And>s. I s \<Longrightarrow> I (sleep d s)"
  shows "ends I (Do n sleep d f s)"
  unfolding ends_def by (rule Do_invariant) (use assms in \<open>auto simp: ends_def\<close>)

context nic_cloud
begin

lemma joinVPC_starting: "starting ok book b s \<Longrightarrow> ends (\<lambda>vs. starting ok book b (snd vs)) (joinVPC api (v, s))"
proof -
  have with_v: "ends (\<lambda>vs. starting ok book b (snd vs)) (with_vxnet v r)" if "ends (starting ok book b) r" for v and r :: "'x go_result \<times> 'w ipamd"
    using that by (simp add: ends_def with_vxnet_def)
  show "starting ok book b s \<Longrightarrow> ends (\<lambda>vs. starting ok book b (snd vs)) (joinVPC api (v, s))"
    by (auto simp: joinVPC_def append_vxnet_def Let_def split: option.split
        intro!: ends_intros with_v join_leaves vpc_vxnets_leaves)
qed

lemma createNewVxnet_starting:
  assumes "calm ok book sleep" and "\<And>d s. dataStore (sleep d s) = dataStore s" and "starting ok book b s"
  shows "ends (starting ok book b) (createNewVxnet api sleep s)"
proof -
  have slept: "starting ok book b (sleep d t)" if "starting ok book b t" for d t
    using assms(1,2) that backed_book [of book "ip_ext (sleep d t)" "ip_ext t"] by (simp add: starting_def calm_def)
  have "starting ok book b (snd (snd (Do 5 (\<lambda>d. apsnd (sleep d)) (5 * second) (joinVPC api) (v, t))))" if "starting ok book b t" for v t
  proof -
    have "ends (\<lambda>vs. starting ok book b (snd vs)) (joinVPC api vs)" if "starting ok book b (snd vs)" for vs
      using joinVPC_starting [of b "snd vs" "fst vs"] that by simp
    then have "ends (\<lambda>vs. starting ok book b (snd vs)) (Do 5 (\<lambda>d. apsnd (sleep d)) (5 * second) (joinVPC api) (v, t))"
      using that slept by (intro ends_Do) simp_all
    then show ?thesis by (simp add: ends_def)
  qed
  then show ?thesis
    unfolding createNewVxnet_def using assms(3)
    by (auto intro!: ends_intros create_vxnet_leaves split: prod.split) (metis snd_conv)
qed

lemma EnsureVxNet_starting:
  assumes "bystanders ok book k8s napi linkList sleep" and "starting ok book b s"
  shows "ends (starting ok book b) (EnsureVxNet api k8s sleep s)"
proof -
  note kept = bystandersD [OF assms(1)]
  have join: "starting ok book b (snd (snd (joinVPC api (v, t))))" if "starting ok book b t" for v t
    using joinVPC_starting [OF that, of v] by (simp add: ends_def)
  show ?thesis
    unfolding EnsureVxNet_def Let_def using assms(2)
    by (auto intro!: ends_intros kept createNewVxnet_starting vxnet_leaves named_leaves leave_leaves split: prod.split option.split)
      (metis join snd_conv)+
qed

lemma Add_pods: "ds_podsIP (snd (AddNIC n d p now ds)) = ds_podsIP ds" "ds_podsIP (snd (AddIPv4AddressFromStore n ip ds)) = ds_podsIP ds"
  by (simp_all add: AddNIC_def AddIPv4AddressFromStore_def Let_def split: option.split)

lemma AddNIC_starting:
  "starting ok book b s \<Longrightarrow> b n = Some ip \<Longrightarrow> ends (starting ok book b) (store (AddNIC n d p now) s)"
  using AddNIC_exclusive [of "dataStore s" n d p now] backed_AddNIC [of book "ip_ext s" "dataStore s" n ip d p now]
  by (auto simp: ends_def starting_def Add_pods)

lemma AddIP_starting:
  assumes "starting ok book b s" and "b n = Some ip"
  shows "ends (starting ok book b) (store (AddIPv4AddressFromStore n ip) s)"
proof -
  from assms have s: "ok (ip_ext s)" "book (ip_ext s) n = Some ip" "exclusive (dataStore s)" "backed book (ip_ext s) (dataStore s)"
    by (simp_all add: starting_def)
  have "ds_legal (dataStore s) (OpAddIP n ip)"
    using legal_offer [OF _ _ exclusive_ok [OF s(3)] s(4,2)] book_inj [OF s(1)] book_nonempty [OF s(1)] by blast
  with AddIP_exclusive [OF s(3)] backed_AddIP [OF s(4,2)] assms(1) show ?thesis
    by (auto simp: ends_def starting_def Add_pods)
qed

lemma setupNic_starting:
  assumes "bystanders ok book k8s napi linkList sleep" and "starting ok book b s" and "b (hn_ID nic) = Some (hn_Address nic)"
  shows "ends (starting ok book b) (setupNic napi linkList strerror now nic s)"
proof -
  note kept = bystandersD [OF assms(1)]
  have known: "ends (starting ok book b) (setup_known_nic napi strerror now n t)"
    if "starting ok book b t" "b (hn_ID n) = Some (hn_Address n)" for n t
    unfolding setup_known_nic_def Let_def using that
    by (auto intro!: ends_intros kept AddNIC_starting AddIP_starting split: option.split)
  have "LinkByMacAddr m r = (x, t) \<Longrightarrow> t = snd r" for m and r :: "link list go_result \<times> 'w ipamd" and x t
    by (cases r; cases "fst r") (auto simp: LinkByMacAddr_def)
  then have "ends (starting ok book b) (LinkByMacAddr m (ext linkList s))" for m
    using ext_starting [OF kept(9) assms(2)] unfolding ends_def by (metis prod.collapse)
  then show ?thesis
    unfolding setupNic_def using assms(2,3) by (auto intro!: ends_intros known)
qed

lemma setup_nics_starting:
  assumes "bystanders ok book k8s napi linkList sleep"
  shows "starting ok book b s \<Longrightarrow> \<forall>nic \<in> set nics. b (hn_ID nic) = Some (hn_Address nic)
    \<Longrightarrow> ends (starting ok book b) (setup_nics napi linkList strerror now nics s)"
  by (induction nics arbitrary: s) (auto intro!: ends_intros setupNic_starting [OF assms])

text \<open>The pods that already run.\<close>

lemma prepare_loop_safe:
  assumes "bystanders ok book k8s napi linkList sleep"
  shows "safe ok book (CheckLow, s) \<Longrightarrow> recoverable (dataStore s) pods
    \<Longrightarrow> ends (\<lambda>t. safe ok book (CheckLow, t)) (prepare_loop napi ord now rules pods s)"
proof (induction pods arbitrary: s)
  case (Cons p pods)
  obtain r t where t: "prepare_pod napi ord now rules p s = (r, t)" by (rule prod.exhaust)
  from Cons.prems(1) have s: "ok (ip_ext s)" "exclusive (dataStore s)" "ds_ok (dataStore s)"
    by (auto simp: safe_def exclusive_ok)
  have ds: "dataStore t = (if pod_IP p = '''' then dataStore s else snd (AssignPodIPv4Address ord now p (dataStore s)))"
    using prepare_pod_store [of napi ord now rules p s] t by simp
  note step = recover_step [OF s(2) Cons.prems(2) ds]
  let ?I = "\<lambda>t. ok (ip_ext t) \<and> book (ip_ext t) = book (ip_ext s)"
  have ext: "ends ?I (ext op u)" if "leaves ok book op" "?I u" for op :: "('w, unit) ext_call" and u
    using ext_leaves_snd [OF that(1), of u] that(2) by (simp add: ends_def)
  have st: "ends ?I (store op u)" if "?I u" for op :: "data_store \<Rightarrow> (string \<times> int) go_result \<times> data_store" and u
    using that by (simp add: ends_def)
  have "ends ?I (prepare_pod napi ord now rules p s)"
    unfolding prepare_pod_def Let_def using s(1) bystandersD(8) [OF assms]
    by (auto intro!: ends_intros ext st split: option.split)
  then have w: "ok (ip_ext t)" "book (ip_ext t) = book (ip_ext s)" by (simp_all add: t)
  have "backed book (ip_ext t) (dataStore t)"
  proof (rule backed_mono [of book "ip_ext s" "dataStore s"])
    show "backed book (ip_ext s) (dataStore s)" using Cons.prems(1) by (simp add: safe_def)
    show "nic_dev (dataStore s) nk \<noteq> None" if "nic_dev (dataStore t) nk \<noteq> None" for nk
      using handler_calls_keep(1) [OF s(3), of ord now p] that unfolding ds by (simp split: if_splits)
    show "lookup_addr (dataStore s) nk ip \<noteq> None" if "lookup_addr (dataStore t) nk ip \<noteq> None" for nk ip
      using step(4) [of nk ip] that by blast
  qed (simp add: w(2))
  then have "safe ok book (CheckLow, t)" using w step(1) by (simp add: safe_def)
  with Cons.IH step(2) show ?case by (cases r) (simp_all add: t)
qed simp

lemma setup_pods_safe:
  assumes "bystanders ok book k8s napi linkList sleep" and "lists_proper_pods k8s" and "starting ok book b s"
  shows "ends (\<lambda>t. safe ok book (CheckLow, t)) (setup_pods napi k8s sleep ord now s)"
proof -
  note kept = bystandersD [OF assms(1)]
  let ?I = "\<lambda>ps. starting ok book b (snd ps) \<and> proper_pods (fst ps)"
  have list: "ends ?I (list_pods k8s ps)" if "?I ps" for ps
  proof -
    obtain r t where e: "ext (k8s_GetCurrentNodePods k8s) (snd ps) = (r, t)" by (rule prod.exhaust)
    have "starting ok book b t" using ext_starting [OF kept(4), of b "snd ps"] that e by simp
    moreover have "proper_pods pods" if "r = Ok pods" for pods
      using ext_result [OF e] assms(2) unfolding that lists_proper_pods_def by blast
    moreover have "proper_pods []" by (simp add: proper_pods_def)
    ultimately show ?thesis using that by (cases r) (simp_all add: list_pods_def e)
  qed
  have slept: "starting ok book b (sleep d t)" if "starting ok book b t" for d t
    using kept(10,11) that backed_book [of book "ip_ext (sleep d t)" "ip_ext t"] by (simp add: starting_def calm_def)
  have "ends ?I (Do 5 (\<lambda>d. apsnd (sleep d)) (5 * second) (list_pods k8s) ([], s))"
    using list slept assms(3) by (intro ends_Do) (auto simp: proper_pods_def)
  moreover obtain r pods t where d: "Do 5 (\<lambda>d. apsnd (sleep d)) (5 * second) (list_pods k8s) ([], s) = (r, (pods, t))"
    by (metis prod.exhaust)
  ultimately have t: "starting ok book b t" "proper_pods pods" by simp_all
  have safe: "safe ok book (CheckLow, u) \<and> recoverable (dataStore u) pods" if "starting ok book b u" for u
    using that t(2) by (auto simp: safe_def starting_def recoverable_def proper_pods_def pod_ip_def list_all_iff)
  obtain x u where e: "ext (net_GetRuleList napi) t = (x, u)" by (rule prod.exhaust)
  have "starting ok book b u" using ext_starting [OF kept(7) t(1)] e by simp
  then have "ends (\<lambda>t. safe ok book (CheckLow, t)) (prepareLocalPods napi ord now pods t)"
    using prepare_loop_safe [OF assms(1)] safe by (cases x) (simp_all add: prepareLocalPods_def e)
  then show ?thesis using safe [OF t(1)] by (simp add: setup_pods_def d)
qed

lemma starting_safe: "starting ok book b s \<Longrightarrow> safe ok book (CheckLow, s)"
  by (simp add: safe_def starting_def)

text \<open>A step that may stop the start-up early.\<close>

lemma starting_check [consumes 1]:
  "ends (starting ok book b) r \<Longrightarrow> (\<And>x t. r = (Ok x, t) \<Longrightarrow> starting ok book b t \<Longrightarrow> ends (\<lambda>t. safe ok book (CheckLow, t)) (f x t))
   \<Longrightarrow> ends (\<lambda>t. safe ok book (CheckLow, t)) (check r f)"
  by (cases r; cases "fst r") (auto intro: starting_safe)

lemma start_safe:
  assumes others: "bystanders ok book k8s napi linkList sleep" and proper: "lists_proper_pods k8s"
    and cloud: "\<And>l api'. newCloud l = Ok api' \<Longrightarrow> api' = api" and s: "starting ok book b s"
  shows "ends (\<lambda>t. safe ok book (CheckLow, t)) (StartIPAMD newCloud napi k8s linkList getenv strerror sleep ord now s)"
proof -
  note kept = bystandersD [OF others]
  have nics: "b (hn_ID nic) = Some (hn_Address nic)"
    if "ext (api_GetAttachedNICs api v) t = (Ok nics, u)" "starting ok book b t" "nic \<in> set nics" for v t nics u nic
    using ext_attached [OF _ that(1)] that(2,3) by (auto simp: starting_def)
  have attached: "ends (starting ok book b) (ext (api_GetAttachedNICs api v) t)" if "starting ok book b t" for v t
    using ext_attached(1,2) [of t v "fst (ext (api_GetAttachedNICs api v) t)" "snd (ext (api_GetAttachedNICs api v) t)"] that
      backed_book [of book "ip_ext (snd (ext (api_GetAttachedNICs api v) t))" "ip_ext t"]
    by (simp add: ends_def starting_def)
  have host: "ends (\<lambda>t. safe ok book (CheckLow, t)) (on_result r f (\<lambda>e u. (Err (Wrapped x e), u)))"
    if "ends (starting ok book b) r" "\<And>u. starting ok book b u \<Longrightarrow> ends (\<lambda>t. safe ok book (CheckLow, t)) (f () u)" for r f x
    using that by (cases r; cases "fst r") (auto intro: starting_safe)
  have body: "ends (\<lambda>t. safe ok book (CheckLow, t)) (ipamd_setup newCloud napi k8s linkList getenv strerror sleep ord now t)"
    if "starting ok book b t" for t
    unfolding ipamd_setup_def Let_def using that starting_safe [of b]
    by (auto intro!: starting_check [where b = b] attached host ext_starting [OF primary_leaves] ext_starting [OF node_vpc_leaves]
        EnsureVxNet_starting [OF others] ext_starting [OF kept(5)] setup_nics_starting [OF others]
        setup_pods_safe [OF others proper, where b = b] dest!: cloud split: option.split)
      (rule nics, assumption+)+
  show ?thesis
    unfolding StartIPAMD_def using s by (auto intro!: starting_check [where b = b] ext_starting [OF kept(1)] body)
qed

end

end
