(* ===== verification/FakeNics.thy ===== *)
theory FakeNics
  imports FakeCloudThms NicCloud
begin

text \<open>
  The NICs of the cloud in memory (\<^verbatim>\<open>pkg/qcclient/fake.go\<close>) keep the contract of \<open>NicCloud\<close>: the table has
  the NICs under their IDs, no two have the same address, and every address is the text of an IPv4
  address.  The hook that runs after a creation may fail, but leaves the cloud alone.
\<close>

definition fake_nics_ok :: "fake_cloud \<Rightarrow> bool" where
  "fake_nics_ok f \<longleftrightarrow> gm_wf (fq_Nics f) \<and> distinct (List.map (hn_Address \<circ> fn_nic \<circ> snd) (fq_Nics f))
     \<and> list_all (\<lambda>(i, n). hn_ID (fn_nic n) = i \<and> ipv4_text (hn_Address (fn_nic n))) (fq_Nics f)"

definition fake_book :: "fake_cloud \<Rightarrow> string \<Rightarrow> string option" where
  "fake_book f i = map_option (hn_Address \<circ> fn_nic) (map_of (fq_Nics f) i)"

lemma fake_nics_okD:
  assumes "fake_nics_ok f" and "map_of (fq_Nics f) i = Some n"
  shows "hn_ID (fn_nic n) = i" and "ipv4_text (hn_Address (fn_nic n))" and "fake_book f i = Some (hn_Address (fn_nic n))"
  using assms by (auto simp: fake_nics_ok_def fake_book_def list_all_iff dest!: map_of_SomeD)

lemma fake_book_inj:
  assumes "fake_nics_ok f" and "fake_book f i = Some ip" and "fake_book f j = Some ip"
  shows "i = j"
proof -
  from assms(2,3) obtain n n' where n: "(i, n) \<in> set (fq_Nics f)" "(j, n') \<in> set (fq_Nics f)"
    and a: "(hn_Address \<circ> fn_nic \<circ> snd) (i, n) = (hn_Address \<circ> fn_nic \<circ> snd) (j, n')"
    by (auto simp: fake_book_def dest!: map_of_SomeD)
  have "inj_on (hn_Address \<circ> fn_nic \<circ> snd) (set (fq_Nics f))" using assms(1) by (simp add: fake_nics_ok_def distinct_map)
  from inj_onD [OF this a n] show ?thesis by simp
qed

text \<open>A creation, whether its hook succeeds or not, enters a NIC with an address nobody has.\<close>

lemma fake_enter:
  assumes "fake_nics_ok f" and "hn_ID (fn_nic n) = i" and "ipv4_text (hn_Address (fn_nic n))"
    and "hn_Address (fn_nic n) \<notin> set (List.map (hn_Address \<circ> fn_nic \<circ> snd) (fq_Nics f))"
  shows "fake_nics_ok (f\<lparr> fq_Nics := gm_put i n (fq_Nics f), fq_draws := k \<rparr>)"
    and "fake_book (f\<lparr> fq_Nics := gm_put i n (fq_Nics f), fq_draws := k \<rparr>) = (fake_book f)(i \<mapsto> hn_Address (fn_nic n))"
    and "hn_Address (fn_nic n) \<notin> ran (fake_book f)"
proof -
  have sub: "set (gm_put i n m) \<subseteq> insert (i, n) (set m)" for m
    by (induction m) auto
  have put: "distinct (List.map h (gm_put i n m))" if "distinct (List.map h m)" "h (i, n) \<notin> h ` set m"
    for h :: "string \<times> fake_nic \<Rightarrow> string" and m
    using that
  proof (induction m)
    case (Cons e m)
    have "h ` set (gm_put i n m) \<subseteq> insert (h (i, n)) (h ` set m)" using sub [of m] by blast
    with Cons show ?case by (cases e) auto
  qed simp
  show "fake_nics_ok (f\<lparr> fq_Nics := gm_put i n (fq_Nics f), fq_draws := k \<rparr>)"
  proof -
    have "hn_ID (fn_nic x) = j \<and> ipv4_text (hn_Address (fn_nic x))" if "(j, x) \<in> set (gm_put i n (fq_Nics f))" for j x
      using subsetD [OF sub that] assms(1-3) by (auto simp: fake_nics_ok_def list_all_iff)
    moreover have "distinct (List.map (hn_Address \<circ> fn_nic \<circ> snd) (gm_put i n (fq_Nics f)))"
      using assms(1,4) by (intro put) (simp_all add: fake_nics_ok_def)
    ultimately show ?thesis using assms(1) by (auto simp: fake_nics_ok_def list_all_iff)
  qed
  show "fake_book (f\<lparr> fq_Nics := gm_put i n (fq_Nics f), fq_draws := k \<rparr>) = (fake_book f)(i \<mapsto> hn_Address (fn_nic n))"
    by (auto simp: fake_book_def fun_eq_iff)
  show "hn_Address (fn_nic n) \<notin> ran (fake_book f)"
    using assms(4) by (force simp: ran_def fake_book_def dest!: map_of_SomeD)
qed

lemma fake_delete:
  assumes "fake_nics_ok f"
  shows "fake_nics_ok (f\<lparr> fq_Nics := gm_del i (fq_Nics f) \<rparr>)"
  using assms by (auto simp: fake_nics_ok_def list_all_iff AList.delete_eq distinct_map_filter)

text \<open>The listing reads the table.\<close>

lemma attached_loop_sub:
  "fq_attached_loop f v ns acc = Some nics \<Longrightarrow> nic \<in> set nics \<Longrightarrow> nic \<in> set acc \<or> (\<exists>k n. (k, n) \<in> set ns \<and> nic = nic_view f n)"
proof (induction ns arbitrary: acc)
  case (Cons e ns)
  obtain k n where e: "e = (k, n)" by (rule prod.exhaust)
  with Cons.prems(1) obtain p acc' where "fq_attached_loop f v ns acc' = Some nics" "acc' = acc \<or> acc' = acc @ [nic_view f n]"
    by (auto split: option.splits if_splits)
  with Cons.IH [OF _ Cons.prems(2), of acc'] have "nic \<in> set acc \<or> nic = nic_view f n \<or> (\<exists>k n. (k, n) \<in> set ns \<and> nic = nic_view f n)"
    by auto
  with e show ?case by auto
qed simp

lemma nic_view_fields [simp]: "hn_ID (nic_view f n) = hn_ID (fn_nic n)" "hn_Address (nic_view f n) = hn_Address (fn_nic n)"
  by (simp_all add: nic_view_def)

definition tame_hook :: "(host_nic \<Rightarrow> unit fake_call) \<Rightarrow> bool" where
  "tame_hook after \<longleftrightarrow> (\<forall>nic. leaves fake_nics_ok fake_book (after nic))"

lemma fake_create:
  assumes "tame_hook after" and "fake_nics_ok f" and "fq_CreateNic rnd bytes after v (m, f) = Some (r, (m', f'))"
  shows "fake_nics_ok f' \<and> (\<forall>nic. r = Ok nic \<longrightarrow>
    hn_Address nic \<notin> ran (fake_book f) \<and> fake_book f' = (fake_book f)(hn_ID nic \<mapsto> hn_Address nic))"
proof (cases "Option.bind (vxnet_named f v) (\<lambda>x. Option.bind (vx_Network x) (\<lambda>r. To4 (net_IP (net_at m r))))")
  case (Some n)
  with assms(3) obtain ip k where p: "pick_ip rnd n (List.map (hn_Address \<circ> fn_nic \<circ> snd) (fq_Nics f)) (fq_draws f) = Some (ip, k)"
    by (auto simp: fq_CreateNic_def split: option.splits)
  define mac where "mac = generateMAC bytes k"
  define nic where "nic = \<lparr> fn_nic = \<lparr> hn_ID = mac, hn_VxNet = None, hn_HardwareAddr = mac, hn_Address = ip_string ip,
      hn_DeviceNumber = int (length (fq_Nics f)), hn_IsPrimary = False \<rparr>, fn_VxNet = map_of (fq_VxNets f) v \<rparr>"
  define f1 where "f1 = f\<lparr> fq_Nics := gm_put mac nic (fq_Nics f), fq_draws := Suc k \<rparr>"
  have r: "check (after (nic_view f1 nic) (m, f1)) (\<lambda>_ s2. (Ok (nic_view (snd s2) nic), s2)) = (r, (m', f'))"
    using assms(3) Some p by (simp add: fq_CreateNic_def mac_def nic_def f1_def Let_def)
  obtain j where ip: "ip = drawn rnd n j" and new: "ip_string ip \<notin> set (List.map (hn_Address \<circ> fn_nic \<circ> snd) (fq_Nics f))"
    using pick_ip_Some [OF p] by (auto simp: first_free_def)
  have "\<exists>ref. To4 ref = Some n" using Some by (auto simp: bind_eq_Some_conv)
  then obtain a b c d where "n = [a, b, c, d]" by (auto elim: To4_bytes)
  then have "ipv4_text (ip_string ip)" unfolding ip drawn_def by (auto simp: ipv4_text_iff eval_nat_numeral)
  with new assms(2) have f1: "fake_nics_ok f1" "fake_book f1 = (fake_book f)(mac \<mapsto> ip_string ip)" "ip_string ip \<notin> ran (fake_book f)"
    using fake_enter(1,2) [of f nic mac "Suc k"] fake_enter(3) [of f nic mac] unfolding f1_def by (simp_all add: f1_def nic_def)
  obtain y m2 f2 where a: "after (nic_view f1 nic) (m, f1) = (y, (m2, f2))" by (metis prod.exhaust)
  have "fake_nics_ok f2" "fake_book f2 = fake_book f1"
    using assms(1) f1(1) a unfolding tame_hook_def leaves_def by (metis snd_conv)+
  with r a f1(2,3) show ?thesis by (cases y) (auto simp: nic_def)
qed (use assms in \<open>auto simp: fq_CreateNic_def split: option.splits\<close>)

text \<open>Every call but the first two leaves the table of NICs alone.\<close>

lemma fake_leaves:
  assumes "\<And>m f. fq_Nics (snd (snd (op (m, f)))) = fq_Nics f"
  shows "leaves fake_nics_ok fake_book op"
  using assms by (auto simp: leaves_def fake_nics_ok_def fake_book_def fun_eq_iff)

lemma fake_ipv4_cloud:
  assumes "tame_hook after"
  shows "ipv4_cloud (fake_cloud_api rnd bytes after ord instanceID) fake_nics_ok fake_book"
proof
  let ?api = "fake_cloud_api rnd bytes after ord instanceID"
  show "i = j" if "fake_nics_ok w" "fake_book w i = Some ip" "fake_book w j = Some ip" for w i j ip
    by (rule fake_book_inj [OF that])
  show ipv4: "ipv4_text ip" if "fake_nics_ok w" "fake_book w i = Some ip" for w i ip
    using that fake_nics_okD(2) [OF that(1)] by (auto simp: fake_book_def)
  show "fake_book w i \<noteq> Some ''''" if "fake_nics_ok w" for w i
    using ipv4 [OF that, of i "''''"] by (auto simp: ipv4_text_iff ip_string_nonempty [symmetric])
  show "fake_nics_ok w'" if "fake_nics_ok w" "api_CreateNic ?api v (m, w) = (r, m', w')" for w v m r m' w'
    using that fake_create [OF assms that(1), of rnd bytes v m r m' w'] by (auto simp: fake_cloud_api_def split: option.splits)
  show "hn_Address nic \<notin> ran (fake_book w) \<and> fake_book w' = (fake_book w)(hn_ID nic \<mapsto> hn_Address nic)"
    if "fake_nics_ok w" "api_CreateNic ?api v (m, w) = (Ok nic, m', w')" for w v m nic m' w'
    using that fake_create [OF assms that(1), of rnd bytes v m "Ok nic" m' w'] by (auto simp: fake_cloud_api_def split: option.splits)
  show "fake_nics_ok w' \<and> (\<forall>j. j \<noteq> i \<longrightarrow> fake_book w' j = fake_book w j)"
    if "fake_nics_ok w" "api_DeleteNic ?api i (m, w) = (x, m', w')" for w i m x m' w'
    using that fake_delete [OF that(1), of i] by (auto simp: fake_cloud_api_def fq_DeleteNic_def fake_book_def)
  show "fake_nics_ok w' \<and> fake_book w' = fake_book w
      \<and> (\<forall>nics nic. y = Ok nics \<longrightarrow> nic \<in> set nics \<longrightarrow> fake_book w (hn_ID nic) = Some (hn_Address nic))"
    if "fake_nics_ok w" "api_GetAttachedNICs ?api v (m, w) = (y, m', w')" for w v m y m' w'
  proof -
    have "fake_book w (hn_ID nic) = Some (hn_Address nic)"
      if "fq_attached_loop w v (go_range (order_nics ord) (fq_Nics w)) [] = Some nics" "nic \<in> set nics" for nics nic
    proof -
      have wf: "gm_wf (fq_Nics w)" using \<open>fake_nics_ok w\<close> by (simp add: fake_nics_ok_def)
      from attached_loop_sub [OF that] wf obtain k n where "map_of (fq_Nics w) k = Some n" "nic = nic_view w n" by auto
      with fake_nics_okD [OF \<open>fake_nics_ok w\<close>] show ?thesis by auto
    qed
    with that show ?thesis by (auto simp: fake_cloud_api_def fq_GetAttachedNICs_def deref_def split: option.splits)
  qed
  show "leaves fake_nics_ok fake_book (api_GetPrimaryNIC ?api)" "leaves fake_nics_ok fake_book (api_GetVxNet ?api v)"
    "leaves fake_nics_ok fake_book (api_GetVxNetByName ?api v)" "leaves fake_nics_ok fake_book (api_CreateVxNet ?api v)"
    "leaves fake_nics_ok fake_book (api_GetNodeVPC ?api)" "leaves fake_nics_ok fake_book (api_GetVPCVxNets ?api v)"
    "leaves fake_nics_ok fake_book (api_JoinVPC ?api n v r)" "leaves fake_nics_ok fake_book (api_LeaveVPC ?api v r)" for v n r
    by (rule fake_leaves; auto simp: fake_cloud_api_def fq_GetPrimaryNIC_def fq_GetVxNet_def fq_GetVxNetByName_def fq_CreateVxNet_def
        fq_GetNodeVPC_def fq_GetVPC_def fq_GetVPCVxNets_def fq_JoinVPC_def fq_LeaveVPC_def write_vxnet_def deref_def Let_def
        split: prod.splits option.splits)+
qed

text \<open>A hook that gives any outcome and leaves the cloud alone is tame.\<close>

interpretation fake_nics: ipv4_cloud "fake_cloud_api rnd bytes (\<lambda>nic s. (hook nic, s)) ord instanceID" fake_nics_ok fake_book
  for rnd bytes hook ord instanceID
  by (rule fake_ipv4_cloud) (simp add: tame_hook_def leaves_def)

end
