(* ===== verification/DaemonThms.thy ===== *)
theory DaemonThms
  imports DaemonStart FakeNics CniPlugin
begin

text \<open>
  What holds of the daemon from its start on, whatever the requests, the rounds of the pool manager and
  their order: the pods are served with addresses of NICs the cloud has, each pod with its own, and the
  plugin can read them.  The cloud is any that keeps the contract of \<open>NicCloud\<close>.
\<close>

text \<open>From the start-up to a later state.\<close>

definition daemon_reaches ::
  "'w cloud_api \<Rightarrow> ('w, 'r) network_api \<Rightarrow> 'w k8s_api \<Rightarrow> ('w, link list) ext_call \<Rightarrow> (errno \<Rightarrow> string)
   \<Rightarrow> (duration \<Rightarrow> 'w ipamd \<Rightarrow> 'w ipamd) \<Rightarrow> ('w \<Rightarrow> bool) \<Rightarrow> ('w \<Rightarrow> string \<Rightarrow> string option) \<Rightarrow> mem \<Rightarrow> 'w \<Rightarrow> mgr \<times> 'w ipamd \<Rightarrow> bool" where
  "daemon_reaches api napi k8s linkList strerror sleep ok book m w ps \<longleftrightarrow>
     (\<exists>getenv ord now s. StartIPAMD (\<lambda>_. Ok api) napi k8s linkList getenv strerror sleep ord now (NewIpamD m w) = (Ok (), s)
        \<and> (daemon_step api napi linkList strerror ok book)\<^sup>*\<^sup>* (CheckLow, s) ps)"

lemma NewIpamD_starting: "ok w \<Longrightarrow> starting ok book (book w) (NewIpamD m w)"
  by (auto simp: starting_def NewIpamD_def NewDataStore_exclusive, auto simp: NewDataStore_def backed_def nic_dev_def lookup_addr_def)

context nic_cloud
begin

lemma reaches_safe:
  assumes "ok w" and "bystanders ok book k8s napi linkList sleep" and "lists_proper_pods k8s"
    and "daemon_reaches api napi k8s linkList strerror sleep ok book m w ps"
  shows "safe ok book ps"
proof -
  from assms(4) obtain getenv ord now s
    where s: "StartIPAMD (\<lambda>_. Ok api) napi k8s linkList getenv strerror sleep ord now (NewIpamD m w) = (Ok (), s)"
      and run: "(daemon_step api napi linkList strerror ok book)\<^sup>*\<^sup>* (CheckLow, s) ps"
    unfolding daemon_reaches_def by blast
  have "ends (\<lambda>t. safe ok book (CheckLow, t)) (StartIPAMD (\<lambda>_. Ok api) napi k8s linkList getenv strerror sleep ord now (NewIpamD m w))"
    by (rule start_safe [OF assms(2,3) _ NewIpamD_starting [of ok, OF assms(1)]]) simp
  then have "safe ok book (CheckLow, s)" unfolding s by simp
  with safe_run [OF _ _ run] bystandersD(6,9) [OF assms(2)] show ?thesis by blast
qed

lemma safe_pod:
  assumes "safe ok book (pc, s)" and "pod_ip (dataStore s) k = Some e"
  shows "(\<exists>nk. book (ip_ext s) nk = Some (pi_IP e) \<and> nic_dev (dataStore s) nk = Some (pi_DeviceNumber e)
        \<and> (\<forall>j. book (ip_ext s) j = Some (pi_IP e) \<longrightarrow> j = nk))
    \<and> (\<forall>k' e'. pod_ip (dataStore s) k' = Some e' \<longrightarrow> pi_IP e' = pi_IP e \<longrightarrow> k' = k)"
proof -
  from assms(1) have s: "ok (ip_ext s)" "exclusive (dataStore s)" "backed book (ip_ext s) (dataStore s)" by (simp_all add: safe_def)
  obtain nk where nk: "nic_dev (dataStore s) nk = Some (pi_DeviceNumber e)" "held (dataStore s) nk (pi_IP e)"
    using exclusive_pod [OF s(2) assms(2)] by blast
  then have "book (ip_ext s) nk = Some (pi_IP e)"
    using backedD(2) [OF s(3), of nk "pi_IP e"] by (auto simp: held_def split: option.splits)
  with nk(1) book_inj [OF s(1)] exclusive_inj [OF s(2) assms(2)] show ?thesis by (intro conjI exI [of _ nk]) (auto simp: eq_commute)
qed

end

section \<open>Properties\<close>

text \<open>C1: the addresses the daemon gives out are real and not shared: on every cloud that keeps the contract,
  from the start-up on and in whatever order the pool manager's steps, requests, deletions and outside events come, the
  address of every pod is that of exactly one NIC of the cloud, its device number is that of this NIC, and no other
  pod has it.\<close>

theorem served_pods_backed:
  assumes "nic_cloud api ok book" and "ok w" and "bystanders ok book k8s napi linkList sleep" and "lists_proper_pods k8s"
    and "daemon_reaches api napi k8s linkList strerror sleep ok book m w (pc, s)"
    and "pod_ip (dataStore s) k = Some e"
  shows "(\<exists>nk. book (ip_ext s) nk = Some (pi_IP e) \<and> nic_dev (dataStore s) nk = Some (pi_DeviceNumber e)
        \<and> (\<forall>j. book (ip_ext s) j = Some (pi_IP e) \<longrightarrow> j = nk))
    \<and> (\<forall>k' e'. pod_ip (dataStore s) k' = Some e' \<longrightarrow> pi_IP e' = pi_IP e \<longrightarrow> k' = k)"
  by (rule nic_cloud.safe_pod [OF assms(1) nic_cloud.reaches_safe [OF assms(1-5)] assms(6)])

text \<open>C11: the plugin can read every address it is given: if the NICs of the cloud have IPv4 addresses, then the
  address of a successful reply parses as an IPv4 address that prints as this text, and its VPN network, on which the
  plugin and the daemon panic if there is none, exists.\<close>

theorem replies_are_ipv4:
  assumes "ipv4_cloud api ok book" and "ok w" and "bystanders ok book k8s napi linkList sleep" and "lists_proper_pods k8s"
    and "daemon_reaches api napi k8s linkList strerror sleep ok book m w (pc, s)"
    and "AddNetwork strerror ord now req s = (Ok reply, s')" and "anp_Success reply"
  shows "\<exists>a b c d. anp_IPv4Addr reply = ip_string [a, b, c, d]
    \<and> host_net (anp_IPv4Addr reply) = \<lparr> net_IP = IPv4 a b c d, net_Mask = [255, 255, 255, 255] \<rparr>
    \<and> GetVPNNet (anp_IPv4Addr reply) = Some (ip_string [a, b, 255, 254] @ ''/32'')"
proof -
  have cloud: "nic_cloud api ok book" using assms(1) by (simp add: ipv4_cloud_def)
  have "safe ok book (pc, s)" by (rule nic_cloud.reaches_safe [OF cloud assms(2-5)])
  then have s': "safe ok book (pc, s')" and ex: "exclusive (dataStore s)"
    using safe_serve [OF _ assms(6)] by (auto simp: safe_def)
  obtain r ds where a: "AssignPodIPv4Address ord now (add_pod req) (dataStore s) = (r, ds)" by (rule prod.exhaust)
  from assms(6,7) obtain d where r: "r = Ok (anp_IPv4Addr reply, d)"
    by (auto simp: AddNetwork_def store_eq(1) [OF a] split: option.splits outcome.splits)
  have fresh: "pod_ip (dataStore s) (pod_key_of (add_pod req)) = None"
    using Assign_again [of "add_pod req" "dataStore s" ord now] a r by (cases "pod_ip (dataStore s) (pod_key_of (add_pod req))") simp_all
  have "dataStore s' = ds" using AddNetwork_store(1) [OF assms(6)] a by simp
  with Assign_pod_ip [OF ex _ fresh, of ord now "anp_IPv4Addr reply" d ds] a r
  have "pod_ip (dataStore s') (pod_key_of (add_pod req)) = Some \<lparr> pi_IP = anp_IPv4Addr reply, pi_DeviceNumber = d \<rparr>" by simp
  from nic_cloud.safe_pod [OF cloud s' this] obtain nk where "book (ip_ext s') nk = Some (anp_IPv4Addr reply)" by auto
  with ipv4_cloud.book_ipv4 [OF assms(1)] s' have "ipv4_text (anp_IPv4Addr reply)" by (auto simp: safe_def)
  then obtain a b c d where "anp_IPv4Addr reply = ip_string [a, b, c, d]" by (auto simp: ipv4_text_iff)
  then show ?thesis by (intro exI [of _ a] exI [of _ b] exI [of _ c] exI [of _ d]) (simp add: host_net_def ParseIP_ip_string GetVPNNet_dotted)
qed

section \<open>Witnesses\<close>

text \<open>A node whose annotation names the vxnet, with a primary NIC and one for pods, on the cloud in memory.\<close>

definition node_cloud :: fake_cloud where
  "node_cloud = memory_cloud\<lparr> fq_Nics := fq_Nics memory_cloud @ [(''n'', \<lparr> fn_nic = \<lparr> hn_ID = ''n'', hn_VxNet = None,
     hn_HardwareAddr = ''n'', hn_Address = ''192.168.1.3'', hn_DeviceNumber = 2, hn_IsPrimary = False \<rparr>, fn_VxNet = Some 0 \<rparr>)] \<rparr>"

definition node_k8s :: "fake_cloud k8s_api" where
  "node_k8s = \<lparr> k8s_Start = (\<lambda>s. (Ok (), s)),
     k8s_GetCurrentNode = (\<lambda>s. (Ok \<lparr> node_Name = ''n'', node_Annotations = [(NodeAnnotationVxNet, ''vxnet-1'')] \<rparr>, s)),
     k8s_UpdateNodeAnnotation = (\<lambda>k x s. (Ok (), s)), k8s_GetCurrentNodePods = (\<lambda>s. (Ok [], s)) \<rparr>"

definition node_net :: "(fake_cloud, unit) network_api" where
  "node_net = \<lparr> net_SetupHostNetwork = (\<lambda>n ss m a s. (Ok (), s)), net_SetupNICNetwork = (\<lambda>i m t sc s. (Ok (), s)),
     net_UseExternalSNAT = False, net_GetRuleList = (\<lambda>s. (Ok [], s)), net_UpdateRuleListBySrc = (\<lambda>rs n cs f t s. (Ok (), s)) \<rparr>"

definition node_links :: "(fake_cloud, link list) ext_call" where
  "node_links s = (Ok [], s)"

abbreviation small_api :: "fake_cloud cloud_api" where
  "small_api \<equiv> fake_cloud_api (\<lambda>k n. k mod n) (\<lambda>k. [0, 0, 0, 0, 0, 0]) (\<lambda>nic s. (Ok (), s)) \<lparr> order_nics = [], order_vxnets = [] \<rparr> ''i-1''"

text \<open>Start-up creates no NIC, so another \<open>CreateNic\<close> makes no difference.\<close>

lemma start_without_creation:
  "StartIPAMD (\<lambda>_. Ok (api\<lparr> api_CreateNic := c \<rparr>)) napi k8s linkList getenv strerror sleep ord now s
   = StartIPAMD (\<lambda>_. Ok api) napi k8s linkList getenv strerror sleep ord now s"
proof -
  let ?api = "api\<lparr> api_CreateNic := c \<rparr>"
  have sel: "api_GetVPCVxNets ?api = api_GetVPCVxNets api" "api_JoinVPC ?api = api_JoinVPC api" "api_GetVxNet ?api = api_GetVxNet api"
    "api_GetVxNetByName ?api = api_GetVxNetByName api" "api_LeaveVPC ?api = api_LeaveVPC api" "api_CreateVxNet ?api = api_CreateVxNet api"
    "api_GetNodeVPC ?api = api_GetNodeVPC api" "api_GetPrimaryNIC ?api = api_GetPrimaryNIC api"
    "api_GetAttachedNICs ?api = api_GetAttachedNICs api" "api_GetInstanceID ?api = api_GetInstanceID api"
    by simp_all
  have j: "joinVPC ?api = joinVPC api" unfolding joinVPC_def sel ..
  have c: "createNewVxnet ?api = createNewVxnet api" unfolding createNewVxnet_def sel j ..
  have e: "EnsureVxNet ?api = EnsureVxNet api" unfolding EnsureVxNet_def sel j c ..
  show ?thesis unfolding StartIPAMD_def ipamd_setup_def Let_def check_simps sel e ..
qed

definition idle_api :: "fake_cloud cloud_api" where
  "idle_api = \<lparr> api_CreateNic = (\<lambda>v s. (Panic, s)), api_DeleteNic = fq_DeleteNic, api_GetPrimaryNIC = fq_GetPrimaryNIC [],
     api_GetVxNet = fq_GetVxNet, api_GetVxNetByName = fq_GetVxNetByName [], api_CreateVxNet = fq_CreateVxNet (\<lambda>k n. k mod n),
     api_GetAttachedNICs = fq_GetAttachedNICs [], api_GetNodeVPC = fq_GetNodeVPC [], api_GetVPCVxNets = fq_GetVPCVxNets [],
     api_JoinVPC = fq_JoinVPC, api_LeaveVPC = fq_LeaveVPC, api_GetInstanceID = ''i-1'' \<rparr>"

definition small_start :: "unit go_result \<times> fake_cloud ipamd" where
  "small_start = StartIPAMD (\<lambda>_. Ok idle_api) node_net node_k8s node_links (\<lambda>_. '''') (\<lambda>_. '''') (\<lambda>d s. s)
     sample_order 0 (NewIpamD sample_mem node_cloud)"

text \<open>What the daemon has after its start.\<close>

definition small_state :: "fake_cloud ipamd" where
  "small_state = (let vp = \<lparr> vpc_Network = Some sample_vpc_net, vpc_ID = ''rtr'', vpc_VxNets = [sample_vxnet] \<rparr>
   in (NewIpamD sample_mem node_cloud)\<lparr>
     dataStore := \<lparr> ds_total = 1, ds_assigned = 0,
       ds_nicIPPools =
         [(''m'', \<lparr> nic_createTime = 0, nic_lastUnassignedTime = 0, nic_IsPrimary = True, nic_ID = ''m'', nic_DeviceNumber = 1,
             nic_AssignedIPv4Addresses = 0, nic_IPv4Addresses = [] \<rparr>),
          (''n'', \<lparr> nic_createTime = 0, nic_lastUnassignedTime = 0, nic_IsPrimary = False, nic_ID = ''n'', nic_DeviceNumber = 2,
             nic_AssignedIPv4Addresses = 0, nic_IPv4Addresses =
               [(''192.168.1.3'', \<lparr> addr_Address = ''192.168.1.3'', addr_Assigned = False, addr_UnassignedTime = 0 \<rparr>)] \<rparr>)],
       ds_podsIP = [], gauge_nics = 2, gauge_totalIPs = 1, gauge_assignedIPs = 0 \<rparr>,
     InstanceID := ''i-1'', NodeName := ''n'', clusterName := defaultClusterName, vethPrefix := defaultVethPrefix,
     primaryNic := Some \<lparr> hn_ID = ''m'', hn_VxNet = Some sample_vxnet, hn_HardwareAddr = ''m'', hn_Address = ''192.168.1.2'',
       hn_DeviceNumber = 1, hn_IsPrimary = True \<rparr>,
     own_vxnet := Some sample_vxnet, own_vpc := Some vp, ip_ext := node_cloud\<lparr> fq_VPC := vp \<rparr> \<rparr>)"

lemma small_start_eq: "small_start = (Ok (), small_state)"
  by code_simp

lemma small_facts:
  "bystanders fake_nics_ok fake_book node_k8s node_net node_links (\<lambda>d s. s)" "lists_proper_pods node_k8s" "fake_nics_ok node_cloud"
proof -
  show "bystanders fake_nics_ok fake_book node_k8s node_net node_links (\<lambda>d s. s)" "lists_proper_pods node_k8s"
    by (simp_all add: bystanders_def leaves_def calm_def node_k8s_def node_net_def node_links_def lists_proper_pods_def proper_pods_def)
  show "fake_nics_ok node_cloud" by code_simp
qed

definition small_add :: "AddNetworkReply go_result \<times> fake_cloud ipamd" where
  "small_add = AddNetwork (\<lambda>_. '''') sample_order (2 * minute) sample_add (snd small_start)"

lemma small_runs:
  "fst small_start = Ok ()" "map_outcome id anp_Success (fst small_add) = Ok True"
  "map_option pi_IP (pod_ip (dataStore (snd small_add)) (pod_key_of (add_pod sample_add))) = Some ''192.168.1.3''"
  unfolding small_add_def small_start_eq fst_conv snd_conv by code_simp+

text \<open>The daemon starts, and serves a pod.\<close>

abbreviation small_reaches :: "mgr \<times> fake_cloud ipamd \<Rightarrow> bool" where
  "small_reaches \<equiv> daemon_reaches small_api node_net node_k8s node_links (\<lambda>_. '''') (\<lambda>d s. s) fake_nics_ok fake_book sample_mem node_cloud"

lemma small_start_run:
  "StartIPAMD (\<lambda>_. Ok small_api) node_net node_k8s node_links (\<lambda>_. '''') (\<lambda>_. '''') (\<lambda>d s. s) sample_order 0 (NewIpamD sample_mem node_cloud)
   = (Ok (), snd small_start)"
proof -
  have "small_api = idle_api\<lparr> api_CreateNic := api_CreateNic small_api \<rparr>"
    by (simp add: idle_api_def fake_cloud_api_def)
  then have "StartIPAMD (\<lambda>_. Ok small_api) node_net node_k8s node_links (\<lambda>_. '''') (\<lambda>_. '''') (\<lambda>d s. s) sample_order 0 (NewIpamD sample_mem node_cloud)
      = small_start"
    unfolding small_start_def by (metis start_without_creation)
  then show ?thesis using small_runs(1) by (metis prod.collapse)
qed

lemma small_reached: "small_reaches (CheckLow, snd small_start)" "small_reaches (CheckLow, snd small_add)"
proof -
  note start = small_start_run
  then show "small_reaches (CheckLow, snd small_start)" unfolding daemon_reaches_def by blast
  obtain reply where "small_add = (Ok reply, snd small_add)"
    using small_runs(2) by (cases "fst small_add") (auto simp: prod_eq_iff)
  then have "daemon_step small_api node_net node_links (\<lambda>_. '''') fake_nics_ok fake_book (CheckLow, snd small_start) (CheckLow, snd small_add)"
    unfolding small_add_def by (rule daemon_step.serve)
  with start show "small_reaches (CheckLow, snd small_add)" unfolding daemon_reaches_def by blast
qed

lemma served_pods_backed_witness:
  "\<exists>s k e nk. small_reaches (CheckLow, s) \<and> pod_ip (dataStore s) k = Some e \<and> pi_IP e = ''192.168.1.3''
    \<and> fake_book (ip_ext s) nk = Some ''192.168.1.3''"
proof -
  from small_runs(3) obtain e where e: "pod_ip (dataStore (snd small_add)) (pod_key_of (add_pod sample_add)) = Some e" "pi_IP e = ''192.168.1.3''"
    by auto
  from served_pods_backed [OF fake_nics.nic_cloud_axioms small_facts(3,1,2) small_reached(2) e(1)] e small_reached(2) show ?thesis by auto
qed

lemma replies_are_ipv4_witness:
  "\<exists>reply s' a b c d. AddNetwork (\<lambda>_. '''') sample_order (2 * minute) sample_add (snd small_start) = (Ok reply, s')
    \<and> anp_Success reply \<and> anp_IPv4Addr reply = ip_string [a, b, c, d]"
proof -
  obtain reply where r: "AddNetwork (\<lambda>_. '''') sample_order (2 * minute) sample_add (snd small_start) = (Ok reply, snd small_add)" "anp_Success reply"
    using small_runs(2) unfolding small_add_def [symmetric] by (cases "fst small_add") (auto simp: prod_eq_iff)
  from replies_are_ipv4 [OF fake_nics.ipv4_cloud_axioms small_facts(3,1,2) small_reached(1) r] r show ?thesis by blast
qed

end
