(* ===== verification/DaemonMain.thy ===== *)
theory DaemonMain
  imports DaemonThms
begin

text \<open>
  \<^verbatim>\<open>Start\<close> of \<^verbatim>\<open>pkg/ipam/ipam.go\<close>, the daemon's main goroutine: set up the node, start the pool
  manager and the server, and write the plugin's configuration once there is a free address, which tells the
  kubelet that the node's network is ready.

  Parameters: \<open>newClient\<close> (\<^verbatim>\<open>qcclient.NewQingCloudClient\<close>), \<open>listen\<close> (\<^verbatim>\<open>net.Listen\<close>), \<open>create\<close> and \<open>write\<close> (the
  configuration file), and \<open>others\<close>: what the pool manager, the handlers and the world do while this
  goroutine sleeps.  The state is where the pool manager stands beside the daemon's.
\<close>

definition prepareQingCloudClient :: "(errno \<Rightarrow> string) \<Rightarrow> ('c \<Rightarrow> 'w cloud_api go_result) \<Rightarrow> 'c \<Rightarrow> 'w cloud_api go_result" where
  "prepareQingCloudClient strerror newClient config =
     (case newClient config of
        Ok client \<Rightarrow> Ok client
      | Err err \<Rightarrow> Err (ErrorString (''Failed to initiate qingcloud api, err: '' @ error_string strerror err))
      | Panic \<Rightarrow> Panic)"

definition GetCurrentAddressInfo :: "'w ipamd \<Rightarrow> int \<times> int" where
  "GetCurrentAddressInfo s = GetStats (dataStore s)"

text \<open>Once it listens, the server's goroutine serves: from then on the handlers are among \<open>others\<close>.\<close>

definition StartGrpcServer :: "('w, unit) ext_call \<Rightarrow> 'w ipamd \<Rightarrow> unit go_result \<times> 'w ipamd" where
  "StartGrpcServer listen s = check (ext listen s) (\<lambda>_ s1. (Ok (), s1))"

text \<open>A step of this goroutine, beside the pool manager.\<close>

definition beside :: "mgr \<Rightarrow> 'a go_result \<times> 'w ipamd \<Rightarrow> 'a go_result \<times> (mgr \<times> 'w ipamd)" where
  "beside pc r = (fst r, (pc, snd r))"

text \<open>The wait: twenty seconds, then up to ten attempts, five seconds apart.\<close>

definition write_config_when_ready ::
  "(errno \<Rightarrow> string) \<Rightarrow> ('w, unit) ext_call \<Rightarrow> (string \<Rightarrow> ('w, unit) ext_call) \<Rightarrow> (duration \<Rightarrow> mgr \<times> 'w ipamd \<Rightarrow> mgr \<times> 'w ipamd)
   \<Rightarrow> mgr \<times> 'w ipamd \<Rightarrow> unit go_result \<times> (mgr \<times> 'w ipamd)" where
  "write_config_when_ready strerror create write others ps =
     Do 10 others (5 * second) (\<lambda>ps1. beside (fst ps1) (config_attempt strerror create write (snd ps1))) (others (20 * second) ps)"

definition Start ::
  "((string \<times> string list) option \<Rightarrow> 'w cloud_api go_result) \<Rightarrow> ('w, 'r) network_api \<Rightarrow> 'w k8s_api \<Rightarrow> ('w, link list) ext_call
   \<Rightarrow> (string \<Rightarrow> string) \<Rightarrow> (errno \<Rightarrow> string) \<Rightarrow> (duration \<Rightarrow> 'w ipamd \<Rightarrow> 'w ipamd) \<Rightarrow> go_order \<Rightarrow> time
   \<Rightarrow> ('w, unit) ext_call \<Rightarrow> ('w, unit) ext_call \<Rightarrow> (string \<Rightarrow> ('w, unit) ext_call)
   \<Rightarrow> (duration \<Rightarrow> mgr \<times> 'w ipamd \<Rightarrow> mgr \<times> 'w ipamd) \<Rightarrow> mem \<Rightarrow> 'w \<Rightarrow> unit go_result \<times> (mgr \<times> 'w ipamd)" where
  "Start newClient napi k8s linkList getenv strerror sleep ord now listen create write others m w =
     check (beside CheckLow (StartIPAMD (prepareQingCloudClient strerror newClient) napi k8s linkList getenv strerror sleep ord now
         (NewIpamD m w))) (\<lambda>_ ps.
       on_result (beside (fst ps) (StartGrpcServer listen (snd ps)))
         (\<lambda>_ ps1. write_config_when_ready strerror create write others ps1)
         (\<lambda>err ps1. (Err (ErrorString (''Failed to start grpc server, err: '' @ error_string strerror err)), ps1)))"

section \<open>Attempts\<close>

lemma beside_Ok: "beside pc r = (Ok x, (pc', s)) \<longleftrightarrow> r = (Ok x, s) \<and> pc' = pc"
  by (cases r) (auto simp: beside_def)

lemma free_address:
  assumes "ds_ok ds" and "ds_assigned ds < ds_total ds"
  shows "\<exists>nk ip a. lookup_addr ds nk ip = Some a \<and> \<not> addr_Assigned a"
proof (rule ccontr)
  assume none: "\<not> ?thesis"
  have "nic_AssignedIPv4Addresses nic = int (length (nic_IPv4Addresses nic))" if "(nk, nic) \<in> set (ds_nicIPPools ds)" for nk nic
  proof -
    have nic: "map_of (ds_nicIPPools ds) nk = Some nic" using that assms(1) by (auto simp: ds_ok_def)
    have ok: "nic_ok nk nic" by (rule ds_ok_nic [OF assms(1) nic])
    have "addr_Assigned a" if "(ip, a) \<in> set (nic_IPv4Addresses nic)" for ip a
    proof -
      have "map_of (nic_IPv4Addresses nic) ip = Some a" using that ok by (auto simp: nic_ok_def)
      with none show ?thesis by (metis lookup_addr_known [OF nic])
    qed
    then have "assigned_count xs = int (length xs)" if "set xs \<subseteq> set (nic_IPv4Addresses nic)" for xs
      using that by (induction xs) (auto simp: assigned_count_def)
    then show ?thesis using ok by (simp add: nic_ok_def)
  qed
  then have "msum nic_AssignedIPv4Addresses xs = msum (\<lambda>nic. int (length (nic_IPv4Addresses nic))) xs" if "set xs \<subseteq> set (ds_nicIPPools ds)" for xs
    using that by (induction xs) auto
  with assms show False by (simp add: ds_ok_def)
qed

lemma attempt_Ok:
  assumes "config_attempt strerror create write s = (Ok (), s')"
  shows "ds_assigned (dataStore s) < ds_total (dataStore s)" and "WriteCNIConfig create write s = (Ok (), s')"
  using assms unfolding config_attempt_def GetStats_def prod.case
  by (cases "WriteCNIConfig create write s"; cases "fst (WriteCNIConfig create write s)"; auto split: if_splits)+

text \<open>A call of the world and an attempt change no more than the world.\<close>

lemma ext_outside:
  assumes "leaves ok book op" and "ok (ip_ext t)" and "ext op t = (x, t')"
  shows "\<exists>m w. t' = t\<lparr> ip_mem := m, ip_ext := w \<rparr> \<and> ok w \<and> book w = book (ip_ext t)"
  using ext_leaves [OF assms] assms(3) by (auto simp: ext_def split: prod.splits) blast

lemma attempt_outside:
  assumes "leaves ok book create" and "\<And>t. leaves ok book (write t)" and "ok (ip_ext s)"
    and "config_attempt strerror create write s = (r, s')"
  shows "\<exists>m w. s' = s\<lparr> ip_mem := m, ip_ext := w \<rparr> \<and> ok w \<and> book w = book (ip_ext s)"
proof -

  obtain x t where c: "ext create s = (x, t)" by (rule prod.exhaust)
  note t = ext_outside [OF assms(1,3) c]
  have w: "\<exists>m w. s1 = s\<lparr> ip_mem := m, ip_ext := w \<rparr> \<and> ok w \<and> book w = book (ip_ext s)" if "WriteCNIConfig create write s = (y, s1)" for y s1
  proof (cases x)
    case (Ok u)
    with that c have "ext (write (cni_config ''0.3.1'' (vethPrefix t))) t = (y, s1)" by (simp add: WriteCNIConfig_def)
    from ext_outside [OF assms(2) _ this] t show ?thesis by auto
  qed (use that c t in \<open>auto simp: WriteCNIConfig_def\<close>)
  obtain y s1 where y: "WriteCNIConfig create write s = (y, s1)" by (rule prod.exhaust)
  have "s' = (if ds_assigned (dataStore s) < ds_total (dataStore s) then s1 else s)"
    using assms(4) by (cases y) (auto simp: config_attempt_def GetStats_def y split: if_splits)
  moreover have "\<exists>m w. s = s\<lparr> ip_mem := m, ip_ext := w \<rparr> \<and> ok w \<and> book w = book (ip_ext s)"
    by (rule exI [of _ "ip_mem s"], rule exI [of _ "ip_ext s"]) (use assms(3) in simp)
  ultimately show ?thesis using w [OF y] by (cases "ds_assigned (dataStore s) < ds_total (dataStore s)") simp_all
qed

lemma reaches_further:
  "daemon_reaches api napi k8s linkList strerror sleep ok book m w ps \<Longrightarrow> (daemon_step api napi linkList strerror ok book)\<^sup>*\<^sup>* ps ps'
   \<Longrightarrow> daemon_reaches api napi k8s linkList strerror sleep ok book m w ps'"
  unfolding daemon_reaches_def by (meson rtranclp_trans)

lemma reaches_outside:
  "daemon_reaches api napi k8s linkList strerror sleep ok book m w (pc, s) \<Longrightarrow> \<exists>m' w'. s' = s\<lparr> ip_mem := m', ip_ext := w' \<rparr> \<and> ok w' \<and> book w' = book (ip_ext s)
   \<Longrightarrow> daemon_reaches api napi k8s linkList strerror sleep ok book m w (pc, s')"
  by (erule reaches_further) (auto intro!: r_into_rtranclp daemon_step.outside)

section \<open>Properties\<close>

text \<open>C3: the node is announced as ready only when it is: if \<^verbatim>\<open>Start\<close> returns without an error, then the node was set up,
  the server listened, and the configuration was written, in its full text, in a state of the running daemon with a
  free address, which is that of a NIC of the cloud.\<close>

theorem config_written_when_ready:
  assumes "nic_cloud api ok book" and "ok w" and "bystanders ok book k8s napi linkList sleep" and "lists_proper_pods k8s"
    and "leaves ok book listen" and "leaves ok book create" and "\<And>t. leaves ok book (write t)"
    and "\<And>d ps. (daemon_step api napi linkList strerror ok book)\<^sup>*\<^sup>* ps (others d ps)"
    and "Start (\<lambda>_. Ok api) napi k8s linkList getenv strerror sleep ord now listen create write others m w = (Ok (), (pc', s'))"
  shows "\<exists>pc s nk ip a. daemon_reaches api napi k8s linkList strerror sleep ok book m w (pc, s)
    \<and> lookup_addr (dataStore s) nk ip = Some a \<and> \<not> addr_Assigned a \<and> book (ip_ext s) nk = Some ip
    \<and> WriteCNIConfig create write s = (Ok (), s')"
proof -
  let ?reached = "daemon_reaches api napi k8s linkList strerror sleep ok book m w"
  let ?att = "\<lambda>ps. beside (fst ps) (config_attempt strerror create write (snd ps))"
  have safe: "safe ok book ps" if "?reached ps" for ps by (rule nic_cloud.reaches_safe [OF assms(1-4) that])
  have client: "prepareQingCloudClient strerror (\<lambda>_. Ok api) = (\<lambda>_. Ok api)" by (simp add: prepareQingCloudClient_def fun_eq_iff)
  obtain y s1 where y: "StartIPAMD (\<lambda>_. Ok api) napi k8s linkList getenv strerror sleep ord now (NewIpamD m w) = (y, s1)" by (rule prod.exhaust)
  obtain x s2 where e: "ext listen s1 = (x, s2)" by (rule prod.exhaust)
  from assms(9) have "y = Ok ()" by (cases y) (simp_all add: Start_def client y beside_def)
  with y have r1: "?reached (CheckLow, s1)" unfolding daemon_reaches_def by blast
  from assms(9) \<open>y = Ok ()\<close> have wait: "write_config_when_ready strerror create write others (CheckLow, s2) = (Ok (), (pc', s'))"
    by (cases x) (simp_all add: Start_def client y StartGrpcServer_def e beside_def)
  have "ok (ip_ext s1)" using safe [OF r1] by (simp add: safe_def)
  from ext_outside [OF assms(5) this e] have r2: "?reached (CheckLow, s2)" by (rule reaches_outside [OF r1])
  have sleep: "?reached (others d ps)" if "?reached ps" for d ps by (rule reaches_further [OF that assms(8)])
  have attempt: "?reached (snd (?att ps))" if "?reached ps" for ps
  proof -
    obtain pc s where ps: "ps = (pc, s)" by (rule prod.exhaust)
    obtain r t where t: "config_attempt strerror create write s = (r, t)" by (rule prod.exhaust)
    have "ok (ip_ext s)" using safe [OF that] ps by (simp add: safe_def)
    from attempt_outside [OF assms(6,7) this t] have "?reached (pc, t)" by (rule reaches_outside [OF that [unfolded ps]])
    then show ?thesis by (simp add: ps t beside_def)
  qed
  obtain ps where ps: "?reached ps" "?att ps = (Ok (), (pc', s'))"
    by (rule Do_Ok_from [OF sleep [OF r2] attempt sleep wait [unfolded write_config_when_ready_def]])
  obtain pc s where s: "ps = (pc, s)" by (rule prod.exhaust)
  from ps(2) have "config_attempt strerror create write s = (Ok (), s')" by (simp add: s beside_Ok)
  note att = attempt_Ok [OF this]
  from safe [OF ps(1)] s have st: "exclusive (dataStore s)" "backed book (ip_ext s) (dataStore s)" by (simp_all add: safe_def)
  obtain nk ip a where "lookup_addr (dataStore s) nk ip = Some a" "\<not> addr_Assigned a"
    using free_address [OF exclusive_ok [OF st(1)] att(1)] by blast
  with backedD(2) [OF st(2), of nk ip] att(2) ps(1) s show ?thesis by blast
qed

section \<open>Witness\<close>

text \<open>The node of the witnesses of \<open>DaemonThms\<close>, on which nothing else happens while the daemon sleeps.\<close>

abbreviation small_main :: "unit go_result \<times> (mgr \<times> fake_cloud ipamd)" where
  "small_main \<equiv> Start (\<lambda>_. Ok small_api) node_net node_k8s node_links (\<lambda>_. '''') (\<lambda>_. '''') (\<lambda>d s. s) sample_order 0
     (\<lambda>s. (Ok (), s)) (\<lambda>s. (Ok (), s)) (\<lambda>t s. (Ok (), s)) (\<lambda>d ps. ps) sample_mem node_cloud"

lemma ext_return: "ext (\<lambda>mw. (Ok (), mw)) s = (Ok (), s)"
  by (simp add: ext_def)

lemma small_main_runs: "small_main = (Ok (), (CheckLow, snd small_start))"
proof -
  have "ds_assigned (dataStore (snd small_start)) < ds_total (dataStore (snd small_start))"
    unfolding small_start_eq snd_conv by code_simp
  then have a: "config_attempt (\<lambda>_. '''') (\<lambda>s. (Ok (), s)) (\<lambda>t s. (Ok (), s)) (snd small_start) = (Ok (), snd small_start)"
    by (simp add: config_attempt_def GetStats_def WriteCNIConfig_def ext_return)
  have c: "prepareQingCloudClient (\<lambda>_. '''') (\<lambda>_. Ok small_api) = (\<lambda>_. Ok small_api)" by (simp add: prepareQingCloudClient_def fun_eq_iff)
  have w: "write_config_when_ready (\<lambda>_. '''') (\<lambda>s. (Ok (), s)) (\<lambda>t s. (Ok (), s)) (\<lambda>d ps. ps) (CheckLow, snd small_start)
      = (Ok (), (CheckLow, snd small_start))"
    unfolding write_config_when_ready_def by (rule Do_first) (simp add: a beside_def)
  show ?thesis
    unfolding Start_def c small_start_run by (simp add: beside_def StartGrpcServer_def ext_return w)
qed

lemma config_written_when_ready_witness:
  "\<exists>pc s nk ip. small_reaches (pc, s) \<and> fake_book (ip_ext s) nk = Some ip \<and> small_main = (Ok (), (CheckLow, snd small_start))"
proof -
  have "leaves fake_nics_ok fake_book (\<lambda>s. (Ok (), s))" by (simp add: leaves_def)
  note quiet = this this this
  from config_written_when_ready [OF fake_nics.nic_cloud_axioms small_facts(3,1,2) quiet rtranclp.rtrancl_refl small_main_runs]
  show ?thesis using small_main_runs by blast
qed

end
