(* ===== verification/QcService.thy ===== *)
theory QcService
  imports IpamdState
begin

text \<open>
  What \<^verbatim>\<open>pkg/qcclient/wrapper.go\<close> calls: the services of the QingCloud SDK, its two wait
  functions, the links of the node, the clock's sleep and the random generator.  They are
  parameters: \<open>qc_services\<close> is a record of functions on the outside world.

  A field of an SDK answer is a pointer, nil when the answer of the cloud does not have it; it is an
  option here, and reading it is \<open>deref\<close>.  The elements of an answer's list are never nil, as
  the decoder makes them.  \<open>out_Text\<close> is the text \<^verbatim>\<open>%+v\<close> prints of an answer.

  \<^verbatim>\<open>pkg/qcclient/colors\<close> is here too: the colours of a new tag.
\<close>

section \<open>Answers of the cloud\<close>

text \<open>\<open>out_Items\<close> is the list of the answer (\<open>NICSet\<close>, \<open>VxNetSet\<close>, \<open>RouterSet\<close>, \<open>Nics\<close>, \<dots>),
  \<open>out_ID\<close> its \<open>JobID\<close> or \<open>TagID\<close>.\<close>

record 'a sdk_output =
  out_RetCode :: "int option"
  out_Message :: "string option"
  out_ID :: "string option"
  out_Items :: "'a list"
  out_Text :: string

record sdk_nic =
  sn_NICID :: "string option"
  sn_NICName :: "string option"
  sn_VxNetID :: "string option"
  sn_PrivateIP :: "string option"
  sn_Sequence :: "int option"
  sn_Role :: "int option"

record sdk_router =
  sr_ManagerIP :: "string option"
  sr_IPNetwork :: "string option"

record sdk_vxnet =
  sv_VxNetID :: "string option"
  sv_VxNetName :: "string option"
  sv_VpcRouterID :: "string option"
  sv_Router :: "sdk_router option"

record sdk_vpc =
  sp_RouterID :: "string option"
  sp_VpcNetwork :: "string option"

record sdk_router_vxnet =
  srv_VxNetID :: "string option"
  srv_IPNetwork :: "string option"

record sdk_tag =
  st_Owner :: "string option"
  st_TagName :: "string option"
  st_TagID :: "string option"
  st_ResourceCount :: "int option"
  st_ResourceTagPairs :: "(string option \<times> string option) list"

section \<open>Questions\<close>

record describe_nics =
  dn_Nics :: "string list"
  dn_Instances :: "string list"
  dn_VxNets :: "string list"
  dn_VxNetType :: "int list"
  dn_Limit :: "int option"
  dn_Status :: "string option"

definition all_nics :: describe_nics where
  "all_nics = \<lparr> dn_Nics = [], dn_Instances = [], dn_VxNets = [], dn_VxNetType = [], dn_Limit = None, dn_Status = None \<rparr>"

record describe_vxnets =
  dv_VxNets :: "string list"
  dv_SearchWord :: "string option"
  dv_Owner :: "string option"

record describe_tags =
  dt_Tags :: "string list"
  dt_SearchWord :: "string option"
  dt_Verbose :: int

type_synonym ('w, 'a) sdk_call = "('w, 'a sdk_output) world_call"

text \<open>\<open>svc_is_timeout\<close> is the type test for \<^verbatim>\<open>*qcutil.TimeoutError\<close>.\<close>

record 'w qc_services =
  svc_CreateNics :: "string \<Rightarrow> string \<Rightarrow> ('w, string option) sdk_call"
  svc_DescribeNics :: "describe_nics \<Rightarrow> ('w, sdk_nic) sdk_call"
  svc_AttachNics :: "string list \<Rightarrow> string \<Rightarrow> ('w, unit) sdk_call"
  svc_DetachNics :: "string list \<Rightarrow> ('w, unit) sdk_call"
  svc_DeleteNics :: "string list \<Rightarrow> ('w, unit) sdk_call"
  svc_DescribeVxNets :: "describe_vxnets \<Rightarrow> ('w, sdk_vxnet) sdk_call"
  svc_CreateVxNets :: "int \<Rightarrow> string \<Rightarrow> ('w, string option) sdk_call"
  svc_DeleteVxNets :: "string list \<Rightarrow> ('w, unit) sdk_call"
  svc_DescribeInstances :: "string list \<Rightarrow> int \<Rightarrow> ('w, string option list) sdk_call"
  svc_DescribeRouters :: "string list \<Rightarrow> ('w, sdk_vpc) sdk_call"
  svc_DescribeRouterVxNets :: "string \<Rightarrow> ('w, sdk_router_vxnet) sdk_call"
  svc_JoinRouter :: "string \<Rightarrow> string \<Rightarrow> string \<Rightarrow> ('w, unit) sdk_call"
  svc_LeaveRouter :: "string \<Rightarrow> string list \<Rightarrow> ('w, unit) sdk_call"
  svc_DescribeTags :: "describe_tags \<Rightarrow> ('w, sdk_tag) sdk_call"
  svc_CreateTag :: "string \<Rightarrow> string \<Rightarrow> ('w, unit) sdk_call"
  svc_AttachTags :: "(string \<times> string \<times> string) list \<Rightarrow> ('w, unit) sdk_call"
  svc_DescribeAccessKeys :: "string list \<Rightarrow> ('w, string option) sdk_call"
  svc_WaitForSpecific :: "('w \<Rightarrow> bool \<times> 'w) \<Rightarrow> duration \<Rightarrow> duration \<Rightarrow> ('w, unit) world_call"
  svc_is_timeout :: "go_error \<Rightarrow> bool"
  svc_WaitJob :: "string \<Rightarrow> duration \<Rightarrow> duration \<Rightarrow> ('w, unit) world_call"
  svc_LinkList :: "('w, link list) world_call"
  svc_Sleep :: "duration \<Rightarrow> 'w \<Rightarrow> 'w"
  svc_Intn :: "nat \<Rightarrow> 'w \<Rightarrow> nat \<times> 'w"

text \<open>A call of the outside world leaves the byte arrays alone.\<close>

definition sdk :: "('w, 'a) world_call \<Rightarrow> ('w, 'a) ext_call" where
  "sdk op = (\<lambda>(m, w). case op w of (r, w') \<Rightarrow> (r, (m, w')))"

lemma sdk_pair: "sdk op (m, w) = (fst (op w), (m, snd (op w)))"
  by (simp add: sdk_def split: prod.split)

lemma sdk_mem [simp]: "fst (snd (sdk op s)) = fst s"
  by (cases s) (simp add: sdk_pair)

section \<open>Colours\<close>

definition colors :: "string list" where
  "colors = [
     ''#CD5C5C'', ''#F08080'', ''#FA8072'', ''#E9967A'', ''#FFA07A'', ''#DC143C'', ''#FF0000'', ''#B22222'',
     ''#8B0000'', ''#FFC0CB'', ''#FFB6C1'', ''#FF69B4'', ''#FF1493'', ''#C71585'', ''#DB7093'', ''#FFA07A'',
     ''#FF7F50'', ''#FF6347'', ''#FF4500'', ''#FF8C00'', ''#FFA500'', ''#FFD700'', ''#FFFF00'', ''#FFFFE0'',
     ''#FFFACD'', ''#FAFAD2'', ''#FFEFD5'', ''#FFE4B5'', ''#FFDAB9'', ''#EEE8AA'', ''#F0E68C'', ''#BDB76B'',
     ''#E6E6FA'', ''#D8BFD8'', ''#DDA0DD'', ''#EE82EE'', ''#DA70D6'', ''#FF00FF'', ''#FF00FF'', ''#BA55D3'',
     ''#9370DB'', ''#663399'', ''#8A2BE2'', ''#9400D3'', ''#9932CC'', ''#8B008B'', ''#800080'', ''#4B0082'',
     ''#6A5ACD'', ''#483D8B'', ''#7B68EE'', ''#ADFF2F'', ''#7FFF00'', ''#7CFC00'', ''#00FF00'', ''#32CD32'',
     ''#98FB98'', ''#90EE90'', ''#00FA9A'', ''#00FF7F'', ''#3CB371'', ''#2E8B57'', ''#228B22'', ''#008000'',
     ''#006400'', ''#9ACD32'', ''#6B8E23'', ''#808000'', ''#556B2F'', ''#66CDAA'', ''#8FBC8B'', ''#20B2AA'',
     ''#008B8B'', ''#008080'', ''#00FFFF'', ''#00FFFF'', ''#E0FFFF'', ''#AFEEEE'', ''#7FFFD4'', ''#40E0D0'',
     ''#48D1CC'', ''#00CED1'', ''#5F9EA0'', ''#4682B4'', ''#B0C4DE'', ''#B0E0E6'', ''#ADD8E6'', ''#87CEEB'',
     ''#87CEFA'', ''#00BFFF'', ''#1E90FF'', ''#6495ED'', ''#7B68EE'', ''#4169E1'', ''#0000FF'', ''#0000CD'',
     ''#00008B'', ''#000080'', ''#191970'', ''#FFF8DC'', ''#FFEBCD'', ''#FFE4C4'', ''#FFDEAD'', ''#F5DEB3'',
     ''#DEB887'', ''#D2B48C'', ''#BC8F8F'', ''#F4A460'', ''#DAA520'', ''#B8860B'', ''#CD853F'', ''#D2691E'',
     ''#8B4513'', ''#A0522D'', ''#A52A2A'', ''#800000'', ''#FFFFFF'', ''#FFFAFA'', ''#F0FFF0'', ''#F5FFFA'',
     ''#F0FFFF'', ''#F0F8FF'', ''#F8F8FF'', ''#F5F5F5'', ''#FFF5EE'', ''#F5F5DC'', ''#FDF5E6'', ''#FFFAF0'',
     ''#FFFFF0'', ''#FAEBD7'', ''#FAF0E6'', ''#FFF0F5'', ''#FFE4E1'', ''#DCDCDC'', ''#D3D3D3'', ''#C0C0C0'',
     ''#A9A9A9'', ''#808080'', ''#696969'', ''#778899'', ''#708090'', ''#2F4F4F'', ''#000000'']"

definition RandomColor :: "(nat \<Rightarrow> 'w \<Rightarrow> nat \<times> 'w) \<Rightarrow> ('w, string) world_call" where
  "RandomColor intn w =
     (case intn (length colors) w of
        (i, w') \<Rightarrow> (if i < length colors then Ok (colors ! i) else Panic, w'))"

lemma RandomColor_total:
  assumes "\<And>n w. 0 < n \<Longrightarrow> fst (intn n w) < n"
  shows "\<exists>c \<in> set colors. RandomColor intn w = (Ok c, snd (intn (length colors) w))"
proof -
  have "0 < length colors" by (simp add: colors_def)
  then have "fst (intn (length colors) w) < length colors" by (rule assms)
  then show ?thesis by (auto simp: RandomColor_def split: prod.split)
qed

end
