(* ===== verification/QcWrapper.thy ===== *)
theory QcWrapper
  imports QcService "HOL-Library.Monad_Syntax"
begin

unbundle bit_operations_syntax

text \<open>
  \<^verbatim>\<open>pkg/qcclient/wrapper.go\<close>: the client of the cloud.  \<open>qc_wrapper\<close> is the struct
  \<^verbatim>\<open>qingcloudAPIWrapper\<close>; its services are \<open>qw_svc\<close>.  Every method is a function of the
  struct and of the world: the byte arrays (networks are read from the answers) and the outside.
  \<open>wrapper_api\<close> is the struct as the interface the daemon calls.

  A loop over an answer that only reads is a function to an option, \<open>None\<close> for a nil pointer.
\<close>

definition nicPrefix :: string where "nicPrefix = ''hostnic_''"
definition instanceIDFile :: string where "instanceIDFile = ''/host/etc/qingcloud/instance-id''"
definition defaultOpTimeout :: duration where "defaultOpTimeout = 180 * second"
definition defaultWaitInterval :: duration where "defaultWaitInterval = 10 * second"
definition waitNicLocalTimeout :: duration where "waitNicLocalTimeout = 20 * second"
definition waitNicLocalInterval :: duration where "waitNicLocalInterval = 2 * second"
definition nicNumLimit :: int where "nicNumLimit = 64"

record 'w qc_wrapper =
  qw_svc :: "'w qc_services"
  qw_userID :: string
  qw_instanceID :: string
  qw_clusterName :: string
  qw_extraLabels :: "string list"
  qw_vxnetLabelID :: string
  qw_nicLabelID :: string
  qw_labelResource :: bool

section \<open>Answers that carry a result code\<close>

text \<open>\<open>if *output.RetCode == 0\<close>: the answer itself, or an error.\<close>

definition ret_ok :: "'a sdk_output \<Rightarrow> (mem \<times> 'w \<Rightarrow> 'b go_result \<times> (mem \<times> 'w)) \<Rightarrow> (mem \<times> 'w \<Rightarrow> 'b go_result \<times> (mem \<times> 'w))
   \<Rightarrow> ('w, 'b) ext_call" where
  "ret_ok output f g = deref (out_RetCode output) (\<lambda>rc s. if rc = 0 then f s else g s)"

text \<open>An error with the answer's message, and one with the answer printed.\<close>

definition message_error :: "string \<Rightarrow> 'a sdk_output \<Rightarrow> ('w, 'b) ext_call" where
  "message_error prefix output = deref (out_Message output) (\<lambda>msg s. (Err (ErrorString (prefix @ msg)), s))"

definition printed_error :: "string \<Rightarrow> 'a sdk_output \<Rightarrow> string \<Rightarrow> ('w, 'b) ext_call" where
  "printed_error prefix output suffix s = (Err (ErrorString (prefix @ out_Text output @ suffix)), s)"

section \<open>Networks and vxnets\<close>

text \<open>\<open>_, n, _ = net.ParseCIDR(str)\<close>: nil when the text is no network.\<close>

definition read_net :: "string \<Rightarrow> mem \<Rightarrow> net_ref option \<times> mem" where
  "read_net str m = (case ParseCIDR str of None \<Rightarrow> (None, m) | Some (_, n) \<Rightarrow> apfst Some (alloc_net n m))"

definition vxnet_item :: "sdk_vxnet \<Rightarrow> ('w, vxnet) ext_call" where
  "vxnet_item q =
     deref (sv_VxNetID q) (\<lambda>i. deref (sv_VpcRouterID q) (\<lambda>rid s.
       let v = \<lparr> vx_ID = i, vx_GateWay = '''', vx_Network = None, vx_RouterID = rid, vx_Name = '''' \<rparr>
       in case sv_Router q of
            None \<Rightarrow> (Ok v, s)
          | Some r \<Rightarrow> deref (sr_ManagerIP r) (\<lambda>gw. deref (sr_IPNetwork r) (\<lambda>str (m, w).
              case read_net str m of
                (n, m') \<Rightarrow> (Ok (v\<lparr> vx_GateWay := gw, vx_Network := n \<rparr>), (m', w)))) s))"

fun vxnet_items :: "sdk_vxnet list \<Rightarrow> vxnet list \<Rightarrow> ('w, vxnet list) ext_call" where
  "vxnet_items [] vxNets s = (Ok vxNets, s)"
| "vxnet_items (q # qs) vxNets s = check (vxnet_item q s) (\<lambda>v s1. vxnet_items qs (vxNets @ [v]) s1)"

definition GetVxNets :: "'w qc_wrapper \<Rightarrow> string list \<Rightarrow> ('w, vxnet list) ext_call" where
  "GetVxNets q ids s =
     check (sdk (svc_DescribeVxNets (qw_svc q) \<lparr> dv_VxNets = ids, dv_SearchWord = None, dv_Owner = None \<rparr>) s) (\<lambda>output.
       ret_ok output (vxnet_items (out_Items output) []) (printed_error ''DescribeVxNets invalid output ['' output '']''))"

definition GetVxNet :: "'w qc_wrapper \<Rightarrow> string \<Rightarrow> ('w, vxnet) ext_call" where
  "GetVxNet q vxNet s =
     check (GetVxNets q [vxNet] s) (\<lambda>output s1.
       case output of
         [] \<Rightarrow> (Err (NewResourceNotFoundError ResourceTypeVxnet vxNet []), s1)
       | v # _ \<Rightarrow> (Ok v, s1))"

text \<open>The first vxnet with exactly the name; the search of the cloud may find others.\<close>

fun find_vxnet :: "string \<Rightarrow> sdk_vxnet list \<Rightarrow> ('w, vxnet option) ext_call" where
  "find_vxnet name [] s = (Ok None, s)"
| "find_vxnet name (q # qs) s =
     deref (sv_VxNetName q) (\<lambda>n s1.
       if n = name then check (vxnet_item q s1) (\<lambda>v s2. (Ok (Some v), s2))
       else find_vxnet name qs s1) s"

definition GetVxNetByName :: "'w qc_wrapper \<Rightarrow> string \<Rightarrow> ('w, vxnet) ext_call" where
  "GetVxNetByName q name s =
     (let missing = (\<lambda>s2. (Err (NewResourceNotFoundError ResourceTypeVxnet name []), s2))
      in check (sdk (svc_DescribeVxNets (qw_svc q) \<lparr> dv_VxNets = [], dv_SearchWord = Some name, dv_Owner = Some (qw_userID q) \<rparr>) s)
           (\<lambda>output. ret_ok output
              (\<lambda>s1. check (find_vxnet name (out_Items output) s1) (\<lambda>found s2.
                 case found of Some v \<Rightarrow> (Ok v, s2) | None \<Rightarrow> missing s2))
              missing))"

section \<open>Tags\<close>

definition TagResources :: "'w qc_wrapper \<Rightarrow> string \<Rightarrow> string \<Rightarrow> string list \<Rightarrow> ('w, unit) ext_call" where
  "TagResources q tagid resourceType ids s =
     check (sdk (svc_AttachTags (qw_svc q) (List.map (\<lambda>i. (i, resourceType, tagid)) ids)) s) (\<lambda>output.
       ret_ok output (\<lambda>s1. (Ok (), s1)) (message_error ''Failed to attach tags,err: '' output))"

fun tag_all :: "'w qc_wrapper \<Rightarrow> string list \<Rightarrow> string \<Rightarrow> string \<Rightarrow> ('w, unit) ext_call" where
  "tag_all q [] resourceType resourceid s = (Ok (), s)"
| "tag_all q (label # labels) resourceType resourceid s =
     check (TagResources q label resourceType [resourceid] s) (\<lambda>_ s1. tag_all q labels resourceType resourceid s1)"

definition tagResource :: "'w qc_wrapper \<Rightarrow> string \<Rightarrow> string \<Rightarrow> string \<Rightarrow> ('w, unit) ext_call" where
  "tagResource q tagid resourceid resourceType s =
     (if qw_labelResource q then
        check (TagResources q tagid resourceType [resourceid] s) (\<lambda>_ s1. tag_all q (qw_extraLabels q) resourceType resourceid s1)
      else (Ok (), s))"

text \<open>The slice of resources is made with the count the answer gives and filled by index.\<close>

fun fill_resources :: "nat \<Rightarrow> (string option \<times> string option) list \<Rightarrow> tagged_resource option list \<Rightarrow> tagged_resource option list option" where
  "fill_resources index [] rs = Some rs"
| "fill_resources index ((rtype, rid) # pairs) rs =
     (if index < length rs then
        do { t \<leftarrow> rtype; i \<leftarrow> rid;
             fill_resources (Suc index) pairs (rs[index := Some \<lparr> tr_ResourceType = t, tr_ResourceID = i \<rparr>]) }
      else None)"

definition tagged_resources :: "sdk_tag \<Rightarrow> tagged_resource option list option" where
  "tagged_resources tg =
     do { n \<leftarrow> st_ResourceCount tg;
          if n < 0 then None else fill_resources 0 (st_ResourceTagPairs tg) (replicate (nat n) None) }"

text \<open>The outer option is \<open>None\<close> for a panic, the inner one when no tag fits.\<close>

fun find_tag :: "string \<Rightarrow> string \<Rightarrow> sdk_tag list \<Rightarrow> tag option option" where
  "find_tag userID label [] = Some None"
| "find_tag userID label (tg # tgs) =
     do { owner \<leftarrow> st_Owner tg;
          fits \<leftarrow> (if owner = userID then map_option (\<lambda>n. n = label) (st_TagName tg) else Some False);
          if fits then do { rs \<leftarrow> tagged_resources tg; i \<leftarrow> st_TagID tg;
                            Some (Some \<lparr> tag_Label = label, tag_ID = i, tag_TaggedResources = rs \<rparr>) }
          else find_tag userID label tgs }"

definition GetTagByLabel :: "'w qc_wrapper \<Rightarrow> string \<Rightarrow> ('w, tag) ext_call" where
  "GetTagByLabel q label s =
     check (sdk (svc_DescribeTags (qw_svc q) \<lparr> dt_Tags = [], dt_SearchWord = Some label, dt_Verbose = 1 \<rparr>) s) (\<lambda>output.
       deref (find_tag (qw_userID q) label (out_Items output)) (\<lambda>found s1.
         case found of
           Some t \<Rightarrow> (Ok t, s1)
         | None \<Rightarrow> (Err (NewResourceNotFoundError ResourceTypeTag label []), s1)))"

text \<open>The loop of \<open>GetTagByID\<close> returns in its first turn.\<close>

definition first_tag :: "sdk_tag \<Rightarrow> tag option" where
  "first_tag tg =
     do { rs \<leftarrow> tagged_resources tg; n \<leftarrow> st_TagName tg; i \<leftarrow> st_TagID tg;
          Some \<lparr> tag_Label = n, tag_ID = i, tag_TaggedResources = rs \<rparr> }"

definition GetTagByID :: "'w qc_wrapper \<Rightarrow> string \<Rightarrow> ('w, tag) ext_call" where
  "GetTagByID q i s =
     check (sdk (svc_DescribeTags (qw_svc q) \<lparr> dt_Tags = [i], dt_SearchWord = None, dt_Verbose = 1 \<rparr>) s) (\<lambda>output s1.
       case out_Items output of
         [] \<Rightarrow> (Err (NewResourceNotFoundError ResourceTypeTag i []), s1)
       | tg # _ \<Rightarrow> deref (first_tag tg) (\<lambda>t s2. (Ok t, s2)) s1)"

definition CreateTag :: "'w qc_wrapper \<Rightarrow> string \<Rightarrow> string \<Rightarrow> ('w, string) ext_call" where
  "CreateTag q label color s =
     check (sdk (svc_CreateTag (qw_svc q) color label) s) (\<lambda>output.
       ret_ok output (deref (out_ID output) (\<lambda>i s1. (Ok i, s1)))
         (message_error (''Failed to create tag '' @ label @ '', err: '') output))"

section \<open>The labels of the cluster\<close>

text \<open>
  Here the struct itself changes: the state is the struct and the world.  \<open>des\<close> is the field
  the ID is written to.  The error returned after a tag has been created is the outer \<open>err\<close>,
  that the tag was not found; the \<open>err\<close> of \<open>CreateTag\<close> is another variable.
\<close>

definition with_q :: "('w qc_wrapper \<Rightarrow> ('w, 'a) ext_call) \<Rightarrow> 'w qc_wrapper \<times> mem \<times> 'w \<Rightarrow> 'a go_result \<times> ('w qc_wrapper \<times> mem \<times> 'w)" where
  "with_q op = (\<lambda>(q, s). case op q s of (r, s') \<Rightarrow> (r, (q, s')))"

definition ensureLabel ::
  "string \<Rightarrow> (string \<Rightarrow> 'w qc_wrapper \<Rightarrow> 'w qc_wrapper) \<Rightarrow> 'w qc_wrapper \<times> mem \<times> 'w \<Rightarrow> unit go_result \<times> ('w qc_wrapper \<times> mem \<times> 'w)" where
  "ensureLabel label des qs =
     on_result (with_q (\<lambda>q. GetTagByLabel q label) qs)
       (\<lambda>l (q, s). (Ok (), (des (tag_ID l) q, s)))
       (\<lambda>err qs1.
          if IsResourceNotFound err then
            check (with_q (\<lambda>q s. check (sdk (RandomColor (svc_Intn (qw_svc q))) s) (\<lambda>color. CreateTag q label color)) qs1)
              (\<lambda>i (q, s). (Err err, (des i q, s)))
          else (Err err, qs1))"

fun ensure_all ::
  "(string \<times> (string \<Rightarrow> 'w qc_wrapper \<Rightarrow> 'w qc_wrapper)) list \<Rightarrow> 'w qc_wrapper \<times> mem \<times> 'w \<Rightarrow> unit go_result \<times> ('w qc_wrapper \<times> mem \<times> 'w)" where
  "ensure_all [] qs = (Ok (), qs)"
| "ensure_all ((label, des) # labels) qs = check (ensureLabel label des qs) (\<lambda>_ qs1. ensure_all labels qs1)"

definition ensureLabels :: "'w qc_wrapper \<times> mem \<times> 'w \<Rightarrow> unit go_result \<times> ('w qc_wrapper \<times> mem \<times> 'w)" where
  "ensureLabels qs =
     ensure_all
       [(''hostnic-vxnet-'' @ qw_clusterName (fst qs), \<lambda>i q. q\<lparr> qw_vxnetLabelID := i \<rparr>),
        (''hostnic-nic-'' @ qw_clusterName (fst qs), \<lambda>i q. q\<lparr> qw_nicLabelID := i \<rparr>)] qs"

text \<open>
  \<open>readFile\<close> is \<open>ioutil.ReadFile\<close>; \<open>start\<close> is the SDK's own start-up (its configuration,
  \<open>service.Init\<close> and the constructors of the services) and gives the access key.
\<close>

definition NewQingCloudClient ::
  "'w qc_services \<Rightarrow> (errno \<Rightarrow> string) \<Rightarrow> (string \<Rightarrow> ('w, string) world_call) \<Rightarrow> ('w, string) world_call
   \<Rightarrow> (string \<times> string list) option \<Rightarrow> ('w, 'w qc_wrapper) ext_call" where
  "NewQingCloudClient svc strerror readFile start labelConfig s =
     on_result (sdk (readFile instanceIDFile) s)
       (\<lambda>content s1. check (sdk start s1) (\<lambda>accessKeyID s2.
          check (sdk (svc_DescribeAccessKeys svc [accessKeyID]) s2) (\<lambda>output s3.
            case out_Items output of
              [] \<Rightarrow> (Err (ErrorString (''AccessKey '' @ accessKeyID @ '' have not userid'')), s3)
            | owner # _ \<Rightarrow> deref owner (\<lambda>userID s4.
                let p = \<lparr> qw_svc = svc, qw_userID = userID, qw_instanceID = content, qw_clusterName = '''', qw_extraLabels = [],
                          qw_vxnetLabelID = '''', qw_nicLabelID = '''', qw_labelResource = False \<rparr>
                in case labelConfig of
                     None \<Rightarrow> (Ok p, s4)
                   | Some (cluster, extra) \<Rightarrow>
                       (case ensureLabels (p\<lparr> qw_labelResource := True, qw_clusterName := cluster, qw_extraLabels := extra \<rparr>, s4) of
                          (Ok _, (p1, s5)) \<Rightarrow> (Ok p1, s5)
                        | (Err _, (p1, s5)) \<Rightarrow> (Ok (p1\<lparr> qw_labelResource := False \<rparr>), s5)
                        | (Panic, (p1, s5)) \<Rightarrow> (Panic, s5))) s3)))
       (\<lambda>err s1. (Err (ErrorString (''Load instance-id from '' @ instanceIDFile @ '' error: '' @ error_string strerror err)), s1))"

section \<open>NICs\<close>

text \<open>The fields every answer is read for; the hardware address of a NIC is its ID.\<close>

definition nic_item :: "sdk_nic \<Rightarrow> host_nic option" where
  "nic_item nic =
     do { i \<leftarrow> sn_NICID nic; v \<leftarrow> sn_VxNetID nic; ip \<leftarrow> sn_PrivateIP nic;
          Some \<lparr> hn_ID = i,
                 hn_VxNet = Some \<lparr> vx_ID = v, vx_GateWay = '''', vx_Network = None, vx_RouterID = '''', vx_Name = '''' \<rparr>,
                 hn_HardwareAddr = i, hn_Address = ip, hn_DeviceNumber = 0, hn_IsPrimary = False \<rparr> }"

definition placed_nic :: "bool \<Rightarrow> sdk_nic \<Rightarrow> host_nic option" where
  "placed_nic primary nic =
     do { h \<leftarrow> nic_item nic; n \<leftarrow> sn_Sequence nic; Some (h\<lparr> hn_DeviceNumber := n, hn_IsPrimary := primary \<rparr>) }"

definition GetNics :: "'w qc_wrapper \<Rightarrow> string list \<Rightarrow> ('w, host_nic list) ext_call" where
  "GetNics q ids s =
     check (sdk (svc_DescribeNics (qw_svc q) (all_nics\<lparr> dn_Nics := ids \<rparr>)) s) (\<lambda>output.
       ret_ok output
         (deref (those (List.map nic_item (out_Items output))) (\<lambda>niclist s1. (Ok niclist, s1)))
         (printed_error ''DescribeNics Failed ['' output '']''))"

definition has_prefix :: "string \<Rightarrow> string \<Rightarrow> bool" where
  "has_prefix str pre \<longleftrightarrow> take (length pre) str = pre"

fun attached_loop :: "sdk_nic list \<Rightarrow> host_nic list \<Rightarrow> host_nic list option" where
  "attached_loop [] result = Some result"
| "attached_loop (nic # nics) result =
     do { name \<leftarrow> sn_NICName nic;
          if has_prefix name nicPrefix then do { h \<leftarrow> placed_nic False nic; attached_loop nics (result @ [h]) }
          else attached_loop nics result }"

definition GetAttachedNICs :: "'w qc_wrapper \<Rightarrow> string \<Rightarrow> ('w, host_nic list) ext_call" where
  "GetAttachedNICs q vxnet s =
     check (sdk (svc_DescribeNics (qw_svc q) (all_nics\<lparr> dn_Instances := [qw_instanceID q], dn_Limit := Some nicNumLimit,
              dn_VxNets := [vxnet], dn_VxNetType := [1] \<rparr>)) s) (\<lambda>output.
       deref (attached_loop (out_Items output) []) (\<lambda>result s1. (Ok result, s1)))"

text \<open>The outer option is \<open>None\<close> for a panic, the inner one when no NIC is primary.\<close>

fun primary_nic :: "sdk_nic list \<Rightarrow> host_nic option option" where
  "primary_nic [] = Some None"
| "primary_nic (nic # nics) =
     do { role \<leftarrow> sn_Role nic;
          if role = 1 then map_option Some (placed_nic True nic) else primary_nic nics }"

definition GetPrimaryNIC :: "'w qc_wrapper \<Rightarrow> ('w, host_nic) ext_call" where
  "GetPrimaryNIC q s =
     check (sdk (svc_DescribeNics (qw_svc q) (all_nics\<lparr> dn_Instances := [qw_instanceID q], dn_Status := Some ''in-use'',
              dn_Limit := Some nicNumLimit, dn_VxNetType := [1] \<rparr>)) s) (\<lambda>output.
       deref (primary_nic (out_Items output)) (\<lambda>found s1.
         case found of
           Some h \<Rightarrow> (Ok h, s1)
         | None \<Rightarrow> (Err (ErrorString (''Could not find the primary nic of instance '' @ qw_instanceID q)), s1)))"

text \<open>
  The NIC is waited for on the node: its link must be up (\<open>net.FlagUp\<close> is the lowest bit) and
  its operational state must share a bit with \<open>netlink.OperUp\<close>, which is 6.
\<close>

definition FlagUp :: "64 word" where "FlagUp = 1"
definition OperUp :: "8 word" where "OperUp = 6"

definition link_up :: "link \<Rightarrow> bool" where
  "link_up l \<longleftrightarrow> link_Flags l AND FlagUp \<noteq> 0 \<and> link_OperState l AND OperUp \<noteq> 0"

definition nic_is_up :: "'w qc_wrapper \<Rightarrow> string \<Rightarrow> 'w \<Rightarrow> bool \<times> 'w" where
  "nic_is_up q nicid w =
     (case LinkByMacAddr nicid (svc_LinkList (qw_svc q) w) of
        (Ok l, w1) \<Rightarrow> (link_up l, w1)
      | (_, w1) \<Rightarrow> (False, w1))"

definition waitNic :: "'w qc_wrapper \<Rightarrow> string \<Rightarrow> string \<Rightarrow> ('w, unit) ext_call" where
  "waitNic q nicid jobid s =
     on_result (sdk (svc_WaitForSpecific (qw_svc q) (nic_is_up q nicid) waitNicLocalTimeout waitNicLocalInterval) s)
       (\<lambda>_ s1. (Ok (), s1))
       (\<lambda>err s1. if svc_is_timeout (qw_svc q) err
          then sdk (svc_WaitJob (qw_svc q) jobid defaultOpTimeout defaultWaitInterval) s1
          else (Err err, s1))"

definition attachNic :: "'w qc_wrapper \<Rightarrow> host_nic \<Rightarrow> ('w, unit) ext_call" where
  "attachNic q nic s =
     check (sdk (svc_AttachNics (qw_svc q) [hn_HardwareAddr nic] (qw_instanceID q)) s) (\<lambda>output.
       ret_ok output (deref (out_ID output) (\<lambda>jobID. waitNic q (hn_ID nic) jobID))
         (printed_error ''AttachNics output ['' output ''] error''))"

definition detachNics :: "'w qc_wrapper \<Rightarrow> string list \<Rightarrow> ('w, unit) ext_call" where
  "detachNics q nicIDs s =
     check (sdk (svc_DetachNics (qw_svc q) nicIDs) s) (\<lambda>output.
       ret_ok output
         (deref (out_ID output) (\<lambda>jobID. sdk (svc_WaitJob (qw_svc q) jobID defaultOpTimeout defaultWaitInterval)))
         (message_error ''DetachNics output error '' output))"

definition DeleteNics :: "'w qc_wrapper \<Rightarrow> string list \<Rightarrow> ('w, unit) ext_call" where
  "DeleteNics q nicIDs s =
     check (detachNics q nicIDs s) (\<lambda>_ s1.
     check (sdk (svc_DeleteNics (qw_svc q) nicIDs) s1) (\<lambda>output.
       ret_ok output (\<lambda>s2. (Ok (), s2)) (printed_error ''DeleteNics output ['' output ''] error'')))"

definition DeleteNic :: "'w qc_wrapper \<Rightarrow> string \<Rightarrow> ('w, unit) ext_call" where
  "DeleteNic q nicID = DeleteNics q [nicID]"

text \<open>The closure given to \<open>retry.Do\<close>; the variable \<open>hostnic\<close> it assigns is part of its state.\<close>

definition fetch_nic :: "'w qc_wrapper \<Rightarrow> string \<Rightarrow> host_nic option \<times> mem \<times> 'w \<Rightarrow> unit go_result \<times> (host_nic option \<times> mem \<times> 'w)" where
  "fetch_nic q nicid st =
     (case GetNics q [nicid] (snd st) of
        (Ok (h # _), s1) \<Rightarrow> (Ok (), (Some h, s1))
      | (Ok [], s1) \<Rightarrow> (Err (ErrorString ''get empty nic''), (fst st, s1))
      | (Err err, s1) \<Rightarrow> (Err err, (fst st, s1))
      | (Panic, s1) \<Rightarrow> (Panic, (fst st, s1)))"

text \<open>
  \<open>CreateNic\<close> once the cloud has named the new NIC.  The outcome of the retries is ignored: when
  the NIC was never found, \<open>hostnic\<close> is nil and writing its vxnet is a panic.
\<close>

definition attach_created :: "'w qc_wrapper \<Rightarrow> string \<Rightarrow> string \<Rightarrow> host_nic option \<Rightarrow> ('w, host_nic) ext_call" where
  "attach_created q vxnet nicid hostnic s =
     check (GetVxNet q vxnet s) (\<lambda>vn.
       deref hostnic (\<lambda>h s1.
         let h1 = h\<lparr> hn_VxNet := Some vn \<rparr>
         in on_result (attachNic q h1 s1)
              (\<lambda>_ s2. (Ok h1, s2))
              (\<lambda>err s2. ignoring (DeleteNic q nicid s2) (\<lambda>s3. (Err err, s3)))))"

definition created_nic :: "'w qc_wrapper \<Rightarrow> string \<Rightarrow> string \<Rightarrow> ('w, host_nic) ext_call" where
  "created_nic q vxnet nicid s =
     ignoring (tagResource q (qw_nicLabelID q) nicid ResourceTypeNic s) (\<lambda>s1.
       case Do 5 (\<lambda>d. apsnd (apsnd (svc_Sleep (qw_svc q) d))) (3 * second) (fetch_nic q nicid) (None, s1) of
         (r, (hostnic, s2)) \<Rightarrow> (if r = Panic then (Panic, s2) else attach_created q vxnet nicid hostnic s2))"

definition CreateNic :: "'w qc_wrapper \<Rightarrow> string \<Rightarrow> ('w, host_nic) ext_call" where
  "CreateNic q vxnet s =
     check (sdk (svc_CreateNics (qw_svc q) vxnet (nicPrefix @ qw_instanceID q)) s) (\<lambda>output.
       let failed = message_error ''Failed to creat nic, error: '' output
       in ret_ok output
            (\<lambda>s1. case out_Items output of
                    [] \<Rightarrow> failed s1
                  | qcnic # _ \<Rightarrow> deref qcnic (created_nic q vxnet) s1)
            failed)"

section \<open>The VPC\<close>

definition CreateVxNet :: "'w qc_wrapper \<Rightarrow> string \<Rightarrow> ('w, vxnet) ext_call" where
  "CreateVxNet q name s =
     check (sdk (svc_CreateVxNets (qw_svc q) 1 name) s) (\<lambda>output.
       ret_ok output
         (\<lambda>s1. case out_Items output of
                 [] \<Rightarrow> (Panic, s1)
               | vid # _ \<Rightarrow> deref vid (\<lambda>i s2. ignoring (tagResource q (qw_vxnetLabelID q) i ResourceTypeVxnet s2) (\<lambda>s3.
                   (Ok \<lparr> vx_ID = i, vx_GateWay = '''', vx_Network = None, vx_RouterID = '''', vx_Name = name \<rparr>, s3))) s1)
         (message_error (''Failed to create vxnet '' @ name @ '',err:'') output))"

fun vpc_vxnets :: "sdk_router_vxnet list \<Rightarrow> vxnet list \<Rightarrow> ('w, vxnet list) ext_call" where
  "vpc_vxnets [] result s = (Ok result, s)"
| "vpc_vxnets (v # vs) result s =
     deref (srv_VxNetID v) (\<lambda>i. deref (srv_IPNetwork v) (\<lambda>str (m, w).
       case read_net str m of
         (n, m') \<Rightarrow> vpc_vxnets vs
           (result @ [\<lparr> vx_ID = i, vx_GateWay = '''', vx_Network = n, vx_RouterID = '''', vx_Name = '''' \<rparr>]) (m', w))) s"

definition GetVPCVxNets :: "'w qc_wrapper \<Rightarrow> string \<Rightarrow> ('w, vxnet list) ext_call" where
  "GetVPCVxNets q vpcid s =
     check (sdk (svc_DescribeRouterVxNets (qw_svc q) vpcid) s) (\<lambda>output.
       ret_ok output (vpc_vxnets (out_Items output) [])
         (message_error ''Failed to call 'DescribeRouterVxNets',err: '' output))"

text \<open>The closure given to \<open>retry.Do\<close>: it assigns the field \<open>vpc.VxNets\<close>, nil on an error.\<close>

definition fetch_vxnets :: "'w qc_wrapper \<Rightarrow> vpc \<times> mem \<times> 'w \<Rightarrow> unit go_result \<times> (vpc \<times> mem \<times> 'w)" where
  "fetch_vxnets q vs =
     (case GetVPCVxNets q (vpc_ID (fst vs)) (snd vs) of
        (Ok l, s1) \<Rightarrow> (Ok (), ((fst vs)\<lparr> vpc_VxNets := l \<rparr>, s1))
      | (Err err, s1) \<Rightarrow> (Err err, ((fst vs)\<lparr> vpc_VxNets := [] \<rparr>, s1))
      | (Panic, s1) \<Rightarrow> (Panic, (fst vs, s1)))"

definition GetVPC :: "'w qc_wrapper \<Rightarrow> string \<Rightarrow> ('w, vpc) ext_call" where
  "GetVPC q i s =
     check (sdk (svc_DescribeRouters (qw_svc q) [i]) s) (\<lambda>output s1.
       case out_Items output of
         [] \<Rightarrow> (Err (NewResourceNotFoundError ResourceTypeVPC i []), s1)
       | router # _ \<Rightarrow>
           deref (sp_RouterID router) (\<lambda>rid. deref (sp_VpcNetwork router) (\<lambda>str (m, w).
             case read_net str m of
               (None, m') \<Rightarrow> (Err (ErrorString (''invalid CIDR address: '' @ str)), (m', w))
             | (Some n, m') \<Rightarrow>
                 (case Do 3 (\<lambda>d. apsnd (apsnd (svc_Sleep (qw_svc q) d))) (5 * second) (fetch_vxnets q)
                         (\<lparr> vpc_Network = Some n, vpc_ID = rid, vpc_VxNets = [] \<rparr>, (m', w)) of
                    (r, (v, s2)) \<Rightarrow> (if r = Panic then Panic else Ok v, s2)))) s1)"

text \<open>The vxnets of the instance must be in one VPC; a vxnet in none is passed over at the start only.\<close>

definition not_one_vpc :: go_error where
  "not_one_vpc = ErrorString ''Vxnet is not under the same VPC's management''"

fun same_router :: "string \<Rightarrow> vxnet list \<Rightarrow> string go_result" where
  "same_router routerID [] = Ok routerID"
| "same_router routerID (v # vs) =
     (if routerID = '''' then same_router (vx_RouterID v) vs
      else if routerID \<noteq> vx_RouterID v then Err not_one_vpc
      else same_router routerID vs)"

definition GetNodeVPC :: "'w qc_wrapper \<Rightarrow> ('w, vpc) ext_call" where
  "GetNodeVPC q s =
     check (sdk (svc_DescribeInstances (qw_svc q) [qw_instanceID q] 1) s) (\<lambda>output s1.
       case out_Items output of
         [] \<Rightarrow> (Err (ErrorString (''Cannot find the instance '' @ qw_instanceID q)), s1)
       | vxnets # _ \<Rightarrow>
           deref (those vxnets) (\<lambda>vxnetIds s2.
             check (GetVxNets q vxnetIds s2) (\<lambda>vxnets s3.
             check (same_router '''' vxnets, s3) (\<lambda>routerID. GetVPC q routerID))) s1)"

definition JoinVPC :: "'w qc_wrapper \<Rightarrow> string \<Rightarrow> string \<Rightarrow> string \<Rightarrow> ('w, unit) ext_call" where
  "JoinVPC q network vxnetID vpcID s =
     check (sdk (svc_JoinRouter (qw_svc q) vxnetID vpcID network) s) (\<lambda>output.
       deref (out_ID output) (\<lambda>jobID. sdk (svc_WaitJob (qw_svc q) jobID defaultOpTimeout defaultWaitInterval)))"

definition DeleteVxNet :: "'w qc_wrapper \<Rightarrow> string \<Rightarrow> ('w, unit) ext_call" where
  "DeleteVxNet q i s =
     check (sdk (svc_DeleteVxNets (qw_svc q) [i]) s) (\<lambda>output.
       ret_ok output (\<lambda>s1. (Ok (), s1)) (message_error (''Failed to delete vxnet '' @ i @ '', err: '') output))"

definition LeaveVPC :: "'w qc_wrapper \<Rightarrow> string \<Rightarrow> string \<Rightarrow> ('w, unit) ext_call" where
  "LeaveVPC q vxnetID vpcID s =
     check (sdk (svc_LeaveRouter (qw_svc q) vpcID [vxnetID]) s) (\<lambda>output.
       deref (out_ID output) (\<lambda>jobID s1.
         check (sdk (svc_WaitJob (qw_svc q) jobID defaultOpTimeout defaultWaitInterval) s1) (\<lambda>_. DeleteVxNet q vxnetID)))"

definition GetInstanceID :: "'w qc_wrapper \<Rightarrow> string" where
  "GetInstanceID q = qw_instanceID q"

text \<open>The struct as \<^verbatim>\<open>QingCloudAPI\<close>; two of its results may be nil in that interface.\<close>

definition may_be_nil :: "('w, 'a) ext_call \<Rightarrow> ('w, 'a option) ext_call" where
  "may_be_nil op s = check (op s) (\<lambda>x s1. (Ok (Some x), s1))"

definition wrapper_api :: "'w qc_wrapper \<Rightarrow> 'w cloud_api" where
  "wrapper_api q = \<lparr>
     api_CreateNic = CreateNic q, api_DeleteNic = DeleteNic q, api_GetPrimaryNIC = may_be_nil (GetPrimaryNIC q),
     api_GetVxNet = (\<lambda>i. may_be_nil (GetVxNet q i)), api_GetVxNetByName = GetVxNetByName q, api_CreateVxNet = CreateVxNet q,
     api_GetAttachedNICs = GetAttachedNICs q, api_GetNodeVPC = GetNodeVPC q, api_GetVPCVxNets = GetVPCVxNets q,
     api_JoinVPC = JoinVPC q, api_LeaveVPC = LeaveVPC q, api_GetInstanceID = GetInstanceID q \<rparr>"

end
