(* ===== verification/QcWrapperThms.thy ===== *)
theory QcWrapperThms
  imports QcWrapper
begin

text \<open>
  What the cloud client promises: which NICs of the cloud remain after \<open>CreateNic\<close>, which vxnet a
  name finds, when the VPC of the node is known, what a first start does to the labels, and what
  counts as a NIC that is up.  The services of the SDK are parameters; what is assumed of them is
  their documented effect on the set of NICs (\<open>nic_accounting\<close>).
\<close>

section \<open>Calls that leave the NICs alone\<close>

lemma keeps_sdk [keeps_intros]: "keeps v op \<Longrightarrow> keeps (v \<circ> snd) (sdk op)"
  by (auto simp: keeps_def sdk_pair)

lemma keeps_ret_ok [keeps_intros]: "keeps v f \<Longrightarrow> keeps v g \<Longrightarrow> keeps v (ret_ok output f g)"
  unfolding ret_ok_def by (intro keeps_deref) (auto simp: keeps_def)

lemma keeps_errors [keeps_intros]: "keeps v (message_error p output)" "keeps v (printed_error p output q)"
  by (auto simp: keeps_def message_error_def printed_error_def deref_def split: option.split)

lemma keeps_if [keeps_intros]: "keeps v f \<Longrightarrow> keeps v g \<Longrightarrow> keeps v (\<lambda>s. if b then f s else g s)"
  by (cases b) simp_all

lemma keeps_list [keeps_intros]:
  "keeps v f \<Longrightarrow> (\<And>y ys. keeps v (g y ys)) \<Longrightarrow> keeps v (\<lambda>s. case xs of [] \<Rightarrow> f s | y # ys \<Rightarrow> g y ys s)"
  by (cases xs) simp_all

lemma keeps_vxnet_item: "keeps (v \<circ> snd) (vxnet_item q)"
  by (auto simp: keeps_def vxnet_item_def deref_def Let_def split: option.split prod.split)

lemma keeps_vxnet_items: "keeps (v \<circ> snd) (vxnet_items qs vs)"
proof (induction qs arbitrary: vs)
  case (Cons q qs)
  then show ?case
    unfolding vxnet_items.simps by (intro keeps_check keeps_vxnet_item)
qed (simp add: keeps_def)

text \<open>What is assumed of the services, for the NICs \<open>nics w\<close> of the cloud.\<close>

definition creates_nics :: "'w qc_services \<Rightarrow> ('w \<Rightarrow> string set) \<Rightarrow> bool" where
  "creates_nics svc nics \<longleftrightarrow>
     (\<forall>vx name w r w'. svc_CreateNics svc vx name w = (r, w') \<longrightarrow>
        (case r of
           Ok out \<Rightarrow>
             if out_RetCode out = Some 0 \<and> out_Items out \<noteq> []
             then \<exists>i. out_Items out = [Some i] \<and> i \<notin> nics w \<and> nics w' = insert i (nics w)
             else nics w' = nics w
         | _ \<Rightarrow> nics w' = nics w))"

definition deletes_nics :: "'w qc_services \<Rightarrow> ('w \<Rightarrow> string set) \<Rightarrow> bool" where
  "deletes_nics svc nics \<longleftrightarrow>
     (\<forall>ids w r w'. svc_DeleteNics svc ids w = (r, w') \<longrightarrow>
        nics w' = (case r of Ok out \<Rightarrow> if out_RetCode out = Some 0 then nics w - set ids else nics w | _ \<Rightarrow> nics w))"

definition describes_nics :: "'w qc_services \<Rightarrow> bool" where
  "describes_nics svc \<longleftrightarrow>
     (\<forall>i w out w'. svc_DescribeNics svc (all_nics\<lparr> dn_Nics := [i] \<rparr>) w = (Ok out, w') \<longrightarrow>
        (\<forall>n \<in> set (out_Items out). sn_NICID n = Some i))"

definition leaves_nics :: "'w qc_services \<Rightarrow> ('w \<Rightarrow> 'v) \<Rightarrow> bool" where
  "leaves_nics svc nics \<longleftrightarrow>
     (\<forall>d. keeps nics (svc_DescribeNics svc d)) \<and> (\<forall>ns i. keeps nics (svc_AttachNics svc ns i))
   \<and> (\<forall>ns. keeps nics (svc_DetachNics svc ns)) \<and> (\<forall>d. keeps nics (svc_DescribeVxNets svc d))
   \<and> (\<forall>ts. keeps nics (svc_AttachTags svc ts)) \<and> (\<forall>j t i. keeps nics (svc_WaitJob svc j t i))
   \<and> (\<forall>f t i. keeps nics (svc_WaitForSpecific svc f t i)) \<and> (\<forall>d w. nics (svc_Sleep svc d w) = nics w)"

definition nic_accounting :: "'w qc_services \<Rightarrow> ('w \<Rightarrow> string set) \<Rightarrow> bool" where
  "nic_accounting svc nics \<longleftrightarrow>
     creates_nics svc nics \<and> deletes_nics svc nics \<and> describes_nics svc \<and> leaves_nics svc nics"

lemma accounting_keeps [keeps_intros]:
  assumes "leaves_nics svc nics"
  shows "keeps nics (svc_DescribeNics svc dn)" "keeps nics (svc_AttachNics svc ns i)" "keeps nics (svc_DetachNics svc ns)"
    "keeps nics (svc_DescribeVxNets svc dv)" "keeps nics (svc_AttachTags svc ts)" "keeps nics (svc_WaitJob svc j t iv)"
    "keeps nics (svc_WaitForSpecific svc f t iv)" "nics (svc_Sleep svc d w) = nics w"
  using assms unfolding leaves_nics_def by blast+

lemma keeps_GetVxNet: "leaves_nics (qw_svc q) nics \<Longrightarrow> keeps (nics \<circ> snd) (GetVxNet q vx)"
  unfolding GetVxNet_def GetVxNets_def by (intro keeps_intros keeps_vxnet_items)

lemma keeps_GetNics: "leaves_nics (qw_svc q) nics \<Longrightarrow> keeps (nics \<circ> snd) (GetNics q ids)"
  unfolding GetNics_def by (intro keeps_intros)

lemma keeps_TagResources: "leaves_nics (qw_svc q) nics \<Longrightarrow> keeps (nics \<circ> snd) (TagResources q t rt ids)"
  unfolding TagResources_def by (intro keeps_intros)

lemma keeps_tag_all: "leaves_nics (qw_svc q) nics \<Longrightarrow> keeps (nics \<circ> snd) (tag_all q ls rt i)"
proof (induction ls)
  case (Cons l ls)
  then show ?case
    unfolding tag_all.simps by (intro keeps_check keeps_TagResources)
qed (simp add: keeps_def)

lemma keeps_tagResource: "leaves_nics (qw_svc q) nics \<Longrightarrow> keeps (nics \<circ> snd) (tagResource q t i rt)"
  unfolding tagResource_def by (intro keeps_intros keeps_TagResources keeps_tag_all)

lemma keeps_attachNic: "leaves_nics (qw_svc q) nics \<Longrightarrow> keeps (nics \<circ> snd) (attachNic q h)"
  unfolding attachNic_def waitNic_def by (intro keeps_intros)

lemma keeps_detachNics: "leaves_nics (qw_svc q) nics \<Longrightarrow> keeps (nics \<circ> snd) (detachNics q ids)"
  unfolding detachNics_def by (intro keeps_intros)

lemma keeps_fetch_nic: "leaves_nics (qw_svc q) nics \<Longrightarrow> keeps (nics \<circ> snd \<circ> snd) (fetch_nic q i)"
  using keeps_GetNics [of q nics "[i]"]
  by (auto simp: keeps_def fetch_nic_def split: prod.split outcome.split list.split) (metis snd_conv)+

text \<open>
  A view \<open>v\<close> of the NICs that every call but a creation and a deletion leaves alone; \<open>gone i\<close> is what the
  deletion of NIC \<open>i\<close> makes of it.
\<close>

definition deletes_by :: "'w qc_services \<Rightarrow> ('w \<Rightarrow> 'v) \<Rightarrow> (string \<Rightarrow> 'v \<Rightarrow> 'v) \<Rightarrow> bool" where
  "deletes_by svc v gone \<longleftrightarrow>
     (\<forall>i w r w'. svc_DeleteNics svc [i] w = (r, w') \<longrightarrow>
        v w' = (case r of Ok out \<Rightarrow> if out_RetCode out = Some 0 then gone i (v w) else v w | _ \<Rightarrow> v w))"

lemma accounting_views:
  assumes "nic_accounting svc nics"
  shows "leaves_nics svc nics" and "deletes_by svc nics (\<lambda>i N. N - {i})"
proof -
  show "leaves_nics svc nics" using assms by (simp add: nic_accounting_def)
  have "deletes_nics svc nics" using assms by (simp add: nic_accounting_def)
  then show "deletes_by svc nics (\<lambda>i N. N - {i})" unfolding deletes_nics_def deletes_by_def by (metis empty_set list.simps(15))
qed

lemma DeleteNic_view:
  assumes "leaves_nics (qw_svc q) v" and "deletes_by (qw_svc q) v gone" and "DeleteNic q i s = (r, s')"
  shows "v (snd s') = (if r = Ok () then gone i (v (snd s)) else v (snd s))"
proof -
  obtain r1 s1 where d: "detachNics q [i] s = (r1, s1)" by (rule prod.exhaust)
  then have s1: "v (snd s1) = v (snd s)" using keepsD [OF keeps_detachNics [OF assms(1)] d] by simp
  obtain r2 w2 where e: "svc_DeleteNics (qw_svc q) [i] (snd s1) = (r2, w2)" by (rule prod.exhaust)
  have "v w2 = (case r2 of Ok out \<Rightarrow> if out_RetCode out = Some 0 then gone i (v (snd s1)) else v (snd s1) | _ \<Rightarrow> v (snd s1))"
    using assms(2) e unfolding deletes_by_def by blast
  then have w2: "v w2 = (if \<exists>out. r2 = Ok out \<and> out_RetCode out = Some 0 then gone i (v (snd s)) else v (snd s))"
    using s1 by (auto split: outcome.split)
  have c: "sdk (svc_DeleteNics (qw_svc q) [i]) s1 = (r2, (fst s1, w2))"
    using e by (cases s1) (simp add: sdk_pair)
  show ?thesis
  proof (cases r1)
    case (Ok u)
    then have "(r, s') = check (r2, (fst s1, w2)) (\<lambda>out. ret_ok out (\<lambda>s2. (Ok (), s2)) (printed_error ''DeleteNics output ['' out ''] error''))"
      using assms(3) d c by (simp add: DeleteNic_def DeleteNics_def)
    then show ?thesis
      by (cases r2) (auto simp: ret_ok_def printed_error_def deref_def w2 split: option.splits if_splits)
  qed (use assms(3) d s1 in \<open>auto simp: DeleteNic_def DeleteNics_def\<close>)
qed

lemma nic_item_fields: "nic_item n = Some h \<Longrightarrow> sn_NICID n = Some (hn_ID h) \<and> sn_PrivateIP n = Some (hn_Address h)"
  by (auto simp: nic_item_def bind_eq_Some_conv)

lemma those_member: "those (List.map f ns) = Some l \<Longrightarrow> h \<in> set l \<Longrightarrow> \<exists>n \<in> set ns. f n = Some h"
  by (induction ns arbitrary: l) (auto split: option.splits)

text \<open>What \<open>GetNics\<close> lists was in the cloud's answer.\<close>

lemma GetNics_item:
  assumes "GetNics q [i] s = (Ok l, s')" and "h \<in> set l"
  obtains out w' n where "svc_DescribeNics (qw_svc q) (all_nics\<lparr> dn_Nics := [i] \<rparr>) (snd s) = (Ok out, w')" "n \<in> set (out_Items out)"
    "nic_item n = Some h"
proof -
  obtain r w' where d: "svc_DescribeNics (qw_svc q) (all_nics\<lparr> dn_Nics := [i] \<rparr>) (snd s) = (r, w')" by (rule prod.exhaust)
  with assms(1) obtain out where r: "r = Ok out" "those (List.map nic_item (out_Items out)) = Some l"
    by (cases s; cases r) (auto simp: GetNics_def sdk_pair ret_ok_def printed_error_def deref_def split: option.splits if_splits)
  from those_member [OF r(2) assms(2)] d r(1) show ?thesis by (auto intro: that)
qed

lemma GetNics_ID:
  assumes "nic_accounting (qw_svc q) nics" and "GetNics q [i] s = (Ok l, s')" and "h \<in> set l"
  shows "hn_ID h = i"
proof (rule GetNics_item [OF assms(2,3)])
  fix out w' n
  assume "svc_DescribeNics (qw_svc q) (all_nics\<lparr> dn_Nics := [i] \<rparr>) (snd s) = (Ok out, w')" "n \<in> set (out_Items out)" "nic_item n = Some h"
  with assms(1) nic_item_fields [of n h] show ?thesis unfolding nic_accounting_def describes_nics_def by fastforce
qed

text \<open>After the retries the NICs are those from before, and a NIC found is one \<open>GetNics\<close> listed while they were.\<close>

lemma fetched_nic:
  assumes "leaves_nics (qw_svc q) v"
    and listed: "\<And>s l s' h. v (snd s) = x \<Longrightarrow> GetNics q [i] s = (Ok l, s') \<Longrightarrow> h \<in> set l \<Longrightarrow> P h"
    and "v (snd s) = x" and d: "Do 5 (\<lambda>d. apsnd (apsnd (svc_Sleep (qw_svc q) d))) iv (fetch_nic q i) (None, s) = (r, (hostnic, s'))"
  shows "v (snd s') = x \<and> (\<forall>h. hostnic = Some h \<longrightarrow> P h)"
proof -
  let ?I = "\<lambda>st. v (snd (snd st)) = x \<and> (\<forall>h. fst st = Some h \<longrightarrow> P h)"
  have fetch: "?I (snd (fetch_nic q i st))" if "?I st" for st
  proof -
    have "v (snd (snd (snd (fetch_nic q i st)))) = x"
      using keeps_fetch_nic [OF assms(1), of i] that by (cases st) (simp add: keeps_def)
    moreover have "\<forall>h. fst (snd (fetch_nic q i st)) = Some h \<longrightarrow> P h"
      using listed [of "snd st"] that
      by (cases "GetNics q [i] (snd st)"; cases "fst (GetNics q [i] (snd st))") (auto simp: fetch_nic_def split: list.split)
    ultimately show ?thesis ..
  qed
  have "?I (snd (Do 5 (\<lambda>d. apsnd (apsnd (svc_Sleep (qw_svc q) d))) iv (fetch_nic q i) (None, s)))"
    by (rule Do_invariant) (use fetch assms(3) accounting_keeps(8) [OF assms(1)] in simp_all)
  then show ?thesis unfolding d by simp
qed

lemma attach_created_accounts:
  assumes "leaves_nics (qw_svc q) v" and "deletes_by (qw_svc q) v gone" and "attach_created q vx i hostnic s = (r, s')"
  shows "case r of
      Ok nic \<Rightarrow> v (snd s') = v (snd s) \<and> (\<exists>h vn s1 s2. hostnic = Some h \<and> nic = h\<lparr> hn_VxNet := Some vn \<rparr> \<and> GetVxNet q vx s1 = (Ok vn, s2))
    | Err err \<Rightarrow> v (snd s') = gone i (v (snd s))
        \<or> v (snd s') = v (snd s) \<and> ((\<exists>s1. fst (GetVxNet q vx s1) = Err err) \<or> (\<exists>s2. fst (DeleteNic q i s2) \<noteq> Ok ()))
    | Panic \<Rightarrow> v (snd s') = v (snd s) \<or> v (snd s') = gone i (v (snd s))"
proof -
  obtain rv s1 where g: "GetVxNet q vx s = (rv, s1)" by (rule prod.exhaust)
  have n1: "v (snd s1) = v (snd s)" using keepsD [OF keeps_GetVxNet [OF assms(1)] g] by simp
  show ?thesis
  proof (cases rv)
    case (Ok vn)
    show ?thesis
    proof (cases hostnic)
      case (Some h)
      let ?h = "h\<lparr> hn_VxNet := Some vn \<rparr>"
      obtain ra s2 where a: "attachNic q ?h s1 = (ra, s2)" by (rule prod.exhaust)
      have n2: "v (snd s2) = v (snd s)" using keepsD [OF keeps_attachNic [OF assms(1)] a] n1 by simp
      have eq: "(r, s') = on_result (ra, s2) (\<lambda>_ s2. (Ok ?h, s2)) (\<lambda>err s2. ignoring (DeleteNic q i s2) (\<lambda>s3. (Err err, s3)))"
        using assms(3) by (simp add: attach_created_def g Ok Some Let_def a)
      show ?thesis
      proof (cases ra)
        case (Ok u)
        have "\<exists>s1 s2. GetVxNet q vx s1 = (Ok vn, s2)" using g \<open>rv = Ok vn\<close> by blast
        with eq n2 Some Ok show ?thesis by simp blast
      next
        case (Err err)
        obtain rd s3 where d: "DeleteNic q i s2 = (rd, s3)" by (rule prod.exhaust)
        from DeleteNic_view [OF assms(1,2) d] n2 eq Err d show ?thesis
          by (cases rd; cases s2) (auto, metis fst_conv outcome.distinct(1))
      qed (use eq n2 in simp)
    qed (use assms(3) g Ok n1 in \<open>simp add: attach_created_def\<close>)
  next
    case (Err err)
    with assms(3) g n1 show ?thesis by (cases s) (auto simp: attach_created_def, metis fst_conv)
  qed (use assms(3) g n1 in \<open>simp add: attach_created_def\<close>)
qed

lemma created_nic_accounts:
  assumes "leaves_nics (qw_svc q) v" and "deletes_by (qw_svc q) v gone"
    and listed: "\<And>s l s' h. v (snd s) = x \<Longrightarrow> GetNics q [i] s = (Ok l, s') \<Longrightarrow> h \<in> set l \<Longrightarrow> P h"
    and "v (snd s) = x" and "created_nic q vx i s = (r, s')"
  shows "case r of
      Ok nic \<Rightarrow> v (snd s') = x \<and> (\<exists>h vn s1 s2. P h \<and> nic = h\<lparr> hn_VxNet := Some vn \<rparr> \<and> GetVxNet q vx s1 = (Ok vn, s2))
    | Err err \<Rightarrow> v (snd s') = gone i x
        \<or> v (snd s') = x \<and> ((\<exists>s1. fst (GetVxNet q vx s1) = Err err) \<or> (\<exists>s2. fst (DeleteNic q i s2) \<noteq> Ok ()))
    | Panic \<Rightarrow> v (snd s') = x \<or> v (snd s') = gone i x"
proof -
  obtain rt s1 where t: "tagResource q (qw_nicLabelID q) i ResourceTypeNic s = (rt, s1)" by (rule prod.exhaust)
  have n1: "v (snd s1) = x" using keepsD [OF keeps_tagResource [OF assms(1)] t] assms(4) by simp
  obtain rd hostnic s2 where d: "Do 5 (\<lambda>d. apsnd (apsnd (svc_Sleep (qw_svc q) d))) (3 * second) (fetch_nic q i) (None, s1) = (rd, (hostnic, s2))"
    by (metis prod.exhaust)
  have f: "v (snd s2) = x \<and> (\<forall>h. hostnic = Some h \<longrightarrow> P h)"
    by (rule fetched_nic [OF assms(1) listed n1 d])
  show ?thesis
  proof (cases "rt = Panic \<or> rd = Panic")
    case True
    with assms(5) t d n1 f show ?thesis by (cases rt) (auto simp: created_nic_def)
  next
    case False
    with assms(5) t d have "attach_created q vx i hostnic s2 = (r, s')" by (cases rt) (auto simp: created_nic_def)
    note acc = attach_created_accounts [OF assms(1,2) this]
    show ?thesis
    proof (cases r)
      case (Ok nic)
      with acc obtain h vn s3 s4 where "v (snd s') = v (snd s2)" "hostnic = Some h" "nic = h\<lparr> hn_VxNet := Some vn \<rparr>"
        "GetVxNet q vx s3 = (Ok vn, s4)" by auto
      moreover with f have "P h" by simp
      ultimately have "\<exists>h vn s1 s2. P h \<and> nic = h\<lparr> hn_VxNet := Some vn \<rparr> \<and> GetVxNet q vx s1 = (Ok vn, s2)" by blast
      with Ok \<open>v (snd s') = v (snd s2)\<close> f show ?thesis by simp
    qed (use acc f in auto)
  qed
qed

section \<open>Properties\<close>


text \<open>A NIC the cloud does not show is a panic: when the new NIC is in none of the five answers the
  client asks for, writing its vxnet goes through a nil pointer, and the NIC stays in the cloud.\<close>

theorem create_nic_unseen_panics:
  assumes "nic_accounting (qw_svc q) nics" and "\<not> qw_labelResource q"
    and "svc_CreateNics (qw_svc q) vx (nicPrefix @ qw_instanceID q) w = (Ok out, w')"
    and "out_RetCode out = Some 0" and "out_Items out = Some i # more_nics"
    and "\<And>d w. \<exists>out w'. svc_DescribeNics (qw_svc q) d w = (Ok out, w') \<and> out_RetCode out = Some 0 \<and> out_Items out = []"
    and "\<And>s. \<not> is_err (fst (GetVxNet q vx s))"
  shows "fst (CreateNic q vx (m, w)) = Panic \<and> nics (snd (snd (CreateNic q vx (m, w)))) = insert i (nics w)"
proof -
  have "creates_nics (qw_svc q) nics" using assms(1) by (simp add: nic_accounting_def)
  with assms(3-5) have n: "nics w' = insert i (nics w)" unfolding creates_nics_def by fastforce
  have none: "fetch_nic q i st = (Err (ErrorString ''get empty nic''), (fst st, snd (snd (fetch_nic q i st))))" for st
  proof -
    obtain o1 w1 where "svc_DescribeNics (qw_svc q) (all_nics\<lparr> dn_Nics := [i] \<rparr>) (snd (snd st)) = (Ok o1, w1)"
      "out_RetCode o1 = Some 0" "out_Items o1 = []" using assms(6) by blast
    then show ?thesis by (cases st) (simp add: fetch_nic_def GetNics_def ret_ok_def sdk_def split: prod.split)
  qed
  let ?run = "Do 5 (\<lambda>d. apsnd (apsnd (svc_Sleep (qw_svc q) d))) (3 * second) (fetch_nic q i) (None, (m, w'))"
  obtain rd hostnic s2 where d: "?run = (rd, (hostnic, s2))" by (metis prod.exhaust)
  have "fst (snd ?run) = None"
    by (rule Do_invariant [where P = "\<lambda>st. fst st = None"]) (simp_all, subst none, simp)
  then have h: "hostnic = None" unfolding d by simp
  have "fst ?run \<noteq> Panic" by (rule Do_no_panic) (subst none, simp)
  then have "rd \<noteq> Panic" unfolding d by simp
  then have c: "CreateNic q vx (m, w) = attach_created q vx i None s2"
    using assms(2-5) d h by (simp add: CreateNic_def sdk_pair ret_ok_def created_nic_def tagResource_def Let_def)
  have s2: "nics (snd s2) = nics w'"
    using fetched_nic [OF accounting_views(1) [OF assms(1)] _ _ d, of "nics w'" "\<lambda>_. True"] by simp
  obtain rv s3 where v: "GetVxNet q vx s2 = (rv, s3)" by (rule prod.exhaust)
  have "nics (snd s3) = nics (snd s2)" using keepsD [OF keeps_GetVxNet [OF accounting_views(1) [OF assms(1)]] v] by simp
  moreover have "\<not> is_err rv" using assms(7) [of s2] v by simp
  ultimately show ?thesis
    using c v s2 n by (cases rv) (simp_all add: attach_created_def)
qed

text \<open>C28: the VPC of the node is found as the reference says: the routers of the instance's vxnets, less
  the leading vxnets in no VPC, must all be the same; that one is then looked up, and with no
  vxnet in a VPC the empty name is.\<close>

theorem GetNodeVPC_one_router:
  "GetNodeVPC q s =
     check (sdk (svc_DescribeInstances (qw_svc q) [qw_instanceID q] 1) s) (\<lambda>out s1.
       case out_Items out of
         [] \<Rightarrow> (Err (ErrorString (''Cannot find the instance '' @ qw_instanceID q)), s1)
       | refs # _ \<Rightarrow>
           if None \<in> set refs then (Panic, s1)
           else check (GetVxNets q (List.map the refs) s1) (\<lambda>vxnets s2.
             let rs = dropWhile (\<lambda>r. r = '''') (List.map vx_RouterID vxnets)
             in if set rs \<subseteq> {hd rs} then GetVPC q (if rs = [] then '''' else hd rs) s2
                else (Err not_one_vpc, s2)))"
proof -
  have known: "r \<noteq> '''' \<Longrightarrow> same_router r vs = (if set (List.map vx_RouterID vs) \<subseteq> {r} then Ok r
      else Err not_one_vpc)" for r vs
    by (induction vs) (auto split: if_splits)
  have "same_router '''' vs = (let rs = dropWhile (\<lambda>r. r = '''') (List.map vx_RouterID vs)
      in if set rs \<subseteq> {hd rs} then Ok (if rs = [] then '''' else hd rs)
         else Err not_one_vpc)" for vs
  proof (induction vs)
    case (Cons v vs)
    then show ?case by (cases "vx_RouterID v = ''''") (simp_all add: known Let_def)
  qed (simp add: Let_def)
  moreover have "those refs = (if None \<in> set refs then None else Some (List.map the refs))" for refs :: "string option list"
    by (induction refs) (auto split: option.split)
  ultimately show ?thesis
    unfolding GetNodeVPC_def by (intro check_cong refl) (auto simp: Let_def split: list.split intro!: check_cong)
qed

text \<open>C29: the first start of a cluster runs without labels: when the label of the vxnets does not
  exist yet it is created, and then the error that it was not found switches labels off, so
  the client tags nothing until the daemon is started again.\<close>

theorem first_start_disables_labels:
  assumes "readFile instanceIDFile w = (Ok content, w1)" and "start w1 = (Ok key, w2)"
    and "svc_DescribeAccessKeys svc [key] w2 = (Ok ko, w3)" and "out_Items ko = Some user # others"
    and "svc_DescribeTags svc \<lparr> dt_Tags = [], dt_SearchWord = Some (''hostnic-vxnet-'' @ cluster), dt_Verbose = 1 \<rparr> w3 = (Ok tgs, w4)"
    and "find_tag user (''hostnic-vxnet-'' @ cluster) (out_Items tgs) = Some None"
    and "svc_Intn svc (length colors) w4 = (n, w5)" and "n < length colors"
    and "svc_CreateTag svc (colors ! n) (''hostnic-vxnet-'' @ cluster) w5 = (Ok co, w6)"
    and "out_RetCode co = Some 0" and "out_ID co = Some t"
  shows "\<exists>p. NewQingCloudClient svc strerror readFile start (Some (cluster, extra)) (m, w) = (Ok p, (m, w6))
    \<and> qw_vxnetLabelID p = t \<and> qw_nicLabelID p = '''' \<and> (\<forall>x y z s. tagResource p x y z s = (Ok (), s))"
  using assms
  by (simp add: NewQingCloudClient_def sdk_pair Let_def ensureLabels_def ensureLabel_def with_q_def GetTagByLabel_def
      RandomColor_def CreateTag_def ret_ok_def tagResource_def)

text \<open>A NIC counts as up when its link is up and its operational state is at least Down: the test is
  for a common bit with 6, so of the states 0 to 6 only unknown and not present fail it.\<close>

theorem link_up_states:
  assumes "link_OperState l \<le> 6"
  shows "link_up l \<longleftrightarrow> odd (unat (link_Flags l)) \<and> 2 \<le> link_OperState l"
proof -
  have "link_Flags l AND 1 \<noteq> 0 \<longleftrightarrow> odd (unat (link_Flags l))"
    by (simp add: and_one_eq odd_iff_mod_2_eq_one unat_arith_simps) 
  moreover have "link_OperState l AND 6 \<noteq> 0 \<longleftrightarrow> 2 \<le> link_OperState l"
  proof -
    define k where "k = unat (link_OperState l)"
    have "k \<le> 6" using assms by (simp add: k_def word_le_nat_alt)
    then have "k \<in> {0, 1, 2, 3, 4, 5, 6}" by auto
    moreover have "link_OperState l = of_nat k" by (simp add: k_def)
    ultimately show ?thesis by (auto simp: word_le_nat_alt)
  qed
  ultimately show ?thesis by (simp add: link_up_def FlagUp_def OperUp_def)
qed

text \<open>The resources of a tag are those of the answer, in order, and the count of the answer decides
  how many places the slice has: with a count below the number of pairs, or with a field
  missing, reading the tag is a panic, and with a larger count the last places are nil.\<close>

theorem tagged_resources_spec:
  "tagged_resources tg =
     (case st_ResourceCount tg of
        None \<Rightarrow> None
      | Some n \<Rightarrow>
          (let pairs = st_ResourceTagPairs tg
           in if int (length pairs) \<le> n \<and> (\<forall>(t, i) \<in> set pairs. t \<noteq> None \<and> i \<noteq> None)
              then Some (List.map (\<lambda>(t, i). Some \<lparr> tr_ResourceType = the t, tr_ResourceID = the i \<rparr>) pairs
                         @ replicate (nat n - length pairs) None)
              else None))"
proof -
  have fill: "fill_resources (length done) pairs (done @ replicate k None) =
      (if length pairs \<le> k \<and> (\<forall>(t, i) \<in> set pairs. t \<noteq> None \<and> i \<noteq> None)
       then Some (done @ List.map (\<lambda>(t, i). Some \<lparr> tr_ResourceType = the t, tr_ResourceID = the i \<rparr>) pairs
                  @ replicate (k - length pairs) None)
       else None)" for "done" pairs k
  proof (induction pairs arbitrary: "done" k)
    case (Cons p pairs)
    obtain t i where p: "p = (t, i)" by fastforce
    show ?case
    proof (cases k)
      case (Suc k')
      have "(done @ replicate k None)[length done := x] = (done @ [x]) @ replicate k' None" for x :: "tagged_resource option"
        by (simp add: Suc list_update_append)
      with Cons [of "done @ [_]" k'] Suc show ?thesis
        by (cases t; cases i) (simp_all add: p)
    qed (simp add: p)
  qed simp
  show ?thesis
    using fill [of "[]" "st_ResourceTagPairs tg" "nat n" for n]
    by (auto simp: tagged_resources_def Let_def split: option.split)
qed

section \<open>Witnesses\<close>

text \<open>
  A small cloud: its state is the list of the NICs it has, a new NIC gets the next name; one vxnet
  is known or none, attaching succeeds or not, and no tag exists.
\<close>

definition answer :: "int \<Rightarrow> 'a list \<Rightarrow> 'a sdk_output" where
  "answer rc items = \<lparr> out_RetCode = Some rc, out_Message = Some ''refused'', out_ID = Some ''j-1'', out_Items = items, out_Text = '''' \<rparr>"

definition small_cloud :: "bool \<Rightarrow> bool \<Rightarrow> string list qc_services" where
  "small_cloud known attach = \<lparr>
     svc_CreateNics = (\<lambda>v n w. (Ok (answer 0 [Some (concat w @ ''x'')]), (concat w @ ''x'') # w)),
     svc_DescribeNics = (\<lambda>d w. (Ok (answer 0 (List.map (\<lambda>i. \<lparr> sn_NICID = Some i, sn_NICName = Some i, sn_VxNetID = Some ''vxnet-1'',
        sn_PrivateIP = Some ''10.0.0.9'', sn_Sequence = Some 1, sn_Role = Some 0 \<rparr>) (dn_Nics d))), w)),
     svc_AttachNics = (\<lambda>ns i w. (Ok (answer (if attach then 0 else 1) []), w)),
     svc_DetachNics = (\<lambda>ns w. (Ok (answer 0 []), w)),
     svc_DeleteNics = (\<lambda>ns w. (Ok (answer 0 []), filter (\<lambda>n. n \<notin> set ns) w)),
     svc_DescribeVxNets = (\<lambda>d w. (Ok (answer 0 (if known then [\<lparr> sv_VxNetID = Some ''vxnet-1'', sv_VxNetName = Some ''n'',
        sv_VpcRouterID = Some ''rtr'', sv_Router = None \<rparr>] else [])), w)),
     svc_CreateVxNets = (\<lambda>k n w. (Ok (answer 0 [Some ''vxnet-2'']), w)), svc_DeleteVxNets = (\<lambda>vs w. (Ok (answer 0 []), w)),
     svc_DescribeInstances = (\<lambda>is n w. (Ok (answer 0 [[Some ''vxnet-1'']]), w)),
     svc_DescribeRouters = (\<lambda>rs w. (Ok (answer 0 []), w)), svc_DescribeRouterVxNets = (\<lambda>r w. (Ok (answer 0 []), w)),
     svc_JoinRouter = (\<lambda>v r n w. (Ok (answer 0 []), w)), svc_LeaveRouter = (\<lambda>r vs w. (Ok (answer 0 []), w)),
     svc_DescribeTags = (\<lambda>d w. (Ok (answer 0 []), w)), svc_CreateTag = (\<lambda>c l w. (Ok (answer 0 []), w)),
     svc_AttachTags = (\<lambda>ts w. (Ok (answer 0 []), w)), svc_DescribeAccessKeys = (\<lambda>ks w. (Ok (answer 0 [Some ''usr-1'']), w)),
     svc_WaitForSpecific = (\<lambda>f t i w. (Ok (), w)), svc_is_timeout = (\<lambda>e. False), svc_WaitJob = (\<lambda>j t i w. (Ok (), w)),
     svc_LinkList = (\<lambda>w. (Ok [], w)), svc_Sleep = (\<lambda>d w. w), svc_Intn = (\<lambda>n w. (0, w)) \<rparr>"

definition small_client :: "bool \<Rightarrow> bool \<Rightarrow> string list qc_wrapper" where
  "small_client known attach = \<lparr> qw_svc = small_cloud known attach, qw_userID = ''usr-1'', qw_instanceID = ''i-1'', qw_clusterName = '''',
     qw_extraLabels = [], qw_vxnetLabelID = '''', qw_nicLabelID = '''', qw_labelResource = False \<rparr>"

text \<open>What all strings of a list make together, and a letter, is none of them.\<close>

lemma longer_fresh: "concat ss @ [c] \<notin> set ss"
proof
  assume "concat ss @ [c] \<in> set ss"
  then have "length (concat ss @ [c]) \<in> set (List.map length ss)" by (metis image_eqI set_map)
  then have "length (concat ss @ [c]) \<le> sum_list (List.map length ss)" by (rule member_le_sum_list) simp
  then show False by (simp add: length_concat)
qed

lemma small_cloud_accounting: "nic_accounting (qw_svc (small_client known attach)) set"
  by (auto simp: nic_accounting_def creates_nics_def deletes_nics_def describes_nics_def leaves_nics_def keeps_def
      small_client_def small_cloud_def answer_def all_nics_def longer_fresh)


definition blind_client :: "string list qc_wrapper" where
  "blind_client = (small_client True True)\<lparr> qw_svc := (small_cloud True True)\<lparr> svc_DescribeNics := (\<lambda>d w. (Ok (answer 0 []), w)) \<rparr> \<rparr>"

lemma create_nic_unseen_panics_witness:
  "fst (CreateNic blind_client ''vxnet-1'' ([], [])) = Panic \<and> set (snd (snd (CreateNic blind_client ''vxnet-1'' ([], [])))) = insert ''x'' (set [])"
proof (rule create_nic_unseen_panics [where out = "answer 0 [Some ''x'']" and w' = "[''x'']" and more_nics = "[]"])
  show "nic_accounting (qw_svc blind_client) set"
    using small_cloud_accounting [of True True]
    by (simp add: nic_accounting_def creates_nics_def deletes_nics_def describes_nics_def leaves_nics_def keeps_def
        blind_client_def small_client_def answer_def)
  show "\<not> is_err (fst (GetVxNet blind_client ''vxnet-1'' s))" for s
    by (cases s) (simp add: GetVxNet_def GetVxNets_def sdk_pair blind_client_def small_cloud_def answer_def ret_ok_def vxnet_item_def)
qed (simp_all add: blind_client_def small_client_def small_cloud_def answer_def)

lemma first_start_disables_labels_witness:
  "\<exists>p. NewQingCloudClient (small_cloud True True) (\<lambda>_. '''') (\<lambda>f w. (Ok ''i-1'', w)) (\<lambda>w. (Ok ''key'', w)) (Some (''kubernetes'', [])) ([], [])
      = (Ok p, ([], [])) \<and> qw_vxnetLabelID p = ''j-1'' \<and> qw_nicLabelID p = '''' \<and> (\<forall>x y z s. tagResource p x y z s = (Ok (), s))"
  by (rule first_start_disables_labels [where content = "''i-1''" and key = "''key''" and user = "''usr-1''" and n = 0
        and ko = "answer 0 [Some ''usr-1'']" and tgs = "answer 0 []" and co = "answer 0 []" and others = "[]"])
    (simp_all add: small_cloud_def answer_def colors_def)

lemma link_up_states_witness:
  "link_up \<lparr> link_Name = ''eth1'', link_Index = 3, link_HardwareAddr = [], link_MTU = 1500, link_TxQLen = 0, link_Flags = 1,
     link_OperState = 2, link_NetNsID = 0, link_Peer = None \<rparr>"
  by (subst link_up_states) simp_all

end
