(* ===== verification/ClientNics.thy ===== *)
theory ClientNics
  imports QcWrapperThms NicCloud
begin

text \<open>
  The cloud client (\<^verbatim>\<open>pkg/qcclient/wrapper.go\<close>) keeps the contract of \<open>NicCloud\<close>, whatever fails in the calls it
  makes.  What is assumed of the services of the SDK is their documented effect on the table of NICs, \<open>tab\<close>: the
  private address of every NIC under its ID.
\<close>

section \<open>What is assumed of the services\<close>

text \<open>A creation that succeeds makes one NIC with a new ID and an address that no NIC has.\<close>

definition creates_entries :: "'w qc_services \<Rightarrow> ('w \<Rightarrow> string \<Rightarrow> string option) \<Rightarrow> bool" where
  "creates_entries svc tab \<longleftrightarrow>
     (\<forall>vx name w r w'. svc_CreateNics svc vx name w = (r, w') \<longrightarrow>
        (if \<exists>out. r = Ok out \<and> out_RetCode out = Some 0 \<and> out_Items out \<noteq> []
         then \<exists>out i ip. r = Ok out \<and> out_Items out = [Some i] \<and> tab w i = None \<and> ip \<notin> ran (tab w) \<and> ip \<noteq> ''''
                \<and> tab w' = (tab w)(i \<mapsto> ip)
         else tab w' = tab w))"

text \<open>A NIC that is described is in the table with this address; a question for one NIC is answered with this one.\<close>

definition describes_entries :: "'w qc_services \<Rightarrow> ('w \<Rightarrow> string \<Rightarrow> string option) \<Rightarrow> bool" where
  "describes_entries svc tab \<longleftrightarrow>
     (\<forall>d w out w'. svc_DescribeNics svc d w = (Ok out, w') \<longrightarrow>
        (\<forall>n \<in> set (out_Items out). \<forall>i ip. sn_NICID n = Some i \<longrightarrow> sn_PrivateIP n = Some ip \<longrightarrow>
           tab w i = Some ip \<and> (dn_Nics d = [] \<or> i \<in> set (dn_Nics d))))"

text \<open>The calls about vxnets and routers leave the NICs alone.\<close>

definition leaves_vpc_calls :: "'w qc_services \<Rightarrow> ('w \<Rightarrow> 'v) \<Rightarrow> bool" where
  "leaves_vpc_calls svc v \<longleftrightarrow>
     (\<forall>n name. keeps v (svc_CreateVxNets svc n name)) \<and> (\<forall>is. keeps v (svc_DeleteVxNets svc is))
   \<and> (\<forall>is n. keeps v (svc_DescribeInstances svc is n)) \<and> (\<forall>is. keeps v (svc_DescribeRouters svc is))
   \<and> (\<forall>r. keeps v (svc_DescribeRouterVxNets svc r)) \<and> (\<forall>vx r n. keeps v (svc_JoinRouter svc vx r n))
   \<and> (\<forall>r vxs. keeps v (svc_LeaveRouter svc r vxs))"

definition nic_table :: "'w qc_services \<Rightarrow> ('w \<Rightarrow> string \<Rightarrow> string option) \<Rightarrow> bool" where
  "nic_table svc tab \<longleftrightarrow>
     creates_entries svc tab \<and> deletes_by svc tab (\<lambda>i t. t(i := None)) \<and> describes_entries svc tab
   \<and> leaves_nics svc tab \<and> leaves_vpc_calls svc tab"

lemma nic_tableD:
  assumes "nic_table svc tab"
  shows "leaves_nics svc tab" and "deletes_by svc tab (\<lambda>i t. t(i := None))" and "leaves_vpc_calls svc tab"
  using assms by (simp_all add: nic_table_def)

lemma vpc_keeps [keeps_intros]:
  assumes "leaves_vpc_calls svc v"
  shows "keeps v (svc_CreateVxNets svc n name)" "keeps v (svc_DeleteVxNets svc is)" "keeps v (svc_DescribeInstances svc is n')"
    "keeps v (svc_DescribeRouters svc is)" "keeps v (svc_DescribeRouterVxNets svc r)" "keeps v (svc_JoinRouter svc vx r net)"
    "keeps v (svc_LeaveRouter svc r vxs)"
  using assms unfolding leaves_vpc_calls_def by blast+

text \<open>No two NICs have the same address, and each has one.\<close>

definition good_table :: "(string \<Rightarrow> string option) \<Rightarrow> bool" where
  "good_table t \<longleftrightarrow> (\<forall>i j ip. t i = Some ip \<longrightarrow> t j = Some ip \<longrightarrow> i = j) \<and> (\<forall>i. t i \<noteq> Some '''')"

lemma good_table_new: "good_table t \<Longrightarrow> ip \<notin> ran t \<Longrightarrow> ip \<noteq> '''' \<Longrightarrow> good_table (t(i \<mapsto> ip))"
  by (auto simp: good_table_def ran_def)

lemma good_table_less: "good_table t \<Longrightarrow> good_table (t(i := None))"
  by (auto simp: good_table_def)

section \<open>The calls about vxnets and the VPC\<close>

lemma keeps_may_be_nil [keeps_intros]: "keeps v op \<Longrightarrow> keeps v (may_be_nil op)"
  unfolding may_be_nil_def by (intro keeps_intros) (auto simp: keeps_def)

lemma keeps_vpc_vxnets: "keeps (v \<circ> snd) (vpc_vxnets vs result)"
proof (induction vs arbitrary: result)
  case (Cons x xs)
  then show ?case by (auto simp: keeps_def deref_def split: option.split prod.split)
qed (simp add: keeps_def)

lemma keeps_find_vxnet: "keeps (v \<circ> snd) (find_vxnet name qs)"
proof (induction qs)
  case (Cons x xs)
  have "keeps (v \<circ> snd) (\<lambda>s. check (vxnet_item x s) (\<lambda>v s2. (Ok (Some v), s2)))"
    by (intro keeps_check keeps_vxnet_item) (simp add: keeps_def)
  with Cons show ?case
    unfolding find_vxnet.simps by (auto simp: keeps_def deref_def split: option.split)
qed (simp add: keeps_def)

lemma keeps_GetVxNets: "leaves_nics (qw_svc q) v \<Longrightarrow> keeps (v \<circ> snd) (GetVxNets q is)"
  unfolding GetVxNets_def by (intro keeps_intros keeps_vxnet_items)

lemma keeps_GetVxNetByName: "leaves_nics (qw_svc q) v \<Longrightarrow> keeps (v \<circ> snd) (GetVxNetByName q name)"
  unfolding GetVxNetByName_def Let_def
  by (intro keeps_intros keeps_find_vxnet) (auto simp: keeps_def split: option.split)

lemma keeps_CreateVxNet:
  "leaves_nics (qw_svc q) v \<Longrightarrow> leaves_vpc_calls (qw_svc q) v \<Longrightarrow> keeps (v \<circ> snd) (CreateVxNet q name)"
  unfolding CreateVxNet_def by (intro keeps_intros keeps_tagResource)

lemma keeps_GetVPCVxNets: "leaves_vpc_calls (qw_svc q) v \<Longrightarrow> keeps (v \<circ> snd) (GetVPCVxNets q r)"
  unfolding GetVPCVxNets_def by (intro keeps_intros keeps_vpc_vxnets)

lemma keeps_JoinVPC:
  "leaves_nics (qw_svc q) v \<Longrightarrow> leaves_vpc_calls (qw_svc q) v \<Longrightarrow> keeps (v \<circ> snd) (JoinVPC q n i r)"
  unfolding JoinVPC_def by (intro keeps_intros)

lemma keeps_LeaveVPC:
  "leaves_nics (qw_svc q) v \<Longrightarrow> leaves_vpc_calls (qw_svc q) v \<Longrightarrow> keeps (v \<circ> snd) (LeaveVPC q i r)"
  unfolding LeaveVPC_def DeleteVxNet_def by (intro keeps_intros)

lemma keeps_GetPrimaryNIC: "leaves_nics (qw_svc q) v \<Longrightarrow> keeps (v \<circ> snd) (GetPrimaryNIC q)"
  unfolding GetPrimaryNIC_def by (intro keeps_intros) (auto simp: keeps_def split: option.split)

lemma keeps_fetch_vxnets: "leaves_vpc_calls (qw_svc q) v \<Longrightarrow> keeps (v \<circ> snd \<circ> snd) (fetch_vxnets q)"
  using keeps_GetVPCVxNets [of q v]
  by (auto simp: keeps_def fetch_vxnets_def split: prod.split outcome.split) (metis snd_conv)+

lemma keeps_GetVPC:
  assumes "leaves_nics (qw_svc q) v" and "leaves_vpc_calls (qw_svc q) v"
  shows "keeps (v \<circ> snd) (GetVPC q i)"
proof -
  have "keeps (v \<circ> snd \<circ> snd) (Do 3 (\<lambda>d. apsnd (apsnd (svc_Sleep (qw_svc q) d))) (5 * second) (fetch_vxnets q))"
    by (intro keeps_Do keeps_fetch_vxnets assms(2)) (simp add: accounting_keeps(8) [OF assms(1)])
  then have "v (snd (snd (snd (Do 3 (\<lambda>d. apsnd (apsnd (svc_Sleep (qw_svc q) d))) (5 * second) (fetch_vxnets q) (x, s))))) = v (snd s)" for x s
    by (cases s) (simp add: keeps_def)
  then have body: "keeps (v \<circ> snd) (\<lambda>(m, w). case read_net str m of
      (None, m') \<Rightarrow> (Err (ErrorString (''invalid CIDR address: '' @ str)), (m', w))
    | (Some n, m') \<Rightarrow>
        (case Do 3 (\<lambda>d. apsnd (apsnd (svc_Sleep (qw_svc q) d))) (5 * second) (fetch_vxnets q)
                (\<lparr> vpc_Network = Some n, vpc_ID = rid, vpc_VxNets = [] \<rparr>, (m', w)) of
           (r, (v, s2)) \<Rightarrow> (if r = Panic then Panic else Ok v, s2)))" for str rid
    by (auto simp: keeps_def split: prod.split option.split) (metis snd_conv)
  show ?thesis
    unfolding GetVPC_def by (intro keeps_intros assms(2) body) 
qed

lemma keeps_GetNodeVPC:
  "leaves_nics (qw_svc q) v \<Longrightarrow> leaves_vpc_calls (qw_svc q) v \<Longrightarrow> keeps (v \<circ> snd) (GetNodeVPC q)"
  unfolding GetNodeVPC_def
  by (intro keeps_intros keeps_GetVxNets keeps_GetVPC)

text \<open>Every call the daemon makes, but creating and deleting NICs, leaves the table alone.\<close>

lemma leaves_kept: "keeps (v \<circ> snd) op \<Longrightarrow> leaves (\<lambda>w. P (v w)) v op"
  by (auto simp: leaves_def keeps_def)

section \<open>Creating, deleting and listing NICs\<close>

lemma listed_entry:
  assumes "nic_table (qw_svc q) tab" and "GetNics q [i] s = (Ok l, s')" and "h \<in> set l"
  shows "hn_ID h = i \<and> tab (snd s) i = Some (hn_Address h)"
proof (rule GetNics_item [OF assms(2,3)])
  fix out w' n
  assume "svc_DescribeNics (qw_svc q) (all_nics\<lparr> dn_Nics := [i] \<rparr>) (snd s) = (Ok out, w')" "n \<in> set (out_Items out)" "nic_item n = Some h"
  with assms(1) nic_item_fields [of n h] show ?thesis unfolding nic_table_def describes_entries_def by fastforce
qed

lemma CreateNic_table:
  assumes "nic_table (qw_svc q) tab" and "CreateNic q vx s = (r, s')"
  shows "tab (snd s') = tab (snd s) \<and> \<not> (\<exists>nic. r = Ok nic)
    \<or> (\<exists>i ip. ip \<notin> ran (tab (snd s)) \<and> ip \<noteq> '''' \<and> tab (snd s') = (tab (snd s))(i \<mapsto> ip)
         \<and> (\<forall>nic. r = Ok nic \<longrightarrow> hn_ID nic = i \<and> hn_Address nic = ip))"
proof -
  obtain r0 w0 where c: "svc_CreateNics (qw_svc q) vx (nicPrefix @ qw_instanceID q) (snd s) = (r0, w0)" by (rule prod.exhaust)
  then have c': "sdk (svc_CreateNics (qw_svc q) vx (nicPrefix @ qw_instanceID q)) s = (r0, (fst s, w0))"
    by (cases s) (simp add: sdk_pair)
  have a: "if \<exists>out. r0 = Ok out \<and> out_RetCode out = Some 0 \<and> out_Items out \<noteq> []
      then \<exists>out i ip. r0 = Ok out \<and> out_Items out = [Some i] \<and> tab (snd s) i = None \<and> ip \<notin> ran (tab (snd s)) \<and> ip \<noteq> ''''
             \<and> tab w0 = (tab (snd s))(i \<mapsto> ip)
      else tab w0 = tab (snd s)"
    using assms(1) c unfolding nic_table_def creates_entries_def by blast
  show ?thesis
  proof (cases "\<exists>out. r0 = Ok out \<and> out_RetCode out = Some 0 \<and> out_Items out \<noteq> []")
    case True
    with a obtain out i ip where o: "r0 = Ok out" "out_RetCode out = Some 0" "out_Items out = [Some i]" "tab (snd s) i = None"
      "ip \<notin> ran (tab (snd s))" "ip \<noteq> ''''" "tab w0 = (tab (snd s))(i \<mapsto> ip)" by auto
    with assms(2) c' have "created_nic q vx i (fst s, w0) = (r, s')" by (simp add: CreateNic_def ret_ok_def Let_def)
    note acc = created_nic_accounts [OF nic_tableD(1,2) [OF assms(1)] _ _ this, of "tab w0" "\<lambda>h. hn_ID h = i \<and> hn_Address h = ip"]
    have acc: "case r of
        Ok nic \<Rightarrow> tab (snd s') = tab w0 \<and> (\<exists>h vn s1 s2. (hn_ID h = i \<and> hn_Address h = ip) \<and> nic = h\<lparr> hn_VxNet := Some vn \<rparr>
          \<and> GetVxNet q vx s1 = (Ok vn, s2))
      | Err err \<Rightarrow> tab (snd s') = (tab w0)(i := None)
          \<or> tab (snd s') = tab w0 \<and> ((\<exists>s1. fst (GetVxNet q vx s1) = Err err) \<or> (\<exists>s2. fst (DeleteNic q i s2) \<noteq> Ok ()))
      | Panic \<Rightarrow> tab (snd s') = tab w0 \<or> tab (snd s') = (tab w0)(i := None)"
    proof (rule acc)
      show "hn_ID h = i \<and> hn_Address h = ip" if "tab (snd t) = tab w0" "GetNics q [i] t = (Ok l, t')" "h \<in> set l" for t l t' h
        using listed_entry [OF assms(1) that(2,3)] that(1) o(7) by simp
    qed simp
    have less: "(tab w0)(i := None) = tab (snd s)" using o(4,7) by auto
    show ?thesis
    proof (cases r)
      case (Ok nic)
      with acc have t: "tab (snd s') = tab w0"
        and "\<exists>h vn s1 s2. (hn_ID h = i \<and> hn_Address h = ip) \<and> nic = h\<lparr> hn_VxNet := Some vn \<rparr> \<and> GetVxNet q vx s1 = (Ok vn, s2)"
        by simp_all
      then have "hn_ID nic = i \<and> hn_Address nic = ip" by (elim exE conjE) simp
      with Ok t o(5-7) show ?thesis by (intro disjI2 exI [of _ i] exI [of _ ip]) simp
    qed (use acc less o(5-7) in auto)
  next
    case False
    with a have n: "tab w0 = tab (snd s)" by (cases r0) auto
    from False assms(2) c' have "snd s' = w0 \<and> \<not> (\<exists>nic. r = Ok nic)"
      by (cases r0) (auto simp: CreateNic_def ret_ok_def message_error_def deref_def Let_def split: option.splits if_splits list.splits)
    with n show ?thesis by simp
  qed
qed

lemma attached_loop_item:
  "attached_loop items acc = Some nics \<Longrightarrow> h \<in> set nics \<Longrightarrow>
   h \<in> set acc \<or> (\<exists>n \<in> set items. sn_NICID n = Some (hn_ID h) \<and> sn_PrivateIP n = Some (hn_Address h))"
proof (induction items arbitrary: acc)
  case (Cons n items)
  from Cons.prems(1) obtain name where name: "sn_NICName n = Some name" by (cases "sn_NICName n") auto
  show ?case
  proof (cases "has_prefix name nicPrefix")
    case True
    with Cons.prems(1) name obtain x where x: "placed_nic False n = Some x" "attached_loop items (acc @ [x]) = Some nics"
      by (auto simp: bind_eq_Some_conv)
    then have "sn_NICID n = Some (hn_ID x) \<and> sn_PrivateIP n = Some (hn_Address x)"
      using nic_item_fields by (fastforce simp: placed_nic_def bind_eq_Some_conv)
    with Cons.IH [OF x(2) Cons.prems(2)] show ?thesis by auto
  qed (use Cons name in auto)
qed simp

lemma GetAttachedNICs_table:
  assumes "nic_table (qw_svc q) tab" and "GetAttachedNICs q vx s = (r, s')"
  shows "tab (snd s') = tab (snd s)" and "r = Ok nics \<Longrightarrow> nic \<in> set nics \<Longrightarrow> tab (snd s) (hn_ID nic) = Some (hn_Address nic)"
proof -
  let ?d = "all_nics\<lparr> dn_Instances := [qw_instanceID q], dn_Limit := Some nicNumLimit, dn_VxNets := [vx], dn_VxNetType := [1] \<rparr>"
  have "keeps (tab \<circ> snd) (GetAttachedNICs q vx)"
    unfolding GetAttachedNICs_def by (intro keeps_intros nic_tableD(1) [OF assms(1)])
  from keepsD [OF this assms(2)] show "tab (snd s') = tab (snd s)" by simp
  assume r: "r = Ok nics" "nic \<in> set nics"
  obtain x w' where d: "svc_DescribeNics (qw_svc q) ?d (snd s) = (x, w')" by (rule prod.exhaust)
  with assms(2) r(1) obtain out where o: "x = Ok out" "attached_loop (out_Items out) [] = Some nics"
    by (cases s; cases x) (auto simp: GetAttachedNICs_def sdk_pair deref_def split: option.splits)
  from attached_loop_item [OF o(2) r(2)] obtain n where "n \<in> set (out_Items out)" "sn_NICID n = Some (hn_ID nic)"
    "sn_PrivateIP n = Some (hn_Address nic)" by auto
  with assms(1) d o(1) show "tab (snd s) (hn_ID nic) = Some (hn_Address nic)" unfolding nic_table_def describes_entries_def by blast
qed

section \<open>The contract\<close>

lemma client_nic_cloud:
  assumes "nic_table (qw_svc q) tab"
  shows "nic_cloud (wrapper_api q) (\<lambda>w. good_table (tab w)) tab"
proof
  note kept = nic_tableD [OF assms]
  show "i = j" if "good_table (tab w)" "tab w i = Some ip" "tab w j = Some ip" for w i j ip
    using that by (auto simp: good_table_def)
  show "tab w i \<noteq> Some ''''" if "good_table (tab w)" for w i using that by (simp add: good_table_def)
  show "good_table (tab w')" if "good_table (tab w)" "api_CreateNic (wrapper_api q) v (m, w) = (r, m', w')" for w v m r m' w'
    using that CreateNic_table [OF assms, of v "(m, w)" r "(m', w')"] by (auto simp: wrapper_api_def good_table_new)
  show "hn_Address nic \<notin> ran (tab w) \<and> tab w' = (tab w)(hn_ID nic \<mapsto> hn_Address nic)"
    if "good_table (tab w)" "api_CreateNic (wrapper_api q) v (m, w) = (Ok nic, m', w')" for w v m nic m' w'
    using that CreateNic_table [OF assms, of v "(m, w)" "Ok nic" "(m', w')"] by (auto simp: wrapper_api_def)
  show "good_table (tab w') \<and> (\<forall>j. j \<noteq> i \<longrightarrow> tab w' j = tab w j)"
    if "good_table (tab w)" "api_DeleteNic (wrapper_api q) i (m, w) = (x, m', w')" for w i m x m' w'
    using that DeleteNic_view [OF kept(1,2), of i "(m, w)" x "(m', w')"] good_table_less
    by (auto simp: wrapper_api_def split: if_splits)
  show "good_table (tab w') \<and> tab w' = tab w
      \<and> (\<forall>nics nic. y = Ok nics \<longrightarrow> nic \<in> set nics \<longrightarrow> tab w (hn_ID nic) = Some (hn_Address nic))"
    if "good_table (tab w)" "api_GetAttachedNICs (wrapper_api q) v (m, w) = (y, m', w')" for w v m y m' w'
    using that GetAttachedNICs_table [OF assms, of v "(m, w)" y "(m', w')"] by (auto simp: wrapper_api_def)
qed (auto simp: wrapper_api_def intro!: leaves_kept keeps_intros keeps_GetPrimaryNIC keeps_GetVxNet keeps_GetVxNetByName
    keeps_CreateVxNet keeps_GetNodeVPC keeps_GetVPCVxNets keeps_JoinVPC keeps_LeaveVPC nic_tableD [OF assms])

section \<open>Properties\<close>


section \<open>Witness\<close>

text \<open>A cloud whose state is its table of NICs; a new NIC gets an ID and an address no other has.\<close>

definition table_services :: "(string \<times> string) list qc_services" where
  "table_services = \<lparr>
     svc_CreateNics = (\<lambda>v n w. (Ok (answer 0 [Some (concat (List.map fst w) @ ''x'')]),
        (concat (List.map fst w) @ ''x'', concat (List.map snd w) @ ''1'') # w)),
     svc_DescribeNics = (\<lambda>d w. (Ok (answer 0 (List.map (\<lambda>(i, ip). \<lparr> sn_NICID = Some i, sn_NICName = Some nicPrefix,
        sn_VxNetID = Some ''vxnet-1'', sn_PrivateIP = Some ip, sn_Sequence = Some 1, sn_Role = Some 0 \<rparr>)
        (filter (\<lambda>(i, ip). map_of w i = Some ip \<and> (dn_Nics d = [] \<or> i \<in> set (dn_Nics d))) w))), w)),
     svc_AttachNics = (\<lambda>ns i w. (Ok (answer 0 []), w)), svc_DetachNics = (\<lambda>ns w. (Ok (answer 0 []), w)),
     svc_DeleteNics = (\<lambda>ns w. (Ok (answer 0 []), fold gm_del ns w)),
     svc_DescribeVxNets = (\<lambda>d w. (Ok (answer 0 [\<lparr> sv_VxNetID = Some ''vxnet-1'', sv_VxNetName = Some ''n'',
        sv_VpcRouterID = Some ''rtr'', sv_Router = None \<rparr>]), w)),
     svc_CreateVxNets = (\<lambda>k n w. (Ok (answer 0 [Some ''vxnet-2'']), w)), svc_DeleteVxNets = (\<lambda>vs w. (Ok (answer 0 []), w)),
     svc_DescribeInstances = (\<lambda>is n w. (Ok (answer 0 [[Some ''vxnet-1'']]), w)),
     svc_DescribeRouters = (\<lambda>rs w. (Ok (answer 0 []), w)), svc_DescribeRouterVxNets = (\<lambda>r w. (Ok (answer 0 []), w)),
     svc_JoinRouter = (\<lambda>v r n w. (Ok (answer 0 []), w)), svc_LeaveRouter = (\<lambda>r vs w. (Ok (answer 0 []), w)),
     svc_DescribeTags = (\<lambda>d w. (Ok (answer 0 []), w)), svc_CreateTag = (\<lambda>c l w. (Ok (answer 0 []), w)),
     svc_AttachTags = (\<lambda>ts w. (Ok (answer 0 []), w)), svc_DescribeAccessKeys = (\<lambda>ks w. (Ok (answer 0 [Some ''usr-1'']), w)),
     svc_WaitForSpecific = (\<lambda>f t i w. (Ok (), w)), svc_is_timeout = (\<lambda>e. False), svc_WaitJob = (\<lambda>j t i w. (Ok (), w)),
     svc_LinkList = (\<lambda>w. (Ok [], w)), svc_Sleep = (\<lambda>d w. w), svc_Intn = (\<lambda>n w. (0, w)) \<rparr>"

definition table_client :: "(string \<times> string) list qc_wrapper" where
  "table_client = \<lparr> qw_svc = table_services, qw_userID = ''usr-1'', qw_instanceID = ''i-1'', qw_clusterName = '''',
     qw_extraLabels = [], qw_vxnetLabelID = '''', qw_nicLabelID = '''', qw_labelResource = False \<rparr>"

lemma table_services_table: "nic_table (qw_svc table_client) map_of"
proof -
  have "concat (List.map fst w) @ ''x'' \<notin> fst ` set w" "concat (List.map snd w) @ ''1'' \<notin> ran (map_of w)" for w :: "(string \<times> string) list"
    using longer_fresh [of "List.map fst w" "CHR ''x''"] longer_fresh [of "List.map snd w" "CHR ''1''"]
    by (auto simp: ran_def dest!: map_of_SomeD) (metis image_eqI snd_conv)
  then show ?thesis
    by (auto simp: nic_table_def creates_entries_def deletes_by_def describes_entries_def leaves_nics_def leaves_vpc_calls_def keeps_def
        table_client_def table_services_def answer_def map_of_eq_None_iff split: if_splits)
qed


end
