(* ===== verification/NicNetwork.thy ===== *)
theory NicNetwork
  imports HostNetwork Retry
begin

text \<open>
  \<^verbatim>\<open>pkg/networkutils/networkutil.go\<close>: the network of one NIC.  The link is looked for by its
  MAC address (five attempts), the DHCP client of the NIC is killed, the link is brought up
  without its addresses, and its own route table gets a route to the gateway and a default
  route; adding a route is retried while the network is unreachable.

  Reading a file, killing a process and sleeping are parameters.
\<close>

definition maxAttemptsLinkByMac :: int where "maxAttemptsLinkByMac = 5"
definition maxRetryRouteAdd :: int where "maxRetryRouteAdd = 5"
definition retryRouteAddInterval :: duration where "retryRouteAddInterval = 5 * second"
definition retryLinkByMacInterval :: duration where "retryLinkByMacInterval = 5 * second"
definition ethernetMTU :: int where "ethernetMTU = 9001"

section \<open>Finding the link\<close>

text \<open>One turn of the loop, with the counter after its increment at \<open>attempt\<close>.\<close>

function link_by_mac ::
  "(errno \<Rightarrow> string) \<Rightarrow> string \<Rightarrow> 'n netlink \<Rightarrow> ('n \<Rightarrow> 'n) \<Rightarrow> int \<Rightarrow> go_error option \<Rightarrow> 'n \<Rightarrow> link go_result \<times> 'n" where
  "link_by_mac strerror mac api slp attempt lastErr n =
     (if maxAttemptsLinkByMac < attempt
      then ((case lastErr of Some e \<Rightarrow> Err e | None \<Rightarrow> Panic), n)
      else
        let n0 = (if 1 < attempt then slp n else n);
            tries = '' (attempt '' @ dec_int attempt @ ''/'' @ dec_int maxAttemptsLinkByMac @ '')''
        in on_result (nl_LinkList api n0)
             (\<lambda>links n1.
                case List.find (\<lambda>l. mac = mac_string (link_HardwareAddr l)) links of
                  Some l \<Rightarrow> (Ok l, n1)
                | None \<Rightarrow> link_by_mac strerror mac api slp (attempt + 1)
                    (Some (ErrorString (''no interface found which uses mac address '' @ mac @ tries))) n1)
             (\<lambda>err n1. link_by_mac strerror mac api slp (attempt + 1)
                (Some (ErrorString (error_string strerror err @ tries))) n1))"
  by pat_completeness auto
termination by (relation "measure (\<lambda>(_, _, _, _, attempt, _, _). nat (maxAttemptsLinkByMac + 1 - attempt))") auto

declare link_by_mac.simps [simp del]

text \<open>The source returns \<open>lastErr\<close> after the last attempt; it is set by then.\<close>

definition LinkByMac ::
  "(errno \<Rightarrow> string) \<Rightarrow> string \<Rightarrow> 'n netlink \<Rightarrow> (duration \<Rightarrow> 'n \<Rightarrow> 'n) \<Rightarrow> duration \<Rightarrow> ('n, link) world_call" where
  "LinkByMac strerror mac api sleep retryInterval n = link_by_mac strerror mac api (sleep retryInterval) 1 None n"

section \<open>The DHCP client\<close>

definition parse_decimal :: "string \<Rightarrow> int option" where
  "parse_decimal s =
     (let neg = (s \<noteq> [] \<and> hd s = CHR ''-'');
          s1 = (if s \<noteq> [] \<and> (hd s = CHR ''+'' \<or> hd s = CHR ''-'') then tl s else s)
      in case (if s1 = [] then None else parse_digits 10 s1) of
           None \<Rightarrow> None
         | Some un \<Rightarrow>
             if neg then (if 2 ^ 63 < un then None else Some (- int un))
             else (if 2 ^ 63 \<le> un then None else Some (int un)))"

text \<open>The text of the error of \<open>ParseInt\<close>.\<close>

definition num_error :: "string \<Rightarrow> string" where
  "num_error s = ''strconv.ParseInt: parsing '' @ quoted s @ '': ''
     @ (let s1 = (if s \<noteq> [] \<and> (hd s = CHR ''+'' \<or> hd s = CHR ''-'') then tl s else s)
        in if s1 = [] \<or> parse_digits 10 s1 = None then ''invalid syntax'' else ''value out of range'')"

text \<open>The last byte of both files is cut off; on an empty file that is a panic.\<close>

definition killDhclient ::
  "(errno \<Rightarrow> string) \<Rightarrow> (string \<Rightarrow> ('n, string) world_call) \<Rightarrow> (int \<Rightarrow> ('n, unit) world_call) \<Rightarrow> string \<Rightarrow> ('n, unit) world_call" where
  "killDhclient strerror readFile kill nicName n =
     (let filename = ''/var/run/dhclient.'' @ nicName @ ''.pid''
      in on_result (readFile filename n)
           (\<lambda>content n1.
              if content = [] then (Panic, n1)
              else case parse_decimal (butlast content) of
                None \<Rightarrow> (Err (ErrorString (''pid file '' @ filename @ '' has a invalid value: ''
                   @ num_error (butlast content))), n1)
              | Some pid \<Rightarrow>
                  (let filename2 = ''/proc/'' @ dec_int pid @ ''/cmdline''
                   in on_result (readFile filename2 n1)
                        (\<lambda>content2 n2.
                           if content2 = [] then (Panic, n2)
                           else if \<not> contains_text ''dhclient'' (butlast content2) then (Ok (), n2)
                           else kill pid n2)
                        (\<lambda>err n2. (Err (ErrorString (''error reading '' @ filename2 @ '': '' @ error_string strerror err)), n2))))
           (\<lambda>err n1. (Err (ErrorString (''error reading '' @ filename @ '': '' @ error_string strerror err)), n1)))"

section \<open>Routes\<close>

text \<open>Adding one route; \<open>retry\<close> counts the answers that the network is unreachable.\<close>

definition route_error :: "string \<Rightarrow> route \<Rightarrow> byte list \<Rightarrow> int \<Rightarrow> string" where
  "route_error what r gw nicTable = ''setupNICNetwork: '' @ what @ '' ''
     @ ip_string (case route_Dst r of Some d \<Rightarrow> net_IP d | None \<Rightarrow> []) @ ''/0 via '' @ ip_string gw @ '' table '' @ dec_int nicTable"

function add_route ::
  "'n netlink \<Rightarrow> ('n \<Rightarrow> 'n) \<Rightarrow> byte list \<Rightarrow> int \<Rightarrow> route \<Rightarrow> int \<Rightarrow> ('n, unit) world_call" where
  "add_route api slp gw nicTable r retry n =
     on_result (nl_RouteAdd api r n)
       (\<lambda>_ n1. (Ok (), n1))
       (\<lambda>err n1.
          if IsNetworkUnreachableError err then
            (let retry = retry + 1
             in if maxRetryRouteAdd < retry
                then (Err (Wrapped (route_error ''failed to add route'' r gw nicTable) err), n1)
                else add_route api slp gw nicTable r retry (slp n1))
          else if IsRouteExistsError err then
            on_result (nl_RouteReplace api r n1)
              (\<lambda>_ n2. (Ok (), n2))
              (\<lambda>err2 n2. (Err (Wrapped (''setupNICNetwork: unable to replace route entry ''
                 @ ip_string (case route_Dst r of Some d \<Rightarrow> net_IP d | None \<Rightarrow> [])) err2), n2))
          else (Err (Wrapped (route_error ''unable to add route'' r gw nicTable) err), n1))"
  by pat_completeness auto
termination by (relation "measure (\<lambda>(_, _, _, _, _, retry, _). nat (maxRetryRouteAdd + 1 - retry))") auto

declare add_route.simps [simp del]

fun routes_loop :: "'n netlink \<Rightarrow> ('n \<Rightarrow> 'n) \<Rightarrow> byte list \<Rightarrow> int \<Rightarrow> route list \<Rightarrow> ('n, unit) world_call" where
  "routes_loop api slp gw nicTable [] n = (Ok (), n)"
| "routes_loop api slp gw nicTable (r # rs) n =
     (let add = (\<lambda>n1. check (add_route api slp gw nicTable r 0 n1) (\<lambda>_ n2. routes_loop api slp gw nicTable rs n2))
      in on_result (nl_RouteDel api r n)
           (\<lambda>_ n1. add n1)
           (\<lambda>err n1. if IsNotExistsError err then add n1
              else (Err (Wrapped ''setupNICNetwork: failed to clean up old routes'' err), n1)))"

fun delete_addrs :: "'n netlink \<Rightarrow> link \<Rightarrow> nl_addr list \<Rightarrow> ('n, unit) world_call" where
  "delete_addrs api l [] n = (Ok (), n)"
| "delete_addrs api l (a # as) n =
     on_result (nl_AddrDel api l a n)
       (\<lambda>_ n1. delete_addrs api l as n1)
       (\<lambda>err n1. (Err (Wrapped ''setupNICNetwork: failed to delete IP addr from NIC'' err), n1))"

definition gateway_route :: "int \<Rightarrow> byte list \<Rightarrow> int \<Rightarrow> route" where
  "gateway_route deviceNumber gw nicTable = empty_route\<lparr> route_LinkIndex := deviceNumber,
     route_Dst := Some \<lparr> net_IP = gw, net_Mask = CIDRMask 32 32 \<rparr>, route_Scope := SCOPE_LINK, route_Table := nicTable \<rparr>"

definition default_route :: "int \<Rightarrow> byte list \<Rightarrow> int \<Rightarrow> route" where
  "default_route deviceNumber gw nicTable = empty_route\<lparr> route_LinkIndex := deviceNumber,
     route_Dst := Some \<lparr> net_IP = IPv4 0 0 0 0, net_Mask = CIDRMask 0 32 \<rparr>, route_Scope := SCOPE_UNIVERSE,
     route_Gw := gw, route_Table := nicTable \<rparr>"

definition main_table_route :: "ip_net \<Rightarrow> string \<Rightarrow> route" where
  "main_table_route cidr nicIP = empty_route\<lparr> route_Dst := Some cidr, route_Src := ParseIP nicIP,
     route_Table := RT_TABLE_MAIN, route_Scope := SCOPE_LINK \<rparr>"

section \<open>setupNICNetwork\<close>

text \<open>The part after the link is up.\<close>

definition setup_nic_routes ::
  "'n netlink \<Rightarrow> ('n \<Rightarrow> 'n) \<Rightarrow> link \<Rightarrow> string \<Rightarrow> int \<Rightarrow> string \<Rightarrow> ('n, unit) world_call" where
  "setup_nic_routes api slp l nicIP nicTable nicSubnetCIDR n =
     (case ParseCIDR nicSubnetCIDR of
        None \<Rightarrow> (Err (Wrapped (''setupNICNetwork: invalid IPv4 CIDR block '' @ nicSubnetCIDR)
                   (ErrorString (''invalid CIDR address: '' @ nicSubnetCIDR))), n)
      | Some (_, ipnet) \<Rightarrow>
          on_result (incrementIPv4Addr (net_IP ipnet), n)
            (\<lambda>gw n. on_result (nl_AddrList api l n)
               (\<lambda>addrs n1. check (delete_addrs api l addrs n1) (\<lambda>_ n2.
                  check (routes_loop api slp gw nicTable
                     [gateway_route (link_Index l) gw nicTable, default_route (link_Index l) gw nicTable] n2) (\<lambda>_ n3.
                  on_result (nl_RouteDel api (main_table_route ipnet nicIP) n3)
                    (\<lambda>_ n4. (Ok (), n4))
                    (\<lambda>err n4. if IsNotExistsError err then (Ok (), n4)
                       else (Err (Wrapped (''setupNICNetwork: unable to delete default route '' @ ipnet_string ipnet
                          @ '' for source IP '' @ nicIP) err), n4)))))
               (\<lambda>err n1. (Err (Wrapped ''setupNICNetwork: failed to list IP address for NIC'' err), n1)))
            (\<lambda>err n. (Err (Wrapped (''setupNICNetwork: failed to define gateway address from '' @ ip_string (net_IP ipnet)) err), n)))"

definition setupNICNetwork ::
  "(errno \<Rightarrow> string) \<Rightarrow> (string \<Rightarrow> ('n, string) world_call) \<Rightarrow> (int \<Rightarrow> ('n, unit) world_call) \<Rightarrow> (duration \<Rightarrow> 'n \<Rightarrow> 'n) \<Rightarrow> 'n netlink
   \<Rightarrow> string \<Rightarrow> string \<Rightarrow> int \<Rightarrow> string \<Rightarrow> ('n, unit) world_call" where
  "setupNICNetwork strerror readFile kill sleep api nicIP nicMAC nicTable nicSubnetCIDR n =
     (if nicTable = 0 then (Ok (), n)
      else on_result (LinkByMac strerror nicMAC api sleep retryLinkByMacInterval n)
        (\<lambda>l n1.
           let up = (\<lambda>n2.
             on_result (nl_LinkSetMTU api l ethernetMTU n2)
               (\<lambda>_ n3. on_result (nl_LinkSetUp api l n3)
                  (\<lambda>_ n4. setup_nic_routes api (sleep retryRouteAddInterval) l nicIP nicTable nicSubnetCIDR n4)
                  (\<lambda>err n4. (Err (Wrapped (''setupNICNetwork: failed to bring up NIC '' @ nicIP) err), n4)))
               (\<lambda>err n3. (Err (Wrapped (''setupNICNetwork: failed to set MTU for '' @ nicIP) err), n3)))
           in on_result (killDhclient strerror readFile kill (link_Name l) n1) (\<lambda>_ n2. up n2) (\<lambda>_ n2. up n2))
        (\<lambda>err n1. (Err (Wrapped (''setupNICNetwork: failed to find the link which uses MAC address '' @ nicMAC) err), n1)))"

section \<open>Effect on the routes\<close>

text \<open>What the set-up of a NIC relies on beyond the tables: the calls on links and addresses leave
  the tables alone, and a route that is reported missing is not there.\<close>

locale netlink_nic = netlink_tables api ok rules routes
  for api :: "'n netlink" and ok :: "'n \<Rightarrow> bool" and rules :: "'n \<Rightarrow> string \<Rightarrow> rule option"
    and routes :: "'n \<Rightarrow> string \<Rightarrow> route option" +
  fixes slp :: "'n \<Rightarrow> 'n"
  assumes link_list: "ok n \<Longrightarrow> nl_LinkList api n = (lx, n') \<Longrightarrow> ok n' \<and> rules n' = rules n \<and> routes n' = routes n"
    and set_mtu: "ok n \<Longrightarrow> nl_LinkSetMTU api l mtu n = (x, n') \<Longrightarrow> ok n' \<and> rules n' = rules n \<and> routes n' = routes n"
    and addr_list: "ok n \<Longrightarrow> nl_AddrList api l n = (ax, n') \<Longrightarrow> ok n' \<and> rules n' = rules n \<and> routes n' = routes n"
    and addr_del: "ok n \<Longrightarrow> nl_AddrDel api l a n = (x, n') \<Longrightarrow> ok n' \<and> rules n' = rules n \<and> routes n' = routes n"
    and route_absent: "ok n \<Longrightarrow> nl_RouteDel api rt n = (Err (ErrnoValue ESRCH), n') \<Longrightarrow> routes n (route_key rt) = None"
    and sleep: "ok n \<Longrightarrow> ok (slp n) \<and> rules (slp n) = rules n \<and> routes (slp n) = routes n"
begin

text \<open>Deleting a route and accepting that it is not there.\<close>

lemma route_gone:
  assumes "ok n" and "nl_RouteDel api r n = (x, n')" and "x = Ok () \<or> x = Err (ErrnoValue ESRCH)"
  shows "ok n'" "rules n' = rules n" "routes n' = (routes n)(route_key r := None)"
  using route_del [OF assms(1,2)] route_absent [OF assms(1), of r n'] assms(2,3)
  by (auto simp: changes_def is_err_def fun_upd_idem)

lemma add_route_Ok:
  "ok n \<Longrightarrow> add_route api slp gw tbl r retry n = (Ok (), n') \<Longrightarrow>
    ok n' \<and> rules n' = rules n \<and> routes n' = (routes n)(route_key r \<mapsto> r)"
proof (induction "nat (maxRetryRouteAdd - retry)" arbitrary: retry n rule: less_induct)
  case less
  obtain x n1 where a: "nl_RouteAdd api r n = (x, n1)" by (cases "nl_RouteAdd api r n")
  note fx = route_add [OF less.prems(1) a]
  note run = less.prems(2) [unfolded add_route.simps [of api slp gw tbl r retry n] a]
  show ?case
  proof (cases x)
    case (Ok u)
    with fx run show ?thesis by (auto simp: changes_def is_err_def)
  next
    case (Err e)
    with fx have n1: "ok n1" "rules n1 = rules n" "routes n1 = routes n" by (auto simp: changes_def)
    show ?thesis
    proof (cases "IsNetworkUnreachableError e")
      case True
      with run Err have "\<not> maxRetryRouteAdd < retry + 1" and r: "add_route api slp gw tbl r (retry + 1) (slp n1) = (Ok (), n')"
        by (auto simp: Let_def split: if_splits)
      then have "nat (maxRetryRouteAdd - (retry + 1)) < nat (maxRetryRouteAdd - retry)" by simp
      from less.hyps [OF this _ r] sleep [OF n1(1)] n1 show ?thesis by simp
    next
      case False
      obtain y n2 where b: "nl_RouteReplace api r n1 = (y, n2)" by (cases "nl_RouteReplace api r n1")
      from run Err False b have "y = Ok ()" "n2 = n'" by (cases y; auto split: if_splits)+
      with route_replace [OF n1(1) b] n1 show ?thesis by (auto simp: changes_def is_err_def)
    qed
  next
    case Panic
    with run show ?thesis by simp
  qed
qed

lemma routes_loop_Ok:
  "ok n \<Longrightarrow> routes_loop api slp gw tbl rs n = (Ok (), n') \<Longrightarrow>
    ok n' \<and> rules n' = rules n \<and> routes n' = fold (\<lambda>r m. m(route_key r \<mapsto> r)) rs (routes n)"
proof (induction rs arbitrary: n)
  case Nil
  then show ?case by simp
next
  case (Cons r rs)
  obtain x n1 where d: "nl_RouteDel api r n = (x, n1)" by (cases "nl_RouteDel api r n")
  have "(x = Ok () \<or> x = Err (ErrnoValue ESRCH))
      \<and> check (add_route api slp gw tbl r 0 n1) (\<lambda>_ n2. routes_loop api slp gw tbl rs n2) = (Ok (), n')"
    using Cons.prems(2) d by (cases x) (auto simp: IsNotExistsError_def is_errno_iff split: if_splits)
  then obtain n2 where x: "x = Ok () \<or> x = Err (ErrnoValue ESRCH)" and a: "add_route api slp gw tbl r 0 n1 = (Ok (), n2)"
    and rest: "routes_loop api slp gw tbl rs n2 = (Ok (), n')"
    by (auto elim!: check_Ok_elim)
  from route_gone [OF Cons.prems(1) d x] add_route_Ok [OF _ a] Cons.IH [OF _ rest] show ?case by simp
qed

lemma delete_addrs_Ok:
  "ok n \<Longrightarrow> delete_addrs api l as n = (x, n') \<Longrightarrow> ok n' \<and> rules n' = rules n \<and> routes n' = routes n"
proof (induction as arbitrary: n)
  case (Cons a as)
  obtain y n1 where d: "nl_AddrDel api l a n = (y, n1)" by (cases "nl_AddrDel api l a n")
  with Cons addr_del [OF Cons.prems(1) d] show ?case by (cases y) auto
qed simp

lemma link_by_mac_frame:
  "ok n \<Longrightarrow> link_by_mac strerror mac api slp attempt e n = (x, n') \<Longrightarrow> ok n' \<and> rules n' = rules n \<and> routes n' = routes n"
proof (induction "nat (maxAttemptsLinkByMac + 1 - attempt)" arbitrary: attempt e n rule: less_induct)
  case less
  show ?case
  proof (cases "maxAttemptsLinkByMac < attempt")
    case True
    with less.prems show ?thesis by (simp add: link_by_mac.simps)
  next
    case False
    define n0 where "n0 = (if 1 < attempt then slp n else n)"
    have n0: "ok n0" "rules n0 = rules n" "routes n0 = routes n" using sleep [OF less.prems(1)] less.prems(1) by (auto simp: n0_def)
    obtain y n1 where l: "nl_LinkList api n0 = (y, n1)" by (cases "nl_LinkList api n0")
    with link_list [OF n0(1) l] n0 have n1: "ok n1" "rules n1 = rules n" "routes n1 = routes n" by auto
    have m: "nat (maxAttemptsLinkByMac + 1 - (attempt + 1)) < nat (maxAttemptsLinkByMac + 1 - attempt)" using False by simp
    have "n' = n1 \<or> (\<exists>e'. link_by_mac strerror mac api slp (attempt + 1) e' n1 = (x, n'))"
      using less.prems(2) False l unfolding link_by_mac.simps [of strerror mac api slp attempt e n] n0_def [symmetric]
      by (cases y) (auto simp: Let_def split: option.splits)
    with less.hyps [OF m n1(1)] n1 show ?thesis by auto
  qed
qed

text \<open>A successful set-up of the routes of a NIC.\<close>

lemma setup_nic_routes_Ok:
  assumes "ok n" and "setup_nic_routes api slp l nicIP tbl cidr n = (Ok (), n')"
  obtains ip ipnet gw where "ParseCIDR cidr = Some (ip, ipnet)" "incrementIPv4Addr (net_IP ipnet) = Ok gw" "ok n'" "rules n' = rules n"
    "routes n' = (fold (\<lambda>r m. m(route_key r \<mapsto> r)) [gateway_route (link_Index l) gw tbl, default_route (link_Index l) gw tbl] (routes n))
       (route_key (main_table_route ipnet nicIP) := None)"
proof -
  from assms(2) obtain ip ipnet where c: "ParseCIDR cidr = Some (ip, ipnet)"
    by (auto simp: setup_nic_routes_def split: option.splits)
  with assms(2) obtain gw where g: "incrementIPv4Addr (net_IP ipnet) = Ok gw"
    by (cases "incrementIPv4Addr (net_IP ipnet)") (auto simp: setup_nic_routes_def)
  obtain y n1 where al: "nl_AddrList api l n = (y, n1)" by (cases "nl_AddrList api l n")
  with assms(2) c g obtain addrs where y: "y = Ok addrs" by (cases y) (auto simp: setup_nic_routes_def)
  from assms(2) c g al y obtain n2 n3 where d: "delete_addrs api l addrs n1 = (Ok (), n2)"
    and rl: "routes_loop api slp gw tbl [gateway_route (link_Index l) gw tbl, default_route (link_Index l) gw tbl] n2 = (Ok (), n3)"
    and fin: "on_result (nl_RouteDel api (main_table_route ipnet nicIP) n3) (\<lambda>_ n4. (Ok (), n4))
        (\<lambda>err n4. if IsNotExistsError err then (Ok (), n4)
           else (Err (Wrapped (''setupNICNetwork: unable to delete default route '' @ ipnet_string ipnet
              @ '' for source IP '' @ nicIP) err), n4)) = (Ok (), n')"
    by (auto simp only: setup_nic_routes_def on_result.simps option.simps prod.case elim!: check_unit_elim)
  obtain z n4 where rd: "nl_RouteDel api (main_table_route ipnet nicIP) n3 = (z, n4)" by (cases "nl_RouteDel api (main_table_route ipnet nicIP) n3")
  with fin have z: "(z = Ok () \<or> z = Err (ErrnoValue ESRCH)) \<and> n4 = n'"
    by (cases z) (auto simp: IsNotExistsError_def is_errno_iff split: if_splits)
  from addr_list [OF assms(1) al] have n1: "ok n1" "rules n1 = rules n" "routes n1 = routes n" by auto
  from delete_addrs_Ok [OF n1(1) d] n1 have n2: "ok n2" "rules n2 = rules n" "routes n2 = routes n" by auto
  note n3 = routes_loop_Ok [OF n2(1) rl]
  from n3 route_gone [OF _ rd] z have n': "ok n'" "rules n' = rules n3" "routes n' = (routes n3)(route_key (main_table_route ipnet nicIP) := None)" by auto
  show thesis by (rule that [OF c g n'(1)]) (use n' n3 n2 in simp_all)
qed

end

section \<open>Retries\<close>

lemma add_route_unreachable:
  assumes "\<And>i. i < k \<Longrightarrow> fst (nl_RouteAdd api r (calls slp (nl_RouteAdd api r) i n)) = Err (ErrnoValue ENETUNREACH)"
    and "retry + int k \<le> maxRetryRouteAdd"
  shows "add_route api slp gw tbl r retry n = add_route api slp gw tbl r (retry + int k) (calls slp (nl_RouteAdd api r) k n)"
  using assms
proof (induction k arbitrary: retry n)
  case (Suc k)
  obtain n1 where a: "nl_RouteAdd api r n = (Err (ErrnoValue ENETUNREACH), n1)"
    using Suc.prems(1) [of 0] by (cases "nl_RouteAdd api r n") auto
  have "add_route api slp gw tbl r retry n = add_route api slp gw tbl r (retry + 1) (slp n1)"
    using Suc.prems(2) by (subst add_route.simps) (simp add: a IsNetworkUnreachableError_def)
  also have "\<dots> = add_route api slp gw tbl r (retry + 1 + int k) (calls slp (nl_RouteAdd api r) k (slp n1))"
    using Suc.prems(1) [of "Suc _"] Suc.prems(2) a by (intro Suc.IH) auto
  finally show ?case using a by (simp add: algebra_simps)
qed simp

section \<open>The link\<close>

lemma link_by_mac_found:
  "link_by_mac strerror mac api slp attempt e n = (Ok l, n') \<Longrightarrow> mac_string (link_HardwareAddr l) = mac"
proof (induction "nat (maxAttemptsLinkByMac + 1 - attempt)" arbitrary: attempt e n rule: less_induct)
  case less
  show ?case
  proof (cases "maxAttemptsLinkByMac < attempt")
    case True
    with less.prems show ?thesis by (simp add: link_by_mac.simps split: option.splits)
  next
    case False
    define n0 where "n0 = (if 1 < attempt then slp n else n)"
    have m: "nat (maxAttemptsLinkByMac + 1 - (attempt + 1)) < nat (maxAttemptsLinkByMac + 1 - attempt)" using False by simp
    obtain y n1 where l: "nl_LinkList api n0 = (y, n1)" by (cases "nl_LinkList api n0")
    have "mac_string (link_HardwareAddr l) = mac \<or> (\<exists>e'. link_by_mac strerror mac api slp (attempt + 1) e' n1 = (Ok l, n'))"
      using less.prems False l unfolding link_by_mac.simps [of strerror mac api slp attempt e n] n0_def [symmetric]
      by (cases y) (auto simp: Let_def find_Some_iff split: option.splits)
    with less.hyps [OF m] show ?thesis by auto
  qed
qed

text \<open>Calls that leave the tables alone.\<close>

definition harmless :: "('n \<Rightarrow> bool) \<Rightarrow> ('n \<Rightarrow> string \<Rightarrow> rule option) \<Rightarrow> ('n \<Rightarrow> string \<Rightarrow> route option) \<Rightarrow> ('n, 'a) world_call \<Rightarrow> bool" where
  "harmless ok rules routes op \<longleftrightarrow> (\<forall>n. ok n \<longrightarrow> ok (snd (op n)) \<and> rules (snd (op n)) = rules n \<and> routes (snd (op n)) = routes n)"

lemma harmlessD: "harmless ok rules routes op \<Longrightarrow> op n = (x, n') \<Longrightarrow> ok n \<Longrightarrow> ok n' \<and> rules n' = rules n \<and> routes n' = routes n"
  unfolding harmless_def by (metis snd_conv)

lemma killDhclient_harmless:
  assumes "\<And>f. harmless ok rules routes (readFile f)" and "\<And>pid. harmless ok rules routes (kill pid)"
  shows "harmless ok rules routes (killDhclient strerror readFile kill name)"
  unfolding harmless_def
proof (intro allI impI)
  fix n assume "ok n"
  obtain x n1 where f1: "readFile (''/var/run/dhclient.'' @ name @ ''.pid'') n = (x, n1)"
    by (cases "readFile (''/var/run/dhclient.'' @ name @ ''.pid'') n")
  note h1 = harmlessD [OF assms(1) f1 \<open>ok n\<close>]
  show "ok (snd (killDhclient strerror readFile kill name n)) \<and> rules (snd (killDhclient strerror readFile kill name n)) = rules n
      \<and> routes (snd (killDhclient strerror readFile kill name n)) = routes n"
  proof (cases "\<exists>c pid. x = Ok c \<and> c \<noteq> [] \<and> parse_decimal (butlast c) = Some pid")
    case True
    then obtain c pid where c: "x = Ok c" "c \<noteq> []" "parse_decimal (butlast c) = Some pid" by blast
    obtain y n2 where f2: "readFile (''/proc/'' @ dec_int pid @ ''/cmdline'') n1 = (y, n2)"
      by (cases "readFile (''/proc/'' @ dec_int pid @ ''/cmdline'') n1")
    with h1 harmlessD [OF assms(1) f2] harmlessD [OF assms(2), of pid n2] c f1 show ?thesis
      by (cases y; cases "kill pid n2") (auto simp: killDhclient_def Let_def)
  next
    case False
    with h1 f1 show ?thesis
      by (cases x) (auto simp: killDhclient_def Let_def split: option.splits)
  qed
qed

context netlink_nic
begin

lemma setupNICNetwork_Ok:
  assumes "slp = sleep (5 * second)" and "\<And>f. harmless ok rules routes (readFile f)" and "\<And>pid. harmless ok rules routes (kill pid)"
    and "ok n" and "nicTable \<noteq> 0" and "setupNICNetwork strerror readFile kill sleep api nicIP nicMAC nicTable cidr n = (Ok (), n')"
  shows "\<exists>(l :: link) ip ipnet gw. mac_string (link_HardwareAddr l) = nicMAC \<and> ParseCIDR cidr = Some (ip, ipnet)
    \<and> incrementIPv4Addr (net_IP ipnet) = Ok gw \<and> rules n' = rules n
    \<and> routes n' = (fold (\<lambda>r m. m(route_key r \<mapsto> r)) [gateway_route (link_Index l) gw nicTable, default_route (link_Index l) gw nicTable] (routes n))
       (route_key (main_table_route ipnet nicIP) := None)"
proof -
  have slp: "sleep retryLinkByMacInterval = slp" "sleep retryRouteAddInterval = slp"
    by (simp_all add: assms(1) retryLinkByMacInterval_def retryRouteAddInterval_def)
  obtain x n1 where f: "link_by_mac strerror nicMAC api slp 1 None n = (x, n1)" by (cases "link_by_mac strerror nicMAC api slp 1 None n")
  with assms(5,6) obtain l where x: "x = Ok l" by (cases x) (auto simp: setupNICNetwork_def LinkByMac_def slp)
  from link_by_mac_frame [OF assms(4) f] have n1: "ok n1" "rules n1 = rules n" "routes n1 = routes n" by auto
  obtain y n2 where k: "killDhclient strerror readFile kill (link_Name l) n1 = (y, n2)"
    by (cases "killDhclient strerror readFile kill (link_Name l) n1")
  from harmlessD [OF killDhclient_harmless [OF assms(2,3)] k n1(1)] n1 have n2: "ok n2" "rules n2 = rules n" "routes n2 = routes n" by auto
  obtain z n3 where m: "nl_LinkSetMTU api l ethernetMTU n2 = (z, n3)" by (cases "nl_LinkSetMTU api l ethernetMTU n2")
  from set_mtu [OF n2(1) m] n2 have n3: "ok n3" "rules n3 = rules n" "routes n3 = routes n" by auto
  obtain u n4 where up: "nl_LinkSetUp api l n3 = (u, n4)" by (cases "nl_LinkSetUp api l n3")
  from link_ops [OF n3(1), of l u n4] up n3 have n4: "ok n4" "rules n4 = rules n" "routes n4 = routes n" by auto
  have "setup_nic_routes api slp l nicIP nicTable cidr n4 = (Ok (), n')"
    using assms(5,6) f x k m up by (cases y; cases z; cases u) (auto simp: setupNICNetwork_def LinkByMac_def slp)
  then show ?thesis
  proof (rule setup_nic_routes_Ok [OF n4(1)])
    fix ip ipnet gw
    assume "ParseCIDR cidr = Some (ip, ipnet)" "incrementIPv4Addr (net_IP ipnet) = Ok gw" "rules n' = rules n4"
      "routes n' = (fold (\<lambda>r m. m(route_key r \<mapsto> r)) [gateway_route (link_Index l) gw nicTable, default_route (link_Index l) gw nicTable] (routes n4))
        (route_key (main_table_route ipnet nicIP) := None)"
    with link_by_mac_found [OF f [unfolded x]] n4 show ?thesis
      by (intro exI [of _ l] exI [of _ ip] exI [of _ ipnet] exI [of _ gw]) (simp only:)
  qed
qed

end

section \<open>Properties\<close>



text \<open>An empty pid file of the NIC's DHCP client stops the daemon: the last byte of the file is
  cut off without a test, which is a panic, and the NIC is not set up.\<close>

theorem empty_pid_file_panics:
  assumes "nicTable \<noteq> 0" and "LinkByMac strerror nicMAC api sleep retryLinkByMacInterval n = (Ok l, n1)"
    and "readFile (''/var/run/dhclient.'' @ link_Name l @ ''.pid'') n1 = (Ok '''', n2)"
  shows "setupNICNetwork strerror readFile kill sleep api nicIP nicMAC nicTable cidr n = (Panic, n2)"
  using assms by (simp add: setupNICNetwork_def killDhclient_def Let_def)

section \<open>Witnesses\<close>

interpretation fake_nic: netlink_nic "fake_api ord" fake_ok fake_rules fake_routes id
  by unfold_locales (auto simp: fake_api_def fake_ok_def fake_set_link_def fake_LinkList_def fake_LinkSetMTU_def fake_AddrList_def fake_AddrDel_def
      fake_RouteDel_def split: option.splits)

definition sample_nic_link :: link where
  "sample_nic_link = (NewLink ''eth1'')\<lparr> link_Index := 3, link_HardwareAddr := [82, 84, 0, 0, 0, 1] \<rparr>"

definition sample_nic_fake :: fake_netlink where
  "sample_nic_fake = NewFakeNetlink\<lparr> fake_Links := [(''eth1'', sample_nic_link)] \<rparr>"

abbreviation sample_nic_setup :: "(string \<Rightarrow> (fake_netlink, string) world_call) \<Rightarrow> unit go_result \<times> fake_netlink" where
  "sample_nic_setup readFile \<equiv> setupNICNetwork (\<lambda>_. '''') readFile (\<lambda>pid n. (Ok (), n)) (\<lambda>d n. n) (fake_api no_order)
     (ip_string [10, 0, 0, 2]) ''52:54:00:00:00:01'' 3 (ip_string [10, 0, 0, 0] @ ''/24'') sample_nic_fake"

lemma sample_nic_found:
  "LinkByMac (\<lambda>_. '''') ''52:54:00:00:00:01'' (fake_api no_order) (\<lambda>d n. n) retryLinkByMacInterval sample_nic_fake = (Ok sample_nic_link, sample_nic_fake)"
proof -
  have "mac_string (link_HardwareAddr sample_nic_link) = ''52:54:00:00:00:01''" by code_simp
  moreover have "fake_LinkList no_order sample_nic_fake = (Ok [sample_nic_link], sample_nic_fake)" by code_simp
  ultimately show ?thesis by (simp add: LinkByMac_def link_by_mac.simps maxAttemptsLinkByMac_def fake_api_def)
qed

lemma empty_pid_file_panics_witness: "fst (sample_nic_setup (\<lambda>f n. (Ok '''', n))) = Panic"
  using empty_pid_file_panics [OF _ sample_nic_found, of 3 "\<lambda>f n. (Ok '''', n)" sample_nic_fake "\<lambda>pid n. (Ok (), n)"] by simp


lemma sample_increment: "\<exists>gw. incrementIPv4Addr [10, 0, 0, 0] = Ok gw"
  by (simp add: incrementIPv4Addr_def To4_def be_uint32_def Let_def)

lemma sample_cidr:
  "ParseCIDR (ip_string [10, 0, 0, 0] @ ''/24'') = Some (IPv4 10 0 0 0, \<lparr> net_IP = [10, 0, 0, 0], net_Mask = CIDRMask 24 32 \<rparr>)"
proof -
  have "dec_nat 24 = ''24''" "map2 (AND) [10, 0, 0, 0] (CIDRMask 24 32) = [10, 0, 0, 0]" by code_simp+
  with ParseCIDR_ipnet_string [of 24 10 0 0 0] show ?thesis by simp
qed

lemma fake_add_route: "add_route (fake_api ord) slp gw tbl r retry f = (Ok (), snd (fake_RouteAdd r f))"
  by (simp add: add_route.simps fake_api_def fake_RouteAdd_def)

lemma fake_routes_loop: "\<exists>f'. routes_loop (fake_api ord) slp gw tbl rs f = (Ok (), f')"
  by (induction rs arbitrary: f) (simp_all add: fake_add_route, simp add: fake_api_def fake_RouteDel_def)


end
