(* ===== verification/K8sClient.thy ===== *)
theory K8sClient
  imports IpamdState NetAddr
begin

text \<open>
  \<^verbatim>\<open>pkg/k8sclient\<close> (\<^verbatim>\<open>pod.go\<close>, \<^verbatim>\<open>k8s.go\<close>): the pods of the node and its annotations.

  The informers are outside: \<open>synced\<close> and \<open>list\<close> are \<open>podSynced\<close> and the pod lister, \<open>update\<close> is
  the node client's \<open>Update\<close>, \<open>retryOnConflict\<close> is \<^verbatim>\<open>retry.RetryOnConflict\<close> of client-go.  The node
  that the node lister returns is a pointer into the informer's cache, which the code writes
  through, so the cached node is a part of the state: \<open>kw_node\<close>.
\<close>

section \<open>The pods of the node\<close>

record k8s_pod =
  kp_Name :: string
  kp_Namespace :: string
  kp_UID :: string
  kp_NodeName :: string
  kp_HostNetwork :: bool
  kp_PodIP :: string
  kp_ContainerIDs :: "string list"

text \<open>\<open>ContainerStatuses[0]\<close> of a pod without a status is a panic (\<open>None\<close>).\<close>

fun local_pods :: "string \<Rightarrow> k8s_pod list \<Rightarrow> k8s_pod_info list \<Rightarrow> k8s_pod_info list option" where
  "local_pods nodeName [] localPods = Some localPods"
| "local_pods nodeName (pod # pods) localPods =
     (if kp_NodeName pod = nodeName \<and> \<not> kp_HostNetwork pod then
        (case kp_ContainerIDs pod of
           [] \<Rightarrow> None
         | c # _ \<Rightarrow> local_pods nodeName pods
             (localPods @ [\<lparr> pod_Name = kp_Name pod, pod_Namespace = kp_Namespace pod, pod_Container = c,
                             pod_IP = kp_PodIP pod, pod_UID = kp_UID pod \<rparr>]))
      else local_pods nodeName pods localPods)"

definition GetCurrentNodePods ::
  "string \<Rightarrow> ('w \<Rightarrow> bool) \<Rightarrow> ('w, k8s_pod list) world_call \<Rightarrow> ('w, k8s_pod_info list) world_call" where
  "GetCurrentNodePods nodeName synced list w =
     (if \<not> synced w then (Err (ErrorString ''informer not synced''), w)
      else check (list w) (\<lambda>pods. deref (local_pods nodeName pods []) (\<lambda>localPods w1. (Ok localPods, w1))))"

section \<open>The node and its annotations\<close>

record 'w k8s_world =
  kw_node :: "k8s_node option"
  kw_out :: 'w

definition GetCurrentNode :: "string \<Rightarrow> ('w k8s_world, k8s_node) world_call" where
  "GetCurrentNode nodeName s =
     (case kw_node s of
        None \<Rightarrow> (Err (ErrorString (''node '' @ quoted nodeName @ '' not found'')), s)
      | Some node \<Rightarrow> (Ok node, s))"

text \<open>The closure: the annotation is written into the cached node before the update is sent.\<close>

definition annotate_node ::
  "string \<Rightarrow> (k8s_node \<Rightarrow> ('w, k8s_node) world_call) \<Rightarrow> string \<Rightarrow> string \<Rightarrow> ('w k8s_world, unit) world_call" where
  "annotate_node nodeName update key v s =
     check (GetCurrentNode nodeName s) (\<lambda>node s1.
       let node1 = node\<lparr> node_Annotations := gm_put key v (node_Annotations node) \<rparr>;
           s2 = s1\<lparr> kw_node := Some node1 \<rparr>
       in case update node1 (kw_out s2) of
            (r, w) \<Rightarrow> check (r, s2\<lparr> kw_out := w \<rparr>) (\<lambda>_ s3. (Ok (), s3)))"

definition UpdateNodeAnnotation ::
  "(('w k8s_world, unit) world_call \<Rightarrow> ('w k8s_world, unit) world_call) \<Rightarrow> string \<Rightarrow> (k8s_node \<Rightarrow> ('w, k8s_node) world_call)
   \<Rightarrow> string \<Rightarrow> string \<Rightarrow> ('w k8s_world, unit) world_call" where
  "UpdateNodeAnnotation retryOnConflict nodeName update key v = retryOnConflict (annotate_node nodeName update key v)"

section \<open>The interface of the daemon\<close>

text \<open>A call that touches no byte array.\<close>

definition plain :: "('w, 'a) world_call \<Rightarrow> ('w, 'a) ext_call" where
  "plain op = (\<lambda>(m, w). case op w of (r, w') \<Rightarrow> (r, (m, w')))"

text \<open>
  \<open>Start\<close> runs the informers, that of the pods twice, and waits for the cache of the pods only.  \<open>runNodes\<close> and \<open>runPods\<close>
  are the goroutines of the informers, \<open>waitForPods\<close> is \<^verbatim>\<open>cache.WaitForCacheSync\<close>.
\<close>

definition NodeNameEnvKey :: string where "NodeNameEnvKey = ''MY_NODE_NAME''"

definition helper_Start :: "('x \<Rightarrow> 'x) \<Rightarrow> ('x \<Rightarrow> 'x) \<Rightarrow> ('x \<Rightarrow> bool \<times> 'x) \<Rightarrow> ('x, unit) world_call" where
  "helper_Start runNodes runPods waitForPods s =
     (case waitForPods (runPods (runPods (runNodes s))) of
        (synced, s1) \<Rightarrow> (if \<not> synced then (Err (ErrorString ''failed to wait for caches to sync''), s1) else (Ok (), s1)))"

definition k8s_helper_api ::
  "(('w k8s_world, unit) world_call \<Rightarrow> ('w k8s_world, unit) world_call) \<Rightarrow> ('w k8s_world, unit) world_call \<Rightarrow> string
   \<Rightarrow> ('w k8s_world \<Rightarrow> bool) \<Rightarrow> ('w k8s_world, k8s_pod list) world_call \<Rightarrow> (k8s_node \<Rightarrow> ('w, k8s_node) world_call)
   \<Rightarrow> 'w k8s_world k8s_api" where
  "k8s_helper_api retryOnConflict start_informers nodeName synced list update = \<lparr>
     k8s_Start = plain start_informers, k8s_GetCurrentNode = plain (GetCurrentNode nodeName),
     k8s_UpdateNodeAnnotation = (\<lambda>key v. plain (UpdateNodeAnnotation retryOnConflict nodeName update key v)),
     k8s_GetCurrentNodePods = plain (GetCurrentNodePods nodeName synced list) \<rparr>"

definition NewK8sHelper ::
  "(string \<Rightarrow> string) \<Rightarrow> (('w k8s_world, unit) world_call \<Rightarrow> ('w k8s_world, unit) world_call) \<Rightarrow> ('w k8s_world \<Rightarrow> 'w k8s_world)
   \<Rightarrow> ('w k8s_world \<Rightarrow> 'w k8s_world) \<Rightarrow> ('w k8s_world \<Rightarrow> bool \<times> 'w k8s_world) \<Rightarrow> ('w k8s_world \<Rightarrow> bool)
   \<Rightarrow> ('w k8s_world, k8s_pod list) world_call \<Rightarrow> (k8s_node \<Rightarrow> ('w, k8s_node) world_call) \<Rightarrow> 'w k8s_world k8s_api" where
  "NewK8sHelper getenv retryOnConflict runNodes runPods waitForPods synced list update =
     k8s_helper_api retryOnConflict (helper_Start runNodes runPods waitForPods) (getenv NodeNameEnvKey) synced list update"

section \<open>In memory\<close>

text \<open>\<^verbatim>\<open>fake/k8s_mock.go\<close>; \<open>fk_nodeAnnotation\<close> is \<open>None\<close> for the nil map, and reads as the empty one.\<close>

record fake_k8s =
  fk_currentNode :: string
  fk_nodeAnnotation :: "(string, string) gomap option"
  fk_currentPods :: "k8s_pod_info list"

definition fk_Start :: "(fake_k8s, unit) world_call" where
  "fk_Start f = (Ok (), f)"

definition fk_GetCurrentNode :: "(fake_k8s, k8s_node) world_call" where
  "fk_GetCurrentNode f =
     (Ok \<lparr> node_Name = fk_currentNode f,
           node_Annotations = (case fk_nodeAnnotation f of None \<Rightarrow> [] | Some m \<Rightarrow> m) \<rparr>, f)"

definition fk_UpdateNodeAnnotation :: "string \<Rightarrow> string \<Rightarrow> (fake_k8s, unit) world_call" where
  "fk_UpdateNodeAnnotation key v f =
     deref (fk_nodeAnnotation f) (\<lambda>m f1. (Ok (), f1\<lparr> fk_nodeAnnotation := Some (gm_put key v m) \<rparr>)) f"

definition fk_GetCurrentNodePods :: "(fake_k8s, k8s_pod_info list) world_call" where
  "fk_GetCurrentNodePods f = (Ok (fk_currentPods f), f)"

definition fk_AddPod :: "k8s_pod_info \<Rightarrow> fake_k8s \<Rightarrow> fake_k8s" where
  "fk_AddPod pod f = f\<lparr> fk_currentPods := fk_currentPods f @ [pod] \<rparr>"

section \<open>Properties\<close>

definition on_node :: "string \<Rightarrow> k8s_pod \<Rightarrow> bool" where
  "on_node nodeName pod \<longleftrightarrow> kp_NodeName pod = nodeName \<and> \<not> kp_HostNetwork pod"

lemma local_pods_filter:
  "local_pods nodeName pods acc =
     (if \<forall>p \<in> set (filter (on_node nodeName) pods). kp_ContainerIDs p \<noteq> []
      then Some (acc @ List.map (\<lambda>p. \<lparr> pod_Name = kp_Name p, pod_Namespace = kp_Namespace p, pod_Container = hd (kp_ContainerIDs p),
                                       pod_IP = kp_PodIP p, pod_UID = kp_UID p \<rparr>) (filter (on_node nodeName) pods))
      else None)"
  by (induction pods arbitrary: acc) (auto simp: on_node_def split: list.split)

text \<open>The pods of the node are all pods placed on it that have a network of their own, in the order of
  the lister, each with its first container; but one such pod whose containers have no status
  yet makes the whole call panic.\<close>

theorem node_pods_exact:
  assumes "synced w" and "list w = (Ok pods, w')"
  shows "GetCurrentNodePods nodeName synced list w =
    (if \<forall>p \<in> set pods. on_node nodeName p \<longrightarrow> kp_ContainerIDs p \<noteq> []
     then Ok (List.map (\<lambda>p. \<lparr> pod_Name = kp_Name p, pod_Namespace = kp_Namespace p, pod_Container = hd (kp_ContainerIDs p),
                              pod_IP = kp_PodIP p, pod_UID = kp_UID p \<rparr>) (filter (on_node nodeName) pods))
     else Panic, w')"
  using assms by (simp add: GetCurrentNodePods_def local_pods_filter)

definition sample_k8s_pod :: "string \<Rightarrow> string list \<Rightarrow> k8s_pod" where
  "sample_k8s_pod n cs = \<lparr> kp_Name = n, kp_Namespace = ''default'', kp_UID = ''u'', kp_NodeName = ''node'', kp_HostNetwork = False,
     kp_PodIP = ''10.0.0.2'', kp_ContainerIDs = cs \<rparr>"

lemma node_pods_exact_witness:
  "fst (GetCurrentNodePods ''node'' (\<lambda>_. True) (\<lambda>w. (Ok [sample_k8s_pod ''a'' [''c''], sample_k8s_pod ''b'' []], w)) (0 :: nat)) = Panic"
  by (subst node_pods_exact) (auto simp: sample_k8s_pod_def on_node_def)

text \<open>An annotation the API server refuses stays in the cached node, which the daemon reads next.\<close>

lemma annotation_cached:
  "kw_node s = Some node \<Longrightarrow>
   GetCurrentNode nodeName (snd (annotate_node nodeName update key v s))
     = (Ok (node\<lparr> node_Annotations := gm_put key v (node_Annotations node) \<rparr>), snd (annotate_node nodeName update key v s))"
  by (cases "fst (update (node\<lparr> node_Annotations := gm_put key v (node_Annotations node) \<rparr>) (kw_out s))")
    (auto simp: annotate_node_def GetCurrentNode_def Let_def split: prod.split)

lemma fk_annotation_read_back:
  "fst (fk_UpdateNodeAnnotation key v f) = Ok () \<Longrightarrow>
   \<exists>node. fst (fk_GetCurrentNode (snd (fk_UpdateNodeAnnotation key v f))) = Ok node \<and> map_of (node_Annotations node) key = Some v"
  by (cases "fk_nodeAnnotation f") (auto simp: fk_UpdateNodeAnnotation_def fk_GetCurrentNode_def)

end
