(* ===== verification/Assembly.thy ===== *)
theory Assembly
  imports DaemonThms ClientNics NicNetwork K8sClient
begin

text \<open>
  The daemon with its parts: the cloud client of \<^verbatim>\<open>pkg/qcclient\<close>, the API client of \<^verbatim>\<open>pkg/k8sclient\<close> and the node's
  network of \<^verbatim>\<open>pkg/networkutils\<close>, put together as \<^verbatim>\<open>NewIpamD\<close> does.  All of them act on one world.  The
  API client and the network see a part of it, read by \<open>get\<close> and written by \<open>put\<close>; what they do is thereby
  confined to it.
\<close>

section \<open>A part of the world\<close>

definition through :: "('w \<Rightarrow> 'x) \<Rightarrow> ('x \<Rightarrow> 'w \<Rightarrow> 'w) \<Rightarrow> ('x, 'a) ext_call \<Rightarrow> ('w, 'a) ext_call" where
  "through get put op = (\<lambda>(m, w). case op (m, get w) of (r, (m', x)) \<Rightarrow> (r, (m', put x w)))"

lemma through_leaves: "(\<And>x w. v (put x w) = v w) \<Longrightarrow> leaves (\<lambda>w. P (v w)) v (through get put op)"
  by (simp add: leaves_def through_def case_prod_beta)

definition k8s_through :: "('w \<Rightarrow> 'x) \<Rightarrow> ('x \<Rightarrow> 'w \<Rightarrow> 'w) \<Rightarrow> 'x k8s_api \<Rightarrow> 'w k8s_api" where
  "k8s_through get put api = \<lparr>
     k8s_Start = through get put (k8s_Start api), k8s_GetCurrentNode = through get put (k8s_GetCurrentNode api),
     k8s_UpdateNodeAnnotation = (\<lambda>key v. through get put (k8s_UpdateNodeAnnotation api key v)),
     k8s_GetCurrentNodePods = through get put (k8s_GetCurrentNodePods api) \<rparr>"

section \<open>The node's network\<close>

text \<open>\<open>networkutils.New\<close>, with the library's netlink, iptables and interfaces, and the writing of a file under \<^verbatim>\<open>/proc/sys\<close>.\<close>

definition setProcSysByWritingFile ::
  "(string \<Rightarrow> ('n, 'f) world_call) \<Rightarrow> ('f \<Rightarrow> string \<Rightarrow> ('n, unit) world_call) \<Rightarrow> ('f \<Rightarrow> ('n, unit) world_call)
   \<Rightarrow> string \<Rightarrow> string \<Rightarrow> ('n, unit) world_call" where
  "setProcSysByWritingFile openFile writeString close key v n =
     check (openFile key n) (\<lambda>f n1.
       on_result (writeString f v n1)
         (\<lambda>_ n2. close f n2)
         (\<lambda>err n2. ignoring (close f n2) (\<lambda>n3. (Err err, n3))))"

definition New ::
  "(string \<Rightarrow> string) \<Rightarrow> 'n netlink \<Rightarrow> ('n, 'n iptables) world_call \<Rightarrow> ('n, link list) world_call
   \<Rightarrow> (string \<Rightarrow> ('n, 'f) world_call) \<Rightarrow> ('f \<Rightarrow> string \<Rightarrow> ('n, unit) world_call) \<Rightarrow> ('f \<Rightarrow> ('n, unit) world_call) \<Rightarrow> 'n linux_network" where
  "New getenv nl newIptables interfaces openFile writeString close = \<lparr>
     ln_useExternalSNAT = useExternalSNAT getenv, ln_typeOfSNAT = typeOfSNAT getenv,
     ln_nodePortSupportEnabled = nodePortSupportEnabled getenv, ln_mainNICMark = getConnmark getenv,
     ln_netLink = nl, ln_newIptables = newIptables, ln_findPrimaryInterfaceName = findPrimaryInterfaceName interfaces,
     ln_setProcSys = setProcSysByWritingFile openFile writeString close \<rparr>"

text \<open>The object as the interface \<open>NetworkAPIs\<close>, on its part of the world.\<close>

definition linux_api ::
  "('w \<Rightarrow> 'n) \<Rightarrow> ('n \<Rightarrow> 'w \<Rightarrow> 'w) \<Rightarrow> (string \<Rightarrow> string) \<Rightarrow> (errno \<Rightarrow> string) \<Rightarrow> (string \<Rightarrow> ('n, string) world_call)
   \<Rightarrow> (int \<Rightarrow> ('n, unit) world_call) \<Rightarrow> (duration \<Rightarrow> 'n \<Rightarrow> 'n) \<Rightarrow> 'n linux_network \<Rightarrow> ('w, rule) network_api" where
  "linux_api get put getenv strerror readFile kill nap net = \<lparr>
     net_SetupHostNetwork = (\<lambda>_ cidrs mac addr. through get put (plain (SetupHostNetwork net strerror cidrs mac addr))),
     net_SetupNICNetwork = (\<lambda>ip mac table cidr. through get put (plain (setupNICNetwork strerror readFile kill nap (ln_netLink net) ip mac table cidr))),
     net_UseExternalSNAT = UseExternalSNAT getenv,
     net_GetRuleList = through get put (plain (GetRuleList (ln_netLink net))),
     net_UpdateRuleListBySrc = (\<lambda>rs src cidrs toFlag table.
       through get put (plain (UpdateRuleListBySrc (ln_netLink net) rs src cidrs toFlag table))) \<rparr>"

section \<open>What the parts are to each other\<close>

text \<open>The lister gives every pod once, and every address once among the pods with a network of their own.\<close>

definition proper_listing :: "string \<Rightarrow> ('x, k8s_pod list) world_call \<Rightarrow> bool" where
  "proper_listing nodeName lister \<longleftrightarrow>
     (\<forall>x pods x'. lister x = (Ok pods, x') \<longrightarrow>
        distinct (List.map (\<lambda>p. (kp_Name p, kp_Namespace p)) pods)
      \<and> distinct (List.map kp_PodIP (filter (\<lambda>p. on_node nodeName p \<and> kp_PodIP p \<noteq> '''') pods)))"

lemma proper_listing_pods:
  assumes "proper_listing nodeName lister"
  shows "lists_proper_pods (k8s_through get put (k8s_helper_api retryOnConflict start nodeName synced lister update))"
  unfolding lists_proper_pods_def
proof (intro allI impI)
  fix mw pods mw'
  assume r: "k8s_GetCurrentNodePods (k8s_through get put (k8s_helper_api retryOnConflict start nodeName synced lister update)) mw = (Ok pods, mw')"
  obtain m w where mw: "mw = (m, w)" by (rule prod.exhaust)
  obtain x where l: "GetCurrentNodePods nodeName synced lister (get w) = (Ok pods, x)"
    using r by (auto simp: mw k8s_through_def through_def k8s_helper_api_def plain_def split: prod.splits)
  let ?info = "\<lambda>p. \<lparr> pod_Name = kp_Name p, pod_Namespace = kp_Namespace p, pod_Container = hd (kp_ContainerIDs p),
    pod_IP = kp_PodIP p, pod_UID = kp_UID p \<rparr>"
  from l obtain all x1 where a: "lister (get w) = (Ok all, x1)" and "local_pods nodeName all [] = Some pods"
    unfolding GetCurrentNodePods_def by (auto split: if_splits elim!: check_Ok_elim deref_Ok_elim)
  then have pods: "pods = List.map ?info (filter (on_node nodeName) all)"
    by (auto simp: local_pods_filter split: if_splits)
  from assms a have dist: "distinct (List.map (\<lambda>p. (kp_Name p, kp_Namespace p)) all)"
    "distinct (List.map kp_PodIP (filter (\<lambda>p. on_node nodeName p \<and> kp_PodIP p \<noteq> '''') all))"
    unfolding proper_listing_def by blast+
  from dist(1) have "distinct (List.map (\<lambda>p. (kp_Name p, kp_Namespace p)) (filter (on_node nodeName) all))"
    by (rule distinct_map_filter)
  then have "distinct (List.map (pod_key_of \<circ> ?info) (filter (on_node nodeName) all))"
    by (auto simp: distinct_map inj_on_def pod_key_of_def)
  moreover have "List.map pod_IP (filter (\<lambda>p. pod_IP p \<noteq> '''') pods)
      = List.map kp_PodIP (filter (\<lambda>p. on_node nodeName p \<and> kp_PodIP p \<noteq> '''') all)"
    unfolding pods by (induction all) auto
  ultimately show "proper_pods pods" using dist(2) by (simp add: proper_pods_def pods)
qed

text \<open>The API client and the network cannot change what the cloud has.\<close>

lemma parts_are_bystanders:
  assumes "\<And>x w. v (putk x w) = v w" and "\<And>x w. v (putn x w) = v w"
    and "\<And>d s. v (ip_ext (sleep d s)) = v (ip_ext s)" "\<And>d s. NodeName (sleep d s) = NodeName s" "\<And>d s. dataStore (sleep d s) = dataStore s"
  shows "bystanders (\<lambda>w. P (v w)) v (k8s_through getk putk k8s) (linux_api getn putn getenv strerror readFile kill nap net)
    (through getn putn linkList) sleep"
  unfolding bystanders_def k8s_through_def linux_api_def k8s_api.simps network_api.simps
  by (intro conjI allI; (rule through_leaves, rule assms(1,2))?) (simp_all add: calm_def assms(3-5))

section \<open>Property\<close>


section \<open>Witness\<close>

text \<open>A cloud with one VPC, a primary NIC and a NIC for pods, whose link the node has; every call on the network succeeds.\<close>

definition site_services :: "(string \<times> string) list qc_services" where
  "site_services = table_services\<lparr>
     svc_DescribeNics := (\<lambda>d w. (Ok (answer 0 (List.map (\<lambda>(i, ip). \<lparr> sn_NICID = Some i,
        sn_NICName = Some (if i = ''52:54:00:00:00:02'' then ''eth0'' else nicPrefix), sn_VxNetID = Some ''vxnet-1'', sn_PrivateIP = Some ip,
        sn_Sequence = Some (if i = ''52:54:00:00:00:02'' then 0 else 3), sn_Role = Some (if i = ''52:54:00:00:00:02'' then 1 else 0) \<rparr>)
        (filter (\<lambda>(i, ip). map_of w i = Some ip \<and> (dn_Nics d = [] \<or> i \<in> set (dn_Nics d))) w))), w)),
     svc_DescribeVxNets := (\<lambda>d w. (Ok (answer 0 [\<lparr> sv_VxNetID = Some ''vxnet-1'', sv_VxNetName = Some ''v'', sv_VpcRouterID = Some ''rtr'',
        sv_Router = Some \<lparr> sr_ManagerIP = Some ''192.168.1.1'', sr_IPNetwork = Some ''192.168.1.0/24'' \<rparr> \<rparr>]), w)),
     svc_DescribeRouters := (\<lambda>rs w. (Ok (answer 0 [\<lparr> sp_RouterID = Some ''rtr'', sp_VpcNetwork = Some ''192.168.0.0/16'' \<rparr>]), w)),
     svc_DescribeRouterVxNets := (\<lambda>r w. (Ok (answer 0 [\<lparr> srv_VxNetID = Some ''vxnet-1'', srv_IPNetwork = Some ''192.168.1.0/24'' \<rparr>]), w)) \<rparr>"

definition site_client :: "(string \<times> string) list qc_wrapper" where
  "site_client = table_client\<lparr> qw_svc := site_services \<rparr>"

definition site_table :: "(string \<times> string) list" where
  "site_table = [(''52:54:00:00:00:02'', ''192.168.1.2''), (numbering_mac, ''192.168.1.3'')]"

definition site_netlink :: "unit netlink" where
  "site_netlink = \<lparr> nl_LinkByName = (\<lambda>s n. (Ok (NewLink s), n)), nl_LinkSetNsFd = (\<lambda>_ _ n. (Ok (), n)), nl_AddrAdd = (\<lambda>_ _ n. (Ok (), n)),
     nl_AddrDel = (\<lambda>_ _ n. (Ok (), n)), nl_AddrList = (\<lambda>_ n. (Ok [], n)), nl_LinkAdd = (\<lambda>_ n. (Ok (), n)), nl_LinkSetUp = (\<lambda>_ n. (Ok (), n)),
     nl_LinkList = (\<lambda>n. (Ok [(NewLink ''eth1'')\<lparr> link_HardwareAddr := [0x52, 0x54, 0, 0, 0, 1] \<rparr>], n)), nl_LinkSetDown = (\<lambda>_ n. (Ok (), n)),
     nl_RouteList = (\<lambda>_ n. (Ok [], n)), nl_RouteAdd = (\<lambda>_ n. (Ok (), n)), nl_RouteReplace = (\<lambda>_ n. (Ok (), n)), nl_RouteDel = (\<lambda>_ n. (Ok (), n)),
     nl_NeighAdd = (\<lambda>_ n. (Ok (), n)), nl_LinkDel = (\<lambda>_ n. (Ok (), n)), nl_RuleAdd = (\<lambda>_ n. (Ok (), n)), nl_RuleDel = (\<lambda>_ n. (Ok (), n)),
     nl_RuleList = (\<lambda>n. (Ok [], n)), nl_LinkSetMTU = (\<lambda>_ _ n. (Ok (), n)) \<rparr>"

definition site_filter :: "unit iptables" where
  "site_filter = \<lparr> ipt_Exists = (\<lambda>_ _ _ n. (Ok False, n)), ipt_Insert = (\<lambda>_ _ _ _ n. (Ok (), n)), ipt_Append = (\<lambda>_ _ _ n. (Ok (), n)),
     ipt_Delete = (\<lambda>_ _ _ n. (Ok (), n)), ipt_List = (\<lambda>_ _ n. (Ok [], n)), ipt_NewChain = (\<lambda>_ _ n. (Ok (), n)), ipt_ClearChain = (\<lambda>_ _ n. (Ok (), n)),
     ipt_DeleteChain = (\<lambda>_ _ n. (Ok (), n)), ipt_ListChains = (\<lambda>_ n. (Ok [], n)), ipt_HasRandomFully = (\<lambda>_. False) \<rparr>"

abbreviation site_net :: "unit linux_network" where
  "site_net \<equiv> New (\<lambda>_. '''') site_netlink (\<lambda>n. (Ok site_filter, n))
     (\<lambda>n. (Ok [(NewLink ''eth0'')\<lparr> link_HardwareAddr := [0x52, 0x54, 0, 0, 0, 2] \<rparr>], n)) (\<lambda>k n. (Ok (), n)) (\<lambda>f t n. (Ok (), n)) (\<lambda>f n. (Ok (), n))"

abbreviation site_netapi :: "((string \<times> string) list, rule) network_api" where
  "site_netapi \<equiv> linux_api (\<lambda>_. ()) (\<lambda>_ w. w) (\<lambda>_. '''') (\<lambda>_. '''') (\<lambda>f n. (Err (ErrnoValue ENOENT), n)) (\<lambda>p n. (Ok (), n)) (\<lambda>d n. n) site_net"

abbreviation site_k8sapi :: "(string \<times> string) list k8s_api" where
  "site_k8sapi \<equiv> k8s_through
     (\<lambda>_. \<lparr> kw_node = Some \<lparr> node_Name = ''node'', node_Annotations = [(NodeAnnotationVxNet, ''vxnet-1'')] \<rparr>, kw_out = () \<rparr>) (\<lambda>_ w. w)
     (NewK8sHelper (\<lambda>_. '''') (\<lambda>op. op) (\<lambda>s. s) (\<lambda>s. s) (\<lambda>s. (True, s)) (\<lambda>_. True) (\<lambda>s. (Ok [], s)) (\<lambda>n w. (Ok n, w)))"

abbreviation site_links :: "((string \<times> string) list, link list) ext_call" where
  "site_links \<equiv> through (\<lambda>_. ()) (\<lambda>_ w. w) (plain (nl_LinkList site_netlink))"

definition site_start :: "unit go_result \<times> (string \<times> string) list ipamd" where
  "site_start = StartIPAMD (\<lambda>_. Ok (wrapper_api site_client)) site_netapi site_k8sapi site_links (\<lambda>_. '''') (\<lambda>_. '''') (\<lambda>d s. s)
     sample_order 0 (NewIpamD [] site_table)"

text \<open>What the daemon has after its start, and that it serves a pod then.\<close>

definition site_vxnet :: "string \<Rightarrow> nat \<Rightarrow> string \<Rightarrow> vxnet" where
  "site_vxnet gw r rid = \<lparr> vx_ID = ''vxnet-1'', vx_GateWay = gw, vx_Network = Some \<lparr> ref_IP = r, ref_Mask = Suc r \<rparr>, vx_RouterID = rid, vx_Name = '''' \<rparr>"

definition site_state :: "(string \<times> string) list ipamd" where
  "site_state = (let net = [[192, 168, 1, 0], [255, 255, 255, 0]]
   in (NewIpamD (net @ [[192, 168, 0, 0], [255, 255, 0, 0]] @ net @ net) site_table)\<lparr>
     dataStore := \<lparr> ds_total = 1, ds_assigned = 0,
       ds_nicIPPools =
         [(numbering_mac, \<lparr> nic_createTime = 0, nic_lastUnassignedTime = 0, nic_IsPrimary = False, nic_ID = numbering_mac, nic_DeviceNumber = 3,
             nic_AssignedIPv4Addresses = 0, nic_IPv4Addresses =
               [(''192.168.1.3'', \<lparr> addr_Address = ''192.168.1.3'', addr_Assigned = False, addr_UnassignedTime = 0 \<rparr>)] \<rparr>)],
       ds_podsIP = [], gauge_nics = 1, gauge_totalIPs = 1, gauge_assignedIPs = 0 \<rparr>,
     InstanceID := ''i-1'', NodeName := ''node'', clusterName := defaultClusterName, vethPrefix := defaultVethPrefix,
     primaryNic := Some \<lparr> hn_ID = ''52:54:00:00:00:02'',
       hn_VxNet = Some \<lparr> vx_ID = ''vxnet-1'', vx_GateWay = '''', vx_Network = None, vx_RouterID = '''', vx_Name = '''' \<rparr>,
       hn_HardwareAddr = ''52:54:00:00:00:02'', hn_Address = ''192.168.1.2'', hn_DeviceNumber = 0, hn_IsPrimary = True \<rparr>,
     own_vxnet := Some (site_vxnet ''192.168.1.1'' 6 ''rtr''),
     own_vpc := Some \<lparr> vpc_Network = Some \<lparr> ref_IP = 2, ref_Mask = 3 \<rparr>, vpc_ID = ''rtr'', vpc_VxNets = [site_vxnet '''' 4 ''''] \<rparr> \<rparr>)"

lemma site_start_eq: "site_start = (Ok (), site_state)"
  by code_simp

definition site_add :: "AddNetworkReply go_result \<times> (string \<times> string) list ipamd" where
  "site_add = AddNetwork (\<lambda>_. '''') sample_order (2 * minute) sample_add site_state"

lemma site_runs:
  "map_outcome id anp_Success (fst site_add) = Ok True"
  "map_option pi_IP (pod_ip (dataStore (snd site_add)) (pod_key_of (add_pod sample_add))) = Some ''192.168.1.3''"
  by code_simp+

abbreviation site_reaches :: "mgr \<times> (string \<times> string) list ipamd \<Rightarrow> bool" where
  "site_reaches \<equiv> daemon_reaches (wrapper_api site_client) site_netapi site_k8sapi site_links (\<lambda>_. '''') (\<lambda>d s. s)
     (\<lambda>w. good_table (map_of w)) map_of [] site_table"

lemma site_reached: "site_reaches (CheckLow, snd site_add)"
proof -
  obtain reply where "site_add = (Ok reply, snd site_add)"
    using site_runs(1) by (cases "fst site_add") (auto simp: prod_eq_iff)
  then have "daemon_step (wrapper_api site_client) site_netapi site_links (\<lambda>_. '''') (\<lambda>w. good_table (map_of w)) map_of
      (CheckLow, site_state) (CheckLow, snd site_add)"
    unfolding site_add_def by (rule daemon_step.serve)
  with site_start_eq [unfolded site_start_def] show ?thesis unfolding daemon_reaches_def by blast
qed

lemma site_services_table: "nic_table (qw_svc site_client) map_of"
proof -
  have "creates_entries site_services map_of = creates_entries table_services map_of"
    "deletes_by site_services map_of f = deletes_by table_services map_of f" for f
    by (simp_all add: creates_entries_def deletes_by_def site_services_def)
  moreover have "describes_entries site_services map_of"
    by (auto simp: describes_entries_def site_services_def answer_def)
  moreover have "leaves_nics site_services map_of" "leaves_vpc_calls site_services map_of"
    by (simp_all add: leaves_nics_def leaves_vpc_calls_def keeps_def site_services_def table_services_def)
  ultimately show ?thesis
    using table_services_table by (simp add: nic_table_def table_client_def site_client_def)
qed


end
