(* ===== verification/Spec2Isabelle.thy ===== *)
theory Spec2Isabelle
  imports HostNetworkThms FakeCloudThms NodeCycle DaemonMain Assembly
begin

text \<open>
  hostnic is a Kubernetes network plugin for QingCloud.  On every node a daemon attaches network
  cards (NICs) of the cloud to the node, each with one address, and keeps a pool of them; the CNI
  plugin, started by the container runtime for each pod, asks the daemon for an address over
  gRPC and wires the pod to the NIC with routes and policy rules.

  \<^bold>\<open>Parts of the program and where they are modelled.\<close>

  \<^item> \<^verbatim>\<open>pkg/ipam/datastore\<close>, the address book of the node: \<open>DataStore\<close> (types and operations, one
    atomic step for each call, as the mutex makes it), \<open>DataStoreInv\<close> and \<open>DataStoreSys\<close> (well-formedness, what each
    operation does to the views of a caller, exclusive ownership), \<open>AddressBook\<close> (the abstract
    book the store refines), \<open>DataStoreThms\<close> (the properties).
  \<^item> \<^verbatim>\<open>pkg/ipam/grpc_handlers.go\<close>: \<open>PoolInterface\<close> (the contract \<open>ip_pool\<close> with the store) and
    \<open>Handlers\<close> (\<open>AddNetwork\<close>, \<open>DelNetwork\<close> and their messages).
  \<^item> \<^verbatim>\<open>pkg/ipam/ipam.go\<close>: \<open>IpamdState\<close> (the struct and the interfaces it calls), \<open>Ipamd\<close> (start-up), \<open>Recovery\<close>
    (the pods that already run), \<open>DaemonStart\<close> (what start-up establishes), \<open>DaemonMain\<close> (\<open>Start\<close>).
  \<^item> \<^verbatim>\<open>pkg/ipam/vxnet.go\<close>: \<open>Vxnet\<close>, and \<open>VxnetCloud\<close> (the contract \<open>vxnet_cloud\<close> with the cloud).
  \<^item> \<^verbatim>\<open>pkg/ipam/pool_manager.go\<close>: \<open>PoolManager\<close> (its rounds), \<open>DaemonSystem\<close> (the same in single steps, between
    which handlers run) and \<open>DaemonThms\<close> (the running daemon).
  \<^item> \<^verbatim>\<open>pkg/qcclient\<close>: \<open>QcService\<close> (the SDK as a parameter, the colours), \<open>QcWrapper\<close> and \<open>QcWrapperThms\<close> (the cloud client),
    \<open>FakeCloud\<close> and \<open>FakeCloudThms\<close> (the cloud in memory); \<open>NicCloud\<close> is the contract \<open>nic_cloud\<close> between the daemon and the
    cloud about NICs, \<open>ClientNics\<close> and \<open>FakeNics\<close> show that the client and the fake keep it.
  \<^item> \<^verbatim>\<open>pkg/k8sclient\<close> and its fake: \<open>K8sClient\<close>.
  \<^item> \<^verbatim>\<open>cmd/hostnic\<close>: \<open>CniPlugin\<close>; with the daemon behind it, \<open>PluginSystem\<close>.
  \<^item> \<^verbatim>\<open>pkg/driver\<close>: \<open>PodNetwork\<close>; driver, plugin and daemon together, from \<^verbatim>\<open>cmdAdd\<close> to \<^verbatim>\<open>cmdDel\<close>: \<open>NodeCycle\<close>.
  \<^item> The daemon with the cloud client, the API client and the node's network of the code: \<open>Assembly\<close>.
  \<^item> \<^verbatim>\<open>pkg/networkutils\<close>: \<open>NetAddr\<close> (address arithmetic), \<open>IpRules\<close> (policy rules by source), \<open>HostNetwork\<close> and
    \<open>HostNetworkThms\<close> (the packet filter of the node), \<open>NicNetwork\<close> (routes of a NIC), \<open>Iptables\<close>.
  \<^item> \<^verbatim>\<open>pkg/netlinkwrapper\<close> and its fake: \<open>NetLink\<close> (the contract \<open>netlink_tables\<close>) and \<open>FakeNetlink\<close>.
  \<^item> \<^verbatim>\<open>pkg/errors\<close>, \<^verbatim>\<open>pkg/retry\<close>, \<^verbatim>\<open>pkg/types\<close>: \<open>Errors\<close>, \<open>Retry\<close>, \<open>Types\<close>.
  \<^item> What the code uses of Go and its library: \<open>GoLib\<close>, \<open>GoNet\<close>; what all share: \<open>Prelude\<close>.

  \<^bold>\<open>Conventions.\<close>  A struct is a record, a call returns a \<open>go_result\<close> (\<open>Ok\<close>, \<open>Err\<close> or \<open>Panic\<close>) with the new
  state.  A Go map is an association list with distinct keys; the order of a range loop is an argument.  An
  interface is a record of functions on the outside world \<open>'w\<close>.  Networks are references into a store of byte arrays (\<open>mem\<close>), since
  the daemon shares and overwrites them.  Clocks, random numbers and texts of errno values are arguments.

  \<^bold>\<open>Bounds.\<close>  \<open>retry.Do\<close> is total by a measure (3 calls in the cloud client, 5 for the pods of the node, 10 for
  the configuration file); adding a route is tried 6 times, finding a link 5 times.  The only loop that
  may not end, the choice of an address in the fake cloud, is a partial function.

  \<^bold>\<open>What the lemmas show.\<close>  Of each component: that its operations keep its well-formedness and what each does to the
  views a caller has (the data store, the tables of rules and routes, the packet filter, the NICs and vxnets of the cloud).
  Of the store: that it refines an address book, in which an address has one owner or is cooling down.  Of the running
  daemon: \<open>start_safe\<close> (start-up ends in a \<open>safe\<close> state) and \<open>safe_step\<close> (every step of the pool manager, a handler or the
  world keeps it), from which the properties of \<open>DaemonThms\<close>, \<open>DaemonMain\<close> and \<open>Assembly\<close> follow.  Of the plugin: what an
  addition and a deletion do, with the errors between them.  The interfaces are locales: \<open>ip_pool\<close> (kept by the
  store), \<open>vxnet_cloud\<close> (by the fake cloud), \<open>nic_cloud\<close> (by the fake cloud and by the client), \<open>netlink_tables\<close> and
  \<open>netlink_nic\<close> (by the fake network), \<open>iptables_chains\<close> (by the fake filter), and systems with an invariant.

  \<^bold>\<open>What is assumed.\<close>  Each theorem names it.  The API server lists no pod and no address twice; the ID of a NIC the
  cloud creates is new; only the cloud changes its NICs.  \<open>netlink_tables\<close> takes a rule by its source and destination and a
  route by its source and destination, as the network in memory does; the kernel also looks at priority and table.

  \<^bold>\<open>Not modelled.\<close>  The message codec that protoc generates (\<^verbatim>\<open>message.pb.go\<close>; its four messages are records of \<open>Handlers\<close>)
  and the gRPC connections; \<^verbatim>\<open>cmd/daemon\<close> and the plugin's \<^verbatim>\<open>main\<close>, which set flags, logs and signals; the informers of
  \<^verbatim>\<open>pkg/k8sclient\<close>, which are the library's; the methods of the wrappers \<^verbatim>\<open>netlinkwrapper\<close>, \<^verbatim>\<open>nswrapper\<close>, \<^verbatim>\<open>ipwrapper\<close> and
  \<^verbatim>\<open>rpcwrapper\<close>, which hand on to a library; the start-up of the SDK, one parameter of \<open>NewQingCloudClient\<close>.  Pointers the fake
  cloud shares with the daemon are followed inside the fake only: the daemon's copy of a vxnet is its own.
\<close>

end
